(* ===== verification/Prelude.thy ===== *)
theory Prelude
  imports Main "HOL-Library.Word"
begin

text \<open>
  Prelude of the development: names of the machine integer types of the Rust source, fallible
  results as sums, the string functions of the Rust standard library the code calls (splitting,
  prefix tests, decimal parsing and printing, the anchored character-class patterns), checked
  and wrapping arithmetic on words, and the generic lemmas the component theories share.
\<close>

section \<open>Collections of rules\<close>

named_theorems res_simps \<open>rewrite rules for fallible results\<close>
named_theorems str_simps \<open>rewrite rules for the string functions\<close>

section \<open>Machine integers\<close>

type_synonym u8 = "8 word"
type_synonym u16 = "16 word"
type_synonym u32 = "32 word"
type_synonym u64 = "64 word"
type_synonym u128 = "128 word"
type_synonym u256 = "256 word"
type_synonym bytes = "8 word list"

definition checked_mul :: "'a::len word \<Rightarrow> 'a word \<Rightarrow> 'a word option" where
  "checked_mul a b = (if unat a * unat b < 2 ^ LENGTH('a) then Some (a * b) else None)"

definition checked_add :: "'a::len word \<Rightarrow> 'a word \<Rightarrow> 'a word option" where
  "checked_add a b = (if unat a + unat b < 2 ^ LENGTH('a) then Some (a + b) else None)"

definition checked_pow :: "'a::len word \<Rightarrow> nat \<Rightarrow> 'a word option" where
  "checked_pow a n = (if unat a ^ n < 2 ^ LENGTH('a) then Some (a ^ n) else None)"

definition saturating_sub :: "'a::len word \<Rightarrow> 'a word \<Rightarrow> 'a word" where
  "saturating_sub a b = (if b \<le> a then a - b else 0)"

lemma unat_mult_exact:
  fixes a b :: "'a::len word"
  assumes "unat a * unat b < 2 ^ LENGTH('a)"
  shows "unat (a * b) = unat a * unat b"
  using assms by (simp add: unat_word_ariths)

lemma unat_add_exact:
  fixes a b :: "'a::len word"
  assumes "unat a + unat b < 2 ^ LENGTH('a)"
  shows "unat (a + b) = unat a + unat b"
  using assms by (simp add: unat_word_ariths)

lemma unat_pow_exact:
  fixes a :: "'a::len word"
  assumes "unat a ^ n < 2 ^ LENGTH('a)"
  shows "unat (a ^ n) = unat a ^ n"
proof -
  have "a ^ n = word_of_nat (unat a ^ n)" by simp
  then have "unat (a ^ n) = unat a ^ n mod 2 ^ LENGTH('a)"
    by (metis unat_of_nat)
  then show ?thesis using assms by simp
qed

lemma checked_mul_SomeD:
  "checked_mul a b = Some c \<Longrightarrow> unat c = unat a * unat b"
  by (auto simp: checked_mul_def unat_mult_exact split: if_splits)

lemma checked_add_SomeD:
  "checked_add a b = Some c \<Longrightarrow> unat c = unat a + unat b"
  by (auto simp: checked_add_def unat_add_exact split: if_splits)

lemma checked_pow_SomeD:
  "checked_pow a n = Some c \<Longrightarrow> unat c = unat a ^ n"
  by (auto simp: checked_pow_def unat_pow_exact split: if_splits)

lemma checked_mul_NoneD:
  "checked_mul (a :: 'a::len word) b = None \<Longrightarrow> 2 ^ LENGTH('a) \<le> unat a * unat b"
  by (auto simp: checked_mul_def not_less split: if_splits)

lemma checked_add_NoneD:
  "checked_add (a :: 'a::len word) b = None \<Longrightarrow> 2 ^ LENGTH('a) \<le> unat a + unat b"
  by (auto simp: checked_add_def not_less split: if_splits)

lemma unat_saturating_sub: "unat (saturating_sub a b) = unat a - unat b"
  by (auto simp: saturating_sub_def unat_sub word_le_nat_alt)

section \<open>Fallible results\<close>

type_synonym ('e, 'a) result = "'e + 'a"

fun bind_res :: "('e, 'a) result \<Rightarrow> ('a \<Rightarrow> ('e, 'b) result) \<Rightarrow> ('e, 'b) result" where
  "bind_res (Inl e) f = Inl e"
| "bind_res (Inr x) f = f x"

fun map_err :: "('e \<Rightarrow> 'f) \<Rightarrow> ('e, 'a) result \<Rightarrow> ('f, 'a) result" where
  "map_err h (Inl e) = Inl (h e)"
| "map_err h (Inr x) = Inr x"

fun ok_or :: "'e \<Rightarrow> 'a option \<Rightarrow> ('e, 'a) result" where
  "ok_or e None = Inl e"
| "ok_or e (Some x) = Inr x"

definition ensure :: "bool \<Rightarrow> 'e \<Rightarrow> ('e, unit) result" where
  "ensure b e = (if b then Inr () else Inl e)"

fun is_ok :: "('e, 'a) result \<Rightarrow> bool" where
  "is_ok (Inl e) = False"
| "is_ok (Inr x) = True"

lemma bind_res_Inr_iff [res_simps]:
  "bind_res r f = Inr y \<longleftrightarrow> (\<exists>x. r = Inr x \<and> f x = Inr y)"
  by (cases r) auto

lemma bind_res_Inl_iff [res_simps]:
  "bind_res r f = Inl e \<longleftrightarrow> r = Inl e \<or> (\<exists>x. r = Inr x \<and> f x = Inl e)"
  by (cases r) auto

lemma ok_or_Inr_iff [res_simps]: "ok_or e x = Inr y \<longleftrightarrow> x = Some y"
  by (cases x) auto

lemma ok_or_Inl_iff [res_simps]: "ok_or e x = Inl d \<longleftrightarrow> x = None \<and> d = e"
  by (cases x) auto

lemma map_err_Inr_iff [res_simps]: "map_err h r = Inr y \<longleftrightarrow> r = Inr y"
  by (cases r) auto

lemma map_err_Inl_iff [res_simps]: "map_err h r = Inl d \<longleftrightarrow> (\<exists>e. r = Inl e \<and> d = h e)"
  by (cases r) auto

lemma ensure_Inr_iff [res_simps]: "ensure b e = Inr u \<longleftrightarrow> b"
  by (simp add: ensure_def)

lemma ensure_Inl_iff [res_simps]: "ensure b e = Inl d \<longleftrightarrow> \<not> b \<and> d = e"
  by (auto simp: ensure_def)

lemma is_ok_iff [res_simps]: "is_ok r \<longleftrightarrow> (\<exists>x. r = Inr x)"
  by (cases r) auto

section \<open>Tables with a key\<close>

text \<open>The interface of a constant table searched by a key that occurs once: every row is found under
  its key, and whatever is found is a row with that key.\<close>

lemma find_SomeD: "find P xs = Some x \<Longrightarrow> x \<in> set xs \<and> P x"
  by (induction xs) (auto split: if_splits)

locale keyed_table =
  fixes rows :: "'a list"
    and key :: "'a \<Rightarrow> 'k"
  assumes distinct_keys: "distinct (map key rows)"
begin

lemma find_key: "x \<in> set rows \<Longrightarrow> find (\<lambda>y. key y = key x) rows = Some x"
  using distinct_keys by (induction rows) (auto simp: image_iff)

lemma find_key_iff: "find (\<lambda>y. key y = k) rows = Some x \<longleftrightarrow> x \<in> set rows \<and> key x = k"
  by (auto dest: find_SomeD simp: find_key)

lemma key_unique: "x \<in> set rows \<Longrightarrow> y \<in> set rows \<Longrightarrow> key x = key y \<Longrightarrow> x = y"
  by (metis find_key option.inject)

lemma list_ex_key: "list_ex (\<lambda>y. key y = k) rows \<longleftrightarrow> k \<in> key ` set rows"
  by (auto simp: list_ex_iff)

end

text \<open>A table whose rows have several names, no two rows sharing one.\<close>

locale alias_table =
  fixes rows :: "'a list"
    and names :: "'a \<Rightarrow> 'k list"
  assumes distinct_names: "distinct (concat (map names rows))"
begin

lemma find_name: "x \<in> set rows \<Longrightarrow> n \<in> set (names x) \<Longrightarrow>
    find (\<lambda>y. n \<in> set (names y)) rows = Some x"
  using distinct_names by (induction rows) auto

lemma find_name_iff:
  "find (\<lambda>y. n \<in> set (names y)) rows = Some x \<longleftrightarrow> x \<in> set rows \<and> n \<in> set (names x)"
  by (auto dest: find_SomeD simp: find_name)

end

section \<open>Strings\<close>

subsection \<open>Splitting\<close>

text \<open>\<open>split_on c s\<close> is Rust's \<open>s.split(c).collect()\<close>; it never returns the empty list.\<close>

fun split_on :: "char \<Rightarrow> string \<Rightarrow> string list" where
  "split_on c [] = [[]]"
| "split_on c (x # xs) =
    (if x = c then [] # split_on c xs
     else (case split_on c xs of [] \<Rightarrow> [[x]] | p # ps \<Rightarrow> (x # p) # ps))"

text \<open>\<open>splitn n c s\<close> is Rust's \<open>s.splitn(n, c).collect()\<close>: at most \<open>n\<close> parts, the last one
  holding the rest of the string.\<close>

fun break_at :: "char \<Rightarrow> string \<Rightarrow> string \<times> string option" where
  "break_at c [] = ([], None)"
| "break_at c (x # xs) =
    (if x = c then ([], Some xs) else (let (p, r) = break_at c xs in (x # p, r)))"

fun splitn :: "nat \<Rightarrow> char \<Rightarrow> string \<Rightarrow> string list" where
  "splitn 0 c s = []"
| "splitn (Suc 0) c s = [s]"
| "splitn (Suc (Suc n)) c s =
    (case break_at c s of (p, None) \<Rightarrow> [p] | (p, Some r) \<Rightarrow> p # splitn (Suc n) c r)"

lemma break_at_no_sep [str_simps]: "c \<notin> set p \<Longrightarrow> break_at c p = (p, None)"
  by (induction p) auto

lemma break_at_sep [str_simps]: "c \<notin> set p \<Longrightarrow> break_at c (p @ c # r) = (p, Some r)"
  by (induction p) auto

lemma break_at_Some: "break_at c s = (p, Some r) \<Longrightarrow> s = p @ c # r \<and> c \<notin> set p"
  by (induction s arbitrary: p) (auto split: if_splits prod.splits)

lemma break_at_None: "break_at c s = (p, None) \<Longrightarrow> s = p \<and> c \<notin> set p"
  by (induction s arbitrary: p) (auto split: if_splits prod.splits)

lemma splitn2_eq_two:
  "splitn (Suc (Suc 0)) c s = [p, r] \<longleftrightarrow> s = p @ c # r \<and> c \<notin> set p"
  by (auto split: prod.splits option.splits simp: break_at_sep
      dest: break_at_Some break_at_None)

lemma split_on_not_Nil [simp]: "split_on c s \<noteq> []"
  by (cases s) (auto split: list.splits)

lemma split_on_no_sep [str_simps]: "c \<notin> set p \<Longrightarrow> split_on c p = [p]"
  by (induction p) auto

lemma split_on_sep [str_simps]: "c \<notin> set p \<Longrightarrow> split_on c (p @ c # r) = p # split_on c r"
  by (induction p) auto

lemma split_on_parts_no_sep: "p \<in> set (split_on c s) \<Longrightarrow> c \<notin> set p"
proof (induction s arbitrary: p)
  case (Cons x xs)
  show ?case
  proof (cases "split_on c xs")
    case Nil
    then show ?thesis by simp
  next
    case (Cons q qs)
    with Cons.prems Cons.IH show ?thesis by (auto split: if_splits)
  qed
qed simp

lemma split_on_break:
  "split_on c s = (case break_at c s of (p, None) \<Rightarrow> [p] | (p, Some r) \<Rightarrow> p # split_on c r)"
proof (cases "break_at c s")
  case (Pair p r)
  then show ?thesis
    by (cases r) (auto dest!: break_at_None break_at_Some simp: split_on_no_sep split_on_sep)
qed

lemma split_on_one: "split_on c s = [p] \<longleftrightarrow> s = p \<and> c \<notin> set p"
  by (subst split_on_break)
    (auto split: prod.splits option.splits dest: break_at_None break_at_Some simp: break_at_no_sep)

lemma split_on_Cons:
  "split_on c s = p # q # qs \<longleftrightarrow> (\<exists>r. s = p @ c # r \<and> c \<notin> set p \<and> split_on c r = q # qs)"
  by (subst split_on_break)
    (auto split: prod.splits option.splits dest: break_at_Some simp: break_at_sep)

lemma split_on_two: "split_on c s = [p, q] \<longleftrightarrow> s = p @ c # q \<and> c \<notin> set p \<and> c \<notin> set q"
  by (auto simp: split_on_Cons split_on_one)

lemma split_on_three:
  "split_on c s = [p, q, r] \<longleftrightarrow>
    s = p @ c # q @ c # r \<and> c \<notin> set p \<and> c \<notin> set q \<and> c \<notin> set r"
  by (auto simp: split_on_Cons split_on_one)

lemma length_two_iff: "length xs = 2 \<longleftrightarrow> (\<exists>a b. xs = [a, b])"
  by (auto simp: numeral_eq_Suc length_Suc_conv)

lemma length_three_iff: "length xs = 3 \<longleftrightarrow> (\<exists>a b c. xs = [a, b, c])"
  by (auto simp: numeral_eq_Suc length_Suc_conv)

subsection \<open>Tests\<close>

definition starts_with :: "string \<Rightarrow> string \<Rightarrow> bool" where
  "starts_with pre s = (take (length pre) s = pre)"

fun contains_str :: "string \<Rightarrow> string \<Rightarrow> bool" where
  "contains_str pat [] = (pat = [])"
| "contains_str pat (x # xs) = (starts_with pat (x # xs) \<or> contains_str pat xs)"

text \<open>\<open>matches_class P lo hi s\<close>: the whole string matches \<open>^[P]{lo,hi}$\<close> (Rust's \<open>$\<close> without the
  multi-line flag matches at the end of the text only).\<close>

definition matches_class :: "(char \<Rightarrow> bool) \<Rightarrow> nat \<Rightarrow> nat \<Rightarrow> string \<Rightarrow> bool" where
  "matches_class P lo hi s = (lo \<le> length s \<and> length s \<le> hi \<and> list_all P s)"

text \<open>\<open>finds_at p s\<close>: some suffix of \<open>s\<close> satisfies \<open>p\<close>; an unanchored pattern is found in the string
  iff the pattern matches at the start of one of its suffixes.\<close>

fun finds_at :: "(string \<Rightarrow> bool) \<Rightarrow> string \<Rightarrow> bool" where
  "finds_at p [] = p []"
| "finds_at p (x # xs) = (p (x # xs) \<or> finds_at p xs)"

definition char_code :: "char \<Rightarrow> nat" where
  "char_code c = of_char c"

definition is_lower :: "char \<Rightarrow> bool" where
  "is_lower c = (97 \<le> char_code c \<and> char_code c \<le> 122)"

definition is_upper :: "char \<Rightarrow> bool" where
  "is_upper c = (65 \<le> char_code c \<and> char_code c \<le> 90)"

definition is_digit :: "char \<Rightarrow> bool" where
  "is_digit c = (48 \<le> char_code c \<and> char_code c \<le> 57)"

definition is_hex :: "char \<Rightarrow> bool" where
  "is_hex c = (is_digit c \<or> (97 \<le> char_code c \<and> char_code c \<le> 102)
     \<or> (65 \<le> char_code c \<and> char_code c \<le> 70))"

definition to_lower_char :: "char \<Rightarrow> char" where
  "to_lower_char c = (if is_upper c then char_of (char_code c + 32) else c)"

text \<open>\<open>to_lowercase\<close> on ASCII text; the byte values above 127 are left unchanged.\<close>

definition to_lowercase :: "string \<Rightarrow> string" where
  "to_lowercase s = map to_lower_char s"

lemma starts_with_append [str_simps]: "starts_with p (p @ s)"
  by (simp add: starts_with_def)

lemma starts_with_iff: "starts_with p s \<longleftrightarrow> (\<exists>r. s = p @ r)"
  by (metis append_eq_conv_conj append_take_drop_id starts_with_def)

lemma finds_at_suffix: "finds_at p s \<longleftrightarrow> (\<exists>a b. s = a @ b \<and> p b)"
proof (induction s)
  case (Cons x xs)
  have "(\<exists>a b. x # xs = a @ b \<and> p b) \<longleftrightarrow> p (x # xs) \<or> (\<exists>a b. xs = a @ b \<and> p b)"
    by (metis append_eq_Cons_conv eq_Nil_appendI append_Cons)
  with Cons show ?case by simp
qed simp

lemma matches_class_no_sep:
  "matches_class P lo hi s \<Longrightarrow> \<not> P c \<Longrightarrow> c \<notin> set s"
  by (auto simp: matches_class_def list_all_iff)

subsection \<open>Decimal numbers\<close>

definition digit_char :: "nat \<Rightarrow> char" where
  "digit_char n = char_of (48 + n)"

definition digit_val :: "char \<Rightarrow> nat option" where
  "digit_val c = (if is_digit c then Some (char_code c - 48) else None)"

fun show_nat :: "nat \<Rightarrow> string" where
  "show_nat n = (if n < 10 then [digit_char n]
     else show_nat (n div 10) @ [digit_char (n mod 10)])"

declare show_nat.simps [simp del]

text \<open>\<open>parse_uint b s\<close> is \<open>s.parse::<uN>()\<close> with \<open>b = 2 ^ N\<close>: an optional plus sign, then at least
  one digit, and an error on the first overflow.\<close>

fun parse_acc :: "nat \<Rightarrow> nat \<Rightarrow> string \<Rightarrow> nat option" where
  "parse_acc b acc [] = Some acc"
| "parse_acc b acc (c # cs) =
    (case digit_val c of
       None \<Rightarrow> None
     | Some d \<Rightarrow> if acc * 10 + d < b then parse_acc b (acc * 10 + d) cs else None)"

definition parse_uint :: "nat \<Rightarrow> string \<Rightarrow> nat option" where
  "parse_uint b s = (case s of
      [] \<Rightarrow> None
    | c # cs \<Rightarrow> if c = CHR ''+'' then (if cs = [] then None else parse_acc b 0 cs)
               else parse_acc b 0 s)"

definition parse_u64 :: "string \<Rightarrow> u64 option" where
  "parse_u64 s = map_option word_of_nat (parse_uint (2 ^ 64) s)"

definition parse_u32 :: "string \<Rightarrow> u32 option" where
  "parse_u32 s = map_option word_of_nat (parse_uint (2 ^ 32) s)"

text \<open>\<open>uN::from_str_radix\<close> for a radix up to 16.\<close>

definition radix_val :: "nat \<Rightarrow> char \<Rightarrow> nat option" where
  "radix_val r c =
    (let v = (if is_digit c then char_code c - 48
              else if is_lower c then char_code c - 87
              else if is_upper c then char_code c - 55 else r)
     in if v < r then Some v else None)"

fun parse_radix_acc :: "nat \<Rightarrow> nat \<Rightarrow> nat \<Rightarrow> string \<Rightarrow> nat option" where
  "parse_radix_acc r b acc [] = Some acc"
| "parse_radix_acc r b acc (c # cs) =
    (case radix_val r c of
       None \<Rightarrow> None
     | Some d \<Rightarrow> if acc * r + d < b then parse_radix_acc r b (acc * r + d) cs else None)"

definition parse_radix_uint :: "nat \<Rightarrow> nat \<Rightarrow> string \<Rightarrow> nat option" where
  "parse_radix_uint r b s = (case s of
      [] \<Rightarrow> None
    | c # cs \<Rightarrow> if c = CHR ''+'' then (if cs = [] then None else parse_radix_acc r b 0 cs)
               else parse_radix_acc r b 0 s)"

lemma char_code_digit_char: "n < 10 \<Longrightarrow> char_code (digit_char n) = 48 + n"
  by (simp add: char_code_def digit_char_def)

lemma digit_val_digit_char [str_simps]: "n < 10 \<Longrightarrow> digit_val (digit_char n) = Some n"
  by (simp add: digit_val_def is_digit_def char_code_digit_char)

lemma is_digit_digit_char: "n < 10 \<Longrightarrow> is_digit (digit_char n)"
  by (simp add: is_digit_def char_code_digit_char)

lemma show_nat_digits: "list_all is_digit (show_nat n)"
proof (induction n rule: show_nat.induct)
  case (1 n)
  then show ?case
    by (subst show_nat.simps) (auto simp: is_digit_digit_char)
qed

lemma show_nat_not_Nil [simp]: "show_nat n \<noteq> []"
  by (subst show_nat.simps) simp

lemma parse_acc_append:
  "parse_acc b acc (xs @ ys) = Option.bind (parse_acc b acc xs) (\<lambda>a. parse_acc b a ys)"
  by (induction xs arbitrary: acc) (auto split: option.splits)

lemma parse_acc_show_nat: "n < b \<Longrightarrow> parse_acc b 0 (show_nat n) = Some n"
proof (induction n rule: show_nat.induct)
  case (1 n)
  show ?case
  proof (cases "n < 10")
    case True
    with 1(2) show ?thesis
      by (subst show_nat.simps) (simp add: digit_val_digit_char)
  next
    case False
    have "n div 10 < b" using 1(2) by simp
    with False 1 have "parse_acc b 0 (show_nat (n div 10)) = Some (n div 10)" by simp
    moreover have "n div 10 * 10 + n mod 10 = n" by simp
    ultimately show ?thesis using False 1(2)
      by (subst show_nat.simps) (simp add: parse_acc_append digit_val_digit_char)
  qed
qed

lemma plus_not_digit: "\<not> is_digit (CHR ''+'')"
  by (simp add: is_digit_def char_code_def)

lemma parse_uint_show_nat [str_simps]:
  assumes "n < b"
  shows "parse_uint b (show_nat n) = Some n"
proof -
  obtain c cs where eq: "show_nat n = c # cs"
    using show_nat_not_Nil [of n] by (cases "show_nat n") auto
  have "is_digit c" using show_nat_digits [of n] eq by simp
  then have "c \<noteq> CHR ''+''" using plus_not_digit by auto
  then show ?thesis
    using parse_acc_show_nat [OF assms] eq by (simp add: parse_uint_def)
qed

lemma parse_acc_bound: "parse_acc b acc s = Some n \<Longrightarrow> acc < b \<Longrightarrow> n < b"
  by (induction s arbitrary: acc) (auto split: option.splits if_splits)

lemma parse_uint_bound: "parse_uint b s = Some n \<Longrightarrow> 0 < b \<Longrightarrow> n < b"
  by (cases s) (auto simp: parse_uint_def simp del: parse_acc.simps split: if_splits
      dest: parse_acc_bound)

lemma parse_u64_show: "parse_u64 (show_nat (unat w)) = Some w"
proof -
  have "unat w < 2 ^ 64" using unsigned_less [of w, where ?'a = nat] by simp
  from parse_uint_show_nat [OF this] show ?thesis by (simp add: parse_u64_def)
qed

lemma parse_u32_show: "parse_u32 (show_nat (unat w)) = Some w"
proof -
  have "unat w < 2 ^ 32" using unsigned_less [of w, where ?'a = nat] by simp
  from parse_uint_show_nat [OF this] show ?thesis by (simp add: parse_u32_def)
qed

lemma show_nat_inj: "show_nat m = show_nat n \<Longrightarrow> m = n"
proof -
  assume eq: "show_nat m = show_nat n"
  have "parse_uint (Suc (m + n)) (show_nat m) = Some m" by (rule parse_uint_show_nat) simp
  moreover have "parse_uint (Suc (m + n)) (show_nat n) = Some n" by (rule parse_uint_show_nat) simp
  ultimately show ?thesis unfolding eq by (metis option.inject)
qed

lemma show_nat_no_char: "\<not> is_digit c \<Longrightarrow> c \<notin> set (show_nat n)"
  using show_nat_digits [of n] by (auto simp: list_all_iff)

section \<open>Hexadecimal text\<close>

text \<open>\<open>trim_start_0x\<close> removes the prefix as often as it occurs, like \<open>trim_start_matches\<close>.\<close>

fun trim_start_0x :: "string \<Rightarrow> string" where
  "trim_start_0x (a # b # rest) = (if a = CHR ''0'' \<and> b = CHR ''x'' then trim_start_0x rest else a # b # rest)"
| "trim_start_0x s = s"

definition hex_byte :: "u8 \<Rightarrow> string" where
  "hex_byte b = (let d = (\<lambda>n. if n < 10 then digit_char n else char_of (87 + n))
     in [d (unat b div 16), d (unat b mod 16)])"

definition hex_encode :: "bytes \<Rightarrow> string" where
  "hex_encode bs = concat (map hex_byte bs)"

section \<open>Database values\<close>

text \<open>Times are microseconds since the epoch, as Postgres keeps them.\<close>

type_synonym time = int

text \<open>Storing a text in a \<open>VARCHAR(n)\<close> or \<open>CHAR(n)\<close> column: only blanks may be cut off.\<close>

definition varchar :: "nat \<Rightarrow> string \<Rightarrow> string option" where
  "varchar n s = (if list_all (\<lambda>c. c = CHR '' '') (drop n s) then Some (take n s) else None)"

lemma varchar_short: "length s \<le> n \<Longrightarrow> varchar n s = Some s"
  by (simp add: varchar_def)

end
