(* ===== verification/TokenAmount.thy ===== *)
theory TokenAmount
  imports Prelude
begin

text \<open>
  \<open>utils/token_amount.rs\<close>: token amounts with different numbers of decimals and their comparison.
  The amounts are 256-bit words, the comparison aligns the decimals with a checked multiplication,
  and the two assertions on the decimals are modelled as the result \<open>None\<close> (a panic).  The
  specification \<open>cross_cmp\<close> compares the exact rational values by cross multiplication on natural
  numbers.
\<close>

section \<open>The code\<close>

record token_amount =
  ta_amount :: u256
  ta_decimals :: u8

datatype ordering = Less | Equal | Greater

definition token_amount_new :: "u256 \<Rightarrow> u8 \<Rightarrow> token_amount" where
  "token_amount_new a d = \<lparr> ta_amount = a, ta_decimals = d \<rparr>"

definition cmp_ord :: "'a::linorder \<Rightarrow> 'a \<Rightarrow> ordering" where
  "cmp_ord a b = (if a < b then Less else if a = b then Equal else Greater)"

definition compare_amounts :: "u256 \<Rightarrow> u256 \<Rightarrow> u8 \<Rightarrow> u8 \<Rightarrow> ordering option" where
  "compare_amounts a_amount b_amount a_decimals b_decimals =
    (if \<not> a_decimals \<le> 77 then None
     else if \<not> b_decimals \<le> 77 then None
     else Some (case cmp_ord a_decimals b_decimals of
         Equal \<Rightarrow> cmp_ord a_amount b_amount
       | Greater \<Rightarrow>
           (case checked_pow 10 (unat (a_decimals - b_decimals)) of
              Some factor \<Rightarrow>
                (case checked_mul b_amount factor of
                   Some b_amount_adjusted \<Rightarrow> cmp_ord a_amount b_amount_adjusted
                 | None \<Rightarrow> Less)
            | None \<Rightarrow> Less)
       | Less \<Rightarrow>
           (case checked_pow 10 (unat (b_decimals - a_decimals)) of
              Some factor \<Rightarrow>
                (case checked_mul a_amount factor of
                   Some a_amount_adjusted \<Rightarrow> cmp_ord a_amount_adjusted b_amount
                 | None \<Rightarrow> Greater)
            | None \<Rightarrow> Greater)))"

definition token_partial_cmp :: "token_amount \<Rightarrow> token_amount \<Rightarrow> ordering option" where
  "token_partial_cmp x y =
     compare_amounts (ta_amount x) (ta_amount y) (ta_decimals x) (ta_decimals y)"

text \<open>\<open>PartialEq\<close>: the panic of the comparison propagates.\<close>

definition token_eq :: "token_amount \<Rightarrow> token_amount \<Rightarrow> bool option" where
  "token_eq x y = map_option (\<lambda>r. r = Equal) (token_partial_cmp x y)"

section \<open>The specification: exact comparison\<close>

definition cross_cmp :: "nat \<Rightarrow> nat \<Rightarrow> nat \<Rightarrow> nat \<Rightarrow> ordering" where
  "cross_cmp a b ad bd = cmp_ord (a * 10 ^ bd) (b * 10 ^ ad)"

definition valid_decimals :: "token_amount \<Rightarrow> bool" where
  "valid_decimals x = (ta_decimals x \<le> 77)"

definition exact_cmp :: "token_amount \<Rightarrow> token_amount \<Rightarrow> ordering" where
  "exact_cmp x y = cross_cmp (unat (ta_amount x)) (unat (ta_amount y))
     (unat (ta_decimals x)) (unat (ta_decimals y))"

section \<open>The comparison is exact\<close>

lemma cmp_ord_unat: "cmp_ord (x :: 'a::len word) y = cmp_ord (unat x) (unat y)"
  by (simp add: cmp_ord_def word_less_nat_alt unsigned_word_eqI word_unat_eq_iff)

lemma cmp_ord_mult: "0 < (k::nat) \<Longrightarrow> cmp_ord (a * k) (b * k) = cmp_ord a b"
  by (simp add: cmp_ord_def)

lemma cross_cmp_Greater_decimals:
  assumes "bd \<le> ad"
  shows "cross_cmp a b ad bd = cmp_ord a (b * 10 ^ (ad - bd))"
proof -
  have "(10::nat) ^ ad = 10 ^ (ad - bd) * 10 ^ bd"
    using assms by (simp add: power_add [symmetric])
  then have "b * 10 ^ ad = (b * 10 ^ (ad - bd)) * 10 ^ bd" by (simp only: mult.assoc)
  then show ?thesis by (simp only: cross_cmp_def cmp_ord_mult zero_less_power zero_less_numeral)
qed

lemma cross_cmp_Less_decimals:
  assumes "ad \<le> bd"
  shows "cross_cmp a b ad bd = cmp_ord (a * 10 ^ (bd - ad)) b"
proof -
  have "(10::nat) ^ bd = 10 ^ (bd - ad) * 10 ^ ad"
    using assms by (simp add: power_add [symmetric])
  then have "a * 10 ^ bd = (a * 10 ^ (bd - ad)) * 10 ^ ad" by (simp only: mult.assoc)
  then show ?thesis by (simp only: cross_cmp_def cmp_ord_mult zero_less_power zero_less_numeral)
qed

lemma pow10_fits: "n \<le> 77 \<Longrightarrow> (10::nat) ^ n < 2 ^ 256"
proof -
  assume "n \<le> 77"
  then have "(10::nat) ^ n \<le> 10 ^ 77" by (intro power_increasing) auto
  also have "(10::nat) ^ 77 < 2 ^ 256" by simp
  finally show ?thesis .
qed

lemma checked_pow10: "n \<le> 77 \<Longrightarrow> checked_pow (10::u256) n = Some (10 ^ n)"
  using pow10_fits [of n] by (simp add: checked_pow_def)

lemma unat_pow10: "n \<le> 77 \<Longrightarrow> unat ((10::u256) ^ n) = 10 ^ n"
  by (rule checked_pow_SomeD [OF checked_pow10, simplified])

lemma unat_u256_less: "unat (x :: u256) < 2 ^ 256"
  using unsigned_less [of x, where ?'a = nat] by simp

lemma scaled_cmp:
  assumes "n \<le> 77"
  shows "(case checked_mul y ((10::u256) ^ n) of Some z \<Rightarrow> cmp_ord x z | None \<Rightarrow> Less)
    = cmp_ord (unat x) (unat y * 10 ^ n)"
    and "(case checked_mul y ((10::u256) ^ n) of Some z \<Rightarrow> cmp_ord z x | None \<Rightarrow> Greater)
    = cmp_ord (unat y * 10 ^ n) (unat x)"
proof -
  show "(case checked_mul y ((10::u256) ^ n) of Some z \<Rightarrow> cmp_ord x z | None \<Rightarrow> Less)
    = cmp_ord (unat x) (unat y * 10 ^ n)"
  proof (cases "checked_mul y ((10::u256) ^ n)")
    case None
    from checked_mul_NoneD [OF None] unat_u256_less [of x] show ?thesis
      using None by (simp add: unat_pow10 [OF assms] cmp_ord_def)
  next
    case (Some z)
    from checked_mul_SomeD [OF Some] Some show ?thesis
      by (simp add: unat_pow10 [OF assms] cmp_ord_unat)
  qed
  show "(case checked_mul y ((10::u256) ^ n) of Some z \<Rightarrow> cmp_ord z x | None \<Rightarrow> Greater)
    = cmp_ord (unat y * 10 ^ n) (unat x)"
  proof (cases "checked_mul y ((10::u256) ^ n)")
    case None
    from checked_mul_NoneD [OF None] unat_u256_less [of x] show ?thesis
      using None by (simp add: unat_pow10 [OF assms] cmp_ord_def)
  next
    case (Some z)
    from checked_mul_SomeD [OF Some] Some show ?thesis
      by (simp add: unat_pow10 [OF assms] cmp_ord_unat)
  qed
qed

lemma unat_sub_decimals:
  "(b :: u8) \<le> a \<Longrightarrow> unat (a - b) = unat a - unat b"
  by (simp add: unat_sub)

lemma decimals_bound: "(d :: u8) \<le> 77 \<longleftrightarrow> unat d \<le> 77"
  by (simp add: word_le_nat_alt)

lemma compare_amounts_exact_aux:
  assumes "ad \<le> 77" "bd \<le> 77"
  shows "compare_amounts a b ad bd = Some (cross_cmp (unat a) (unat b) (unat ad) (unat bd))"
proof (cases "cmp_ord ad bd")
  case Equal
  then have "ad = bd" by (auto simp: cmp_ord_def split: if_splits)
  with Equal show ?thesis
    using assms by (simp add: compare_amounts_def cross_cmp_def cmp_ord_mult cmp_ord_unat [of a b])
next
  case Greater
  then have le: "bd \<le> ad" by (auto simp: cmp_ord_def split: if_splits)
  then have n: "unat ad - unat bd \<le> 77" using assms by (simp add: decimals_bound)
  show ?thesis
    using assms le n Greater
    by (simp add: compare_amounts_def unat_sub_decimals checked_pow10 scaled_cmp
        cross_cmp_Greater_decimals word_le_nat_alt)
next
  case Less
  then have le: "ad \<le> bd" by (auto simp: cmp_ord_def split: if_splits)
  then have n: "unat bd - unat ad \<le> 77" using assms by (simp add: decimals_bound)
  show ?thesis
    using assms le n Less
    by (simp add: compare_amounts_def unat_sub_decimals checked_pow10 scaled_cmp
        cross_cmp_Less_decimals word_le_nat_alt)
qed

lemma compare_amounts_panics:
  "compare_amounts a b ad bd = None \<longleftrightarrow> \<not> (ad \<le> 77 \<and> bd \<le> 77)"
  using compare_amounts_exact_aux [of ad bd a b] by (auto simp: compare_amounts_def)

lemma token_partial_cmp_valid:
  "valid_decimals x \<Longrightarrow> valid_decimals y \<Longrightarrow> token_partial_cmp x y = Some (exact_cmp x y)"
  by (simp add: token_partial_cmp_def compare_amounts_exact_aux exact_cmp_def valid_decimals_def)

section \<open>Order properties\<close>

text \<open>The contract of Rust's \<open>PartialOrd\<close> on the values that compare without a panic.\<close>

locale partial_ord =
  fixes valid :: "'a \<Rightarrow> bool"
    and cmp :: "'a \<Rightarrow> 'a \<Rightarrow> ordering option"
  assumes total: "valid x \<Longrightarrow> valid y \<Longrightarrow> cmp x y \<noteq> None"
    and refl: "valid x \<Longrightarrow> cmp x x = Some Equal"
    and flip: "valid x \<Longrightarrow> valid y \<Longrightarrow> cmp x y = Some Less \<Longrightarrow> cmp y x = Some Greater"
    and flip_eq: "valid x \<Longrightarrow> valid y \<Longrightarrow> cmp x y = Some Equal \<Longrightarrow> cmp y x = Some Equal"
    and flip_gt: "valid x \<Longrightarrow> valid y \<Longrightarrow> cmp x y = Some Greater \<Longrightarrow> cmp y x = Some Less"
    and le_trans: "valid x \<Longrightarrow> valid y \<Longrightarrow> valid z \<Longrightarrow> cmp x y \<noteq> Some Greater \<Longrightarrow>
      cmp y z \<noteq> Some Greater \<Longrightarrow> cmp x z \<noteq> Some Greater"
begin

lemma not_greater: "valid x \<Longrightarrow> valid y \<Longrightarrow> cmp x y \<noteq> Some Greater \<longleftrightarrow>
    cmp x y = Some Less \<or> cmp x y = Some Equal"
  using total [of x y] by (cases "cmp x y") (auto intro: ordering.exhaust)

lemma equal_iff: "valid x \<Longrightarrow> valid y \<Longrightarrow> cmp x y = Some Equal \<longleftrightarrow>
    cmp x y \<noteq> Some Greater \<and> cmp y x \<noteq> Some Greater"
  using not_greater [of x y] flip [of x y] flip_eq [of x y] by auto

lemma equal_trans: "valid x \<Longrightarrow> valid y \<Longrightarrow> valid z \<Longrightarrow> cmp x y = Some Equal \<Longrightarrow>
    cmp y z = Some Equal \<Longrightarrow> cmp x z = Some Equal"
  using le_trans [of x y z] le_trans [of z y x] flip_eq [of x y] flip_eq [of y z]
  by (simp add: equal_iff [of x z])

lemma less_trans: "valid x \<Longrightarrow> valid y \<Longrightarrow> valid z \<Longrightarrow> cmp x y = Some Less \<Longrightarrow>
    cmp y z = Some Less \<Longrightarrow> cmp x z = Some Less"
  using le_trans [of x y z] not_greater [of x z] flip_eq [of x z] flip [of y z] le_trans [of z x y]
  by fastforce

end

lemma exact_cmp_flip:
  "exact_cmp x y = Less \<Longrightarrow> exact_cmp y x = Greater"
  "exact_cmp x y = Equal \<Longrightarrow> exact_cmp y x = Equal"
  "exact_cmp x y = Greater \<Longrightarrow> exact_cmp y x = Less"
  by (auto simp: exact_cmp_def cross_cmp_def cmp_ord_def split: if_splits)

lemma cross_le_trans:
  fixes a b c :: nat
  assumes "a * 10 ^ bd \<le> b * 10 ^ ad" "b * 10 ^ cd \<le> c * 10 ^ bd"
  shows "a * 10 ^ cd \<le> c * 10 ^ ad"
proof -
  have "(a * 10 ^ cd) * 10 ^ bd \<le> (b * 10 ^ cd) * 10 ^ ad"
    using mult_le_mono1 [OF assms(1), of "10 ^ cd"] by (simp add: algebra_simps)
  also have "\<dots> \<le> (c * 10 ^ ad) * 10 ^ bd"
    using mult_le_mono1 [OF assms(2), of "10 ^ ad"] by (simp add: algebra_simps)
  finally show ?thesis by simp
qed

lemma exact_cmp_le:
  "exact_cmp x y \<noteq> Greater \<longleftrightarrow>
    unat (ta_amount x) * 10 ^ unat (ta_decimals y) \<le> unat (ta_amount y) * 10 ^ unat (ta_decimals x)"
  by (auto simp: exact_cmp_def cross_cmp_def cmp_ord_def)

lemma exact_cmp_trans:
  "exact_cmp x y \<noteq> Greater \<Longrightarrow> exact_cmp y z \<noteq> Greater \<Longrightarrow> exact_cmp x z \<noteq> Greater"
  unfolding exact_cmp_le by (rule cross_le_trans)

interpretation ta: partial_ord valid_decimals token_partial_cmp
proof unfold_locales
  fix x y z
  assume "valid_decimals x" "valid_decimals y" "valid_decimals z"
    "token_partial_cmp x y \<noteq> Some Greater" "token_partial_cmp y z \<noteq> Some Greater"
  then show "token_partial_cmp x z \<noteq> Some Greater"
    using exact_cmp_trans [of x y z] by (simp add: token_partial_cmp_valid)
next
  fix x
  assume "valid_decimals x"
  then show "token_partial_cmp x x = Some Equal"
    by (simp add: token_partial_cmp_valid exact_cmp_def cross_cmp_def cmp_ord_def)
qed (auto simp: token_partial_cmp_valid intro: exact_cmp_flip)

text \<open>C10: on decimals within the asserted bound the comparison of two token amounts is the exact
  comparison of the amounts they denote (cross multiplied over the naturals), whatever overflows on
  the way; it panics exactly when a number of decimals exceeds 77.\<close>

theorem compare_amounts_exact:
  "compare_amounts a b ad bd =
     (if ad \<le> 77 \<and> bd \<le> 77
      then Some (cmp_ord (unat a * 10 ^ unat bd) (unat b * 10 ^ unat ad)) else None)"
  using compare_amounts_exact_aux [of ad bd a b] compare_amounts_panics [of a b ad bd]
  by (auto simp: cross_cmp_def)

text \<open>On the amounts it accepts, the induced equality is an equivalence relation and the strict
  comparison is transitive and flips when its arguments are swapped: the laws Rust asks of
  \<open>PartialEq\<close> and \<open>PartialOrd\<close>.\<close>

theorem token_cmp_lawful:
  assumes "valid_decimals x" "valid_decimals y" "valid_decimals z"
  shows "token_eq x x = Some True
    \<and> (token_eq x y = Some True \<longrightarrow> token_eq y x = Some True)
    \<and> (token_eq x y = Some True \<and> token_eq y z = Some True \<longrightarrow> token_eq x z = Some True)
    \<and> (token_partial_cmp x y = Some Less \<longrightarrow> token_partial_cmp y x = Some Greater)
    \<and> (token_partial_cmp x y = Some Less \<and> token_partial_cmp y z = Some Less \<longrightarrow>
        token_partial_cmp x z = Some Less)"
  using ta.refl [OF assms(1)] ta.flip_eq [OF assms(1,2)] ta.flip [OF assms(1,2)]
    ta.equal_trans [OF assms] ta.less_trans [OF assms]
  by (simp add: token_eq_def)

lemma token_cmp_lawful_witness:
  "token_eq (token_amount_new 1000000 6) (token_amount_new 1 0) = Some True
   \<and> token_eq (token_amount_new 1 0) (token_amount_new 1000000 6) = Some True"
proof -
  let ?x = "token_amount_new 1000000 6" and ?y = "token_amount_new 1 0"
  have v: "valid_decimals ?x" "valid_decimals ?y"
    by (simp_all add: valid_decimals_def token_amount_new_def)
  have "token_eq ?x ?y = Some True"
    by (simp add: token_eq_def token_partial_cmp_valid v)
      (simp add: exact_cmp_def cross_cmp_def cmp_ord_def token_amount_new_def)
  with token_cmp_lawful [OF v v(1)] show ?thesis by blast
qed

end
