(* ===== verification/Chains.thy ===== *)
theory Chains
  imports Prelude
begin

text \<open>
  The table of supported chains and the ENSIP-11 coin types of \<open>utils/crypto.rs\<close>.  The enum
  \<open>ChainId\<close> is the datatype \<open>chain_id\<close> in declaration order, with its discriminants and the names of
  its \<open>strum\<close> attributes.  The derived \<open>FromStr\<close> accepts exactly the declared names.  The derived
  \<open>Display\<close> prints the \<open>to_string\<close> attribute where there is one; which of several \<open>serialize\<close> names it
  prints otherwise is decided by the library and is the parameter \<open>pick\<close> of the definitions.
\<close>

section \<open>The table\<close>

datatype (plugins only: code) chain_id =
    Chain_Abstract | Chain_Ape | Chain_Arbitrum | Chain_ArbitrumSepolia | Chain_Aurora |
    Chain_AuroraTestnet | Chain_Avalanche | Chain_AvalancheFuji | Chain_Base |
    Chain_BaseSepoliaTestnet | Chain_Berachain | Chain_BerachainBepolia |
    Chain_BinanceSmartChain | Chain_BinanceSmartChainTestnet | Chain_Blast | Chain_Celo |
    Chain_Cronos | Chain_Degen | Chain_Ethereum | Chain_EthereumHolesky | Chain_EthereumHoodi |
    Chain_Fantom | Chain_GnosisChain | Chain_Goerli | Chain_GravityAlpha | Chain_Ink |
    Chain_Kaia | Chain_Lens | Chain_Linea | Chain_Mantle | Chain_MantleTestnet | Chain_Monad |
    Chain_Moonbeam | Chain_MorphHolesky | Chain_Morph | Chain_Optimism |
    Chain_OptimismSepolia | Chain_Polygon | Chain_PolygonAmoy | Chain_PolygonZkevm |
    Chain_Rootstock | Chain_RootstockTestnet | Chain_Scroll | Chain_ScrollSepolia | Chain_Sei |
    Chain_Sepolia | Chain_Soneium | Chain_Sonic | Chain_SonicTestnet | Chain_Unichain |
    Chain_UnichainSepolia | Chain_Wemix | Chain_WemixTestnet | Chain_XrplEvm |
    Chain_XrplEvmTestnet | Chain_Zero | Chain_ZeroSepoliaTestnet | Chain_ZkSyncEra |
    Chain_ZkSyncEraSepolia | Chain_Zora | Chain_ZoraSepolia

definition all_chains :: "chain_id list" where
  "all_chains = [
    Chain_Abstract, Chain_Ape, Chain_Arbitrum, Chain_ArbitrumSepolia, Chain_Aurora,
    Chain_AuroraTestnet, Chain_Avalanche, Chain_AvalancheFuji, Chain_Base,
    Chain_BaseSepoliaTestnet, Chain_Berachain, Chain_BerachainBepolia, Chain_BinanceSmartChain,
    Chain_BinanceSmartChainTestnet, Chain_Blast, Chain_Celo, Chain_Cronos, Chain_Degen,
    Chain_Ethereum, Chain_EthereumHolesky, Chain_EthereumHoodi, Chain_Fantom,
    Chain_GnosisChain, Chain_Goerli, Chain_GravityAlpha, Chain_Ink, Chain_Kaia, Chain_Lens,
    Chain_Linea, Chain_Mantle, Chain_MantleTestnet, Chain_Monad, Chain_Moonbeam,
    Chain_MorphHolesky, Chain_Morph, Chain_Optimism, Chain_OptimismSepolia, Chain_Polygon,
    Chain_PolygonAmoy, Chain_PolygonZkevm, Chain_Rootstock, Chain_RootstockTestnet,
    Chain_Scroll, Chain_ScrollSepolia, Chain_Sei, Chain_Sepolia, Chain_Soneium, Chain_Sonic,
    Chain_SonicTestnet, Chain_Unichain, Chain_UnichainSepolia, Chain_Wemix, Chain_WemixTestnet,
    Chain_XrplEvm, Chain_XrplEvmTestnet, Chain_Zero, Chain_ZeroSepoliaTestnet, Chain_ZkSyncEra,
    Chain_ZkSyncEraSepolia, Chain_Zora, Chain_ZoraSepolia]"

primrec chain_discr :: "chain_id \<Rightarrow> u64" where
  "chain_discr Chain_Abstract = 2741"
| "chain_discr Chain_Ape = 33139"
| "chain_discr Chain_Arbitrum = 42161"
| "chain_discr Chain_ArbitrumSepolia = 421614"
| "chain_discr Chain_Aurora = 1313161554"
| "chain_discr Chain_AuroraTestnet = 1313161555"
| "chain_discr Chain_Avalanche = 43114"
| "chain_discr Chain_AvalancheFuji = 43113"
| "chain_discr Chain_Base = 8453"
| "chain_discr Chain_BaseSepoliaTestnet = 84532"
| "chain_discr Chain_Berachain = 80094"
| "chain_discr Chain_BerachainBepolia = 80069"
| "chain_discr Chain_BinanceSmartChain = 56"
| "chain_discr Chain_BinanceSmartChainTestnet = 97"
| "chain_discr Chain_Blast = 81032"
| "chain_discr Chain_Celo = 42220"
| "chain_discr Chain_Cronos = 25"
| "chain_discr Chain_Degen = 666666666"
| "chain_discr Chain_Ethereum = 1"
| "chain_discr Chain_EthereumHolesky = 17000"
| "chain_discr Chain_EthereumHoodi = 560048"
| "chain_discr Chain_Fantom = 250"
| "chain_discr Chain_GnosisChain = 100"
| "chain_discr Chain_Goerli = 5"
| "chain_discr Chain_GravityAlpha = 1625"
| "chain_discr Chain_Ink = 57073"
| "chain_discr Chain_Kaia = 8217"
| "chain_discr Chain_Lens = 232"
| "chain_discr Chain_Linea = 59144"
| "chain_discr Chain_Mantle = 5000"
| "chain_discr Chain_MantleTestnet = 5003"
| "chain_discr Chain_Monad = 10143"
| "chain_discr Chain_Moonbeam = 1284"
| "chain_discr Chain_MorphHolesky = 2810"
| "chain_discr Chain_Morph = 2818"
| "chain_discr Chain_Optimism = 10"
| "chain_discr Chain_OptimismSepolia = 11155420"
| "chain_discr Chain_Polygon = 137"
| "chain_discr Chain_PolygonAmoy = 80002"
| "chain_discr Chain_PolygonZkevm = 1101"
| "chain_discr Chain_Rootstock = 30"
| "chain_discr Chain_RootstockTestnet = 31"
| "chain_discr Chain_Scroll = 534352"
| "chain_discr Chain_ScrollSepolia = 534351"
| "chain_discr Chain_Sei = 1329"
| "chain_discr Chain_Sepolia = 11155111"
| "chain_discr Chain_Soneium = 1868"
| "chain_discr Chain_Sonic = 146"
| "chain_discr Chain_SonicTestnet = 57054"
| "chain_discr Chain_Unichain = 130"
| "chain_discr Chain_UnichainSepolia = 1301"
| "chain_discr Chain_Wemix = 1111"
| "chain_discr Chain_WemixTestnet = 1112"
| "chain_discr Chain_XrplEvm = 1440000"
| "chain_discr Chain_XrplEvmTestnet = 1449000"
| "chain_discr Chain_Zero = 543210"
| "chain_discr Chain_ZeroSepoliaTestnet = 4457845"
| "chain_discr Chain_ZkSyncEra = 324"
| "chain_discr Chain_ZkSyncEraSepolia = 300"
| "chain_discr Chain_Zora = 7777777"
| "chain_discr Chain_ZoraSepolia = 999999999"

primrec chain_names :: "chain_id \<Rightarrow> string list" where
  "chain_names Chain_Abstract = [''abstract'']"
| "chain_names Chain_Ape = [''ape'']"
| "chain_names Chain_Arbitrum = [''arbitrum'']"
| "chain_names Chain_ArbitrumSepolia = [''arbitrum-sepolia'', ''arbitrum_sepolia'']"
| "chain_names Chain_Aurora = [''aurora'']"
| "chain_names Chain_AuroraTestnet = [''aurora-testnet'', ''aurora_testnet'']"
| "chain_names Chain_Avalanche = [''avalanche'']"
| "chain_names Chain_AvalancheFuji = [''avalanche-fuji'', ''avalanche_fuji'']"
| "chain_names Chain_Base = [''base'']"
| "chain_names Chain_BaseSepoliaTestnet = [''base_sepolia_testnet'', ''base-sepolia-testnet'']"
| "chain_names Chain_Berachain = [''berachain'']"
| "chain_names Chain_BerachainBepolia = [''berachain-bepolia'', ''berachain_bepolia'']"
| "chain_names Chain_BinanceSmartChain = [''binance_smart_chain'', ''bsc'', ''binance-smart-chain'']"
| "chain_names Chain_BinanceSmartChainTestnet = [''binance-smart-chain-testnet'', ''bsc-testnet'']"
| "chain_names Chain_Blast = [''blast'']"
| "chain_names Chain_Celo = [''celo'']"
| "chain_names Chain_Cronos = [''cronos'']"
| "chain_names Chain_Degen = [''degen'']"
| "chain_names Chain_Ethereum = [''ethereum'', ''mainnet'']"
| "chain_names Chain_EthereumHolesky = [''ethereum-holesky'', ''holesky'']"
| "chain_names Chain_EthereumHoodi = [''ethereum-hoodi'', ''hoodi'']"
| "chain_names Chain_Fantom = [''fantom'']"
| "chain_names Chain_GnosisChain = [''gnosis'', ''gnosis_chain'', ''gnosis-chain'', ''gnosischain'', ''xdai'']"
| "chain_names Chain_Goerli = [''goerli'']"
| "chain_names Chain_GravityAlpha = [''gravity-alpha'']"
| "chain_names Chain_Ink = [''ink'']"
| "chain_names Chain_Kaia = [''kaia'']"
| "chain_names Chain_Lens = [''lens'']"
| "chain_names Chain_Linea = [''linea'']"
| "chain_names Chain_Mantle = [''mantle'']"
| "chain_names Chain_MantleTestnet = [''mantle-testnet'', ''mantle_testnet'']"
| "chain_names Chain_Monad = [''monad'']"
| "chain_names Chain_Moonbeam = [''moonbeam'']"
| "chain_names Chain_MorphHolesky = [''morph-holesky'', ''morph_holesky'']"
| "chain_names Chain_Morph = [''morph'']"
| "chain_names Chain_Optimism = [''optimism'']"
| "chain_names Chain_OptimismSepolia = [''optimism-sepolia'', ''optimism_sepolia'']"
| "chain_names Chain_Polygon = [''polygon'']"
| "chain_names Chain_PolygonAmoy = [''polygon-amoy'', ''polygon_amoy'']"
| "chain_names Chain_PolygonZkevm = [''polygon-zkevm'', ''polygon_zkevm'']"
| "chain_names Chain_Rootstock = [''rootstock'']"
| "chain_names Chain_RootstockTestnet = [''rootstock-testnet'', ''rootstock_testnet'']"
| "chain_names Chain_Scroll = [''scroll'']"
| "chain_names Chain_ScrollSepolia = [''scroll-sepolia'', ''scroll_sepolia'']"
| "chain_names Chain_Sei = [''sei'']"
| "chain_names Chain_Sepolia = [''sepolia'']"
| "chain_names Chain_Soneium = [''soneium'']"
| "chain_names Chain_Sonic = [''sonic'']"
| "chain_names Chain_SonicTestnet = [''sonic-testnet'', ''sonic_testnet'']"
| "chain_names Chain_Unichain = [''unichain'']"
| "chain_names Chain_UnichainSepolia = [''unichain-sepolia'', ''unichain_sepolia'']"
| "chain_names Chain_Wemix = [''wemix'']"
| "chain_names Chain_WemixTestnet = [''wemix-testnet'', ''wemix_testnet'']"
| "chain_names Chain_XrplEvm = [''xrpl-evm'', ''xrpl_evm'']"
| "chain_names Chain_XrplEvmTestnet = [''xrpl-evm-testnet'', ''xrpl_evm_testnet'']"
| "chain_names Chain_Zero = [''zero'']"
| "chain_names Chain_ZeroSepoliaTestnet = [''zero-sepolia'', ''zero_sepolia'', ''zero-testnet'']"
| "chain_names Chain_ZkSyncEra = [''zksync'', ''zksyncera'', ''zksync-era'']"
| "chain_names Chain_ZkSyncEraSepolia = [''zksync-era-sepolia'', ''zksync_sepolia'']"
| "chain_names Chain_Zora = [''zora'']"
| "chain_names Chain_ZoraSepolia = [''zora-sepolia'', ''zora_sepolia'']"

primrec chain_to_string :: "chain_id \<Rightarrow> string option" where
  "chain_to_string Chain_Abstract = None"
| "chain_to_string Chain_Ape = None"
| "chain_to_string Chain_Arbitrum = None"
| "chain_to_string Chain_ArbitrumSepolia = None"
| "chain_to_string Chain_Aurora = None"
| "chain_to_string Chain_AuroraTestnet = None"
| "chain_to_string Chain_Avalanche = None"
| "chain_to_string Chain_AvalancheFuji = None"
| "chain_to_string Chain_Base = None"
| "chain_to_string Chain_BaseSepoliaTestnet = None"
| "chain_to_string Chain_Berachain = None"
| "chain_to_string Chain_BerachainBepolia = None"
| "chain_to_string Chain_BinanceSmartChain = Some ''binance-smart-chain''"
| "chain_to_string Chain_BinanceSmartChainTestnet = None"
| "chain_to_string Chain_Blast = None"
| "chain_to_string Chain_Celo = None"
| "chain_to_string Chain_Cronos = None"
| "chain_to_string Chain_Degen = None"
| "chain_to_string Chain_Ethereum = None"
| "chain_to_string Chain_EthereumHolesky = None"
| "chain_to_string Chain_EthereumHoodi = None"
| "chain_to_string Chain_Fantom = None"
| "chain_to_string Chain_GnosisChain = Some ''xdai''"
| "chain_to_string Chain_Goerli = None"
| "chain_to_string Chain_GravityAlpha = None"
| "chain_to_string Chain_Ink = None"
| "chain_to_string Chain_Kaia = None"
| "chain_to_string Chain_Lens = None"
| "chain_to_string Chain_Linea = None"
| "chain_to_string Chain_Mantle = None"
| "chain_to_string Chain_MantleTestnet = None"
| "chain_to_string Chain_Monad = None"
| "chain_to_string Chain_Moonbeam = None"
| "chain_to_string Chain_MorphHolesky = None"
| "chain_to_string Chain_Morph = None"
| "chain_to_string Chain_Optimism = None"
| "chain_to_string Chain_OptimismSepolia = None"
| "chain_to_string Chain_Polygon = None"
| "chain_to_string Chain_PolygonAmoy = None"
| "chain_to_string Chain_PolygonZkevm = None"
| "chain_to_string Chain_Rootstock = None"
| "chain_to_string Chain_RootstockTestnet = None"
| "chain_to_string Chain_Scroll = None"
| "chain_to_string Chain_ScrollSepolia = None"
| "chain_to_string Chain_Sei = None"
| "chain_to_string Chain_Sepolia = None"
| "chain_to_string Chain_Soneium = None"
| "chain_to_string Chain_Sonic = None"
| "chain_to_string Chain_SonicTestnet = None"
| "chain_to_string Chain_Unichain = None"
| "chain_to_string Chain_UnichainSepolia = None"
| "chain_to_string Chain_Wemix = None"
| "chain_to_string Chain_WemixTestnet = None"
| "chain_to_string Chain_XrplEvm = None"
| "chain_to_string Chain_XrplEvmTestnet = None"
| "chain_to_string Chain_Zero = None"
| "chain_to_string Chain_ZeroSepoliaTestnet = None"
| "chain_to_string Chain_ZkSyncEra = None"
| "chain_to_string Chain_ZkSyncEraSepolia = None"
| "chain_to_string Chain_Zora = None"
| "chain_to_string Chain_ZoraSepolia = None"

section \<open>Conversions between names and CAIP-2 identifiers\<close>

definition chain_from_str :: "string \<Rightarrow> chain_id option" where
  "chain_from_str s = find (\<lambda>c. s \<in> set (chain_names c)) all_chains"

definition chain_display :: "(string list \<Rightarrow> string) \<Rightarrow> chain_id \<Rightarrow> string" where
  "chain_display pick c =
    (case chain_to_string c of Some s \<Rightarrow> s | None \<Rightarrow> pick (chain_names c))"

definition to_caip2 :: "string \<Rightarrow> string option" where
  "to_caip2 name = (case chain_from_str name of
      Some c \<Rightarrow> Some (''eip155:'' @ show_nat (unat (chain_discr c)))
    | None \<Rightarrow> None)"

definition from_caip2 :: "(string list \<Rightarrow> string) \<Rightarrow> string \<Rightarrow> string option" where
  "from_caip2 pick caip2 =
    (let extracted = (case parse_u64 (last (split_on CHR '':'' caip2)) of Some n \<Rightarrow> n | None \<Rightarrow> 0)
     in map_option (chain_display pick) (find (\<lambda>x. chain_discr x = extracted) all_chains))"

definition is_supported :: "u64 \<Rightarrow> bool" where
  "is_supported n = list_ex (\<lambda>x. chain_discr x = n) all_chains"

section \<open>ENSIP-11 coin types\<close>

unbundle bit_operations_syntax

definition ENSIP11_MAINNET_COIN_TYPE :: u32 where
  "ENSIP11_MAINNET_COIN_TYPE = 60"

definition convert_evm_chain_id_to_coin_type :: "u32 \<Rightarrow> u32" where
  "convert_evm_chain_id_to_coin_type c =
    (if c = 1 then ENSIP11_MAINNET_COIN_TYPE else 0x80000000 OR c)"

definition convert_coin_type_to_evm_chain_id :: "u32 \<Rightarrow> u32" where
  "convert_coin_type_to_evm_chain_id t =
    (if t = ENSIP11_MAINNET_COIN_TYPE then 1 else 0x7FFFFFFF AND t)"

definition is_coin_type_supported :: "u32 \<Rightarrow> bool" where
  "is_coin_type_supported t =
    list_ex (\<lambda>x. chain_discr x = ucast (convert_coin_type_to_evm_chain_id t)) all_chains"

section \<open>Facts about the table\<close>

lemma all_chains_complete: "c \<in> set all_chains"
  by (cases c) (simp_all add: all_chains_def)

lemma chain_discr_distinct: "distinct (map chain_discr all_chains)"
  by (simp add: all_chains_def)

lemma chain_names_distinct: "distinct (concat (map chain_names all_chains))"
  by code_simp

interpretation chain_discrs: keyed_table all_chains chain_discr
  by unfold_locales (rule chain_discr_distinct)

interpretation chain_aliases: alias_table all_chains chain_names
  by unfold_locales (rule chain_names_distinct)

lemma chain_from_str_iff: "chain_from_str s = Some c \<longleftrightarrow> s \<in> set (chain_names c)"
  by (simp add: chain_from_str_def chain_aliases.find_name_iff all_chains_complete)

lemma find_chain_discr: "find (\<lambda>x. chain_discr x = chain_discr c) all_chains = Some c"
  by (simp add: chain_discrs.find_key all_chains_complete)

lemma is_supported_iff: "is_supported n \<longleftrightarrow> n \<in> range chain_discr"
  using all_chains_complete by (auto simp: is_supported_def chain_discrs.list_ex_key)

lemma chain_display_name:
  assumes "\<And>ns. ns \<noteq> [] \<Longrightarrow> pick ns \<in> set ns"
  shows "chain_display pick c \<in> set (chain_names c)"
proof (cases "chain_to_string c")
  case None
  have "chain_names c \<noteq> []" by (cases c) simp_all
  then show ?thesis using None assms by (simp add: chain_display_def)
next
  case (Some s)
  then have "s \<in> set (chain_names c)" by (cases c) auto
  then show ?thesis using Some by (simp add: chain_display_def)
qed

lemma split_caip2_number: "split_on CHR '':'' (''eip155:'' @ show_nat n) = [''eip155'', show_nat n]"
proof -
  have "CHR '':'' \<notin> set (show_nat n)"
    by (rule show_nat_no_char) (simp add: is_digit_def char_code_def)
  then have "split_on CHR '':'' (''eip155'' @ CHR '':'' # show_nat n) = [''eip155'', show_nat n]"
    by (subst split_on_sep) (simp_all add: split_on_no_sep)
  then show ?thesis by simp
qed

section \<open>Coin types\<close>

lemma and_31_less: "c < 0x80000000 \<Longrightarrow> 0x7FFFFFFF AND (c :: u32) = c"
proof -
  assume "c < 0x80000000"
  then have "unat c < 2 ^ 31" by (simp add: word_less_nat_alt)
  then have "unat (take_bit 31 c) = unat c"
    by (simp add: unsigned_take_bit_eq take_bit_nat_eq_self)
  then have "take_bit 31 c = c" by (rule unsigned_word_eqI)
  then show ?thesis by (simp add: take_bit_eq_mask mask_eq_exp_minus_1 and.commute)
qed

lemma coin_type_not_mainnet: "0x80000000 OR (c :: u32) \<noteq> 60"
proof
  assume eq: "0x80000000 OR c = 60"
  have "0x80000000 AND (0x80000000 OR c) = 0x80000000" by (simp add: bit.conj_disj_distrib)
  moreover have "0x80000000 AND (60::u32) = 0" by simp
  ultimately show False unfolding eq by simp
qed

lemma coin_type_back:
  assumes "c < 0x80000000"
  shows "convert_coin_type_to_evm_chain_id (convert_evm_chain_id_to_coin_type c) = c"
proof -
  have "0x7FFFFFFF AND (0x80000000 OR c) = c"
    using and_31_less [OF assms] by (simp add: bit.conj_disj_distrib)
  then show ?thesis
    by (simp add: convert_coin_type_to_evm_chain_id_def convert_evm_chain_id_to_coin_type_def
        ENSIP11_MAINNET_COIN_TYPE_def coin_type_not_mainnet)
qed

text \<open>C21: every declared name of a supported chain converts to the CAIP-2 identifier with the chain's
  number, the identifier converts back to the chain's display name, and that name is accepted again
  and gives the same identifier.\<close>

theorem chain_name_caip2_roundtrip:
  assumes pick: "\<And>ns. ns \<noteq> [] \<Longrightarrow> pick ns \<in> set ns"
    and name: "name \<in> set (chain_names c)"
  shows "to_caip2 name = Some (''eip155:'' @ show_nat (unat (chain_discr c)))
    \<and> from_caip2 pick (''eip155:'' @ show_nat (unat (chain_discr c))) = Some (chain_display pick c)
    \<and> to_caip2 (chain_display pick c) = to_caip2 name"
proof -
  have "chain_from_str name = Some c" using name by (simp add: chain_from_str_iff)
  moreover have "chain_from_str (chain_display pick c) = Some c"
    using chain_display_name [OF pick] by (simp add: chain_from_str_iff)
  ultimately show ?thesis
    by (simp add: to_caip2_def from_caip2_def split_caip2_number [simplified] parse_u64_show
        find_chain_discr)
qed

lemma chain_name_caip2_roundtrip_witness:
  "to_caip2 ''bsc'' = Some ''eip155:56''
   \<and> from_caip2 hd ''eip155:56'' = Some ''binance-smart-chain''"
proof -
  have n: "''bsc'' \<in> set (chain_names Chain_BinanceSmartChain)" by simp
  have s: "show_nat 56 = ''56''" by code_simp
  from chain_name_caip2_roundtrip [OF _ n, of hd] show ?thesis
    by (simp add: s chain_display_def)
qed

text \<open>ENSIP-11: for chain ids below \<open>2 ^ 31\<close> converting to a coin type and back is the identity,
  and the coin type is supported exactly if the chain is.\<close>

theorem coin_type_roundtrip:
  assumes "c < 0x80000000"
  shows "convert_coin_type_to_evm_chain_id (convert_evm_chain_id_to_coin_type c) = c
    \<and> is_coin_type_supported (convert_evm_chain_id_to_coin_type c) = is_supported (ucast c)"
  by (simp add: coin_type_back [OF assms] is_coin_type_supported_def is_supported_def)

lemma coin_type_roundtrip_witness:
  "convert_coin_type_to_evm_chain_id (convert_evm_chain_id_to_coin_type 137) = 137
   \<and> is_coin_type_supported (convert_evm_chain_id_to_coin_type 137)"
proof -
  have "is_supported 137" by (simp add: is_supported_def all_chains_def)
  with coin_type_roundtrip [of 137] show ?thesis by simp
qed

end
