(* ===== verification/Caip.thy ===== *)
theory Caip
  imports Prelude
begin

text \<open>
  Chain-agnostic identifiers of \<open>utils/crypto.rs\<close>: CAIP-2 chain identifiers and CAIP-19 assets with
  their parsers and printers, and the splitting of CAIP-2 and CAIP-10 strings with the validation of
  the address per namespace.  The patterns anchored with \<open>^\<close> and \<open>$\<close> are \<open>matches_class\<close>, the
  unanchored ones are \<open>finds_at\<close>.  Address decoding and printing of the \<open>ethers\<close> and \<open>bs58\<close> crates are
  parameters: \<open>h160_from_str\<close>, \<open>to_checksum\<close> and \<open>b58_decode\<close>.
\<close>

section \<open>Patterns\<close>

definition is_alnum :: "char \<Rightarrow> bool" where
  "is_alnum c = (is_lower c \<or> is_upper c \<or> is_digit c)"

definition namespace_char :: "char \<Rightarrow> bool" where
  "namespace_char c = (c = CHR ''-'' \<or> is_lower c \<or> is_digit c)"

definition reference_char :: "char \<Rightarrow> bool" where
  "reference_char c = (c = CHR ''-'' \<or> is_alnum c)"

definition asset_char :: "char \<Rightarrow> bool" where
  "asset_char c = (c = CHR ''-'' \<or> c = CHR ''.'' \<or> c = CHR ''%'' \<or> is_alnum c)"

definition base58_char :: "char \<Rightarrow> bool" where
  "base58_char c = ((is_digit c \<and> c \<noteq> CHR ''0'') \<or> (is_upper c \<and> c \<noteq> CHR ''I'' \<and> c \<noteq> CHR ''O'')
     \<or> (is_lower c \<and> c \<noteq> CHR ''l''))"

text \<open>The repetition \<open>{lo,hi}\<close> of a class, at the start of a string.\<close>

definition run_at :: "(char \<Rightarrow> bool) \<Rightarrow> nat \<Rightarrow> string \<Rightarrow> bool" where
  "run_at P lo s = (lo \<le> length s \<and> list_all P (take lo s))"

definition CAIP_CHAIN_ID_REGEX :: "string \<Rightarrow> bool" where
  "CAIP_CHAIN_ID_REGEX = finds_at (run_at reference_char 1)"

definition CAIP_ETH_ADDRESS_REGEX :: "string \<Rightarrow> bool" where
  "CAIP_ETH_ADDRESS_REGEX = finds_at (\<lambda>s. starts_with ''0x'' s \<and> run_at is_hex 40 (drop 2 s))"

definition CAIP_SOLANA_ADDRESS_REGEX :: "string \<Rightarrow> bool" where
  "CAIP_SOLANA_ADDRESS_REGEX = finds_at (run_at base58_char 32)"

definition CAIP19_ASSET_NAMESPACE_REGEX :: "string \<Rightarrow> bool" where
  "CAIP19_ASSET_NAMESPACE_REGEX = matches_class namespace_char 3 8"

definition CAIP19_ASSET_REFERENCE_REGEX :: "string \<Rightarrow> bool" where
  "CAIP19_ASSET_REFERENCE_REGEX = matches_class asset_char 1 128"

definition CAIP19_TOKEN_ID_REGEX :: "string \<Rightarrow> bool" where
  "CAIP19_TOKEN_ID_REGEX = matches_class asset_char 1 78"

definition CAIP2_REFERENCE_REGEX :: "string \<Rightarrow> bool" where
  "CAIP2_REFERENCE_REGEX = matches_class reference_char 1 32"

definition CAIP2_NAMESPACE_REGEX :: "string \<Rightarrow> bool" where
  "CAIP2_NAMESPACE_REGEX = matches_class namespace_char 3 8"

section \<open>Errors\<close>

datatype (plugins only: code) crypto_utils_error =
    CU_WrongNamespace string
  | CU_WrongChainIdFormat string
  | CU_WrongAddressFormat string
  | CU_WrongCaip2Format string
  | CU_WrongCaip10Format string
  | CU_WrongCaip19Format string
  | CU_ProviderError string
  | CU_ContractCallError string
  | CU_AddressFormat string
  | CU_SignatureFormat string
  | CU_AddressChecksum string
  | CU_RpcUrlParseError string
  | CU_HttpRequest string
  | CU_NoResultInRpcResponse
  | CU_Erc20DecodeError string

section \<open>CAIP-2 chain identifiers\<close>

record caip2_chain_id =
  c2_namespace :: string
  c2_reference :: string

definition caip2_new :: "string \<Rightarrow> string \<Rightarrow> (crypto_utils_error, caip2_chain_id) result" where
  "caip2_new namespace ref =
    (if \<not> CAIP2_NAMESPACE_REGEX namespace then
       Inl (CU_WrongCaip2Format (''CAIP-2 namespace must be 3-8 characters of lowercase letters, digits, or hyphens: '' @ namespace))
     else if \<not> CAIP2_REFERENCE_REGEX ref then
       Inl (CU_WrongChainIdFormat (''CAIP-2 reference must be 1-32 characters of letters, digits, or hyphens: '' @ ref))
     else Inr \<lparr> c2_namespace = namespace, c2_reference = ref \<rparr>)"

definition caip2_parse :: "string \<Rightarrow> (crypto_utils_error, caip2_chain_id) result" where
  "caip2_parse chain_id = (case splitn 2 CHR '':'' chain_id of
      [] \<Rightarrow> Inl (CU_WrongCaip2Format (''CAIP-2 chain ID must have a namespace component: '' @ chain_id))
    | [namespace] \<Rightarrow>
        Inl (CU_WrongCaip2Format (''CAIP-2 chain ID must have a reference component: '' @ chain_id))
    | namespace # ref # rest \<Rightarrow> caip2_new namespace ref)"

definition caip2_display :: "caip2_chain_id \<Rightarrow> string" where
  "caip2_display c = c2_namespace c @ '':'' @ c2_reference c"

section \<open>CAIP-19 assets\<close>

definition normalize_to_checksum ::
  "(string \<Rightarrow> 'h option) \<Rightarrow> ('h \<Rightarrow> string) \<Rightarrow> string \<Rightarrow> (crypto_utils_error, string) result" where
  "normalize_to_checksum h160_from_str to_checksum addr =
    map_err (\<lambda>_. CU_WrongAddressFormat addr)
      (case h160_from_str addr of Some h \<Rightarrow> Inr (to_checksum h) | None \<Rightarrow> Inl ())"

record caip19_asset =
  a_chain_id :: caip2_chain_id
  a_namespace :: string
  a_reference :: string
  a_token_id :: "string option"

definition is_evm_token :: "caip2_chain_id \<Rightarrow> string \<Rightarrow> bool" where
  "is_evm_token chain ns = (c2_namespace chain = ''eip155'' \<and>
     (ns = ''erc20'' \<or> ns = ''erc721'' \<or> ns = ''erc1155''))"

definition caip19_new ::
  "(string \<Rightarrow> 'h option) \<Rightarrow> ('h \<Rightarrow> string) \<Rightarrow> caip2_chain_id \<Rightarrow> string \<Rightarrow> string \<Rightarrow> string option
    \<Rightarrow> (crypto_utils_error, caip19_asset) result" where
  "caip19_new h160_from_str to_checksum chain_id asset_namespace asset_reference token_id =
    (if \<not> CAIP19_ASSET_NAMESPACE_REGEX asset_namespace then
       Inl (CU_WrongCaip19Format (''Invalid asset namespace format (must be 3-8 lowercase alphanumeric or hyphen characters): '' @ asset_namespace))
     else if \<not> CAIP19_ASSET_REFERENCE_REGEX asset_reference then
       Inl (CU_WrongCaip19Format (''Invalid asset reference format (must be 1-128 alphanumeric characters or -,%,.): '' @ asset_reference))
     else bind_res
       (case token_id of
          Some t \<Rightarrow>
            if \<not> CAIP19_TOKEN_ID_REGEX t then
              Inl (CU_WrongCaip19Format (''Invalid token ID format (must be 1-78 alphanumeric characters or -,%,.): '' @ t))
            else Inr ()
        | None \<Rightarrow> Inr ())
       (\<lambda>_. bind_res
         (if is_evm_token chain_id asset_namespace
          then normalize_to_checksum h160_from_str to_checksum asset_reference
          else Inr asset_reference)
         (\<lambda>normalized. Inr \<lparr> a_chain_id = chain_id, a_namespace = asset_namespace,
             a_reference = normalized, a_token_id = token_id \<rparr>)))"

definition caip19_parse ::
  "(string \<Rightarrow> 'h option) \<Rightarrow> ('h \<Rightarrow> string) \<Rightarrow> string \<Rightarrow> (crypto_utils_error, caip19_asset) result" where
  "caip19_parse h160_from_str to_checksum asset_id =
    (case splitn 2 CHR ''/'' asset_id of
       [] \<Rightarrow> Inl (CU_WrongCaip19Format (''Invalid CAIP-19 format (missing chain ID): '' @ asset_id))
     | [_] \<Rightarrow> Inl (CU_WrongCaip19Format (''Invalid CAIP-19 format (missing '' @ [CHR 0x27] @ ''/'' @ [CHR 0x27] @ ''): '' @ asset_id))
     | chain_id_str # asset_part # _ \<Rightarrow>
        bind_res (caip2_parse chain_id_str) (\<lambda>chain_id.
          (case splitn 2 CHR ''/'' asset_part of
             [] \<Rightarrow> Inl (CU_WrongCaip19Format (''Invalid CAIP-19 format (missing asset part): '' @ asset_id))
           | namespace_ref_part # token_parts \<Rightarrow>
              (case splitn 2 CHR '':'' namespace_ref_part of
                 [] \<Rightarrow> Inl (CU_WrongCaip19Format (''Invalid asset namespace/reference format (missing namespace): '' @ namespace_ref_part))
               | [_] \<Rightarrow> Inl (CU_WrongCaip19Format (''Invalid asset namespace/reference format (missing '' @ [CHR 0x27] @ '':'' @ [CHR 0x27] @ ''): '' @ namespace_ref_part))
               | asset_namespace # asset_reference # _ \<Rightarrow>
                   caip19_new h160_from_str to_checksum chain_id asset_namespace asset_reference
                     (case token_parts of [] \<Rightarrow> None | t # _ \<Rightarrow> Some t)))))"

definition caip19_display :: "caip19_asset \<Rightarrow> string" where
  "caip19_display a = (case a_token_id a of
      Some t \<Rightarrow> caip2_display (a_chain_id a) @ ''/'' @ a_namespace a @ '':'' @ a_reference a @ ''/'' @ t
    | None \<Rightarrow> caip2_display (a_chain_id a) @ ''/'' @ a_namespace a @ '':'' @ a_reference a)"

definition caip19_asset_id :: "caip19_asset \<Rightarrow> string" where
  "caip19_asset_id a = a_namespace a @ '':'' @ a_reference a"

section \<open>Namespaces and CAIP-10 accounts\<close>

datatype caip_namespace = Eip155 | Solana | Ton | Rootstock

fun namespace_display :: "caip_namespace \<Rightarrow> string" where
  "namespace_display Eip155 = ''eip155''"
| "namespace_display Solana = ''solana''"
| "namespace_display Ton = ''ton''"
| "namespace_display Rootstock = ''rootstock''"

definition namespace_from_str :: "string \<Rightarrow> caip_namespace option" where
  "namespace_from_str s = find (\<lambda>n. namespace_display n = s) [Eip155, Solana, Ton, Rootstock]"

definition is_address_valid_impl ::
  "(string \<Rightarrow> 'h option) \<Rightarrow> (string \<Rightarrow> bytes option) \<Rightarrow> string \<Rightarrow> caip_namespace \<Rightarrow> bool" where
  "is_address_valid_impl h160_from_str b58_decode address namespace = (case namespace of
      Eip155 \<Rightarrow> CAIP_ETH_ADDRESS_REGEX address \<and> h160_from_str address \<noteq> None
    | Rootstock \<Rightarrow> CAIP_ETH_ADDRESS_REGEX address \<and> h160_from_str address \<noteq> None
    | Solana \<Rightarrow> CAIP_SOLANA_ADDRESS_REGEX address \<and>
        (case b58_decode address of Some decoded \<Rightarrow> length decoded = 32 | None \<Rightarrow> False)
    | Ton \<Rightarrow>
        if CHR '':'' \<in> set address then
          (case split_on CHR '':'' address of
             [wc, hex] \<Rightarrow> parse_radix_uint 16 (2 ^ 8) wc \<noteq> None \<and> length hex = 64 \<and> list_all is_hex hex
           | _ \<Rightarrow> False)
        else list_all (\<lambda>c. is_alnum c \<or> c = CHR ''-'' \<or> c = CHR ''_'') address
          \<and> (starts_with ''E'' address \<or> starts_with ''U'' address) \<and> 36 \<le> length address)"

definition format_to_caip10 :: "caip_namespace \<Rightarrow> string \<Rightarrow> string \<Rightarrow> string" where
  "format_to_caip10 namespace chain_id address =
     namespace_display namespace @ '':'' @ chain_id @ '':'' @ address"

definition disassemble_caip2 ::
  "string \<Rightarrow> (crypto_utils_error, caip_namespace \<times> string) result" where
  "disassemble_caip2 caip2 =
    (let parts = split_on CHR '':'' caip2 in
     if length parts \<noteq> 2 then Inl (CU_WrongCaip2Format caip2)
     else (case namespace_from_str (parts ! 0) of
         None \<Rightarrow> Inl (CU_WrongNamespace caip2)
       | Some namespace \<Rightarrow>
          (let chain_id = parts ! 1 in
           if \<not> CAIP_CHAIN_ID_REGEX chain_id then Inl (CU_WrongChainIdFormat chain_id)
           else Inr (namespace, chain_id))))"

text \<open>The generic version, over any namespace type with a parser and a validator.\<close>

definition disassemble_caip10_with_namespace ::
  "(string \<Rightarrow> 'n option) \<Rightarrow> ('n \<Rightarrow> string \<Rightarrow> bool) \<Rightarrow> string
    \<Rightarrow> (crypto_utils_error, 'n \<times> string \<times> string) result" where
  "disassemble_caip10_with_namespace from_str validate_address caip10 =
    (let parts = split_on CHR '':'' caip10 in
     if length parts \<noteq> 3 then Inl (CU_WrongCaip10Format caip10)
     else (case from_str (parts ! 0) of
         None \<Rightarrow> Inl (CU_WrongNamespace caip10)
       | Some namespace \<Rightarrow>
          (let chain_id = parts ! 1 in
           if \<not> CAIP_CHAIN_ID_REGEX chain_id then Inl (CU_WrongChainIdFormat chain_id)
           else (let address = parts ! 2 in
             if \<not> validate_address namespace address then Inl (CU_WrongAddressFormat address)
             else Inr (namespace, chain_id, address)))))"

definition disassemble_caip10 ::
  "(string \<Rightarrow> 'h option) \<Rightarrow> (string \<Rightarrow> bytes option) \<Rightarrow> string
    \<Rightarrow> (crypto_utils_error, caip_namespace \<times> string \<times> string) result" where
  "disassemble_caip10 h160_from_str b58_decode =
     disassemble_caip10_with_namespace namespace_from_str
       (\<lambda>n a. is_address_valid_impl h160_from_str b58_decode a n)"

section \<open>Well-formed identifiers\<close>

definition caip2_wf :: "caip2_chain_id \<Rightarrow> bool" where
  "caip2_wf c = (CAIP2_NAMESPACE_REGEX (c2_namespace c) \<and> CAIP2_REFERENCE_REGEX (c2_reference c))"

definition caip19_wf :: "caip19_asset \<Rightarrow> bool" where
  "caip19_wf a = (caip2_wf (a_chain_id a) \<and> CAIP19_ASSET_NAMESPACE_REGEX (a_namespace a)
     \<and> CAIP19_ASSET_REFERENCE_REGEX (a_reference a)
     \<and> (case a_token_id a of Some t \<Rightarrow> CAIP19_TOKEN_ID_REGEX t | None \<Rightarrow> True))"

text \<open>The reference of an EVM token is in the form the normalisation produces.\<close>

definition caip19_normal ::
  "(string \<Rightarrow> 'h option) \<Rightarrow> ('h \<Rightarrow> string) \<Rightarrow> caip19_asset \<Rightarrow> bool" where
  "caip19_normal h160_from_str to_checksum a =
     (is_evm_token (a_chain_id a) (a_namespace a) \<longrightarrow>
        map_option to_checksum (h160_from_str (a_reference a)) = Some (a_reference a))"

text \<open>What the code relies on of the address library: a printed address has 42 characters, a prefix
  \<open>0x\<close> and hexadecimal digits, and decoding it gives the address back.\<close>

definition checksum_codec :: "(string \<Rightarrow> 'h option) \<Rightarrow> ('h \<Rightarrow> string) \<Rightarrow> bool" where
  "checksum_codec h160_from_str to_checksum = (\<forall>h. h160_from_str (to_checksum h) = Some h \<and>
     (\<exists>d. to_checksum h = ''0x'' @ d \<and> length d = 40 \<and> list_all is_hex d))"

lemmas caip_regex_defs =
  CAIP2_NAMESPACE_REGEX_def CAIP2_REFERENCE_REGEX_def CAIP19_ASSET_NAMESPACE_REGEX_def
  CAIP19_ASSET_REFERENCE_REGEX_def CAIP19_TOKEN_ID_REGEX_def

lemmas char_class_defs =
  namespace_char_def reference_char_def asset_char_def is_alnum_def is_lower_def is_upper_def
  is_digit_def is_hex_def char_code_def

lemma separators_not_in_classes:
  "\<not> namespace_char CHR '':''" "\<not> namespace_char CHR ''/''"
  "\<not> reference_char CHR '':''" "\<not> reference_char CHR ''/''"
  "\<not> asset_char CHR '':''" "\<not> asset_char CHR ''/''"
  by (simp_all add: char_class_defs)

lemma regex_no_separator:
  "CAIP2_NAMESPACE_REGEX s \<Longrightarrow> CHR '':'' \<notin> set s" "CAIP2_NAMESPACE_REGEX s \<Longrightarrow> CHR ''/'' \<notin> set s"
  "CAIP2_REFERENCE_REGEX s \<Longrightarrow> CHR '':'' \<notin> set s" "CAIP2_REFERENCE_REGEX s \<Longrightarrow> CHR ''/'' \<notin> set s"
  "CAIP19_ASSET_NAMESPACE_REGEX s \<Longrightarrow> CHR '':'' \<notin> set s"
  "CAIP19_ASSET_NAMESPACE_REGEX s \<Longrightarrow> CHR ''/'' \<notin> set s"
  "CAIP19_ASSET_REFERENCE_REGEX s \<Longrightarrow> CHR ''/'' \<notin> set s"
  unfolding caip_regex_defs
  by (rule matches_class_no_sep, assumption, rule separators_not_in_classes)+

lemma asset_char_hex: "is_hex c \<Longrightarrow> asset_char c"
  by (auto simp: char_class_defs)

lemma checksum_reference:
  assumes "checksum_codec from_str to_checksum"
  shows "CAIP19_ASSET_REFERENCE_REGEX (to_checksum h)"
proof -
  obtain d where d: "to_checksum h = ''0x'' @ d" "length d = 40" "list_all is_hex d"
    using assms by (auto simp: checksum_codec_def)
  have "asset_char CHR ''x''" by (simp add: char_class_defs)
  moreover have "asset_char CHR ''0''" by (simp add: char_class_defs)
  ultimately show ?thesis
    using d by (auto simp: caip_regex_defs matches_class_def list_all_iff asset_char_hex)
qed

lemma splitn_two_cases:
  obtains "splitn 2 c s = [s]" "c \<notin> set s"
  | p r where "splitn 2 c s = [p, r]" "s = p @ c # r" "c \<notin> set p"
proof -
  obtain p r where pr: "break_at c s = (p, r)" by force
  show thesis
  proof (cases r)
    case None
    then show ?thesis using that(1) pr break_at_None [of c s p] by (auto simp: numeral_eq_Suc)
  next
    case (Some q)
    then show ?thesis using that(2) [of p q] pr break_at_Some [of c s p q]
      by (auto simp: numeral_eq_Suc)
  qed
qed

lemma splitn_sep: "c \<notin> set p \<Longrightarrow> splitn 2 c (p @ c # r) = [p, r]"
  by (simp add: numeral_eq_Suc break_at_sep)

lemma splitn_no_sep: "c \<notin> set p \<Longrightarrow> splitn 2 c p = [p]"
  by (simp add: numeral_eq_Suc break_at_no_sep)

lemma caip2_new_iff:
  "caip2_new n r = Inr c \<longleftrightarrow> CAIP2_NAMESPACE_REGEX n \<and> CAIP2_REFERENCE_REGEX r
    \<and> c = \<lparr> c2_namespace = n, c2_reference = r \<rparr>"
  by (auto simp: caip2_new_def)

lemma caip2_parse_split:
  "caip2_parse s = Inr c \<longleftrightarrow> (\<exists>n r. s = n @ CHR '':'' # r \<and> CHR '':'' \<notin> set n \<and> caip2_new n r = Inr c)"
proof
  assume "caip2_parse s = Inr c"
  then show "\<exists>n r. s = n @ CHR '':'' # r \<and> CHR '':'' \<notin> set n \<and> caip2_new n r = Inr c"
    by (rule_tac splitn_two_cases [of "CHR '':''" s]) (auto simp: caip2_parse_def)
qed (auto simp: caip2_parse_def splitn_sep)

lemma caip2_display_no_slash: "caip2_wf c \<Longrightarrow> CHR ''/'' \<notin> set (caip2_display c)"
  by (auto simp: caip2_wf_def caip2_display_def dest: regex_no_separator)

lemma caip2_parse_iff: "caip2_parse s = Inr c \<longleftrightarrow> caip2_wf c \<and> caip2_display c = s"
proof
  assume "caip2_parse s = Inr c"
  then show "caip2_wf c \<and> caip2_display c = s"
    by (auto simp: caip2_parse_split caip2_new_iff caip2_wf_def caip2_display_def)
next
  assume wf: "caip2_wf c \<and> caip2_display c = s"
  have "s = c2_namespace c @ CHR '':'' # c2_reference c" using wf by (simp add: caip2_display_def)
  moreover have "CHR '':'' \<notin> set (c2_namespace c)"
    using wf by (auto simp: caip2_wf_def dest: regex_no_separator)
  moreover have "caip2_new (c2_namespace c) (c2_reference c) = Inr c"
    using wf by (simp add: caip2_new_iff caip2_wf_def)
  ultimately show "caip2_parse s = Inr c" unfolding caip2_parse_split by blast
qed

lemma normalize_iff: "normalize_to_checksum f t s = Inr r \<longleftrightarrow> map_option t (f s) = Some r"
  by (auto simp: normalize_to_checksum_def split: option.splits)

lemma caip19_new_iff:
  "caip19_new f t chain n r tok = Inr a \<longleftrightarrow>
     CAIP19_ASSET_NAMESPACE_REGEX n \<and> CAIP19_ASSET_REFERENCE_REGEX r
     \<and> (case tok of Some x \<Rightarrow> CAIP19_TOKEN_ID_REGEX x | None \<Rightarrow> True)
     \<and> (\<exists>r'. (if is_evm_token chain n then map_option t (f r) = Some r' else r' = r)
          \<and> a = \<lparr> a_chain_id = chain, a_namespace = n, a_reference = r', a_token_id = tok \<rparr>)"
  by (auto simp: caip19_new_def res_simps normalize_iff split: option.splits if_splits)

text \<open>The shape of the strings the CAIP-19 parser accepts.\<close>

definition caip19_string :: "string \<Rightarrow> string \<Rightarrow> string \<Rightarrow> string option \<Rightarrow> string" where
  "caip19_string c n r tok = c @ ''/'' @ n @ '':'' @ r @ (case tok of Some x \<Rightarrow> CHR ''/'' # x | None \<Rightarrow> [])"

lemma caip19_display_string:
  "caip19_display a = caip19_string (caip2_display (a_chain_id a)) (a_namespace a) (a_reference a) (a_token_id a)"
  by (simp add: caip19_display_def caip19_string_def split: option.splits)

lemma caip19_parse_string:
  assumes "CHR ''/'' \<notin> set c" "CHR '':'' \<notin> set n" "CHR ''/'' \<notin> set n" "CHR ''/'' \<notin> set r"
  shows "caip19_parse f t (caip19_string c n r tok) =
    bind_res (caip2_parse c) (\<lambda>chain. caip19_new f t chain n r tok)"
proof -
  have slash: "splitn 2 CHR ''/'' (caip19_string c n r tok) =
      [c, n @ CHR '':'' # r @ (case tok of Some x \<Rightarrow> CHR ''/'' # x | None \<Rightarrow> [])]"
    using splitn_sep [OF assms(1)] by (simp add: caip19_string_def)
  have nr: "CHR ''/'' \<notin> set (n @ CHR '':'' # r)" using assms by auto
  have tail: "splitn 2 CHR ''/'' (n @ CHR '':'' # r @ (case tok of Some x \<Rightarrow> CHR ''/'' # x | None \<Rightarrow> []))
      = (n @ CHR '':'' # r) # (case tok of Some x \<Rightarrow> [x] | None \<Rightarrow> [])"
    using splitn_no_sep [OF nr] splitn_sep [OF nr] by (cases tok) auto
  show ?thesis
    by (simp add: caip19_parse_def slash tail splitn_sep [OF assms(2)] split: option.splits)
qed

lemma caip19_parse_shape:
  assumes "caip19_parse f t s = Inr a"
  obtains c n r tok where "s = caip19_string c n r tok"
    "CHR ''/'' \<notin> set c" "CHR '':'' \<notin> set n" "CHR ''/'' \<notin> set n" "CHR ''/'' \<notin> set r"
proof -
  show thesis
  proof (rule splitn_two_cases [of "CHR ''/''" s])
    fix c rest
    assume 1: "splitn 2 CHR ''/'' s = [c, rest]" "s = c @ CHR ''/'' # rest" "CHR ''/'' \<notin> set c"
    show thesis
    proof (rule splitn_two_cases [of "CHR ''/''" rest])
      assume 2: "splitn 2 CHR ''/'' rest = [rest]" "CHR ''/'' \<notin> set rest"
      show thesis
        by (rule splitn_two_cases [of "CHR '':''" rest])
          (use assms 1 2 that [of c _ _ None] in
            \<open>auto simp: caip19_parse_def caip19_string_def res_simps\<close>)
    next
      fix p x
      assume 2: "splitn 2 CHR ''/'' rest = [p, x]" "rest = p @ CHR ''/'' # x" "CHR ''/'' \<notin> set p"
      show thesis
        by (rule splitn_two_cases [of "CHR '':''" p])
          (use assms 1 2 that [of c _ _ "Some x"] in
            \<open>auto simp: caip19_parse_def caip19_string_def res_simps\<close>)
    qed
  qed (use assms in \<open>auto simp: caip19_parse_def\<close>)
qed

text \<open>A well-formed asset in normal form is what its printed form parses to.\<close>

lemma caip19_parse_display:
  assumes "caip19_wf a" "caip19_normal f t a"
  shows "caip19_parse f t (caip19_display a) = Inr a"
proof -
  note wf = assms(1) [unfolded caip19_wf_def]
  have "caip2_parse (caip2_display (a_chain_id a)) = Inr (a_chain_id a)"
    using wf by (simp add: caip2_parse_iff)
  moreover have "caip19_new f t (a_chain_id a) (a_namespace a) (a_reference a) (a_token_id a) = Inr a"
    unfolding caip19_new_iff using wf assms(2)
    by (intro conjI exI [of _ "a_reference a"]) (auto simp: caip19_normal_def)
  moreover have "CHR ''/'' \<notin> set (caip2_display (a_chain_id a))" "CHR '':'' \<notin> set (a_namespace a)"
    "CHR ''/'' \<notin> set (a_namespace a)" "CHR ''/'' \<notin> set (a_reference a)"
    using wf by (auto dest: regex_no_separator caip2_display_no_slash)
  ultimately show ?thesis
    unfolding caip19_display_string by (subst caip19_parse_string) simp_all
qed

lemma caip19_parse_result:
  assumes "checksum_codec f t" "caip19_parse f t s = Inr a"
  shows "caip19_wf a \<and> caip19_normal f t a"
proof -
  obtain c n r tok where s: "s = caip19_string c n r tok"
    and sep: "CHR ''/'' \<notin> set c" "CHR '':'' \<notin> set n" "CHR ''/'' \<notin> set n" "CHR ''/'' \<notin> set r"
    using assms(2) by (rule caip19_parse_shape)
  obtain chain where chain: "caip2_parse c = Inr chain" and new: "caip19_new f t chain n r tok = Inr a"
    using assms(2) unfolding s caip19_parse_string [OF sep] by (auto simp: res_simps)
  have "caip2_wf chain" using chain by (simp add: caip2_parse_iff)
  moreover have "f (t h) = Some h" for h using assms(1) by (simp add: checksum_codec_def)
  ultimately show ?thesis
    using new checksum_reference [OF assms(1)]
    by (auto simp: caip19_new_iff caip19_wf_def caip19_normal_def split: if_splits)
qed

section \<open>CAIP-10 accounts over a namespace interface\<close>

text \<open>The trait bounds of the generic function: a namespace type with a parser that accepts exactly the
  printed names, none of which has a colon, and a validator of addresses.\<close>

locale namespace_validator =
  fixes from_str :: "string \<Rightarrow> 'n option"
    and display :: "'n \<Rightarrow> string"
    and validate_address :: "'n \<Rightarrow> string \<Rightarrow> bool"
  assumes from_str_iff: "from_str s = Some n \<longleftrightarrow> display n = s"
    and display_no_colon: "CHR '':'' \<notin> set (display n)"
begin

lemma disassemble_iff:
  "disassemble_caip10_with_namespace from_str validate_address s = Inr (n, c, a) \<longleftrightarrow>
    s = display n @ '':'' @ c @ '':'' @ a \<and> CHR '':'' \<notin> set c \<and> CHR '':'' \<notin> set a
    \<and> CAIP_CHAIN_ID_REGEX c \<and> validate_address n a"
    (is "?lhs \<longleftrightarrow> ?rhs")
proof
  assume ?lhs
  then obtain p q r where parts: "split_on CHR '':'' s = [p, q, r]"
    by (auto simp: disassemble_caip10_with_namespace_def Let_def length_three_iff split: if_splits)
  with \<open>?lhs\<close> show ?rhs
    by (auto simp: disassemble_caip10_with_namespace_def from_str_iff split_on_three Let_def
        split: if_splits option.splits)
next
  assume r: ?rhs
  then have parts: "split_on CHR '':'' s = [display n, c, a]"
    using display_no_colon [of n] by (simp add: split_on_three)
  have "from_str (display n) = Some n" by (simp add: from_str_iff)
  then show ?lhs
    unfolding disassemble_caip10_with_namespace_def parts using r by (simp add: Let_def)
qed

lemma disassemble_wrong_parts:
  "length (split_on CHR '':'' s) \<noteq> 3 \<Longrightarrow>
    disassemble_caip10_with_namespace from_str validate_address s = Inl (CU_WrongCaip10Format s)"
  by (simp add: disassemble_caip10_with_namespace_def Let_def)

end

lemma namespace_from_str_iff: "namespace_from_str s = Some n \<longleftrightarrow> namespace_display n = s"
  by (cases n) (auto simp: namespace_from_str_def)

lemma namespace_display_no_colon: "CHR '':'' \<notin> set (namespace_display n)"
  by (cases n) auto

interpretation caip_namespaces: namespace_validator namespace_from_str namespace_display
    "\<lambda>n a. is_address_valid_impl f b58 a n"
  for f :: "string \<Rightarrow> 'h option" and b58 :: "string \<Rightarrow> bytes option"
  by unfold_locales (rule namespace_from_str_iff, rule namespace_display_no_colon)

lemma split_on_length: "length (split_on c s) = Suc (count_list s c)"
  by (induction s) (auto split: list.splits)

text \<open>C11: CAIP-2 parsing is the exact inverse of printing: a string parses to a chain identifier if
  and only if the identifier is well-formed and prints as that string.\<close>

theorem caip2_parse_display_inverse:
  "caip2_parse s = Inr c \<longleftrightarrow> caip2_wf c \<and> caip2_display c = s"
  by (rule caip2_parse_iff)

text \<open>Every CAIP-19 asset the parser returns is well-formed, its printed form parses back to the
  same asset, and token references of EVM chains are in checksummed form, so that parsing normalises
  in one step.\<close>

theorem caip19_parse_stable:
  assumes "checksum_codec h160_from_str to_checksum"
    and "caip19_parse h160_from_str to_checksum s = Inr a"
  shows "caip19_wf a \<and> caip19_normal h160_from_str to_checksum a
    \<and> caip19_parse h160_from_str to_checksum (caip19_display a) = Inr a"
  using caip19_parse_result [OF assms] caip19_parse_display by blast

lemma caip19_parse_stable_witness:
  "\<exists>f t a. checksum_codec f (t :: unit \<Rightarrow> string)
     \<and> caip19_parse f t ''eip155:1/erc20:0xAB/7'' = Inr a
     \<and> caip19_parse f t (caip19_display a) = Inr a \<and> a_reference a \<noteq> ''0xAB''"
proof -
  define t :: "unit \<Rightarrow> string" where "t = (\<lambda>_. ''0x'' @ replicate 40 CHR ''0'')"
  define f :: "string \<Rightarrow> unit option" where "f = (\<lambda>_. Some ())"
  have c: "checksum_codec f t"
    by (simp add: checksum_codec_def f_def t_def list_all_iff is_hex_def is_digit_def char_code_def)
  define a where "a = \<lparr> a_chain_id = \<lparr> c2_namespace = ''eip155'', c2_reference = ''1'' \<rparr>,
     a_namespace = ''erc20'', a_reference = t (), a_token_id = Some ''7'' \<rparr>"
  have p: "caip19_parse f t ''eip155:1/erc20:0xAB/7'' = Inr a"
    by (simp add: caip19_parse_def caip2_parse_def caip2_new_def caip19_new_def caip_regex_defs
        matches_class_def char_class_defs numeral_eq_Suc is_evm_token_def normalize_to_checksum_def
        f_def a_def)
  have "a_reference a \<noteq> ''0xAB''" by (simp add: a_def t_def numeral_eq_Suc)
  with c p caip19_parse_stable [OF c p] show ?thesis by blast
qed

text \<open>Splitting a CAIP-10 account succeeds exactly on the strings \<open>format_to_caip10\<close> builds from a
  known namespace, a colon-free chain id with at least one allowed character, and a colon-free
  address that is valid in the namespace; any other number of colons is a format error.\<close>

theorem disassemble_caip10_spec:
  "(disassemble_caip10 h160_from_str b58_decode s = Inr (n, c, a) \<longleftrightarrow>
      s = format_to_caip10 n c a \<and> CHR '':'' \<notin> set c \<and> CHR '':'' \<notin> set a
      \<and> CAIP_CHAIN_ID_REGEX c \<and> is_address_valid_impl h160_from_str b58_decode a n)
   \<and> (count_list s CHR '':'' = 2 \<or>
        disassemble_caip10 h160_from_str b58_decode s = Inl (CU_WrongCaip10Format s))"
  unfolding disassemble_caip10_def caip_namespaces.disassemble_iff format_to_caip10_def
  using caip_namespaces.disassemble_wrong_parts [of s] by (auto simp: split_on_length)

text \<open>A raw TON address (workchain, colon, 64 hexadecimal digits) is valid for the TON namespace,
  but the CAIP-10 account built from it is rejected with a format error.\<close>

theorem ton_raw_address_never_in_caip10:
  assumes "list_all is_hex hex" "length hex = 64"
  shows "is_address_valid_impl h160_from_str b58_decode (''0:'' @ hex) Ton
    \<and> disassemble_caip10 h160_from_str b58_decode (format_to_caip10 Ton c (''0:'' @ hex))
        = Inl (CU_WrongCaip10Format (format_to_caip10 Ton c (''0:'' @ hex)))"
proof -
  have "\<not> is_hex CHR '':''" by (simp add: char_class_defs)
  then have nc: "CHR '':'' \<notin> set hex" using assms by (auto simp: list_all_iff)
  then have "split_on CHR '':'' (''0:'' @ hex) = [''0'', hex]"
    by (simp add: split_on_no_sep)
  moreover have "parse_radix_uint 16 256 ''0'' = Some 0"
    by (simp add: parse_radix_uint_def radix_val_def is_digit_def char_code_def)
  ultimately have "is_address_valid_impl h160_from_str b58_decode (''0:'' @ hex) Ton"
    using assms by (simp add: is_address_valid_impl_def)
  moreover have "count_list (format_to_caip10 Ton c (''0:'' @ hex)) CHR '':'' \<noteq> 2"
    by (simp add: format_to_caip10_def)
  ultimately show ?thesis
    unfolding disassemble_caip10_def
    by (simp add: caip_namespaces.disassemble_wrong_parts split_on_length)
qed

lemma ton_raw_address_never_in_caip10_witness:
  "\<exists>s. disassemble_caip10 (\<lambda>_. None :: unit option) (\<lambda>_. None)
      (format_to_caip10 Ton ''-239'' (''0:'' @ replicate 64 CHR ''a'')) = Inl s"
proof -
  have "list_all is_hex (replicate 64 CHR ''a'')"
    by (simp add: list_all_iff char_class_defs)
  moreover have "length (replicate 64 CHR ''a'') = 64" by simp
  ultimately show ?thesis
    using ton_raw_address_never_in_caip10 [of "replicate 64 CHR ''a''" "\<lambda>_. None :: unit option"]
    by blast
qed

end
