(* ===== verification/HttpErrors.thy ===== *)
theory HttpErrors
  imports Caip
begin

text \<open>
  The error type of the handlers, \<open>RpcError\<close> of \<open>error.rs\<close>, and the HTTP response each error becomes.
  Errors of third-party crates are represented by their printed text.  The match of \<open>into_response\<close>
  is split in four consecutive groups of arms; an error in none of them is an internal server error.
\<close>

section \<open>The error types the handlers convert from\<close>

datatype project_data_error = NotFound | RegistryConfigError | RegistryTemporarilyUnavailable

datatype storage_error =
    SE_SetExpiry
  | SE_Serialize
  | SE_Deserialize string
  | SE_Connection string
  | SE_WrongNodeAddress string
  | SE_WrongKey string
  | SE_WrongNamespace string
  | SE_Utf8Error string
  | SE_WcnClientError string
  | SE_Other string

datatype internal_get_session_context_error =
    GSC_Storage storage_error
  | GSC_Deserializing string

datatype route_solana_internal_error =
    RS_InternalRequest string
  | RS_JsonDeserialization string
  | RS_LiFiQuoteDeserializationSolana string
  | RS_LiFiQuoteDeserializationEip155 string
  | RS_TransactionRequestDecode string
  | RS_TransactionRequestDeserialization string
  | RS_AllowanceCall string

datatype route_solana_request_error = RS_MalformedSolanaAccount string

datatype route_solana_error =
    RS_Internal route_solana_internal_error
  | RS_Request route_solana_request_error

datatype (plugins only: size) rpc_error =
    RE_EnvyError string
  | RE_CryptoUtilsError crypto_utils_error
  | RE_InvalidConfiguration string
  | RE_ProjectDataError project_data_error
  | RE_RegistryError string
  | RE_StorageError storage_error
  | RE_ChainNotFound
  | RE_TransportError string
  | RE_HyperUtilError string
  | RE_ProxyTimeoutError string
  | RE_RequestBuilderError string
  | RE_UnsupportedChain string
  | RE_UnsupportedCurrency string
  | RE_ChainTemporarilyUnavailable string
  | RE_InvalidChainIdFormat string
  | RE_UnsupportedProvider string
  | RE_UnsupportedBundler string
  | RE_IdentityProviderError string
  | RE_TransactionProviderError
  | RE_PortfolioProviderError
  | RE_BalanceProviderError
  | RE_BalanceTemporarilyUnavailable string
  | RE_FungiblePriceProviderError string
  | RE_BalanceParseURLError
  | RE_FungiblePriceParseURLError
  | RE_OnRampParseURLError
  | RE_OnRampProviderError
  | RE_Cerberus string
  | RE_Other string
  | RE_SerdeJson string
  | RE_InvalidScheme
  | RE_WebSocketError string
  | RE_WebSocketConnectionExpected
  | RE_RateLimited string
  | RE_InvalidAddress
  | RE_HistoryParseCursorError
  | RE_IdentityLookup string
  | RE_QuotaLimitReached
  | RE_SqlxError string
  | RE_SqlxMigrationError string
  | RE_InvalidParameter string
  | RE_AssetNotSupported string
  | RE_ConversionProviderError
  | RE_ConversionParseURLError
  | RE_ConversionInvalidParameter string
  | RE_ConversionInvalidParameterWithCode string string
  | RE_ConversionProviderInternalError string
  | RE_NameAlreadyRegistered string
  | RE_NameNotRegistered string
  | RE_NameRegistrationError string
  | RE_NameNotFound string
  | RE_NameByAddressNotFound
  | RE_InternalNameResolverError
  | RE_InvalidNameFormat string
  | RE_InvalidNameLength string
  | RE_InvalidNameZone string
  | RE_InvalidValue string
  | RE_UnsupportedCoinType u32
  | RE_UnsupportedNamespace caip_namespace
  | RE_UnsupportedNameAttribute
  | RE_ExpiredTimestamp u64
  | RE_SignatureValidationError string
  | RE_NameOwnerValidationError
  | RE_Reqwest string
  | RE_WeightedProvidersIndex string
  | RE_IrnNotConfigured
  | RE_IrnConfig string
  | RE_InternalGetSessionContextError internal_get_session_context_error
  | RE_WrongBase64Format string
  | RE_WrongHexFormat string
  | RE_KeyFormatError string
  | RE_SignatureFormatError string
  | RE_Pkcs8Error string
  | RE_PermissionNotFound string string
  | RE_PermissionContextNotUpdated string
  | RE_RevokedPermission string
  | RE_PermissionExpired string
  | RE_CoSignerEmptyPermissions
  | RE_CosignerPermissionDenied string
  | RE_CosignerUnsupportedPermission string
  | RE_AbiDecodingError string
  | RE_OrchestrationIdNotFound string
  | RE_BridgingFinalAmountLess
  | RE_SimulationProviderUnavailable
  | RE_SimulationFailed string
  | RE_RouteSolana route_solana_error
  | RE_JoinError string
  | RE_UnsupportedBundlerNameUrlParseError string
  | RE_UnsupportedBundlerName string

section \<open>Responses\<close>

datatype response_body =
    Text_body string
  | Reasons_body string "(string \<times> string) list"
  | Code_body string string

record http_response =
  rsp_status :: nat
  rsp_body :: response_body

definition http :: "nat \<Rightarrow> response_body \<Rightarrow> http_response" where
  "http status b = \<lparr> rsp_status = status, rsp_body = b \<rparr>"

definition new_error_response :: "string \<Rightarrow> string \<Rightarrow> response_body" where
  "new_error_response field description = Reasons_body ''FAILED'' [(field, description)]"

fun crypto_utils_error_display :: "crypto_utils_error \<Rightarrow> string" where
  "crypto_utils_error_display (CU_WrongNamespace s) = ''Namespace is not supported: '' @ s"
| "crypto_utils_error_display (CU_WrongChainIdFormat s) = ''Chain ID format is not supported: '' @ s"
| "crypto_utils_error_display (CU_WrongAddressFormat s) = ''Address format is not supported: '' @ s"
| "crypto_utils_error_display (CU_WrongCaip2Format s) = ''Wrong CAIP-2 format: '' @ s"
| "crypto_utils_error_display (CU_WrongCaip10Format s) = ''Wrong CAIP-10 format: '' @ s"
| "crypto_utils_error_display (CU_WrongCaip19Format s) = ''Wrong CAIP-19 format: '' @ s"
| "crypto_utils_error_display (CU_ProviderError s) = ''Provider call error: '' @ s"
| "crypto_utils_error_display (CU_ContractCallError s) = ''Contract call error: '' @ s"
| "crypto_utils_error_display (CU_AddressFormat s) = ''Wrong address format: '' @ s"
| "crypto_utils_error_display (CU_SignatureFormat s) = ''Wrong signature format: '' @ s"
| "crypto_utils_error_display (CU_AddressChecksum s) = ''Wrong address checksum: '' @ s"
| "crypto_utils_error_display (CU_RpcUrlParseError s) = ''Failed to parse RPC url: '' @ s"
| "crypto_utils_error_display (CU_HttpRequest s) = ''HTTP request failed: '' @ s"
| "crypto_utils_error_display CU_NoResultInRpcResponse = ''No result JSON-RPC call response''"
| "crypto_utils_error_display (CU_Erc20DecodeError s) = ''Error when decoding ERC20 call: '' @ s"

fun route_solana_into_response :: "route_solana_error \<Rightarrow> http_response" where
  "route_solana_into_response (RS_Internal e) = http 500 (Text_body '''')"
| "route_solana_into_response (RS_Request (RS_MalformedSolanaAccount s)) =
     http 400 (Text_body (''Malformed Solana account: '' @ s))"

definition rpc_response_1 :: "rpc_error \<Rightarrow> http_response option" where
  "rpc_response_1 err = (case err of
      RE_WebSocketError err \<Rightarrow> Some (http 410 (Text_body err))
    | RE_UnsupportedChain chain_id \<Rightarrow> Some (http 400 (new_error_response ''chainId'' (''We don'' @ [CHR 0x27] @ ''t support the chainId you provided: '' @ chain_id @ ''. See the list of supported chains here: https://docs.reown.com/cloud/blockchain-api#supported-chains'')))
    | RE_UnsupportedCurrency error_message \<Rightarrow> Some (http 400 (new_error_response ''currency'' (''Unsupported currency: '' @ error_message @ ''.'')))
    | RE_UnsupportedBundlerName error_message \<Rightarrow> Some (http 400 (new_error_response ''bundler_name'' (''Unsupported bundler name: '' @ error_message @ ''.'')))
    | RE_UnsupportedBundlerNameUrlParseError error_message \<Rightarrow> Some (http 400 (new_error_response ''bundler_name'' (''Unsupported bundler name: '' @ error_message @ ''.'')))
    | RE_CryptoUtilsError e \<Rightarrow> Some (http 400 (new_error_response '''' (''Crypto utils error: '' @ crypto_utils_error_display e)))
    | RE_ChainTemporarilyUnavailable chain_id \<Rightarrow> Some (http 503 (new_error_response ''chainId'' (''Requested '' @ chain_id @ '' chain provider is temporarily unavailable'')))
    | RE_BalanceTemporarilyUnavailable namespace \<Rightarrow> Some (http 503 (new_error_response ''chainId'' (''Requested namespace '' @ namespace @ '' balance provider is temporarily unavailable'')))
    | RE_InvalidChainIdFormat chain_id \<Rightarrow> Some (http 400 (new_error_response ''chainId'' (''Requested '' @ chain_id @ '' has invalid format for the requested namespace'')))
    | RE_UnsupportedProvider provider \<Rightarrow> Some (http 400 (new_error_response ''provider'' (''Provider '' @ provider @ '' is not supported'')))
    | RE_UnsupportedBundler bundler \<Rightarrow> Some (http 400 (new_error_response ''bundler'' (''Bundler '' @ bundler @ '' is not supported'')))
    | RE_IdentityProviderError e \<Rightarrow> Some (http 503 (new_error_response '''' (''We failed to reach the identity provider with an error: '' @ e)))
    | RE_InvalidScheme \<Rightarrow> Some (http 400 (new_error_response ''scheme'' (''Invalid scheme used. Try http(s):// or ws(s)://'')))
    | RE_WebSocketConnectionExpected \<Rightarrow> Some (http 426 (new_error_response '''' (''Only WebSocket connections are supported for GET method on this endpoint'')))
    | RE_RegistryError _ \<Rightarrow> Some (http 401 (new_error_response ''authentication'' (''We failed to authenticate your request'')))
    | RE_Cerberus _ \<Rightarrow> Some (http 401 (new_error_response ''authentication'' (''We failed to authenticate your request'')))
    | RE_ProjectDataError _ \<Rightarrow> Some (http 401 (new_error_response ''authentication'' (''We failed to authenticate your request'')))
    | RE_TransportError _ \<Rightarrow> Some (http 503 (new_error_response ''transport'' (''We failed to reach the provider for your request'')))
    | _ \<Rightarrow> None)"

definition rpc_response_2 :: "rpc_error \<Rightarrow> http_response option" where
  "rpc_response_2 err = (case err of
      RE_InvalidAddress \<Rightarrow> Some (http 400 (new_error_response ''address'' (''The address provided is invalid'')))
    | RE_QuotaLimitReached \<Rightarrow> Some (http 429 (new_error_response ''address'' (''Project'' @ [CHR 0x27] @ ''s quota limit reached'')))
    | RE_InvalidParameter e \<Rightarrow> Some (http 400 (new_error_response '''' (''Invalid parameter: '' @ e)))
    | RE_InvalidNameFormat e \<Rightarrow> Some (http 400 (new_error_response ''name'' (''Invalid name format: '' @ e)))
    | RE_InvalidNameLength e \<Rightarrow> Some (http 400 (new_error_response ''name'' (''Invalid name length: '' @ e)))
    | RE_InvalidNameZone e \<Rightarrow> Some (http 400 (new_error_response ''name'' (''Name is not in the allowed zones: '' @ e)))
    | RE_ConversionInvalidParameter e \<Rightarrow> Some (http 400 (new_error_response '''' (''Conversion parameter error: '' @ e)))
    | RE_ConversionInvalidParameterWithCode code message \<Rightarrow> Some (http 400 (Code_body code (''Conversion parameter error: '' @ message)))
    | RE_AssetNotSupported e \<Rightarrow> Some (http 400 (new_error_response ''asset'' (''Asset is not supported: '' @ e)))
    | RE_UnsupportedCoinType e \<Rightarrow> Some (http 400 (new_error_response ''coin_type'' (''Unsupported coin type: '' @ show_nat (unat e))))
    | RE_UnsupportedNamespace e \<Rightarrow> Some (http 400 (new_error_response ''address'' (''Unsupported namespace: '' @ namespace_display e)))
    | RE_UnsupportedNameAttribute \<Rightarrow> Some (http 400 (new_error_response ''attributes'' (''Unsupported name attribute in payload'')))
    | RE_NameAlreadyRegistered e \<Rightarrow> Some (http 400 (new_error_response ''name'' (''Name is already registered: '' @ e)))
    | RE_NameNotRegistered e \<Rightarrow> Some (http 400 (new_error_response ''name'' (''Name is not registered: '' @ e)))
    | RE_NameNotFound e \<Rightarrow> Some (http 404 (new_error_response ''name'' (''Name is not found in the database: '' @ e)))
    | _ \<Rightarrow> None)"

definition rpc_response_3 :: "rpc_error \<Rightarrow> http_response option" where
  "rpc_response_3 err = (case err of
      RE_NameByAddressNotFound \<Rightarrow> Some (http 404 (new_error_response ''address'' (''No name for address is found'')))
    | RE_ExpiredTimestamp e \<Rightarrow> Some (http 400 (new_error_response ''timestamp'' (''Signature UNIXTIME timestamp is too old: '' @ show_nat (unat e))))
    | RE_SignatureValidationError e \<Rightarrow> Some (http 401 (new_error_response ''signature'' (''Signature validation error: '' @ e)))
    | RE_NameOwnerValidationError \<Rightarrow> Some (http 401 (new_error_response ''address'' (''Name owner validation error'')))
    | RE_SerdeJson e \<Rightarrow> Some (http 422 (new_error_response '''' (''Deserialization error: '' @ e)))
    | RE_RateLimited e \<Rightarrow> Some (http 429 (new_error_response ''rate_limited'' (''Requests per second limit exceeded: '' @ e)))
    | RE_PermissionNotFound address pci \<Rightarrow> Some (http 400 (new_error_response ''pci'' (''Permission for PCI is not found: '' @ pci)))
    | RE_RevokedPermission pci \<Rightarrow> Some (http 400 (new_error_response ''pci'' (''Permission is revoked: '' @ pci)))
    | RE_PermissionExpired pci \<Rightarrow> Some (http 400 (new_error_response ''pci'' (''Permission is expired: '' @ pci)))
    | RE_WrongBase64Format e \<Rightarrow> Some (http 400 (new_error_response '''' (''Wrong Base64 format: '' @ e)))
    | RE_KeyFormatError e \<Rightarrow> Some (http 400 (new_error_response ''key'' (''Invalid key format: '' @ e)))
    | RE_SignatureFormatError e \<Rightarrow> Some (http 400 (new_error_response ''signature'' (''Invalid signature format: '' @ e)))
    | RE_CoSignerEmptyPermissions \<Rightarrow> Some (http 400 (new_error_response '''' (''Permissions set is empty'')))
    | RE_AbiDecodingError e \<Rightarrow> Some (http 400 (new_error_response ''calldata'' (''ABI signature decoding error: '' @ e)))
    | _ \<Rightarrow> None)"

definition rpc_response_4 :: "rpc_error \<Rightarrow> http_response option" where
  "rpc_response_4 err = (case err of
      RE_TransactionProviderError \<Rightarrow> Some (http 503 (new_error_response '''' (''Transaction provider is temporarily unavailable'')))
    | RE_OnRampProviderError \<Rightarrow> Some (http 503 (new_error_response '''' (''OnRamp provider is temporarily unavailable'')))
    | RE_PortfolioProviderError \<Rightarrow> Some (http 503 (new_error_response '''' (''Portfolio provider is temporarily unavailable'')))
    | RE_BalanceProviderError \<Rightarrow> Some (http 503 (new_error_response '''' (''Balance provider is temporarily unavailable'')))
    | RE_FungiblePriceProviderError e \<Rightarrow> Some (http 503 (new_error_response '''' (''Fungibles price provider is temporarily unavailable: '' @ e)))
    | RE_ConversionProviderError \<Rightarrow> Some (http 503 (new_error_response '''' (''Convertion provider is temporarily unavailable'')))
    | RE_SimulationProviderUnavailable \<Rightarrow> Some (http 503 (new_error_response '''' (''Simulation provider is temporarily unavailable'')))
    | RE_CosignerPermissionDenied e \<Rightarrow> Some (http 401 (new_error_response '''' (''Cosigner permission denied: '' @ e)))
    | RE_CosignerUnsupportedPermission e \<Rightarrow> Some (http 401 (new_error_response '''' (''Unsupported permission in CoSigner: '' @ e)))
    | RE_OrchestrationIdNotFound oid \<Rightarrow> Some (http 400 (new_error_response ''orchestrationId'' (''Orchestration ID is not found: '' @ oid)))
    | RE_RouteSolana e \<Rightarrow> Some (route_solana_into_response e)
    | _ \<Rightarrow> None)"

definition rpc_error_into_response :: "rpc_error \<Rightarrow> http_response" where
  "rpc_error_into_response err =
    (case rpc_response_1 err of Some r \<Rightarrow> r | None \<Rightarrow>
      (case rpc_response_2 err of Some r \<Rightarrow> r | None \<Rightarrow>
        (case rpc_response_3 err of Some r \<Rightarrow> r | None \<Rightarrow>
          (case rpc_response_4 err of Some r \<Rightarrow> r | None \<Rightarrow>
            http 500 (Text_body ''Internal server error'')))))"

section \<open>The responses never report success and never leak internal errors\<close>

lemmas rpc_response_defs =
  rpc_error_into_response_def rpc_response_1_def rpc_response_2_def rpc_response_3_def
  rpc_response_4_def http_def

lemma route_solana_status:
  "rsp_status (route_solana_into_response e) \<in> {400, 500}
   \<and> (rsp_status (route_solana_into_response e) = 500 \<longrightarrow>
        rsp_body (route_solana_into_response e) = Text_body '''')"
  by (cases e rule: route_solana_into_response.cases) (simp_all add: http_def)

text \<open>Every error becomes a response with one of nine error statuses, and a response with status 500 has a constant
  body, so that no text of an internal error reaches the client.\<close>

lemma rpc_error_response_opaque:
  "rsp_status (rpc_error_into_response err) \<in> {400, 401, 404, 410, 422, 426, 429, 500, 503}
   \<and> (rsp_status (rpc_error_into_response err) = 500 \<longrightarrow>
        rsp_body (rpc_error_into_response err) \<in> {Text_body '''', Text_body ''Internal server error''})"
proof (cases err)
  case (RE_RouteSolana e)
  then show ?thesis
    using route_solana_status [of e] by (auto simp: rpc_response_defs)
qed (simp_all add: rpc_response_defs)

end
