(* ===== verification/ProviderKinds.thy ===== *)
theory ProviderKinds
  imports Prelude
begin

text \<open>
  The kinds of upstream providers of \<open>providers/mod.rs\<close>, their names, and the classification of
  JSON-RPC errors by text and code that decides whether the proxy retries another provider.
\<close>

section \<open>Classification of JSON-RPC errors\<close>

definition NODE_ERROR_PATTERNS :: "string list" where
  "NODE_ERROR_PATTERNS = [
    ''cannot unmarshal'', ''Go value'', ''deserialization error'', ''node error'',
    ''try again later'', ''header not found'']"

definition is_node_error_rpc_message :: "string \<Rightarrow> bool" where
  "is_node_error_rpc_message msg = list_ex (\<lambda>pattern. contains_str pattern msg) NODE_ERROR_PATTERNS"

definition RATE_LIMITED_ERROR_PATTERNS :: "string list" where
  "RATE_LIMITED_ERROR_PATTERNS = [
    ''quota exceed'', ''exceeded quota'', ''rate limit'', ''rate-limit'', ''paid'',
    ''upgrade plan'', ''subscription'', ''compute units for this month'',
    ''compute units exceeded'', ''your plan'', ''current plan'', ''you reached'',
    ''no matched providers found'']"

definition is_rate_limited_error_rpc_message :: "string \<Rightarrow> bool" where
  "is_rate_limited_error_rpc_message msg = list_ex (\<lambda>pattern. contains_str pattern msg) RATE_LIMITED_ERROR_PATTERNS"

definition KNOWN_ERROR_PATTERNS :: "string list" where
  "KNOWN_ERROR_PATTERNS = [
    ''execution reverted'', ''EVM error'', ''Transaction simulation failed'',
    ''insufficient funds for '', ''gas '', ''already known'', ''filter not found'',
    ''execution aborted'', ''transaction'', ''nonce too '', ''stack underflow'', ''mined'',
    ''missing'', ''batch '', ''state available for block'', ''unsupported block number'',
    ''block not found'', ''block is out of range'', ''invalid opcode'', ''unknown account'',
    ''gapped-nonce tx'', ''can not found a matching policy'']"

definition is_known_rpc_error_message :: "string \<Rightarrow> bool" where
  "is_known_rpc_error_message msg = list_ex (\<lambda>pattern. contains_str pattern msg) KNOWN_ERROR_PATTERNS"

text \<open>The range check on a 32-bit signed code; the code is an integer between \<open>- 2 ^ 31\<close> and \<open>2 ^ 31 - 1\<close>.\<close>

definition is_internal_error_rpc_code :: "int \<Rightarrow> bool" where
  "is_internal_error_rpc_code code = (-32099 \<le> code \<and> code \<le> -32000)"

section \<open>Provider kinds\<close>

datatype (plugins only: code size) provider_kind =
    PK_Aurora | PK_Arbitrum | PK_Pokt | PK_Binance | PK_Bungee | PK_ZKSync | PK_Publicnode |
    PK_Base | PK_Zora | PK_Zerion | PK_Coinbase | PK_OneInch | PK_Quicknode | PK_Near |
    PK_Mantle | PK_SolScan | PK_Unichain | PK_Morph | PK_Tenderly | PK_Dune | PK_Wemix |
    PK_Drpc | PK_Syndica | PK_Allnodes | PK_Meld | PK_Monad | PK_Sui | PK_Hiro |
    PK_CallStatic | PK_Moonbeam | PK_Blast | PK_Rootstock | PK_Lifi | PK_Trongrid |
    PK_Toncenter | PK_Xrpl | PK_Generic string

primrec kind_display :: "provider_kind \<Rightarrow> string" where
  "kind_display PK_Aurora = ''Aurora''"
| "kind_display PK_Arbitrum = ''Arbitrum''"
| "kind_display PK_Pokt = ''Pokt''"
| "kind_display PK_Binance = ''Binance''"
| "kind_display PK_Wemix = ''Wemix''"
| "kind_display PK_Bungee = ''Bungee''"
| "kind_display PK_ZKSync = ''zkSync''"
| "kind_display PK_Publicnode = ''Publicnode''"
| "kind_display PK_Base = ''Base''"
| "kind_display PK_Zora = ''Zora''"
| "kind_display PK_Zerion = ''Zerion''"
| "kind_display PK_Coinbase = ''Coinbase''"
| "kind_display PK_OneInch = ''OneInch''"
| "kind_display PK_Quicknode = ''Quicknode''"
| "kind_display PK_Near = ''Near''"
| "kind_display PK_Mantle = ''Mantle''"
| "kind_display PK_SolScan = ''SolScan''"
| "kind_display PK_Unichain = ''Unichain''"
| "kind_display PK_Morph = ''Morph''"
| "kind_display PK_Tenderly = ''Tenderly''"
| "kind_display PK_Dune = ''Dune''"
| "kind_display PK_Drpc = ''Drpc''"
| "kind_display PK_Syndica = ''Syndica''"
| "kind_display PK_Allnodes = ''Allnodes''"
| "kind_display PK_Meld = ''Meld''"
| "kind_display PK_Monad = ''Monad''"
| "kind_display PK_Sui = ''Sui''"
| "kind_display PK_Hiro = ''Hiro''"
| "kind_display PK_CallStatic = ''CallStatic''"
| "kind_display PK_Moonbeam = ''Moonbeam''"
| "kind_display PK_Blast = ''Blast''"
| "kind_display PK_Rootstock = ''Rootstock''"
| "kind_display PK_Lifi = ''Lifi''"
| "kind_display PK_Trongrid = ''Trongrid''"
| "kind_display PK_Toncenter = ''Toncenter''"
| "kind_display PK_Xrpl = ''Xrpl''"
| "kind_display (PK_Generic name) = name"

text \<open>The arms of the match, in order.\<close>

definition kind_arms :: "(string \<times> provider_kind) list" where
  "kind_arms = [
    (''Aurora'', PK_Aurora), (''Arbitrum'', PK_Arbitrum), (''Pokt'', PK_Pokt),
    (''Binance'', PK_Binance), (''Bungee'', PK_Bungee), (''zkSync'', PK_ZKSync),
    (''Publicnode'', PK_Publicnode), (''Base'', PK_Base), (''Zora'', PK_Zora),
    (''Zerion'', PK_Zerion), (''Coinbase'', PK_Coinbase), (''OneInch'', PK_OneInch),
    (''Quicknode'', PK_Quicknode), (''Near'', PK_Near), (''Mantle'', PK_Mantle),
    (''SolScan'', PK_SolScan), (''Unichain'', PK_Unichain), (''Morph'', PK_Morph),
    (''Tenderly'', PK_Tenderly), (''Dune'', PK_Dune), (''Wemix'', PK_Wemix),
    (''Drpc'', PK_Drpc), (''Syndica'', PK_Syndica), (''Allnodes'', PK_Allnodes),
    (''Meld'', PK_Meld), (''Monad'', PK_Monad), (''Sui'', PK_Sui), (''Hiro'', PK_Hiro),
    (''CallStatic'', PK_CallStatic), (''Moonbeam'', PK_Moonbeam), (''Blast'', PK_Blast),
    (''Rootstock'', PK_Rootstock), (''Trongrid'', PK_Trongrid), (''Toncenter'', PK_Toncenter),
    (''Xrpl'', PK_Xrpl)]"

definition kind_from_str :: "string \<Rightarrow> provider_kind option" where
  "kind_from_str s = (case find (\<lambda>arm. fst arm = s) kind_arms of
      Some arm \<Rightarrow> Some (snd arm)
    | None \<Rightarrow> Some (PK_Generic s))"

section \<open>Names and kinds\<close>

lemma kind_arms_distinct: "distinct (map fst kind_arms)"
  by code_simp

interpretation kind_arms: keyed_table kind_arms fst
  by unfold_locales (rule kind_arms_distinct)

lemma kind_from_str_arm: "(s, k) \<in> set kind_arms \<Longrightarrow> kind_from_str s = Some k"
  using kind_arms.find_key [of "(s, k)"] by (simp add: kind_from_str_def)

lemma kind_from_str_other: "s \<notin> fst ` set kind_arms \<Longrightarrow> kind_from_str s = Some (PK_Generic s)"
  by (auto simp: kind_from_str_def split: option.splits dest: find_SomeD)

lemma kind_arms_display: "(s, k) \<in> set kind_arms \<Longrightarrow> kind_display k = s"
  by (auto simp: kind_arms_def)

text \<open>The kinds whose name is not an arm of the parser.\<close>

definition unparsed_kind :: "provider_kind \<Rightarrow> bool" where
  "unparsed_kind k = (kind_display k \<notin> fst ` set kind_arms)"

lemma kind_display_arm:
  "k \<noteq> PK_Lifi \<Longrightarrow> \<nexists>n. k = PK_Generic n \<Longrightarrow> (kind_display k, k) \<in> set kind_arms"
  by (cases k) (simp_all add: kind_arms_def)

lemma lifi_unparsed: "unparsed_kind PK_Lifi"
  by (simp add: unparsed_kind_def kind_arms_def)

text \<open>Reading back the printed name of a provider kind gives the kind, except for the Lifi
  provider, whose name is read as a generic provider called Lifi; a generic name is read back as
  itself exactly when it is not the name of a known provider, and parsing never fails.\<close>

theorem provider_kind_roundtrip:
  "kind_from_str s \<noteq> None
   \<and> kind_from_str (kind_display PK_Lifi) = Some (PK_Generic ''Lifi'')
   \<and> (k = PK_Lifi \<or> (\<exists>n. k = PK_Generic n) \<or> kind_from_str (kind_display k) = Some k)
   \<and> (kind_from_str (kind_display (PK_Generic n)) = Some (PK_Generic n)
        \<longleftrightarrow> unparsed_kind (PK_Generic n))"
proof -
  have "kind_from_str s \<noteq> None" by (simp add: kind_from_str_def split: option.splits)
  moreover have "kind_from_str (kind_display PK_Lifi) = Some (PK_Generic ''Lifi'')"
    using kind_from_str_other [of "''Lifi''"] lifi_unparsed by (simp add: unparsed_kind_def)
  moreover have "k = PK_Lifi \<or> (\<exists>n. k = PK_Generic n) \<or> kind_from_str (kind_display k) = Some k"
    using kind_display_arm [of k] kind_from_str_arm by blast
  moreover have "kind_from_str n = Some (PK_Generic n) \<longleftrightarrow> n \<notin> fst ` set kind_arms"
  proof
    assume r: "kind_from_str n = Some (PK_Generic n)"
    show "n \<notin> fst ` set kind_arms"
    proof
      assume "n \<in> fst ` set kind_arms"
      then obtain k' where "(n, k') \<in> set kind_arms" by auto
      with kind_from_str_arm r have "(n, PK_Generic n) \<in> set kind_arms" by fastforce
      then show False by (simp add: kind_arms_def)
    qed
  qed (rule kind_from_str_other)
  ultimately show ?thesis by (simp add: unparsed_kind_def)
qed

end
