(* ===== verification/Repository.thy ===== *)
theory Repository
  imports ProviderKinds HttpErrors "HOL-Library.AList"
begin

text \<open>
  The provider repository of \<open>providers/mod.rs\<close>: priorities and weights, registration of RPC, WebSocket
  and balance providers, and the selection of providers for a chain by weighted sampling without
  replacement.  A hash map that the code iterates is an association list, its order standing for the
  iteration order; a map that is only looked up is a HOL map.  The distribution \<open>WeightedIndex\<close> of the
  \<open>rand\<close> crate is the parameter \<open>'d sampler\<close>, the random source a sequence of values.
\<close>

section \<open>Priorities and weights\<close>

definition MAX_PRIORITY :: u64 where
  "MAX_PRIORITY = 100"

datatype priority =
    Prio_Max | Prio_High | Prio_Normal | Prio_Low | Prio_Minimal | Prio_Disabled | Prio_Custom u64

definition priority_value_new :: "u64 \<Rightarrow> (rpc_error, u64) result" where
  "priority_value_new value =
    (if MAX_PRIORITY < value then Inl (RE_Other ''Priority value cannot be greater than 100'')
     else Inr value)"

fun priority_try_into :: "priority \<Rightarrow> (rpc_error, u64) result" where
  "priority_try_into Prio_Max = priority_value_new MAX_PRIORITY"
| "priority_try_into Prio_High = priority_value_new (MAX_PRIORITY div 4 + MAX_PRIORITY div 2)"
| "priority_try_into Prio_Normal = priority_value_new (MAX_PRIORITY div 2)"
| "priority_try_into Prio_Low = priority_value_new (MAX_PRIORITY div 4)"
| "priority_try_into Prio_Minimal = priority_value_new 1"
| "priority_try_into Prio_Disabled = priority_value_new 0"
| "priority_try_into (Prio_Custom value) = priority_value_new value"

text \<open>\<open>None\<close> is the \<open>ParseIntError\<close>.\<close>

definition priority_from_str :: "string \<Rightarrow> priority option" where
  "priority_from_str s =
    (if s = ''Max'' then Some Prio_Max
     else if s = ''High'' then Some Prio_High
     else if s = ''Normal'' then Some Prio_Normal
     else if s = ''Low'' then Some Prio_Low
     else if s = ''Minimal'' then Some Prio_Minimal
     else if s = ''Disabled'' then Some Prio_Disabled
     else map_option Prio_Custom (parse_u64 s))"

record weight =
  w_value :: u64
  w_priority :: u64

definition weight_new :: "priority \<Rightarrow> (rpc_error, weight) result" where
  "weight_new priority =
    bind_res (priority_try_into priority) (\<lambda>priority_val.
    bind_res (priority_value_new priority_val) (\<lambda>p.
      Inr \<lparr> w_value = priority_val, w_priority = p \<rparr>))"

definition weight_update_value :: "u64 \<Rightarrow> weight \<Rightarrow> weight" where
  "weight_update_value value w =
     w \<lparr> w_value := (value * w_priority w) div (MAX_PRIORITY div 2) \<rparr>"

section \<open>The repository\<close>

type_synonym ('k, 'c) weight_resolver = "'c \<Rightarrow> ('k \<times> weight) list option"

record ('p, 'w, 'b) repository =
  http_chains :: "string set"
  ws_chains :: "string set"
  rpc_providers :: "provider_kind \<Rightarrow> 'p option"
  rpc_weight_resolver :: "(provider_kind, string) weight_resolver"
  ws_providers :: "provider_kind \<Rightarrow> 'w option"
  ws_weight_resolver :: "(provider_kind, string) weight_resolver"
  balance_namespaces :: "caip_namespace set"
  balance_providers :: "provider_kind \<Rightarrow> 'b option"
  balance_weight_resolver :: "(provider_kind, caip_namespace) weight_resolver"

definition repository_new :: "('p, 'w, 'b) repository" where
  "repository_new = \<lparr> http_chains = {}, ws_chains = {}, rpc_providers = Map.empty,
     rpc_weight_resolver = Map.empty, ws_providers = Map.empty, ws_weight_resolver = Map.empty,
     balance_namespaces = {}, balance_providers = Map.empty, balance_weight_resolver = Map.empty \<rparr>"

text \<open>\<open>entry(c).or_default().insert(kind, weight)\<close>.\<close>

definition resolver_insert ::
  "'c \<Rightarrow> 'k \<Rightarrow> weight \<Rightarrow> ('k, 'c) weight_resolver \<Rightarrow> ('k, 'c) weight_resolver" where
  "resolver_insert c kind w m =
     m(c \<mapsto> AList.update kind w (case m c of None \<Rightarrow> [] | Some entries \<Rightarrow> entries))"

text \<open>Registration: the provider of a kind is stored, then the kind is enrolled with its weight for every
  chain of its configuration.\<close>

definition rpc_register ::
  "provider_kind \<Rightarrow> 'p \<Rightarrow> ('p, 'w, 'b) repository \<Rightarrow> ('p, 'w, 'b) repository" where
  "rpc_register kind p r = r \<lparr> rpc_providers := (rpc_providers r)(kind \<mapsto> p) \<rparr>"

definition rpc_enroll ::
  "string \<Rightarrow> provider_kind \<Rightarrow> weight \<Rightarrow> ('p, 'w, 'b) repository \<Rightarrow> ('p, 'w, 'b) repository" where
  "rpc_enroll c kind w r = r \<lparr> http_chains := insert c (http_chains r),
     rpc_weight_resolver := resolver_insert c kind w (rpc_weight_resolver r) \<rparr>"

definition ws_register ::
  "provider_kind \<Rightarrow> 'w \<Rightarrow> ('p, 'w, 'b) repository \<Rightarrow> ('p, 'w, 'b) repository" where
  "ws_register kind p r = r \<lparr> ws_providers := (ws_providers r)(kind \<mapsto> p) \<rparr>"

definition ws_enroll ::
  "string \<Rightarrow> provider_kind \<Rightarrow> weight \<Rightarrow> ('p, 'w, 'b) repository \<Rightarrow> ('p, 'w, 'b) repository" where
  "ws_enroll c kind w r = r \<lparr> ws_chains := insert c (ws_chains r),
     ws_weight_resolver := resolver_insert c kind w (ws_weight_resolver r) \<rparr>"

definition balance_register ::
  "provider_kind \<Rightarrow> 'b \<Rightarrow> ('p, 'w, 'b) repository \<Rightarrow> ('p, 'w, 'b) repository" where
  "balance_register kind p r = r \<lparr> balance_providers := (balance_providers r)(kind \<mapsto> p) \<rparr>"

definition balance_enroll ::
  "caip_namespace \<Rightarrow> provider_kind \<Rightarrow> weight \<Rightarrow> ('p, 'w, 'b) repository \<Rightarrow> ('p, 'w, 'b) repository" where
  "balance_enroll c kind w r = r \<lparr> balance_namespaces := insert c (balance_namespaces r),
     balance_weight_resolver := resolver_insert c kind w (balance_weight_resolver r) \<rparr>"

definition add_rpc_provider ::
  "provider_kind \<Rightarrow> 'p \<Rightarrow> (string \<times> string \<times> weight) list \<Rightarrow> ('p, 'w, 'b) repository
    \<Rightarrow> ('p, 'w, 'b) repository" where
  "add_rpc_provider kind provider supported_chains r =
    fold (\<lambda>(chain_id, _, w). rpc_enroll chain_id kind w) supported_chains
      (rpc_register kind provider r)"

definition add_ws_provider ::
  "provider_kind \<Rightarrow> 'w \<Rightarrow> (string \<times> string \<times> weight) list \<Rightarrow> ('p, 'w, 'b) repository
    \<Rightarrow> ('p, 'w, 'b) repository" where
  "add_ws_provider kind provider supported_ws_chains r =
    fold (\<lambda>(chain_id, _, w). ws_enroll chain_id kind w) supported_ws_chains
      (ws_register kind provider r)"

definition add_balance_provider ::
  "provider_kind \<Rightarrow> 'b \<Rightarrow> (caip_namespace \<times> weight) list \<Rightarrow> ('p, 'w, 'b) repository
    \<Rightarrow> ('p, 'w, 'b) repository" where
  "add_balance_provider kind provider supported_namespaces r =
    fold (\<lambda>(namespace, w). balance_enroll namespace kind w) supported_namespaces
      (balance_register kind provider r)"

definition get_rpc_provider_by_provider_kind ::
  "('p, 'w, 'b) repository \<Rightarrow> provider_kind \<Rightarrow> 'p option" where
  "get_rpc_provider_by_provider_kind r kind = rpc_providers r kind"

definition get_rpc_provider_by_provider_id ::
  "('p, 'w, 'b) repository \<Rightarrow> string \<Rightarrow> 'p option" where
  "get_rpc_provider_by_provider_id r provider_id =
    (case kind_from_str provider_id of
       None \<Rightarrow> None
     | Some kind \<Rightarrow> get_rpc_provider_by_provider_kind r kind)"

section \<open>Weighted sampling\<close>

record ('d, 'r) sampler =
  wi_new :: "u64 list \<Rightarrow> (string, 'd) result"
  wi_sample :: "'d \<Rightarrow> 'r \<Rightarrow> nat"
  wi_update :: "'d \<Rightarrow> nat \<Rightarrow> u64 \<Rightarrow> (string, 'd) result"

text \<open>The loop over \<open>0..providers_to_iterate\<close>, by the number of draws that are left: draw a key, set its
  weight to zero unless this is the last draw, and look the provider up.\<close>

fun sample_loop ::
  "('d, 'r) sampler \<Rightarrow> (nat \<Rightarrow> 'r) \<Rightarrow> (provider_kind \<Rightarrow> 'p option) \<Rightarrow> provider_kind list
    \<Rightarrow> string \<Rightarrow> string \<Rightarrow> nat \<Rightarrow> 'd \<Rightarrow> (rpc_error, 'p list) result" where
  "sample_loop S rnd lookup keys no_key no_provider 0 dist = Inr []"
| "sample_loop S rnd lookup keys no_key no_provider (Suc k) dist =
    (let dist_key = wi_sample S dist (rnd k) in
     if length keys \<le> dist_key then Inl (RE_WeightedProvidersIndex no_key)
     else
       (let provider = keys ! dist_key in
        bind_res
          (if 0 < k then
             map_err (\<lambda>e. RE_WeightedProvidersIndex
                 (''Failed to update weight in sampling iteration: '' @ e)) (wi_update S dist dist_key 0)
           else Inr dist)
          (\<lambda>dist'.
            (case lookup provider of
               None \<Rightarrow> Inl (RE_WeightedProvidersIndex (no_provider @ kind_display provider))
             | Some p \<Rightarrow>
                bind_res (sample_loop S rnd lookup keys no_key no_provider k dist')
                  (\<lambda>ps. Inr (p # ps))))))"

definition rpc_weights :: "('k \<times> weight) list \<Rightarrow> u64 list" where
  "rpc_weights providers = map (\<lambda>(_, w). max (w_value w) 1) providers"

definition get_rpc_provider_for_chain_id ::
  "('d, 'r) sampler \<Rightarrow> (nat \<Rightarrow> 'r) \<Rightarrow> ('p, 'w, 'b) repository \<Rightarrow> string \<Rightarrow> nat
    \<Rightarrow> (rpc_error, 'p list) result" where
  "get_rpc_provider_for_chain_id S rnd r chain_id max_providers =
    (case rpc_weight_resolver r chain_id of
       None \<Rightarrow> Inl (RE_UnsupportedChain chain_id)
     | Some providers \<Rightarrow>
        if providers = [] then Inl (RE_UnsupportedChain chain_id)
        else
          (let weights = rpc_weights providers;
               non_zero_weight_providers = length (filter (\<lambda>x. 0 < x) weights);
               keys = map fst providers
           in (case wi_new S weights of
                 Inr dist \<Rightarrow>
                   sample_loop S rnd (rpc_providers r) keys
                     (''Failed to get random provider for chain_id: '' @ chain_id)
                     ''Provider not found during the weighted index check: ''
                     (min max_providers non_zero_weight_providers) dist
               | Inl e \<Rightarrow> Inl (RE_ChainTemporarilyUnavailable chain_id))))"

definition minimal_weight_value :: u64 where
  "minimal_weight_value = (case weight_new Prio_Minimal of Inr w \<Rightarrow> w_value w | Inl _ \<Rightarrow> 0)"

definition get_balance_provider_for_namespace ::
  "('d, 'r) sampler \<Rightarrow> (nat \<Rightarrow> 'r) \<Rightarrow> ('p, 'w, 'b) repository \<Rightarrow> caip_namespace \<Rightarrow> nat
    \<Rightarrow> (rpc_error, 'b list) result" where
  "get_balance_provider_for_namespace S rnd r namespace max_providers =
    (case balance_weight_resolver r namespace of
       None \<Rightarrow> Inl (RE_UnsupportedChain (namespace_display namespace))
     | Some providers \<Rightarrow>
        if providers = [] then Inl (RE_UnsupportedChain (namespace_display namespace))
        else
          (let high = filter (\<lambda>(_, w). minimal_weight_value < w_value w) providers;
               weights = map (\<lambda>(_, w). w_value w) high;
               minimal = List.map_filter (\<lambda>(kind, _). balance_providers r kind)
                 (filter (\<lambda>(_, w). w_value w = minimal_weight_value) providers);
               keys = map fst high
           in if weights = [] then Inr (take max_providers minimal)
              else (case wi_new S weights of
                 Inr dist \<Rightarrow>
                   bind_res
                     (sample_loop S rnd (balance_providers r) keys
                       (''Failed to get random balance provider for namespace: '' @ namespace_display namespace)
                       ''Balance provider not found during the weighted index check: ''
                       (min max_providers (length weights)) dist)
                     (\<lambda>result. Inr (result @ take (max_providers - length result) minimal))
               | Inl e \<Rightarrow> Inl (RE_ChainTemporarilyUnavailable (namespace_display namespace)))))"

text \<open>The WebSocket lookup panics (outer \<open>None\<close>) when the sampled index has no key.\<close>

definition get_ws_provider_for_chain_id ::
  "('d, 'r) sampler \<Rightarrow> 'r \<Rightarrow> ('p, 'w, 'b) repository \<Rightarrow> string \<Rightarrow> 'w option option" where
  "get_ws_provider_for_chain_id S rnd r chain_id =
    (case ws_weight_resolver r chain_id of
       None \<Rightarrow> Some None
     | Some providers \<Rightarrow>
        if providers = [] then Some None
        else (case wi_new S (map (\<lambda>(_, w). w_value w) providers) of
            Inl e \<Rightarrow> Some None
          | Inr dist \<Rightarrow>
              (let random = wi_sample S dist rnd; keys = map fst providers in
               if length keys \<le> random then None else Some (ws_providers r (keys ! random)))))"

section \<open>The registration invariant\<close>

text \<open>A pool of providers: the supported chains are the keys of the resolver, every entry is a
  non-empty list of distinct kinds, and every listed kind has a provider.\<close>

definition pool_ok ::
  "'c set \<Rightarrow> (provider_kind \<Rightarrow> 'p option) \<Rightarrow> (provider_kind, 'c) weight_resolver \<Rightarrow> bool" where
  "pool_ok supp providers resolver = (supp = dom resolver \<and>
     (\<forall>c es. resolver c = Some es \<longrightarrow>
        es \<noteq> [] \<and> distinct (map fst es) \<and> fst ` set es \<subseteq> dom providers))"

lemma pool_ok_insert:
  assumes ok: "pool_ok supp providers resolver" and k: "k \<in> dom providers"
  shows "pool_ok (insert c supp) providers (resolver_insert c k w resolver)"
proof -
  define old where "old = (case resolver c of None \<Rightarrow> [] | Some entries \<Rightarrow> entries)"
  have "distinct (map fst old) \<and> fst ` set old \<subseteq> dom providers"
    using ok by (cases "resolver c") (auto simp: old_def pool_ok_def)
  then have "distinct (map fst (AList.update k w old)) \<and> fst ` set (AList.update k w old) \<subseteq> dom providers"
    using k by (simp add: distinct_update dom_update)
  then show ?thesis
    using ok unfolding pool_ok_def resolver_insert_def old_def [symmetric]
    by (auto split: if_splits)
qed

text \<open>The interface of a pool inside a repository: registering a provider and enrolling a kind for a
  chain, by their effect on the three components.\<close>

locale provider_pool =
  fixes supp :: "'s \<Rightarrow> 'c set"
    and providers :: "'s \<Rightarrow> provider_kind \<Rightarrow> 'p option"
    and resolver :: "'s \<Rightarrow> (provider_kind, 'c) weight_resolver"
    and register :: "provider_kind \<Rightarrow> 'p \<Rightarrow> 's \<Rightarrow> 's"
    and enroll :: "'c \<Rightarrow> provider_kind \<Rightarrow> weight \<Rightarrow> 's \<Rightarrow> 's"
  assumes register_effect: "supp (register k p s) = supp s"
      "providers (register k p s) = (providers s)(k \<mapsto> p)" "resolver (register k p s) = resolver s"
    and enroll_effect: "supp (enroll c k w s) = insert c (supp s)"
      "providers (enroll c k w s) = providers s"
      "resolver (enroll c k w s) = resolver_insert c k w (resolver s)"
begin

lemma register_ok:
  "pool_ok (supp s) (providers s) (resolver s) \<Longrightarrow>
   pool_ok (supp (register k p s)) (providers (register k p s)) (resolver (register k p s))"
  unfolding pool_ok_def register_effect by (auto simp: subset_iff)

lemma enroll_ok:
  assumes "pool_ok (supp s) (providers s) (resolver s)" "k \<in> dom (providers s)"
  shows "pool_ok (supp (enroll c k w s)) (providers (enroll c k w s)) (resolver (enroll c k w s))"
  unfolding enroll_effect by (rule pool_ok_insert [OF assms])

lemma enroll_all_ok:
  assumes "pool_ok (supp s) (providers s) (resolver s)" "k \<in> dom (providers s)"
  shows "pool_ok (supp (fold (\<lambda>(c, w). enroll c k w) cs s))
     (providers (fold (\<lambda>(c, w). enroll c k w) cs s)) (resolver (fold (\<lambda>(c, w). enroll c k w) cs s))"
  using assms
proof (induction cs arbitrary: s)
  case (Cons cw cs)
  then show ?case
    using enroll_ok [OF Cons.prems, of "fst cw" "snd cw"]
    by (simp add: case_prod_beta enroll_effect(2))
qed simp

lemma add_ok:
  assumes "pool_ok (supp s) (providers s) (resolver s)"
  shows "pool_ok (supp (fold (\<lambda>(c, w). enroll c k w) cs (register k p s)))
     (providers (fold (\<lambda>(c, w). enroll c k w) cs (register k p s)))
     (resolver (fold (\<lambda>(c, w). enroll c k w) cs (register k p s)))"
  by (rule enroll_all_ok [OF register_ok [OF assms]]) (simp add: register_effect)

end

interpretation rpc_pool: provider_pool http_chains rpc_providers rpc_weight_resolver
    rpc_register rpc_enroll
  by unfold_locales (simp_all add: rpc_register_def rpc_enroll_def)

interpretation ws_pool: provider_pool ws_chains ws_providers ws_weight_resolver
    ws_register ws_enroll
  by unfold_locales (simp_all add: ws_register_def ws_enroll_def)

interpretation balance_pool: provider_pool balance_namespaces balance_providers
    balance_weight_resolver balance_register balance_enroll
  by unfold_locales (simp_all add: balance_register_def balance_enroll_def)

lemma fold_chain_weights:
  "fold (\<lambda>(c, _, w). f c w) cs s = fold (\<lambda>(c, w). f c w) (map (\<lambda>(c, _, w). (c, w)) cs) s"
  by (induction cs arbitrary: s) auto

lemma add_rpc_provider_pool:
  "add_rpc_provider kind p cs r =
    fold (\<lambda>(c, w). rpc_enroll c kind w) (map (\<lambda>(c, _, w). (c, w)) cs) (rpc_register kind p r)"
  by (simp add: add_rpc_provider_def fold_chain_weights)

lemma add_ws_provider_pool:
  "add_ws_provider kind p cs r =
    fold (\<lambda>(c, w). ws_enroll c kind w) (map (\<lambda>(c, _, w). (c, w)) cs) (ws_register kind p r)"
  by (simp add: add_ws_provider_def fold_chain_weights)

text \<open>Each pool is untouched by the operations on the other two.\<close>

lemma fold_keeps: "(\<And>c w s. g (f c w s) = g s) \<Longrightarrow> g (fold (\<lambda>(c, w). f c w) cs s) = g s"
  by (induction cs arbitrary: s) auto

lemmas pool_op_defs =
  rpc_register_def rpc_enroll_def ws_register_def ws_enroll_def balance_register_def balance_enroll_def

definition repository_ok :: "('p, 'w, 'b) repository \<Rightarrow> bool" where
  "repository_ok r = (pool_ok (http_chains r) (rpc_providers r) (rpc_weight_resolver r)
     \<and> pool_ok (ws_chains r) (ws_providers r) (ws_weight_resolver r)
     \<and> pool_ok (balance_namespaces r) (balance_providers r) (balance_weight_resolver r))"

lemma rpc_ops_keep:
  "ws_chains (rpc_enroll c k w r) = ws_chains r" "ws_providers (rpc_enroll c k w r) = ws_providers r"
  "ws_weight_resolver (rpc_enroll c k w r) = ws_weight_resolver r"
  "balance_namespaces (rpc_enroll c k w r) = balance_namespaces r"
  "balance_providers (rpc_enroll c k w r) = balance_providers r"
  "balance_weight_resolver (rpc_enroll c k w r) = balance_weight_resolver r"
  by (simp_all add: rpc_enroll_def)

lemma ws_ops_keep:
  "http_chains (ws_enroll c k w r) = http_chains r"
  "rpc_providers (ws_enroll c k w r) = rpc_providers r"
  "rpc_weight_resolver (ws_enroll c k w r) = rpc_weight_resolver r"
  "balance_namespaces (ws_enroll c k w r) = balance_namespaces r"
  "balance_providers (ws_enroll c k w r) = balance_providers r"
  "balance_weight_resolver (ws_enroll c k w r) = balance_weight_resolver r"
  by (simp_all add: ws_enroll_def)

lemma balance_ops_keep:
  "http_chains (balance_enroll c k w r) = http_chains r"
  "rpc_providers (balance_enroll c k w r) = rpc_providers r"
  "rpc_weight_resolver (balance_enroll c k w r) = rpc_weight_resolver r"
  "ws_chains (balance_enroll c k w r) = ws_chains r"
  "ws_providers (balance_enroll c k w r) = ws_providers r"
  "ws_weight_resolver (balance_enroll c k w r) = ws_weight_resolver r"
  by (simp_all add: balance_enroll_def)

lemma repository_ok_new: "repository_ok repository_new"
  by (simp add: repository_ok_def repository_new_def pool_ok_def)

lemma repository_ok_rpc: "repository_ok r \<Longrightarrow> repository_ok (add_rpc_provider k p cs r)"
  unfolding repository_ok_def add_rpc_provider_pool
  using rpc_pool.add_ok [of r k "map (\<lambda>(c, _, w). (c, w)) cs" p]
  by (simp add: fold_keeps rpc_ops_keep) (simp add: rpc_register_def)

lemma repository_ok_ws: "repository_ok r \<Longrightarrow> repository_ok (add_ws_provider k p cs r)"
  unfolding repository_ok_def add_ws_provider_pool
  using ws_pool.add_ok [of r k "map (\<lambda>(c, _, w). (c, w)) cs" p]
  by (simp add: fold_keeps ws_ops_keep) (simp add: ws_register_def)

lemma repository_ok_balance: "repository_ok r \<Longrightarrow> repository_ok (add_balance_provider k p cs r)"
  unfolding repository_ok_def add_balance_provider_def
  using balance_pool.add_ok [of r k cs p]
  by (simp add: fold_keeps balance_ops_keep) (simp add: balance_register_def)

section \<open>Selection\<close>

text \<open>What the code relies on of \<open>WeightedIndex\<close>: it is built from weights that are not all zero (with a
  sum that fits) and not from weights that are all zero, it samples an index of non-zero weight, and
  a weight can be updated while another one stays non-zero.\<close>

definition sampler_laws :: "('d, 'r) sampler \<Rightarrow> ('d \<Rightarrow> u64 list) \<Rightarrow> bool" where
  "sampler_laws S repr = (
     (\<forall>ws. (\<exists>w\<in>set ws. 0 < w) \<and> sum_list (map unat ws) < 2 ^ 64 \<longrightarrow>
        (\<exists>d. wi_new S ws = Inr d \<and> repr d = ws)) \<and>
     (\<forall>ws. (\<forall>w\<in>set ws. w = 0) \<longrightarrow> (\<exists>e. wi_new S ws = Inl e)) \<and>
     (\<forall>d r. (\<exists>w\<in>set (repr d). 0 < w) \<longrightarrow>
        wi_sample S d r < length (repr d) \<and> 0 < repr d ! wi_sample S d r) \<and>
     (\<forall>d i w. i < length (repr d) \<and> (\<exists>v\<in>set ((repr d)[i := w]). 0 < v) \<longrightarrow>
        (\<exists>d'. wi_update S d i w = Inr d' \<and> repr d' = (repr d)[i := w])))"

definition nonzero_at :: "u64 list \<Rightarrow> nat set" where
  "nonzero_at ws = {i. i < length ws \<and> 0 < ws ! i}"

lemma finite_nonzero_at: "finite (nonzero_at ws)"
  by (simp add: nonzero_at_def)

lemma nonzero_at_zeroed: "nonzero_at (ws[i := 0]) = nonzero_at ws - {i}"
proof (rule set_eqI)
  fix x show "x \<in> nonzero_at (ws[i := 0]) \<longleftrightarrow> x \<in> nonzero_at ws - {i}"
    by (cases "x = i") (auto simp: nonzero_at_def)
qed

lemma nonzero_at_ex: "nonzero_at ws \<noteq> {} \<longleftrightarrow> (\<exists>w\<in>set ws. 0 < w)"
  by (force simp: nonzero_at_def in_set_conv_nth)

lemma card_nonzero_filter: "card (nonzero_at ws) = length (filter (\<lambda>x. 0 < x) ws)"
  by (simp add: nonzero_at_def length_filter_conv_card)

text \<open>The drawn keys have non-zero weight and are pairwise distinct.\<close>

lemma sample_loop_draws:
  assumes laws: "sampler_laws S repr"
    and "length (repr d) = length keys" "k \<le> card (nonzero_at (repr d))"
    and found: "\<forall>key\<in>set keys. lookup key \<noteq> None"
  shows "\<exists>is. distinct is \<and> length is = k \<and> set is \<subseteq> nonzero_at (repr d) \<and>
    sample_loop S rnd lookup keys e1 e2 k d = Inr (map (\<lambda>i. the (lookup (keys ! i))) is)"
  using assms(2,3)
proof (induction k arbitrary: d)
  case 0
  show ?case by (rule exI [of _ "[]"]) simp
next
  case (Suc k)
  let ?i = "wi_sample S d (rnd k)"
  have "nonzero_at (repr d) \<noteq> {}" using Suc.prems(2) by auto
  then have "\<exists>w\<in>set (repr d). 0 < w" by (simp only: nonzero_at_ex)
  then have s: "?i < length (repr d) \<and> 0 < repr d ! ?i"
    using laws unfolding sampler_laws_def by blast
  then have i: "?i \<in> nonzero_at (repr d)" and il: "?i < length keys"
    using Suc.prems(1) by (auto simp: nonzero_at_def)
  obtain p where p: "lookup (keys ! ?i) = Some p" using found il by fastforce
  have card: "k \<le> card (nonzero_at ((repr d)[?i := 0]))"
    using Suc.prems(2) i finite_nonzero_at by (simp add: nonzero_at_zeroed)
  show ?case
  proof (cases k)
    case 0
    then show ?thesis
      using il p i by (intro exI [of _ "[?i]"]) simp
  next
    case (Suc m)
    then have "nonzero_at ((repr d)[?i := 0]) \<noteq> {}" using card by auto
    then have "\<exists>v\<in>set ((repr d)[?i := 0]). 0 < v" by (simp only: nonzero_at_ex)
    moreover have "?i < length (repr d)" using il Suc.prems(1) by simp
    ultimately obtain d' where d': "wi_update S d ?i 0 = Inr d'" "repr d' = (repr d)[?i := 0]"
      using laws unfolding sampler_laws_def by blast
    obtain js where js: "distinct js" "length js = k" "set js \<subseteq> nonzero_at (repr d')"
      "sample_loop S rnd lookup keys e1 e2 k d' = Inr (map (\<lambda>i. the (lookup (keys ! i))) js)"
      using Suc.IH [of d'] Suc.prems(1) card d'(2) by auto
    have "set (?i # js) \<subseteq> nonzero_at (repr d)" "distinct (?i # js)"
      using js(1,3) i d'(2) by (auto simp: nonzero_at_zeroed)
    then show ?thesis
      using js(2,4) il p d'(1) Suc by (intro exI [of _ "?i # js"]) simp
  qed
qed

lemma rpc_weights_all_positive:
  "filter (\<lambda>x. 0 < x) (rpc_weights es) = rpc_weights es"
  by (rule filter_True) (auto simp: rpc_weights_def less_max_iff_disj)

lemma length_rpc_weights [simp]: "length (rpc_weights es) = length es"
  by (simp add: rpc_weights_def)

lemma distinct_picked:
  assumes "distinct (map fst es)" "distinct is" "set is \<subseteq> {..<length es}"
  shows "distinct (map (\<lambda>i. map fst es ! i) is)"
proof -
  have "inj_on (\<lambda>i. map fst es ! i) (set is)"
    by (rule inj_onI)
      (use assms(3) nth_eq_iff_index_eq [OF assms(1)] in \<open>auto simp: subset_iff simp del: nth_map\<close>)
  with assms(2) show ?thesis by (simp only: distinct_map)
qed

lemma sum_bound:
  "(\<And>x. x \<in> set xs \<Longrightarrow> f x \<le> (b::nat)) \<Longrightarrow> sum_list (map f xs) \<le> length xs * b"
  by (induction xs) (auto simp: add_mono)

lemma rpc_selection:
  assumes laws: "sampler_laws S repr" and ok: "repository_ok r"
    and es: "rpc_weight_resolver r chain = Some es"
    and fits: "sum_list (map unat (rpc_weights es)) < 2 ^ 64"
  shows "\<exists>ks. distinct ks \<and> length ks = min n (length es) \<and> set ks \<subseteq> fst ` set es \<and>
    get_rpc_provider_for_chain_id S rnd r chain n = Inr (map (\<lambda>k. the (rpc_providers r k)) ks)"
proof -
  let ?ws = "rpc_weights es" and ?keys = "map fst es"
  have pool: "es \<noteq> []" "distinct ?keys" "fst ` set es \<subseteq> dom (rpc_providers r)"
    using ok es by (auto simp: repository_ok_def pool_ok_def)
  have "\<exists>w\<in>set ?ws. 0 < w" using pool(1) by (cases es) (auto simp: rpc_weights_def less_max_iff_disj)
  with fits obtain d where d: "wi_new S ?ws = Inr d" "repr d = ?ws"
    using laws unfolding sampler_laws_def by blast
  have card: "card (nonzero_at (repr d)) = length es"
    using d(2) by (simp only: card_nonzero_filter rpc_weights_all_positive length_rpc_weights)
  obtain js where idx: "distinct js" "length js = min n (length es)" "set js \<subseteq> nonzero_at (repr d)"
    "sample_loop S rnd (rpc_providers r) ?keys (''Failed to get random provider for chain_id: '' @ chain)
       ''Provider not found during the weighted index check: '' (min n (length es)) d
     = Inr (map (\<lambda>i. the (rpc_providers r (?keys ! i))) js)"
    using sample_loop_draws [OF laws, of d ?keys "min n (length es)" "rpc_providers r"] pool(3) card d(2)
    by fastforce
  have sub: "set js \<subseteq> {..<length es}" using idx(3) d(2) by (auto simp: nonzero_at_def)
  show ?thesis
  proof (intro exI conjI)
    show "distinct (map (\<lambda>i. ?keys ! i) js)" by (rule distinct_picked [OF pool(2) idx(1) sub])
    show "set (map (\<lambda>i. ?keys ! i) js) \<subseteq> fst ` set es" using sub by force
    show "get_rpc_provider_for_chain_id S rnd r chain n =
        Inr (map (\<lambda>k. the (rpc_providers r k)) (map (\<lambda>i. ?keys ! i) js))"
      using es pool(1) d(1) idx(4) rpc_weights_all_positive [of es]
      by (simp add: get_rpc_provider_for_chain_id_def Let_def comp_def)
  qed (simp add: idx(2))
qed

lemma minimal_weight_value_eq: "minimal_weight_value = 1"
  by (simp add: minimal_weight_value_def weight_new_def priority_value_new_def MAX_PRIORITY_def)

definition high_entries :: "(provider_kind \<times> weight) list \<Rightarrow> (provider_kind \<times> weight) list" where
  "high_entries es = filter (\<lambda>(_, w). 1 < w_value w) es"

definition minimal_providers ::
  "(provider_kind \<Rightarrow> 'b option) \<Rightarrow> (provider_kind \<times> weight) list \<Rightarrow> 'b list" where
  "minimal_providers lookup es =
     List.map_filter (\<lambda>(kind, _). lookup kind) (filter (\<lambda>(_, w). w_value w = 1) es)"

lemma balance_selection:
  assumes laws: "sampler_laws S repr" and ok: "repository_ok r"
    and es: "balance_weight_resolver r ns = Some es"
    and fits: "sum_list (map (\<lambda>e. unat (w_value (snd e))) (high_entries es)) < 2 ^ 64"
  shows "\<exists>ks. distinct ks \<and> length ks = min n (length (high_entries es)) \<and>
    set ks \<subseteq> fst ` set (high_entries es) \<and>
    get_balance_provider_for_namespace S rnd r ns n =
      Inr (map (\<lambda>k. the (balance_providers r k)) ks
           @ take (n - length ks) (minimal_providers (balance_providers r) es))"
proof -
  let ?high = "high_entries es"
  let ?ws = "map (\<lambda>(_, w). w_value w) ?high" and ?keys = "map fst ?high"
  have pool: "es \<noteq> []" "distinct (map fst es)" "fst ` set es \<subseteq> dom (balance_providers r)"
    using ok es by (auto simp: repository_ok_def pool_ok_def)
  have dk: "distinct ?keys" using pool(2) by (simp add: high_entries_def distinct_map_filter)
  note folds = get_balance_provider_for_namespace_def minimal_weight_value_eq
    high_entries_def [symmetric] minimal_providers_def [symmetric]
  show ?thesis
  proof (cases "?high = []")
    case True
    then show ?thesis using es pool(1) by (intro exI [of _ "[]"]) (simp add: folds Let_def)
  next
    case False
    have pos: "filter (\<lambda>x. 0 < x) ?ws = ?ws"
      by (rule filter_True) (auto simp: high_entries_def word_gt_0)
    have "\<exists>w\<in>set ?ws. 0 < w" using False pos by (metis filter_False list.map_disc_iff)
    moreover have "sum_list (map unat ?ws) < 2 ^ 64"
      using fits by (simp add: comp_def case_prod_beta')
    ultimately obtain d where d: "wi_new S ?ws = Inr d" "repr d = ?ws"
      using laws unfolding sampler_laws_def by blast
    have card: "card (nonzero_at (repr d)) = length ?high"
      using d(2) by (simp only: card_nonzero_filter pos length_map)
    have found: "\<forall>key\<in>set ?keys. balance_providers r key \<noteq> None"
      using pool(3) by (auto simp: high_entries_def)
    obtain js where idx: "distinct js" "length js = min n (length ?high)" "set js \<subseteq> nonzero_at (repr d)"
      "sample_loop S rnd (balance_providers r) ?keys
         (''Failed to get random balance provider for namespace: '' @ namespace_display ns)
         ''Balance provider not found during the weighted index check: '' (min n (length ?high)) d
       = Inr (map (\<lambda>i. the (balance_providers r (?keys ! i))) js)"
      using sample_loop_draws [OF laws, of d ?keys "min n (length ?high)" "balance_providers r"]
        found card d(2) by fastforce
    have sub: "set js \<subseteq> {..<length ?high}" using idx(3) d(2) by (auto simp: nonzero_at_def)
    show ?thesis
    proof (intro exI conjI)
      show "distinct (map (\<lambda>i. ?keys ! i) js)" by (rule distinct_picked [OF dk idx(1) sub])
      show "set (map (\<lambda>i. ?keys ! i) js) \<subseteq> fst ` set ?high" using sub by force
      show "get_balance_provider_for_namespace S rnd r ns n =
          Inr (map (\<lambda>k. the (balance_providers r k)) (map (\<lambda>i. ?keys ! i) js)
            @ take (n - length (map (\<lambda>i. ?keys ! i) js)) (minimal_providers (balance_providers r) es))"
        using es pool(1) d(1) idx(4) False by (simp add: folds Let_def comp_def)
    qed (simp add: idx(2))
  qed
qed

lemma weight_new_wf:
  "weight_new p = Inr w \<Longrightarrow> w_value w = w_priority w \<and> w_priority w \<le> 100"
  by (auto simp: weight_new_def res_simps priority_value_new_def MAX_PRIORITY_def split: if_splits)

lemma weight_new_total:
  "is_ok (weight_new p) \<longleftrightarrow> (case p of Prio_Custom v \<Rightarrow> v \<le> 100 | _ \<Rightarrow> True)"
  by (cases p) (auto simp: weight_new_def priority_value_new_def MAX_PRIORITY_def)

text \<open>A weight is created exactly from the named priorities and the custom ones up to 100, with
  its priority as value, and setting a value of at most 10000 (the scale of the availability)
  computes the exact product with the priority over 50, without wrap-around and at most 20000.\<close>

theorem weight_lifecycle:
  assumes "weight_new p = Inr w" "unat v \<le> 10000"
  shows "w_value w = w_priority w \<and> w_priority w \<le> 100
    \<and> unat (w_value (weight_update_value v w)) = unat v * unat (w_priority w) div 50
    \<and> unat (w_value (weight_update_value v w)) \<le> 20000
    \<and> w_priority (weight_update_value v w) = w_priority w"
proof -
  have wf: "w_value w = w_priority w" "w_priority w \<le> 100" using weight_new_wf [OF assms(1)] by auto
  then have p: "unat (w_priority w) \<le> 100" by (simp add: word_le_nat_alt)
  have "unat v * unat (w_priority w) \<le> 10000 * 100" using assms(2) p by (rule mult_le_mono)
  then have "unat (v * w_priority w) = unat v * unat (w_priority w)"
    by (intro unat_mult_exact) simp
  then have eq: "unat (w_value (weight_update_value v w)) = unat v * unat (w_priority w) div 50"
    by (simp add: weight_update_value_def MAX_PRIORITY_def unat_div)
  have "unat v * unat (w_priority w) div 50 \<le> 10000 * 100 div 50"
    using \<open>unat v * unat (w_priority w) \<le> 10000 * 100\<close> by (rule div_le_mono)
  then have le: "unat (w_value (weight_update_value v w)) \<le> 20000" unfolding eq by simp
  have pr: "w_priority (weight_update_value v w) = w_priority w"
    by (simp add: weight_update_value_def)
  show ?thesis by (intro conjI wf eq le pr)
qed

lemma weight_lifecycle_witness:
  "\<exists>w. weight_new Prio_High = Inr w \<and> unat (w_value (weight_update_value 10000 w)) = 15000"
proof -
  have n: "weight_new Prio_High = Inr \<lparr> w_value = 75, w_priority = 75 \<rparr>"
    by (simp add: weight_new_def priority_value_new_def MAX_PRIORITY_def)
  from weight_lifecycle [OF n, of 10000] show ?thesis using n by simp
qed

text \<open>C22: in every repository built by registering providers, each pool stays consistent: the supported
  chains are exactly those with a resolver entry, each entry lists distinct kinds, and every listed
  kind has a registered provider.\<close>

theorem repository_registration_invariant:
  assumes "repository_ok r"
  shows "repository_ok (repository_new :: ('p, 'w, 'b) repository)
    \<and> repository_ok (add_rpc_provider kind rpc chains1 r)
    \<and> repository_ok (add_ws_provider kind ws chains2 r)
    \<and> repository_ok (add_balance_provider kind bal spaces r)"
  by (intro conjI repository_ok_new repository_ok_rpc repository_ok_ws repository_ok_balance assms)

lemma repository_registration_invariant_witness:
  "repository_ok (add_rpc_provider PK_Pokt (1::nat)
     [(''eip155:1'', ''eth'', \<lparr> w_value = 50, w_priority = 50 \<rparr>)]
     (repository_new :: (nat, nat, nat) repository))"
proof -
  have "repository_ok (repository_new :: (nat, nat, nat) repository)"
    by (simp add: repository_ok_def repository_new_def pool_ok_def)
  from repository_registration_invariant [OF this] show ?thesis by blast
qed

text \<open>C4: for a supported chain the selection never fails: it returns as many pairwise distinct
  providers registered for the chain as asked for and available (all of them, providers of weight
  zero included, when enough are asked for); only an unsupported chain is an error.\<close>

theorem rpc_provider_selection:
  assumes "sampler_laws S repr" "repository_ok r"
    and "\<And>es. rpc_weight_resolver r chain = Some es \<Longrightarrow> sum_list (map unat (rpc_weights es)) < 2 ^ 64"
  shows "(chain \<notin> http_chains r \<longrightarrow>
        get_rpc_provider_for_chain_id S rnd r chain n = Inl (RE_UnsupportedChain chain))
    \<and> (chain \<in> http_chains r \<longrightarrow> (\<exists>es ks. rpc_weight_resolver r chain = Some es
          \<and> distinct ks \<and> length ks = min n (length es) \<and> set ks \<subseteq> fst ` set es
          \<and> (length es \<le> n \<longrightarrow> set ks = fst ` set es)
          \<and> get_rpc_provider_for_chain_id S rnd r chain n
              = Inr (map (\<lambda>k. the (rpc_providers r k)) ks)))"
proof (cases "rpc_weight_resolver r chain")
  case None
  then show ?thesis
    using assms(2) by (auto simp: repository_ok_def pool_ok_def get_rpc_provider_for_chain_id_def)
next
  case (Some es)
  obtain ks where ks: "distinct ks" "length ks = min n (length es)" "set ks \<subseteq> fst ` set es"
    "get_rpc_provider_for_chain_id S rnd r chain n = Inr (map (\<lambda>k. the (rpc_providers r k)) ks)"
    using rpc_selection [OF assms(1,2) Some assms(3) [OF Some]] by blast
  have "chain \<in> http_chains r" "distinct (map fst es)"
    using assms(2) Some by (auto simp: repository_ok_def pool_ok_def)
  moreover have "set ks = fst ` set es" if "length es \<le> n"
  proof (rule card_subset_eq)
    show "card (set ks) = card (fst ` set es)"
      using ks(1,2) that distinct_card [OF \<open>distinct (map fst es)\<close>] by (simp add: distinct_card)
  qed (use ks(3) in auto)
  ultimately show ?thesis using ks Some by auto
qed

text \<open>A concrete sampler: the first index of non-zero weight.\<close>

fun first_nonzero :: "u64 list \<Rightarrow> nat" where
  "first_nonzero [] = 0"
| "first_nonzero (w # ws) = (if 0 < w then 0 else Suc (first_nonzero ws))"

definition first_sampler :: "(u64 list, unit) sampler" where
  "first_sampler = \<lparr> wi_new = (\<lambda>ws. if list_ex (\<lambda>w. 0 < w) ws then Inr ws else Inl ''AllWeightsZero''),
     wi_sample = (\<lambda>ws _. first_nonzero ws), wi_update = (\<lambda>ws i w. Inr (ws[i := w])) \<rparr>"

lemma first_nonzero_ok:
  "\<exists>w\<in>set ws. 0 < w \<Longrightarrow> first_nonzero ws < length ws \<and> 0 < ws ! first_nonzero ws"
  by (induction ws) auto

lemma first_sampler_laws: "sampler_laws first_sampler (\<lambda>ws. ws)"
  unfolding sampler_laws_def first_sampler_def using first_nonzero_ok
  by (auto simp: list_ex_iff word_gt_0)

definition two_providers :: "(nat, nat, nat) repository" where
  "two_providers = add_rpc_provider PK_Quicknode 2
      [(''eip155:1'', ''eth'', \<lparr> w_value = 0, w_priority = 0 \<rparr>)]
    (add_rpc_provider PK_Pokt 1 [(''eip155:1'', ''eth'', \<lparr> w_value = 50, w_priority = 50 \<rparr>)]
      repository_new)"

lemma rpc_provider_selection_witness:
  "\<exists>ks. set ks = {PK_Pokt, PK_Quicknode} \<and> get_rpc_provider_for_chain_id first_sampler (\<lambda>_. ())
     two_providers ''eip155:1'' 5 = Inr (map (\<lambda>k. the (rpc_providers two_providers k)) ks)"
proof -
  have ok: "repository_ok two_providers"
    by (simp add: two_providers_def repository_ok_rpc repository_ok_new)
  have e: "rpc_weight_resolver two_providers ''eip155:1'' = Some
     [(PK_Pokt, \<lparr> w_value = 50, w_priority = 50 \<rparr>), (PK_Quicknode, \<lparr> w_value = 0, w_priority = 0 \<rparr>)]"
    and h: "''eip155:1'' \<in> http_chains two_providers"
    by (simp_all add: two_providers_def add_rpc_provider_def rpc_enroll_def rpc_register_def
        resolver_insert_def repository_new_def)
  have f: "sum_list (map unat (rpc_weights es)) < 2 ^ 64"
    if "rpc_weight_resolver two_providers ''eip155:1'' = Some es" for es
    using that e by (auto simp: rpc_weights_def max_def)
  show ?thesis
    using rpc_provider_selection [where chain = "''eip155:1''" and rnd = "\<lambda>_. ()" and n = 5,
        OF first_sampler_laws ok f] h e by auto
qed

text \<open>The balance providers of a namespace come in order of preference: first distinct providers of
  weight above the minimum, as many as asked for and available, then providers of minimal weight up
  to the number asked for; providers of weight zero are never returned.\<close>

theorem balance_provider_selection:
  assumes "sampler_laws S repr" "repository_ok r" "balance_weight_resolver r ns = Some es"
    and "sum_list (map (\<lambda>e. unat (w_value (snd e))) (high_entries es)) < 2 ^ 64"
  shows "\<exists>ks. distinct ks \<and> length ks = min n (length (high_entries es))
    \<and> (\<forall>k\<in>set ks. \<exists>w. (k, w) \<in> set es \<and> 1 < w_value w)
    \<and> get_balance_provider_for_namespace S rnd r ns n =
      Inr (map (\<lambda>k. the (balance_providers r k)) ks
           @ take (n - length ks) (minimal_providers (balance_providers r) es))"
proof -
  obtain ks where ks: "distinct ks" "length ks = min n (length (high_entries es))"
    "set ks \<subseteq> fst ` set (high_entries es)"
    "get_balance_provider_for_namespace S rnd r ns n =
      Inr (map (\<lambda>k. the (balance_providers r k)) ks
           @ take (n - length ks) (minimal_providers (balance_providers r) es))"
    using balance_selection [OF assms, of n rnd] by blast
  moreover have "\<forall>k\<in>set ks. \<exists>w. (k, w) \<in> set es \<and> 1 < w_value w"
  proof
    fix k assume "k \<in> set ks"
    then obtain w where "(k, w) \<in> set (high_entries es)" using ks(3) by auto
    then show "\<exists>w. (k, w) \<in> set es \<and> 1 < w_value w" by (auto simp: high_entries_def)
  qed
  ultimately show ?thesis by blast
qed

lemma balance_provider_selection_witness:
  "\<exists>r :: (nat, nat, nat) repository. get_balance_provider_for_namespace first_sampler (\<lambda>_. ()) r Ton 2
     = Inr [7]"
proof -
  define r :: "(nat, nat, nat) repository" where
    "r = add_balance_provider PK_Zerion 7 [(Ton, \<lparr> w_value = 1, w_priority = 1 \<rparr>)] repository_new"
  have e: "balance_weight_resolver r Ton = Some [(PK_Zerion, \<lparr> w_value = 1, w_priority = 1 \<rparr>)]"
    and p: "balance_providers r PK_Zerion = Some 7"
    by (simp_all add: r_def add_balance_provider_def balance_enroll_def balance_register_def
        resolver_insert_def repository_new_def)
  have ok: "repository_ok r" by (simp add: r_def repository_ok_balance repository_ok_new)
  have h: "high_entries [(PK_Zerion, \<lparr> w_value = 1, w_priority = 1 \<rparr>)] = []"
    and m: "minimal_providers (balance_providers r) [(PK_Zerion, \<lparr> w_value = 1, w_priority = 1 \<rparr>)] = [7]"
    by (simp_all add: high_entries_def minimal_providers_def p List.map_filter_def)
  have "sum_list (map (\<lambda>e. unat (w_value (snd e)))
      (high_entries [(PK_Zerion, \<lparr> w_value = 1, w_priority = 1 \<rparr>)])) < 2 ^ 64"
    by (simp add: h)
  from balance_provider_selection [OF first_sampler_laws ok e this, of 2 "\<lambda>_. ()"]
  obtain ks where "length ks = 0" "get_balance_provider_for_namespace first_sampler (\<lambda>_. ()) r Ton 2
      = Inr (map (\<lambda>k. the (balance_providers r k)) ks @ take (2 - length ks) [7])"
    unfolding h m by auto
  then have "get_balance_provider_for_namespace first_sampler (\<lambda>_. ()) r Ton 2 = Inr [7]" by simp
  then show ?thesis by blast
qed

end
