(* ===== verification/Registration.thy ===== *)
theory Registration
  imports Repository
begin

text \<open>
  Provider configurations and their registration: how the tables of \<open>env/*.rs\<close> become weights, how the
  access tokens filter them, and what the repository holds after a list of configurations has been
  added.  A configuration is an option, \<open>None\<close> standing for the panic of \<open>Weight::new(..).unwrap()\<close>.
\<close>

type_synonym chain_table = "(string \<times> string \<times> priority) list"
type_synonym chain_weights = "(string \<times> string \<times> weight) list"
type_synonym chain_config = "string \<times> string \<times> (string \<times> priority) list"

section \<open>Provider configurations\<close>

record provider_config =
  pc_kind :: provider_kind
  pc_chains :: chain_weights
  pc_ws_chains :: chain_weights

text \<open>\<open>HashMap::from([(chain, (url, Weight::new(priority).unwrap())), ..])\<close>.\<close>

fun default_chains :: "chain_table \<Rightarrow> chain_weights option" where
  "default_chains [] = Some []"
| "default_chains ((chain, url, priority) # rows) =
    (case weight_new priority of
       Inl _ \<Rightarrow> None
     | Inr w \<Rightarrow> map_option (\<lambda>ws. (chain, url, w) # ws) (default_chains rows))"

text \<open>The \<open>filter_map\<close> over the access tokens: chains without a token are skipped.\<close>

definition extract_supported ::
  "(string \<Rightarrow> string option) option \<Rightarrow> chain_table \<Rightarrow> chain_weights" where
  "extract_supported access_tokens rows = (case access_tokens of
      None \<Rightarrow> []
    | Some tokens \<Rightarrow> List.map_filter (\<lambda>(chain, _, priority).
        (case tokens chain of
           None \<Rightarrow> None
         | Some token \<Rightarrow>
            (case weight_new priority of
               Inl _ \<Rightarrow> None
             | Inr w \<Rightarrow> Some (chain, token, w)))) rows)"

definition config_new ::
  "provider_kind \<Rightarrow> chain_table \<Rightarrow> chain_table \<Rightarrow> provider_config option" where
  "config_new kind rows ws_rows =
    (case default_chains rows of
       None \<Rightarrow> None
     | Some rpc \<Rightarrow>
        (case default_chains ws_rows of
           None \<Rightarrow> None
         | Some ws \<Rightarrow> Some \<lparr> pc_kind = kind, pc_chains = rpc, pc_ws_chains = ws \<rparr>))"

text \<open>The configuration of a generic provider; \<open>b64\<close> is the base64 encoding of its identifier.\<close>

definition generic_config ::
  "(string \<Rightarrow> string) \<Rightarrow> string \<Rightarrow> string \<times> priority \<Rightarrow> provider_config option" where
  "generic_config b64 caip2 = (\<lambda>(url, priority).
    (case weight_new priority of
       Inl _ \<Rightarrow> None
     | Inr w \<Rightarrow> Some \<lparr> pc_kind = PK_Generic (b64 (caip2 @ ''-'' @ url)),
         pc_chains = [(caip2, url, w)], pc_ws_chains = [] \<rparr>))"

fun default_namespaces :: "(caip_namespace \<times> priority) list \<Rightarrow> (caip_namespace \<times> weight) list option" where
  "default_namespaces [] = Some []"
| "default_namespaces ((ns, priority) # rows) =
    (case weight_new priority of
       Inl _ \<Rightarrow> None
     | Inr w \<Rightarrow> map_option (\<lambda>ws. (ns, w) # ws) (default_namespaces rows))"

text \<open>The object constructors: RPC, WebSocket and balance providers by kind.\<close>

record ('p, 'w, 'b) factories =
  new_rpc :: "provider_kind \<Rightarrow> 'p"
  new_ws :: "provider_kind \<Rightarrow> 'w"
  new_balance :: "provider_kind \<Rightarrow> 'b"

definition add_rpc_config ::
  "('p, 'w, 'b) factories \<Rightarrow> provider_config option \<Rightarrow> ('p, 'w, 'b) repository option
    \<Rightarrow> ('p, 'w, 'b) repository option" where
  "add_rpc_config F cfg repo = (case (repo, cfg) of
      (Some r, Some c) \<Rightarrow> Some (add_rpc_provider (pc_kind c) (new_rpc F (pc_kind c)) (pc_chains c) r)
    | _ \<Rightarrow> None)"

definition add_ws_config ::
  "('p, 'w, 'b) factories \<Rightarrow> provider_config option \<Rightarrow> ('p, 'w, 'b) repository option
    \<Rightarrow> ('p, 'w, 'b) repository option" where
  "add_ws_config F cfg repo = (case (repo, cfg) of
      (Some r, Some c) \<Rightarrow> Some (add_ws_provider (pc_kind c) (new_ws F (pc_kind c)) (pc_ws_chains c) r)
    | _ \<Rightarrow> None)"

definition add_balance_config ::
  "('p, 'w, 'b) factories \<Rightarrow> provider_kind \<Rightarrow> (caip_namespace \<times> weight) list option
    \<Rightarrow> ('p, 'w, 'b) repository option \<Rightarrow> ('p, 'w, 'b) repository option" where
  "add_balance_config F kind rows repo = (case (repo, rows) of
      (Some r, Some ws) \<Rightarrow> Some (add_balance_provider kind (new_balance F kind) ws r)
    | _ \<Rightarrow> None)"

section \<open>Valid rows\<close>

definition row_ok :: "string \<times> string \<times> priority \<Rightarrow> bool" where
  "row_ok row = is_ok (weight_new (snd (snd row)))"

definition row_weight :: "string \<times> string \<times> priority \<Rightarrow> string \<times> string \<times> weight" where
  "row_weight row = (fst row, fst (snd row), projr (weight_new (snd (snd row))))"

lemma default_chains_total:
  "list_all row_ok rows \<Longrightarrow> default_chains rows = Some (map row_weight rows)"
  by (induction rows rule: default_chains.induct)
    (auto simp: row_ok_def row_weight_def res_simps split: sum.splits)

lemma default_namespaces_total:
  "list_all (\<lambda>row. is_ok (weight_new (snd row))) rows \<Longrightarrow>
    default_namespaces rows = Some (map (\<lambda>(ns, p). (ns, projr (weight_new p))) rows)"
  by (induction rows rule: default_namespaces.induct) (auto simp: res_simps split: sum.splits)

section \<open>Registration of a list of configurations\<close>

text \<open>The weight registered for a chain and a kind.\<close>

definition weight_at :: "('p, 'w, 'b) repository \<Rightarrow> string \<Rightarrow> provider_kind \<Rightarrow> weight option" where
  "weight_at r c k = (case rpc_weight_resolver r c of None \<Rightarrow> None | Some es \<Rightarrow> map_of es k)"

lemma weight_at_enroll:
  "weight_at (rpc_enroll c k w r) c' k' = (if c' = c \<and> k' = k then Some w else weight_at r c' k')"
  by (auto simp: weight_at_def rpc_enroll_def resolver_insert_def update_conv' split: option.splits)

lemma weight_at_enroll_other:
  "k' \<noteq> k \<or> c' \<notin> fst ` set cs \<Longrightarrow>
    weight_at (fold (\<lambda>(c, _, w). rpc_enroll c k w) cs r) c' k' = weight_at r c' k'"
  by (induction cs arbitrary: r) (auto simp: weight_at_enroll)

lemma weight_at_enroll_row:
  "distinct (map fst cs) \<Longrightarrow> (c, u, w) \<in> set cs \<Longrightarrow>
    weight_at (fold (\<lambda>(c, _, w). rpc_enroll c k w) cs r) c k = Some w"
proof (induction cs arbitrary: r)
  case (Cons a cs)
  show ?case
  proof (cases "a = (c, u, w)")
    case True
    with Cons.prems(1) have "c \<notin> fst ` set cs" by auto
    then show ?thesis using True by (simp add: weight_at_enroll_other weight_at_enroll)
  next
    case False
    with Cons show ?thesis by simp
  qed
qed simp

lemma weight_at_register: "weight_at (rpc_register k p r) c' k' = weight_at r c' k'"
  by (simp add: weight_at_def rpc_register_def)

lemma weight_at_add_other:
  "k' \<noteq> k \<or> c' \<notin> fst ` set cs \<Longrightarrow> weight_at (add_rpc_provider k p cs r) c' k' = weight_at r c' k'"
  unfolding add_rpc_provider_def by (simp only: weight_at_enroll_other weight_at_register)

lemma weight_at_add_row:
  "distinct (map fst cs) \<Longrightarrow> (c, u, w) \<in> set cs \<Longrightarrow>
    weight_at (add_rpc_provider k p cs r) c k = Some w"
  unfolding add_rpc_provider_def by (rule weight_at_enroll_row)

lemma http_chains_enroll_all:
  "http_chains (fold (\<lambda>(c, _, w). rpc_enroll c k w) cs r) = fst ` set cs \<union> http_chains r"
  by (induction cs arbitrary: r) (auto simp: rpc_enroll_def)

lemma http_chains_add: "http_chains (add_rpc_provider k p cs r) = fst ` set cs \<union> http_chains r"
  unfolding add_rpc_provider_def http_chains_enroll_all by (simp add: rpc_register_def)

definition add_configs ::
  "('p, 'w, 'b) factories \<Rightarrow> provider_config list \<Rightarrow> ('p, 'w, 'b) repository \<Rightarrow> ('p, 'w, 'b) repository"
where
  "add_configs F cs r =
     fold (\<lambda>c. add_rpc_provider (pc_kind c) (new_rpc F (pc_kind c)) (pc_chains c)) cs r"

lemma fold_add_rpc_config:
  "fold (add_rpc_config F) (map Some cs) (Some r) = Some (add_configs F cs r)"
  by (induction cs arbitrary: r) (simp_all add: add_rpc_config_def add_configs_def)

lemma add_configs_ok: "repository_ok r \<Longrightarrow> repository_ok (add_configs F cs r)"
  by (induction cs arbitrary: r) (simp_all add: add_configs_def repository_ok_rpc)

lemma add_configs_chains:
  "http_chains (add_configs F cs r) = (\<Union>c\<in>set cs. fst ` set (pc_chains c)) \<union> http_chains r"
  by (induction cs arbitrary: r) (auto simp: add_configs_def http_chains_add)

lemma add_configs_other:
  "k \<notin> pc_kind ` set cs \<Longrightarrow> weight_at (add_configs F cs r) c k = weight_at r c k"
  by (induction cs arbitrary: r) (auto simp: add_configs_def weight_at_add_other)

lemma add_configs_weight:
  assumes "distinct (map pc_kind cs)" "cfg \<in> set cs" "distinct (map fst (pc_chains cfg))"
    "(c, u, w) \<in> set (pc_chains cfg)"
  shows "weight_at (add_configs F cs r) c (pc_kind cfg) = Some w"
  using assms
proof (induction cs arbitrary: r)
  case (Cons a cs)
  show ?case
  proof (cases "a = cfg")
    case True
    with Cons.prems have "pc_kind cfg \<notin> pc_kind ` set cs" by auto
    then have "weight_at (add_configs F cs r') c (pc_kind cfg) = weight_at r' c (pc_kind cfg)" for r'
      by (rule add_configs_other)
    then show ?thesis
      using weight_at_add_row [OF Cons.prems(3,4)] True by (simp add: add_configs_def)
  next
    case False
    with Cons show ?thesis by (simp add: add_configs_def)
  qed
qed simp

lemma weight_at_add_source:
  assumes "weight_at (add_rpc_provider k p cs r) c k' = Some w"
  shows "(k' = k \<and> (\<exists>u. (c, u, w) \<in> set cs)) \<or> weight_at r c k' = Some w"
proof -
  have src: "(k' = k \<and> (\<exists>u. (c, u, w) \<in> set cs)) \<or> weight_at r c k' = Some w"
    if "weight_at (fold (\<lambda>(c, _, w). rpc_enroll c k w) cs r) c k' = Some w" for r
    using that
  proof (induction cs arbitrary: r)
    case (Cons a cs)
    from Cons.IH [of "rpc_enroll (fst a) k (snd (snd a)) r"] Cons.prems
    show ?case by (cases a) (auto simp: weight_at_enroll split: if_splits)
  qed simp
  from src [OF assms [unfolded add_rpc_provider_def]] show ?thesis
    by (simp add: weight_at_register)
qed

lemma add_configs_source:
  "weight_at (add_configs F cs r) c k = Some w \<Longrightarrow>
    (\<exists>cfg\<in>set cs. pc_kind cfg = k \<and> (\<exists>u. (c, u, w) \<in> set (pc_chains cfg)))
    \<or> weight_at r c k = Some w"
proof (induction cs arbitrary: r)
  case (Cons cfg cs)
  let ?r = "add_rpc_provider (pc_kind cfg) (new_rpc F (pc_kind cfg)) (pc_chains cfg) r"
  have "weight_at (add_configs F cs ?r) c k = Some w" using Cons.prems by (simp add: add_configs_def)
  from Cons.IH [OF this] weight_at_add_source [of "pc_kind cfg" _ "pc_chains cfg" r c k w]
  show ?case by auto
qed (simp add: add_configs_def)

section \<open>Rows and tokens\<close>

lemma row_weight_fst: "map fst (map row_weight rows) = map fst rows"
  by (induction rows) (auto simp: row_weight_def)

lemma extract_supported_rows:
  assumes "list_all row_ok rows"
  shows "extract_supported (Some m) rows =
    List.map_filter (\<lambda>row. map_option (\<lambda>t. (fst row, t, snd (snd (row_weight row)))) (m (fst row))) rows"
  using assms unfolding extract_supported_def
  by (induction rows) (auto simp: List.map_filter_simps row_ok_def row_weight_def res_simps
      split: option.splits sum.splits)

lemma extract_supported_distinct:
  assumes "list_all row_ok rows" "distinct (map fst rows)"
  shows "distinct (map fst (extract_supported tokens rows))"
proof (cases tokens)
  case None
  then show ?thesis by (simp add: extract_supported_def)
next
  case (Some m)
  have sub: "fst ` set (extract_supported (Some m) rows) \<subseteq> fst ` set rows" if "list_all row_ok rows" for rows
    using that by (auto simp: extract_supported_rows List.map_filter_def intro: rev_image_eqI)
  show ?thesis
    using assms unfolding Some
  proof (induction rows)
    case (Cons row rows)
    have "extract_supported (Some m) (row # rows) =
        (case m (fst row) of None \<Rightarrow> [] | Some t \<Rightarrow> [(fst row, t, snd (snd (row_weight row)))])
        @ extract_supported (Some m) rows"
      using Cons.prems by (simp add: extract_supported_rows List.map_filter_simps split: option.splits)
    then show ?case using Cons sub [of rows] by (auto split: option.splits)
  qed (simp add: extract_supported_def)
qed

definition bounded_chains :: "chain_weights \<Rightarrow> bool" where
  "bounded_chains rows = list_all (\<lambda>(_, _, w). w_value w \<le> 100) rows"

lemma row_weight_bounded:
  assumes "list_all row_ok rows"
  shows "bounded_chains (map row_weight rows)"
proof -
  have "w_value (projr (weight_new p)) \<le> 100" if "is_ok (weight_new p)" for p
    using that weight_new_wf [of p] by (auto simp: res_simps)
  with assms show ?thesis by (auto simp: bounded_chains_def row_weight_def row_ok_def list_all_iff)
qed

lemma extract_supported_bounded:
  assumes "list_all row_ok rows"
  shows "bounded_chains (extract_supported tokens rows)"
proof (cases tokens)
  case (Some m)
  have "w_value (snd (snd (row_weight row))) \<le> 100" if "row \<in> set rows" for row
    using row_weight_bounded [OF assms] that by (auto simp: bounded_chains_def list_all_iff)
  then show ?thesis
    unfolding Some extract_supported_rows [OF assms]
    by (auto simp: bounded_chains_def List.map_filter_def list_all_iff)
qed (simp add: extract_supported_def bounded_chains_def)

lemma extract_supported_keys:
  assumes "list_all row_ok rows"
  shows "fst ` set (extract_supported (Some m) rows) = {c \<in> fst ` set rows. m c \<noteq> None}"
proof -
  have "c \<in> fst ` set (extract_supported (Some m) rows) \<longleftrightarrow> c \<in> fst ` set rows \<and> m c \<noteq> None" for c
    unfolding extract_supported_rows [OF assms] List.map_filter_def
    by (induction rows) (auto split: option.splits)
  then show ?thesis by blast
qed

end
