(* ===== verification/EnvTables.thy ===== *)
theory EnvTables
  imports Registration
begin

text \<open>
  The chain tables of the provider configurations (\<open>env/*.rs\<close>) and the list of active chains
  (\<open>chain_config.rs\<close>): each definition is the literal of the source, chain, URL or subdomain, priority.
\<close>

section \<open>The tables\<close>

definition allnodes_chain_ids :: chain_table where
  "allnodes_chain_ids = [
    (''eip155:1'', ''eth57873'', Prio_Max), (''eip155:8453'', ''base57873'', Prio_Max),
    (''eip155:56'', ''bnb57873'', Prio_Max), (''eip155:137'', ''pol57873'', Prio_Max)]"

definition allnodes_ws_chain_ids :: chain_table where
  "allnodes_ws_chain_ids = [
    (''eip155:1'', ''eth57873'', Prio_Max), (''eip155:8453'', ''base57873'', Prio_Max),
    (''eip155:56'', ''bnb57873'', Prio_Max), (''eip155:137'', ''pol57873'', Prio_Max)]"

definition arbitrum_chains :: chain_table where
  "arbitrum_chains = [
    (''eip155:42161'', ''https://arb1.arbitrum.io/rpc'', Prio_Normal),
    (''eip155:421614'', ''https://sepolia-rollup.arbitrum.io/rpc'', Prio_Normal)]"

definition aurora_chains :: chain_table where
  "aurora_chains = [
    (''eip155:1313161554'', ''https://mainnet.aurora.dev'', Prio_High),
    (''eip155:1313161555'', ''https://testnet.aurora.dev'', Prio_High)]"

definition base_chains :: chain_table where
  "base_chains = [
    (''eip155:8453'', ''https://mainnet.base.org'', Prio_Minimal),
    (''eip155:84532'', ''https://sepolia.base.org'', Prio_Low)]"

definition binance_chains :: chain_table where
  "binance_chains = [
    (''eip155:56'', ''https://bsc-dataseed.binance.org/'', Prio_Minimal),
    (''eip155:97'', ''https://data-seed-prebsc-1-s1.binance.org:8545'', Prio_High)]"

definition blast_chains :: chain_table where
  "blast_chains = [
    (''eip155:30'', ''rootstock-mainnet'', Prio_Normal),
    (''eip155:31'', ''rootstock-testnet'', Prio_Normal),
    (''eip155:137'', ''polygon-mainnet'', Prio_Minimal),
    (''eip155:80002'', ''polygon-amoy'', Prio_Low)]"

definition callstatic_chains :: chain_table where
  "callstatic_chains = [
    (''eip155:56'', ''bsc'', Prio_Disabled)]"

definition drpc_chains_1 :: chain_table where
  "drpc_chains_1 = [
    (''eip155:1'', ''https://eth.drpc.org/'', Prio_Minimal),
    (''eip155:11155111'', ''https://sepolia.drpc.org'', Prio_Minimal),
    (''eip155:17000'', ''https://holesky.drpc.org'', Prio_Normal),
    (''eip155:560048'', ''https://hoodi.drpc.org'', Prio_Normal),
    (''eip155:42161'', ''https://arbitrum.drpc.org'', Prio_Normal),
    (''eip155:8453'', ''https://base.drpc.org'', Prio_Minimal),
    (''eip155:56'', ''https://bsc.drpc.org'', Prio_Minimal),
    (''eip155:137'', ''https://polygon.drpc.org'', Prio_Minimal),
    (''eip155:10'', ''https://optimism.drpc.org'', Prio_Normal),
    (''eip155:1301'', ''https://unichain-sepolia.drpc.org'', Prio_Normal),
    (''eip155:8217'', ''https://klaytn.drpc.org'', Prio_Normal)]"

definition drpc_chains_2 :: chain_table where
  "drpc_chains_2 = [
    (''eip155:80094'', ''https://berachain.drpc.org'', Prio_Normal),
    (''eip155:10143'', ''https://monad-testnet.drpc.org'', Prio_Normal),
    (''eip155:146'', ''https://sonic.drpc.org'', Prio_Normal),
    (''eip155:57054'', ''https://sonic-testnet.drpc.org'', Prio_Normal),
    (''eip155:59144'', ''https://linea.drpc.org'', Prio_Normal),
    (''eip155:42220'', ''https://celo.drpc.org'', Prio_Normal),
    (''eip155:1329'', ''https://sei.drpc.org'', Prio_Normal),
    (''eip155:80002'', ''https://polygon-amoy.drpc.org'', Prio_Normal),
    (''eip155:43113'', ''https://avalanche-fuji.drpc.org'', Prio_Normal),
    (''eip155:25'', ''https://cronos.drpc.org'', Prio_Normal)]"

definition drpc_chains :: chain_table where
  "drpc_chains = drpc_chains_1 @ drpc_chains_2"

definition hiro_chains :: chain_table where
  "hiro_chains = [
    (''stacks:1'', ''https://api.mainnet.hiro.so/'', Prio_Normal),
    (''stacks:2147483648'', ''https://api.testnet.hiro.so/'', Prio_Normal)]"

definition mantle_chains :: chain_table where
  "mantle_chains = [
    (''eip155:5000'', ''https://rpc.mantle.xyz'', Prio_High),
    (''eip155:5003'', ''https://rpc.sepolia.mantle.xyz'', Prio_High)]"

definition monad_chains :: chain_table where
  "monad_chains = [
    (''eip155:10143'', ''https://testnet-rpc.monad.xyz/'', Prio_Normal)]"

definition moonbeam_chains :: chain_table where
  "moonbeam_chains = [
    (''eip155:1284'', ''https://rpc.api.moonbeam.network'', Prio_Normal)]"

definition morph_chains :: chain_table where
  "morph_chains = [
    (''eip155:2818'', ''rpc-quicknode'', Prio_Normal),
    (''eip155:2810'', ''rpc-quicknode-holesky'', Prio_Normal)]"

definition near_chains :: chain_table where
  "near_chains = [
    (''near:mainnet'', ''https://rpc.mainnet.near.org'', Prio_High)]"

definition pokt_chains_1 :: chain_table where
  "pokt_chains_1 = [
    (''solana:5eykt4UsFv8P8NJdTREpY1vzqKqZKvdp'', ''solana'', Prio_Normal),
    (''solana:4sgjmw1sunhzsxgspuhpqldx6wiyjntz'', ''solana'', Prio_Normal),
    (''eip155:43114'', ''avax'', Prio_Normal), (''eip155:100'', ''gnosis'', Prio_Normal),
    (''eip155:8453'', ''base'', Prio_Minimal), (''eip155:84532'', ''base-testnet'', Prio_Normal),
    (''eip155:56'', ''bsc'', Prio_Minimal), (''eip155:1'', ''eth'', Prio_Minimal),
    (''eip155:17000'', ''eth-holesky-testnet'', Prio_High),
    (''eip155:11155111'', ''eth-sepolia-testnet'', Prio_Minimal),
    (''eip155:10'', ''optimism'', Prio_Normal),
    (''eip155:11155420'', ''optimism-sepolia-testnet'', Prio_Normal)]"

definition pokt_chains_2 :: chain_table where
  "pokt_chains_2 = [
    (''eip155:42161'', ''arbitrum-one'', Prio_Normal),
    (''eip155:421614'', ''arbitrum-sepolia-testnet'', Prio_Normal),
    (''eip155:137'', ''polygon'', Prio_Minimal), (''eip155:1101'', ''polygon-zkevm'', Prio_High),
    (''eip155:80002'', ''polygon-amoy-testnet'', Prio_High),
    (''eip155:42220'', ''celo'', Prio_Normal), (''eip155:8217'', ''kaia'', Prio_Normal),
    (''eip155:324'', ''zksync-era'', Prio_Normal),
    (''eip155:534352'', ''scroll'', Prio_Disabled),
    (''eip155:80094'', ''berachain'', Prio_Normal), (''eip155:146'', ''sonic'', Prio_Normal),
    (''near:mainnet'', ''near'', Prio_Normal), (''sui:mainnet'', ''sui'', Prio_Normal)]"

definition pokt_chains :: chain_table where
  "pokt_chains = pokt_chains_1 @ pokt_chains_2"

definition publicnode_chains_1 :: chain_table where
  "publicnode_chains_1 = [
    (''eip155:1'', ''ethereum-rpc'', Prio_Minimal),
    (''eip155:11155111'', ''ethereum-sepolia-rpc'', Prio_Normal),
    (''eip155:17000'', ''ethereum-holesky-rpc'', Prio_High),
    (''eip155:560048'', ''ethereum-hoodi-rpc'', Prio_Normal),
    (''eip155:8453'', ''base-rpc'', Prio_Minimal),
    (''eip155:84532'', ''base-sepolia-rpc'', Prio_Normal),
    (''eip155:56'', ''bsc-rpc'', Prio_Minimal), (''eip155:97'', ''bsc-testnet-rpc'', Prio_High),
    (''eip155:43114'', ''avalanche-c-chain-rpc'', Prio_Normal),
    (''eip155:43113'', ''avalanche-fuji-c-chain-rpc'', Prio_High),
    (''eip155:137'', ''polygon-bor-rpc'', Prio_Minimal),
    (''eip155:80002'', ''polygon-amoy-bor-rpc'', Prio_Normal),
    (''eip155:5000'', ''mantle-rpc'', Prio_High),
    (''eip155:1329'', ''sei-evm-rpc'', Prio_Normal),
    (''eip155:534352'', ''scroll-rpc'', Prio_Normal),
    (''eip155:534351'', ''scroll-sepolia-rpc'', Prio_Normal)]"

definition publicnode_chains_2 :: chain_table where
  "publicnode_chains_2 = [
    (''eip155:10'', ''optimism-rpc'', Prio_Normal),
    (''eip155:100'', ''gnosis-rpc'', Prio_Normal),
    (''eip155:42161'', ''arbitrum-one-rpc'', Prio_Normal),
    (''eip155:80094'', ''berachain-rpc'', Prio_Normal),
    (''eip155:80069'', ''berachain-bepolia-rpc'', Prio_Normal),
    (''eip155:1301'', ''unichain-sepolia-rpc'', Prio_Normal),
    (''eip155:146'', ''sonic-rpc'', Prio_Normal),
    (''eip155:11155420'', ''optimism-sepolia-rpc'', Prio_Normal),
    (''eip155:57054'', ''sonic-blaze-rpc'', Prio_Normal),
    (''eip155:59144'', ''linea-rpc'', Prio_Normal),
    (''eip155:42220'', ''celo-rpc'', Prio_Normal),
    (''eip155:25'', ''cronos-evm-rpc'', Prio_Normal),
    (''bip122:000000000019d6689c085ae165831e93'', ''bitcoin-rpc'', Prio_Normal),
    (''bip122:000000000933ea01ad0ee984209779ba'', ''bitcoin-testnet-rpc'', Prio_Normal),
    (''solana:5eykt4UsFv8P8NJdTREpY1vzqKqZKvdp'', ''solana-rpc'', Prio_Normal),
    (''sui:mainnet'', ''sui-rpc'', Prio_Normal),
    (''sui:testnet'', ''sui-testnet-rpc'', Prio_Normal)]"

definition publicnode_chains :: chain_table where
  "publicnode_chains = publicnode_chains_1 @ publicnode_chains_2"

definition quicknode_chain_ids :: chain_table where
  "quicknode_chain_ids = [
    (''eip155:1'', ''ancient-snowy-snow'', Prio_Minimal),
    (''eip155:324'', ''snowy-chaotic-hill.zksync-mainnet'', Prio_Low),
    (''eip155:1101'', ''clean-few-meme.zkevm-mainnet'', Prio_Low),
    (''eip155:42161'', ''divine-special-snowflake.arbitrum-mainnet'', Prio_Low),
    (''eip155:10'', ''convincing-dawn-smoke.optimism'', Prio_Low),
    (''eip155:8453'', ''indulgent-methodical-emerald.base-mainnet'', Prio_Minimal),
    (''eip155:56'', ''muddy-compatible-general.bsc'', Prio_Minimal),
    (''eip155:8217'', ''sleek-solitary-telescope.kaia-mainnet'', Prio_Low),
    (''eip155:421614'', ''thrumming-quaint-flower.arbitrum-sepolia'', Prio_Low),
    (''eip155:80094'', ''convincing-prettiest-wind.bera-mainnet'', Prio_Low),
    (''eip155:11155111'', ''crimson-spring-wind.ethereum-sepolia'', Prio_Low),
    (''eip155:137'', ''chaotic-wandering-fire.matic'', Prio_Minimal),
    (''solana:5eykt4UsFv8P8NJdTREpY1vzqKqZKvdp'', ''indulgent-thrumming-bush.solana-mainnet'', Prio_Minimal),
    (''solana:EtWTRABZaYq6iMfeYKouRu166VU2xqa1'', ''wild-palpable-rain.solana-devnet'', Prio_Normal),
    (''solana:4uhcVJyU9pJkvQyS88uRDiswHXSCkY3z'', ''winter-flashy-glade.solana-testnet'', Prio_Normal),
    (''bip122:000000000019d6689c085ae165831e93'', ''warmhearted-multi-mound.btc'', Prio_Normal),
    (''bip122:000000000933ea01ad0ee984209779ba'', ''newest-lively-research.btc-testnet'', Prio_Normal),
    (''tron:0x2b6653dc'', ''warmhearted-practical-surf.tron-mainnet'', Prio_Normal),
    (''ton:-239'', ''silent-dawn-crater.ton-mainnet'', Prio_Normal)]"

definition quicknode_ws_chain_ids :: chain_table where
  "quicknode_ws_chain_ids = [
    (''solana:5eykt4UsFv8P8NJdTREpY1vzqKqZKvdp'', ''indulgent-thrumming-bush.solana-mainnet'', Prio_Normal),
    (''solana:EtWTRABZaYq6iMfeYKouRu166VU2xqa1'', ''wild-palpable-rain.solana-devnet'', Prio_Normal),
    (''solana:4uhcVJyU9pJkvQyS88uRDiswHXSCkY3z'', ''winter-flashy-glade.solana-testnet'', Prio_Normal)]"

definition rootstock_chains :: chain_table where
  "rootstock_chains = [
    (''eip155:30'', ''https://public-node.rsk.co'', Prio_Normal),
    (''eip155:31'', ''https://public-node.testnet.rsk.co'', Prio_Normal)]"

definition sui_chains :: chain_table where
  "sui_chains = [
    (''sui:mainnet'', ''https://fullnode.mainnet.sui.io'', Prio_Normal),
    (''sui:testnet'', ''https://fullnode.testnet.sui.io'', Prio_Normal),
    (''sui:devnet'', ''https://fullnode.devnet.sui.io'', Prio_Normal)]"

definition syndica_chains :: chain_table where
  "syndica_chains = [
    (''solana:5eykt4UsFv8P8NJdTREpY1vzqKqZKvdp'', ''https://solana-mainnet.api.syndica.io'', Prio_Normal),
    (''solana:EtWTRABZaYq6iMfeYKouRu166VU2xqa1'', ''https://solana-devnet.api.syndica.io'', Prio_Normal)]"

definition syndica_ws_chains :: chain_table where
  "syndica_ws_chains = [
    (''solana:5eykt4UsFv8P8NJdTREpY1vzqKqZKvdp'', ''wss://solana-mainnet.api.syndica.io'', Prio_Normal),
    (''solana:EtWTRABZaYq6iMfeYKouRu166VU2xqa1'', ''wss://solana-devnet.api.syndica.io'', Prio_Normal)]"

definition toncenter_chains :: chain_table where
  "toncenter_chains = [
    (''ton:-239'', ''toncenter.com'', Prio_Normal),
    (''ton:-3'', ''testnet.toncenter.com'', Prio_Normal)]"

definition trongrid_chains :: chain_table where
  "trongrid_chains = [
    (''tron:0xcd8690dc'', ''https://nile.trongrid.io/jsonrpc'', Prio_Normal)]"

definition unichain_chains :: chain_table where
  "unichain_chains = [
    (''eip155:130'', ''https://mainnet.unichain.org'', Prio_High),
    (''eip155:1301'', ''https://sepolia.unichain.org'', Prio_High)]"

definition wemix_chains :: chain_table where
  "wemix_chains = [
    (''eip155:1111'', ''https://api.wemix.com/'', Prio_Normal),
    (''eip155:1112'', ''https://api.test.wemix.com'', Prio_Normal)]"

definition xrpl_chains :: chain_table where
  "xrpl_chains = [
    (''eip155:1440000'', ''https://rpc.xrplevm.org'', Prio_Normal),
    (''eip155:1449000'', ''https://rpc.testnet.xrplevm.org'', Prio_Low)]"

definition zksync_chains :: chain_table where
  "zksync_chains = [
    (''eip155:300'', ''https://sepolia.era.zksync.dev'', Prio_Normal),
    (''eip155:324'', ''https://mainnet.era.zksync.io'', Prio_Normal)]"

definition zora_chains :: chain_table where
  "zora_chains = [
    (''eip155:7777777'', ''https://rpc.zora.energy'', Prio_Normal),
    (''eip155:999999999'', ''https://sepolia.rpc.zora.energy'', Prio_Normal)]"

definition zora_ws_chains :: chain_table where
  "zora_ws_chains = [
    (''eip155:7777777'', ''wss://rpc.zora.energy'', Prio_Normal)]"

definition active_config_1 :: "chain_config list" where
  "active_config_1 = [
    (''eip155:1'', ''Ethereum Mainnet'', []), (''eip155:10'', ''Optimism Mainnet'', []),
    (''eip155:30'', ''Rootstock Mainnet'', []), (''eip155:31'', ''Rootstock Testnet'', []),
    (''eip155:56'', ''Binance Smart Chain Mainnet'', []),
    (''eip155:97'', ''Binance Smart Chain Testnet'', []),
    (''eip155:100'', ''Gnosis Chain Mainnet'', []), (''eip155:130'', ''Unichain Mainnet'', []),
    (''eip155:137'', ''Polygon Mainnet'', []), (''eip155:146'', ''Sonic Mainnet'', []),
    (''eip155:300'', ''zkSync Era Sepolia Testnet'', []),
    (''eip155:324'', ''zkSync Era Mainnet'', []),
    (''eip155:1101'', ''Polygon zkEVM Mainnet'', []), (''eip155:1111'', ''Wemix Mainnet'', []),
    (''eip155:1112'', ''Wemix Testnet'', []), (''eip155:1284'', ''Moonbeam GLMR'', []),
    (''eip155:1301'', ''Unichain Sepolia'', []), (''eip155:1329'', ''Sei Network'', []),
    (''eip155:2810'', ''Morph Holesky'', []), (''eip155:2818'', ''Morph Mainnet'', []),
    (''eip155:5000'', ''Mantle Mainnet'', []), (''eip155:5003'', ''Mantle Testnet'', []),
    (''eip155:8217'', ''Kaia Mainnet'', []), (''eip155:8453'', ''Base Mainnet'', []),
    (''eip155:1440000'', ''XRPL EVM Mainnet'', []),
    (''eip155:1449000'', ''XRPL EVM Testnet'', []), (''eip155:10143'', ''Monad Testnet'', []),
    (''eip155:17000'', ''Ethereum Holesky'', []), (''eip155:42161'', ''Arbitrum Mainnet'', []),
    (''eip155:42220'', ''Celo Mainnet'', []), (''eip155:43113'', ''Avalanche Fuji Testnet'', [])]"

definition active_config_2 :: "chain_config list" where
  "active_config_2 = [
    (''eip155:43114'', ''Avalanche C-Chain'', []), (''eip155:57054'', ''Sonic Testnet'', []),
    (''eip155:59144'', ''Linea Mainnet'', []), (''eip155:80002'', ''Polygon Amoy'', []),
    (''eip155:80069'', ''Berachain Bepolia'', []), (''eip155:80094'', ''Berachain Mainnet'', []),
    (''eip155:84532'', ''Base Sepolia'', []), (''eip155:421614'', ''Arbitrum Sepolia'', []),
    (''eip155:534352'', ''Scroll Mainnet'', []),
    (''eip155:534351'', ''Scroll Sepolia Testnet'', []),
    (''eip155:560048'', ''Ethereum Hoodi'', []), (''eip155:7777777'', ''Zora'', []),
    (''eip155:11155111'', ''Ethereum Sepolia'', []),
    (''eip155:11155420'', ''Optimism Sepolia'', []),
    (''eip155:999999999'', ''Zora Sepolia'', []),
    (''eip155:1313161554'', ''Aurora Mainnet'', []),
    (''eip155:1313161555'', ''Aurora Testnet'', []), (''near:mainnet'', ''Near Mainnet'', []),
    (''solana:5eykt4UsFv8P8NJdTREpY1vzqKqZKvdp'', ''Solana Mainnet'', []),
    (''solana:EtWTRABZaYq6iMfeYKouRu166VU2xqa1'', ''Solana Devnet'', []),
    (''solana:4uhcVJyU9pJkvQyS88uRDiswHXSCkY3z'', ''Solana Testnet'', []),
    (''bip122:000000000019d6689c085ae165831e93'', ''Bitcoin Mainnet'', []),
    (''bip122:000000000933ea01ad0ee984209779ba'', ''Bitcoin Testnet'', []),
    (''sui:mainnet'', ''Sui Mainnet'', []), (''sui:devnet'', ''Sui Devnet'', []),
    (''sui:testnet'', ''Sui Testnet'', []), (''stacks:1'', ''Stacks Mainnet'', []),
    (''stacks:2147483648'', ''Stacks Testnet'', []), (''tron:0x2b6653dc'', ''Tron Mainnet'', []),
    (''tron:0xcd8690dc'', ''Tron Nile Testnet'', []), (''ton:-239'', ''Ton Mainnet'', [])]"

definition ACTIVE_CONFIG :: "chain_config list" where
  "ACTIVE_CONFIG = active_config_1 @ active_config_2"

section \<open>Facts about the tables\<close>

lemmas table_defs =
    aurora_chains_def arbitrum_chains_def pokt_chains_def pokt_chains_1_def pokt_chains_2_def
    base_chains_def binance_chains_def zksync_chains_def publicnode_chains_def
    publicnode_chains_1_def publicnode_chains_2_def quicknode_chain_ids_def zora_chains_def
    near_chains_def mantle_chains_def unichain_chains_def syndica_chains_def morph_chains_def
    wemix_chains_def drpc_chains_def drpc_chains_1_def drpc_chains_2_def allnodes_chain_ids_def
    monad_chains_def sui_chains_def rootstock_chains_def hiro_chains_def callstatic_chains_def
    blast_chains_def moonbeam_chains_def trongrid_chains_def toncenter_chains_def xrpl_chains_def
    allnodes_ws_chain_ids_def zora_ws_chains_def syndica_ws_chains_def quicknode_ws_chain_ids_def

text \<open>All tables, and the chains that need no access token.\<close>

definition all_tables :: "chain_table list" where
  "all_tables = [
    aurora_chains, arbitrum_chains, pokt_chains, base_chains, binance_chains, zksync_chains,
    publicnode_chains, quicknode_chain_ids, zora_chains, near_chains, mantle_chains,
    unichain_chains, syndica_chains, morph_chains, wemix_chains, drpc_chains, allnodes_chain_ids,
    monad_chains, sui_chains, rootstock_chains, hiro_chains, callstatic_chains, blast_chains,
    moonbeam_chains, trongrid_chains, toncenter_chains, xrpl_chains, allnodes_ws_chain_ids,
    zora_ws_chains, syndica_ws_chains, quicknode_ws_chain_ids]"

definition tokenless_chain_ids :: "string list" where
  "tokenless_chain_ids = concat (map (map fst) [
    aurora_chains, arbitrum_chains, pokt_chains, base_chains, binance_chains, zksync_chains,
    publicnode_chains, zora_chains, near_chains, mantle_chains, unichain_chains, syndica_chains,
    morph_chains, wemix_chains, drpc_chains, monad_chains, sui_chains, rootstock_chains,
    hiro_chains, callstatic_chains, blast_chains, moonbeam_chains, trongrid_chains,
    toncenter_chains, xrpl_chains])"

lemma tables_ok: "list_all (list_all row_ok) all_tables"
  by (simp add: all_tables_def table_defs row_ok_def weight_new_total)

lemma tables_distinct: "list_all (\<lambda>rows. distinct (map fst rows)) all_tables"
  by code_simp

lemma active_chains_tabled:
  "list_all (\<lambda>(c, _, providers). providers = [] \<and>
     c \<in> set (''tron:0x2b6653dc'' # ''solana:4uhcVJyU9pJkvQyS88uRDiswHXSCkY3z'' # tokenless_chain_ids))
   ACTIVE_CONFIG"
  by code_simp

end
