(* ===== verification/Boot.thy ===== *)
theory Boot
  imports EnvTables
begin

text \<open>
  The configurations of all providers and the start-up of the repository, \<open>init_providers\<close> of \<open>lib.rs\<close>.
  The access tokens of Quicknode and Allnodes are the parsed JSON of the environment, \<open>None\<close> when it does
  not parse; the constructors of the provider objects are the parameter \<open>factories\<close>.
\<close>

section \<open>Provider configurations\<close>

definition aurora_config :: "provider_config option" where
  "aurora_config = config_new PK_Aurora aurora_chains []"

definition arbitrum_config :: "provider_config option" where
  "arbitrum_config = config_new PK_Arbitrum arbitrum_chains []"

definition pokt_config :: "provider_config option" where
  "pokt_config = config_new PK_Pokt pokt_chains []"

definition base_config :: "provider_config option" where
  "base_config = config_new PK_Base base_chains []"

definition binance_config :: "provider_config option" where
  "binance_config = config_new PK_Binance binance_chains []"

definition zksync_config :: "provider_config option" where
  "zksync_config = config_new PK_ZKSync zksync_chains []"

definition publicnode_config :: "provider_config option" where
  "publicnode_config = config_new PK_Publicnode publicnode_chains []"

definition quicknode_config :: "(string \<Rightarrow> string option) option \<Rightarrow> provider_config option" where
  "quicknode_config tokens = Some \<lparr> pc_kind = PK_Quicknode,
     pc_chains = extract_supported tokens quicknode_chain_ids,
     pc_ws_chains = extract_supported tokens quicknode_ws_chain_ids \<rparr>"

definition zora_config :: "provider_config option" where
  "zora_config = config_new PK_Zora zora_chains zora_ws_chains"

definition near_config :: "provider_config option" where
  "near_config = config_new PK_Near near_chains []"

definition mantle_config :: "provider_config option" where
  "mantle_config = config_new PK_Mantle mantle_chains []"

definition unichain_config :: "provider_config option" where
  "unichain_config = config_new PK_Unichain unichain_chains []"

definition syndica_config :: "provider_config option" where
  "syndica_config = config_new PK_Syndica syndica_chains syndica_ws_chains"

definition morph_config :: "provider_config option" where
  "morph_config = config_new PK_Morph morph_chains []"

definition wemix_config :: "provider_config option" where
  "wemix_config = config_new PK_Wemix wemix_chains []"

definition drpc_config :: "provider_config option" where
  "drpc_config = config_new PK_Drpc drpc_chains []"

definition allnodes_config :: "(string \<Rightarrow> string option) option \<Rightarrow> provider_config option" where
  "allnodes_config tokens = Some \<lparr> pc_kind = PK_Allnodes,
     pc_chains = extract_supported tokens allnodes_chain_ids,
     pc_ws_chains = extract_supported tokens allnodes_ws_chain_ids \<rparr>"

definition monad_config :: "provider_config option" where
  "monad_config = config_new PK_Monad monad_chains []"

definition sui_config :: "provider_config option" where
  "sui_config = config_new PK_Sui sui_chains []"

definition rootstock_config :: "provider_config option" where
  "rootstock_config = config_new PK_Rootstock rootstock_chains []"

definition hiro_config :: "provider_config option" where
  "hiro_config = config_new PK_Hiro hiro_chains []"

definition callstatic_config :: "provider_config option" where
  "callstatic_config = config_new PK_CallStatic callstatic_chains []"

definition blast_config :: "provider_config option" where
  "blast_config = config_new PK_Blast blast_chains []"

definition moonbeam_config :: "provider_config option" where
  "moonbeam_config = config_new PK_Moonbeam moonbeam_chains []"

definition trongrid_config :: "provider_config option" where
  "trongrid_config = config_new PK_Trongrid trongrid_chains []"

definition toncenter_config :: "provider_config option" where
  "toncenter_config = config_new PK_Toncenter toncenter_chains []"

definition xrpl_config :: "provider_config option" where
  "xrpl_config = config_new PK_Xrpl xrpl_chains []"

text \<open>The supported namespaces of the balance providers.\<close>

definition zerion_namespaces :: "(caip_namespace \<times> priority) list" where
  "zerion_namespaces = [(Eip155, Prio_Minimal)]"

definition dune_namespaces :: "(caip_namespace \<times> priority) list" where
  "dune_namespaces = [(Eip155, Prio_High), (Solana, Prio_High)]"

definition solscan_namespaces :: "(caip_namespace \<times> priority) list" where
  "solscan_namespaces = [(Solana, Prio_Low)]"

section \<open>Start-up\<close>

definition rpc_configs ::
  "(string \<Rightarrow> string option) option \<Rightarrow> (string \<Rightarrow> string option) option \<Rightarrow> provider_config option list"
where
  "rpc_configs quicknode_tokens allnodes_tokens = [
    aurora_config, arbitrum_config, pokt_config, base_config, binance_config, zksync_config,
    publicnode_config, quicknode_config quicknode_tokens, zora_config, near_config,
    mantle_config, unichain_config, syndica_config, morph_config, wemix_config, drpc_config,
    allnodes_config allnodes_tokens, monad_config, sui_config, rootstock_config, hiro_config,
    callstatic_config, blast_config, moonbeam_config, trongrid_config, toncenter_config,
    xrpl_config]"

definition ws_configs ::
  "(string \<Rightarrow> string option) option \<Rightarrow> (string \<Rightarrow> string option) option \<Rightarrow> provider_config option list"
where
  "ws_configs quicknode_tokens allnodes_tokens =
    [allnodes_config allnodes_tokens, zora_config, syndica_config, quicknode_config quicknode_tokens]"

definition generic_configs :: "(string \<Rightarrow> string) \<Rightarrow> chain_config list \<Rightarrow> provider_config option list" where
  "generic_configs b64 rows =
     concat (map (\<lambda>(caip2, _, providers). map (generic_config b64 caip2) providers) rows)"

text \<open>The pool of connections for the cache of responses: its address, and the two steps of the pool library, each
  of which may fail.  A failure is a panic.\<close>

record ('c, 'pool) pool_env =
  cache_redis_addr :: "string option"
  pool_builder :: "string \<Rightarrow> 'c option"
  pool_build :: "'c \<Rightarrow> 'pool option"

definition response_cache_pool :: "('c, 'pool) pool_env \<Rightarrow> 'pool option option" where
  "response_cache_pool P = (case cache_redis_addr P of
      None \<Rightarrow> Some None
    | Some addr \<Rightarrow> (case pool_builder P addr of
        None \<Rightarrow> None
      | Some redis_builder \<Rightarrow> map_option Some (pool_build P redis_builder)))"

text \<open>\<open>ProviderRepository::new\<close> builds a pool of its own.\<close>

definition provider_repository_new :: "('c, 'pool) pool_env \<Rightarrow> ('p, 'w, 'b) repository option" where
  "provider_repository_new P = map_option (\<lambda>redis_pool. repository_new) (response_cache_pool P)"

definition init_providers ::
  "('c, 'pool) pool_env \<Rightarrow> ('p, 'w, 'b) factories \<Rightarrow> (string \<Rightarrow> string) \<Rightarrow> (string \<Rightarrow> string option) option
    \<Rightarrow> (string \<Rightarrow> string option) option \<Rightarrow> ('p, 'w, 'b) repository option" where
  "init_providers P F b64 quicknode_tokens allnodes_tokens =
    (if response_cache_pool P = None then None
     else let r1 = fold (add_rpc_config F) (rpc_configs quicknode_tokens allnodes_tokens) (provider_repository_new P);
         r2 = fold (add_ws_config F) (ws_configs quicknode_tokens allnodes_tokens) r1;
         r3 = fold (add_rpc_config F) (generic_configs b64 ACTIVE_CONFIG) r2;
         r4 = add_balance_config F PK_Zerion (default_namespaces zerion_namespaces) r3;
         r5 = add_balance_config F PK_Dune (default_namespaces dune_namespaces) r4
     in add_balance_config F PK_SolScan (default_namespaces solscan_namespaces) r5)"

lemmas config_defs =
    aurora_config_def arbitrum_config_def pokt_config_def base_config_def binance_config_def
    zksync_config_def publicnode_config_def quicknode_config_def zora_config_def near_config_def
    mantle_config_def unichain_config_def syndica_config_def morph_config_def wemix_config_def
    drpc_config_def allnodes_config_def monad_config_def sui_config_def rootstock_config_def
    hiro_config_def callstatic_config_def blast_config_def moonbeam_config_def
    trongrid_config_def toncenter_config_def xrpl_config_def

lemma config_new_tabled:
  assumes "rows \<in> set all_tables" "ws_rows \<in> set ([] # all_tables)"
  shows "config_new kind rows ws_rows = Some \<lparr> pc_kind = kind, pc_chains = map row_weight rows,
    pc_ws_chains = map row_weight ws_rows \<rparr>"
proof -
  have "default_chains rows = Some (map row_weight rows)"
    "default_chains ws_rows = Some (map row_weight ws_rows)"
    using tables_ok assms by (auto simp: list_all_iff intro!: default_chains_total)
  then show ?thesis by (simp add: config_new_def)
qed

section \<open>The start-up succeeds\<close>

definition rpc_config_list ::
  "(string \<Rightarrow> string option) option \<Rightarrow> (string \<Rightarrow> string option) option \<Rightarrow> provider_config list" where
  "rpc_config_list q a = map the (rpc_configs q a)"

lemma rpc_configs_valid: "list_all (\<lambda>c. c \<noteq> None) (rpc_configs q a)"
  by (simp add: rpc_configs_def config_defs config_new_tabled all_tables_def)

lemma rpc_configs_eq: "rpc_configs q a = map Some (rpc_config_list q a)"
  using rpc_configs_valid [of q a] by (simp add: rpc_config_list_def list_all_iff map_idI)

lemma ws_configs_valid: "list_all (\<lambda>c. c \<noteq> None) (ws_configs q a)"
  by (simp add: ws_configs_def config_defs config_new_tabled all_tables_def)

lemma rpc_config_kinds_distinct: "distinct (map pc_kind (rpc_config_list q a))"
  by (simp add: rpc_config_list_def rpc_configs_def config_defs config_new_tabled all_tables_def)

lemma table_distinct:
  "rows \<in> set all_tables \<Longrightarrow> distinct (map fst rows)" "rows \<in> set all_tables \<Longrightarrow> list_all row_ok rows"
  using tables_distinct tables_ok by (simp_all add: list_all_iff)

lemma token_tables_listed:
  "quicknode_chain_ids \<in> set all_tables" "allnodes_chain_ids \<in> set all_tables"
  by (simp_all add: all_tables_def)

lemma rpc_config_rows_distinct:
  "list_all (\<lambda>cfg. distinct (map fst (pc_chains cfg))) (rpc_config_list q a)"
proof -
  have "distinct (map fst (map row_weight rows))" if "rows \<in> set all_tables" for rows
    unfolding row_weight_fst by (rule table_distinct(1) [OF that])
  then have t: "list_all (\<lambda>rows. distinct (map fst (map row_weight rows))) all_tables"
    by (simp add: list_all_iff)
  note q = extract_supported_distinct [OF table_distinct(2,1)]
  show ?thesis
    using t q [OF token_tables_listed(1) token_tables_listed(1)]
      q [OF token_tables_listed(2) token_tables_listed(2)]
    by (simp add: rpc_config_list_def rpc_configs_def config_defs config_new_tabled all_tables_def
        del: map_map)
qed

lemma fold_add_ws_config:
  "list_all (\<lambda>c. c \<noteq> None) cs \<Longrightarrow> repository_ok r \<Longrightarrow>
    \<exists>r'. fold (add_ws_config F) cs (Some r) = Some r' \<and> repository_ok r'
      \<and> http_chains r' = http_chains r \<and> rpc_weight_resolver r' = rpc_weight_resolver r
      \<and> rpc_providers r' = rpc_providers r"
proof (induction cs arbitrary: r)
  case (Cons c cs)
  then obtain cfg where c: "c = Some cfg" by auto
  let ?r = "add_ws_provider (pc_kind cfg) (new_ws F (pc_kind cfg)) (pc_ws_chains cfg) r"
  have keep: "http_chains ?r = http_chains r" "rpc_weight_resolver ?r = rpc_weight_resolver r"
    "rpc_providers ?r = rpc_providers r"
    unfolding add_ws_provider_pool by (simp_all add: fold_keeps ws_ops_keep) (simp_all add: ws_register_def)
  have "repository_ok ?r" using Cons.prems(2) by (rule repository_ok_ws)
  with Cons.IH [of ?r] Cons.prems(1) c keep show ?case by (simp add: add_ws_config_def)
qed simp

lemma add_balance_config_ok:
  assumes "rows = Some ws" "repository_ok r"
  shows "\<exists>r'. add_balance_config F kind rows (Some r) = Some r' \<and> repository_ok r'
      \<and> http_chains r' = http_chains r \<and> rpc_weight_resolver r' = rpc_weight_resolver r
      \<and> rpc_providers r' = rpc_providers r"
proof -
  let ?r = "add_balance_provider kind (new_balance F kind) ws r"
  have "http_chains ?r = http_chains r" "rpc_weight_resolver ?r = rpc_weight_resolver r"
    "rpc_providers ?r = rpc_providers r"
    unfolding add_balance_provider_def
    by (simp_all add: fold_keeps balance_ops_keep) (simp_all add: balance_register_def)
  with repository_ok_balance [OF assms(2)] assms(1) show ?thesis
    by (simp add: add_balance_config_def)
qed

lemma generic_configs_empty: "generic_configs b64 ACTIVE_CONFIG = []"
  using active_chains_tabled by (auto simp: generic_configs_def list_all_iff)

lemma init_providers_result:
  assumes "response_cache_pool P = Some pool"
  shows "\<exists>r. init_providers P F b64 q a = Some r \<and> repository_ok r
    \<and> http_chains r = http_chains (add_configs F (rpc_config_list q a) repository_new)
    \<and> rpc_weight_resolver r = rpc_weight_resolver (add_configs F (rpc_config_list q a) repository_new)"
proof -
  let ?r1 = "add_configs F (rpc_config_list q a) repository_new"
  have r1: "repository_ok ?r1" by (rule add_configs_ok [OF repository_ok_new])
  obtain r2 where r2: "fold (add_ws_config F) (ws_configs q a) (Some ?r1) = Some r2" "repository_ok r2"
    "http_chains r2 = http_chains ?r1" "rpc_weight_resolver r2 = rpc_weight_resolver ?r1"
    using fold_add_ws_config [OF ws_configs_valid r1, of F q a] by blast
  have rows: "list_all (\<lambda>row. is_ok (weight_new (snd row))) zerion_namespaces"
    "list_all (\<lambda>row. is_ok (weight_new (snd row))) dune_namespaces"
    "list_all (\<lambda>row. is_ok (weight_new (snd row))) solscan_namespaces"
    by (simp_all add: zerion_namespaces_def dune_namespaces_def solscan_namespaces_def weight_new_total)
  note bal = add_balance_config_ok [OF default_namespaces_total]
  obtain r3 where r3: "add_balance_config F PK_Zerion (default_namespaces zerion_namespaces) (Some r2) = Some r3"
    "repository_ok r3" "http_chains r3 = http_chains r2" "rpc_weight_resolver r3 = rpc_weight_resolver r2"
    using bal [OF rows(1) r2(2)] by blast
  obtain r4 where r4: "add_balance_config F PK_Dune (default_namespaces dune_namespaces) (Some r3) = Some r4"
    "repository_ok r4" "http_chains r4 = http_chains r3" "rpc_weight_resolver r4 = rpc_weight_resolver r3"
    using bal [OF rows(2) r3(2)] by blast
  obtain r5 where r5: "add_balance_config F PK_SolScan (default_namespaces solscan_namespaces) (Some r4) = Some r5"
    "repository_ok r5" "http_chains r5 = http_chains r4" "rpc_weight_resolver r5 = rpc_weight_resolver r4"
    using bal [OF rows(3) r4(2)] by blast
  have "init_providers P F b64 q a = Some r5"
    by (simp add: init_providers_def provider_repository_new_def assms rpc_configs_eq fold_add_rpc_config generic_configs_empty
        Let_def r2(1) r3(1) r4(1) r5(1))
  then show ?thesis using r2 r3 r4 r5 by auto
qed

lemma rpc_config_rows_bounded: "list_all (\<lambda>cfg. bounded_chains (pc_chains cfg)) (rpc_config_list q a)"
proof -
  have t: "list_all (\<lambda>rows. bounded_chains (map row_weight rows)) all_tables"
    using table_distinct(2) row_weight_bounded by (simp add: list_all_iff)
  note q = extract_supported_bounded [OF table_distinct(2)]
  show ?thesis
    using t q [OF token_tables_listed(1)] q [OF token_tables_listed(2)]
    by (simp add: rpc_config_list_def rpc_configs_def config_defs config_new_tabled all_tables_def
        del: map_map)
qed

lemma rpc_config_list_length: "length (rpc_config_list q a) = 27"
  by (simp add: rpc_config_list_def rpc_configs_def)

text \<open>The weights of a chain after the start-up sum up to at most 27 times 100.\<close>

lemma startup_weights_fit:
  assumes ok: "repository_ok r"
    and res: "rpc_weight_resolver r = rpc_weight_resolver (add_configs F (rpc_config_list q a) repository_new)"
    and es: "rpc_weight_resolver r c = Some es"
  shows "sum_list (map unat (rpc_weights es)) < 2 ^ 64"
proof -
  let ?r1 = "add_configs F (rpc_config_list q a) repository_new"
  have d: "distinct (map fst es)" using ok es by (auto simp: repository_ok_def pool_ok_def)
  have src: "\<exists>cfg\<in>set (rpc_config_list q a). pc_kind cfg = k \<and> (\<exists>u. (c, u, w) \<in> set (pc_chains cfg))"
    if "(k, w) \<in> set es" for k w
  proof -
    have "weight_at ?r1 c k = Some w" using that d es res by (simp add: weight_at_def)
    from add_configs_source [OF this] show ?thesis
      by (simp add: weight_at_def repository_new_def)
  qed
  have "unat (max (w_value w) 1) \<le> 100" if "(k, w) \<in> set es" for k w
    using src [OF that] rpc_config_rows_bounded [of q a]
    by (fastforce simp: list_all_iff bounded_chains_def word_le_nat_alt max_def)
  then have "sum_list (map unat (rpc_weights es)) \<le> length (rpc_weights es) * 100"
    by (intro sum_bound) (auto simp: rpc_weights_def)
  moreover have "length es \<le> 27"
  proof -
    have "length es = card (fst ` set es)" using distinct_card [OF d] by simp
    also have "fst ` set es \<subseteq> pc_kind ` set (rpc_config_list q a)" using src by fastforce
    then have "card (fst ` set es) \<le> card (pc_kind ` set (rpc_config_list q a))"
      by (rule card_mono [rotated]) simp
    also have "\<dots> \<le> 27" using card_length [of "map pc_kind (rpc_config_list q a)"]
      by (simp add: rpc_config_list_length)
    finally show ?thesis .
  qed
  ultimately show ?thesis by simp
qed

text \<open>The chains that are served: those of the token-free tables, and those of the token tables that
  have a token.\<close>

lemma tokenless_chains_served:
  "c \<in> set tokenless_chain_ids \<Longrightarrow> c \<in> (\<Union>cfg\<in>set (rpc_config_list q a). fst ` set (pc_chains cfg))"
  unfolding tokenless_chain_ids_def
  by (auto simp: rpc_config_list_def rpc_configs_def config_defs config_new_tabled all_tables_def
      simp flip: set_map simp: row_weight_fst simp del: set_map map_map)

lemma quicknode_chains_served:
  assumes "tokens c \<noteq> None" "c \<in> fst ` set quicknode_chain_ids"
  shows "c \<in> (\<Union>cfg\<in>set (rpc_config_list (Some tokens) a). fst ` set (pc_chains cfg))"
proof -
  have "c \<in> fst ` set (extract_supported (Some tokens) quicknode_chain_ids)"
    using assms table_distinct(2) [OF token_tables_listed(1)] by (simp add: extract_supported_keys)
  moreover have "the (quicknode_config (Some tokens)) \<in> set (rpc_config_list (Some tokens) a)"
    by (simp add: rpc_config_list_def rpc_configs_def)
  ultimately show ?thesis by (force simp: quicknode_config_def)
qed

lemma active_chain_served:
  assumes tokens: "tokens ''tron:0x2b6653dc'' \<noteq> None"
      "tokens ''solana:4uhcVJyU9pJkvQyS88uRDiswHXSCkY3z'' \<noteq> None"
    and c: "c \<in> fst ` set ACTIVE_CONFIG"
  shows "c \<in> (\<Union>cfg\<in>set (rpc_config_list (Some tokens) a). fst ` set (pc_chains cfg))"
proof -
  have "c \<in> set (''tron:0x2b6653dc'' # ''solana:4uhcVJyU9pJkvQyS88uRDiswHXSCkY3z'' # tokenless_chain_ids)"
  proof -
    obtain row where row: "row \<in> set ACTIVE_CONFIG" "fst row = c" using c by blast
    obtain nm ps where eq: "row = (c, nm, ps)" using row(2) by (cases row) simp
    from active_chains_tabled [unfolded list_all_iff, THEN bspec, OF row(1)] show ?thesis
      unfolding eq prod.case by (rule conjunct2)
  qed
  moreover have "''tron:0x2b6653dc'' \<in> fst ` set quicknode_chain_ids"
    "''solana:4uhcVJyU9pJkvQyS88uRDiswHXSCkY3z'' \<in> fst ` set quicknode_chain_ids"
    by (simp_all add: quicknode_chain_ids_def)
  ultimately show ?thesis
    using tokenless_chains_served quicknode_chains_served [of tokens] tokens
    by (metis set_ConsD)
qed

lemma startup_state:
  assumes "init_providers P F b64 q a = Some r"
  shows "repository_ok r"
    and "http_chains r = (\<Union>cfg\<in>set (rpc_config_list q a). fst ` set (pc_chains cfg))"
    and "rpc_weight_resolver r = rpc_weight_resolver (add_configs F (rpc_config_list q a) repository_new)"
proof -
  obtain pool where "response_cache_pool P = Some pool" using assms by (auto simp: init_providers_def split: if_splits)
  note st = init_providers_result [OF this, of F b64 q a]
  show "repository_ok r"
    and "http_chains r = (\<Union>cfg\<in>set (rpc_config_list q a). fst ` set (pc_chains cfg))"
    and "rpc_weight_resolver r = rpc_weight_resolver (add_configs F (rpc_config_list q a) repository_new)"
    using st assms by (auto simp: add_configs_chains) (simp_all add: repository_new_def)
qed

lemma startup_panics:
  "init_providers P F b64 q a = None \<longleftrightarrow> response_cache_pool P = None"
proof (cases "response_cache_pool P")
  case (Some pool)
  from init_providers_result [OF this, of F b64 q a] show ?thesis using Some by auto
qed (simp add: init_providers_def)

text \<open>C20: the start-up of the repository panics exactly if an address of the response cache is configured for which
  the pool cannot be built.  Otherwise it succeeds, whatever tokens are configured (no weight of a table panics): the
  resulting repository is consistent, its chains are exactly those of the configurations, and every configured row is
  registered under its provider with its own weight (no two rows overwrite each other).\<close>

theorem startup_registers_configuration:
  "(init_providers P F b64 q a = None \<longleftrightarrow> (\<exists>addr. cache_redis_addr P = Some addr
      \<and> (pool_builder P addr = None \<or> pool_build P (the (pool_builder P addr)) = None)))
   \<and> (\<forall>r. init_providers P F b64 q a = Some r \<longrightarrow> repository_ok r
     \<and> http_chains r = (\<Union>cfg\<in>set (rpc_config_list q a). fst ` set (pc_chains cfg))
     \<and> (\<forall>cfg\<in>set (rpc_config_list q a). \<forall>(c, u, w)\<in>set (pc_chains cfg).
          weight_at r c (pc_kind cfg) = Some w))"
proof (intro conjI allI impI)
  show "init_providers P F b64 q a = None \<longleftrightarrow> (\<exists>addr. cache_redis_addr P = Some addr
      \<and> (pool_builder P addr = None \<or> pool_build P (the (pool_builder P addr)) = None))"
    unfolding startup_panics by (auto simp: response_cache_pool_def split: option.splits)
next
  fix r assume r: "init_providers P F b64 q a = Some r"
  show "repository_ok r" "http_chains r = (\<Union>cfg\<in>set (rpc_config_list q a). fst ` set (pc_chains cfg))"
    by (rule startup_state [OF r])+
  have "weight_at r c (pc_kind cfg) = Some w"
    if "cfg \<in> set (rpc_config_list q a)" "(c, u, w) \<in> set (pc_chains cfg)" for cfg c u w
  proof -
    have "distinct (map fst (pc_chains cfg))"
      using rpc_config_rows_distinct [of q a] that(1) by (simp only: list_all_iff)
    from add_configs_weight [OF rpc_config_kinds_distinct that(1) this that(2), of F repository_new]
    show ?thesis using startup_state(3) [OF r] by (simp add: weight_at_def)
  qed
  then show "\<forall>cfg\<in>set (rpc_config_list q a). \<forall>(c, u, w)\<in>set (pc_chains cfg). weight_at r c (pc_kind cfg) = Some w"
    by auto
qed

text \<open>A pool of any address but the empty one.\<close>

definition example_pool :: "string option \<Rightarrow> (string, string) pool_env" where
  "example_pool addr = \<lparr> cache_redis_addr = addr, pool_builder = (\<lambda>a. if a = [] then None else Some a), pool_build = Some \<rparr>"

lemma startup_registers_configuration_witness:
  "(\<exists>r. init_providers (example_pool (Some ''redis://r'')) (\<lparr> new_rpc = (\<lambda>_. ()), new_ws = (\<lambda>_. ()), new_balance = (\<lambda>_. ()) \<rparr>)
      id None None = Some r \<and> weight_at r ''eip155:56'' PK_CallStatic = Some \<lparr> w_value = 0, w_priority = 0 \<rparr>)
   \<and> init_providers (example_pool (Some [])) (\<lparr> new_rpc = (\<lambda>_. ()), new_ws = (\<lambda>_. ()), new_balance = (\<lambda>_. ()) \<rparr>)
      id None None = None"
proof -
  let ?F = "\<lparr> new_rpc = (\<lambda>_. ()), new_ws = (\<lambda>_. ()), new_balance = (\<lambda>_. ()) \<rparr>"
  have cfg: "\<lparr> pc_kind = PK_CallStatic, pc_chains = [(''eip155:56'', ''bsc'', \<lparr> w_value = 0, w_priority = 0 \<rparr>)],
      pc_ws_chains = [] \<rparr> \<in> set (rpc_config_list None None)" (is "?c \<in> _")
    by (simp add: rpc_config_list_def rpc_configs_def callstatic_config_def config_new_def
        callstatic_chains_def weight_new_def priority_value_new_def MAX_PRIORITY_def)
  note start = startup_registers_configuration [of "example_pool addr" ?F id None None for addr]
  have "init_providers (example_pool (Some ''redis://r'')) ?F id None None \<noteq> None"
    using start [of "Some ''redis://r''"] by (simp add: example_pool_def)
  then obtain r where r: "init_providers (example_pool (Some ''redis://r'')) ?F id None None = Some r" by blast
  then have "\<forall>cfg\<in>set (rpc_config_list None None). \<forall>(c, u, w)\<in>set (pc_chains cfg). weight_at r c (pc_kind cfg) = Some w"
    using start [of "Some ''redis://r''"] by blast
  from this [rule_format, OF cfg] r start [of "Some []"] show ?thesis by (simp add: example_pool_def)
qed

text \<open>C23: if the pool of the response cache can be built, or no address is configured, and there is a Quicknode token
  for TRON and for the Solana testnet, then every chain of the active chain list is served after the start-up: asking
  for at least one provider returns at least one and at most as many as asked for, and never an error.\<close>

theorem startup_serves_active_chains:
  assumes "sampler_laws S repr"
    and "tokens ''tron:0x2b6653dc'' \<noteq> None" "tokens ''solana:4uhcVJyU9pJkvQyS88uRDiswHXSCkY3z'' \<noteq> None"
    and "c \<in> fst ` set ACTIVE_CONFIG" "0 < n" and pool: "response_cache_pool P \<noteq> None"
  shows "\<exists>r ps. init_providers P F b64 (Some tokens) a = Some r
    \<and> get_rpc_provider_for_chain_id S rnd r c n = Inr ps \<and> 0 < length ps \<and> length ps \<le> n"
proof -
  obtain r where r: "init_providers P F b64 (Some tokens) a = Some r"
    using pool startup_panics [of P F b64 "Some tokens" a] by auto
  note st = startup_state [OF r]
  have "c \<in> http_chains r" using active_chain_served [OF assms(2-4)] st(2) by simp
  then obtain es where es: "rpc_weight_resolver r c = Some es" "es \<noteq> []"
    using st(1) by (auto simp: repository_ok_def pool_ok_def)
  obtain ks where ks: "length ks = min n (length es)"
    "get_rpc_provider_for_chain_id S rnd r c n = Inr (map (\<lambda>k. the (rpc_providers r k)) ks)"
    using rpc_selection [OF assms(1) st(1) es(1) startup_weights_fit [OF st(1,3) es(1)]] by blast
  have "0 < length es" using es(2) by simp
  with r ks assms(5) show ?thesis
    by (intro exI [of _ r] exI [of _ "map (\<lambda>k. the (rpc_providers r k)) ks"]) simp
qed

lemma startup_serves_active_chains_witness:
  "\<exists>r ps. init_providers (example_pool (Some ''redis://r'')) (\<lparr> new_rpc = (\<lambda>k. k), new_ws = (\<lambda>_. ()), new_balance = (\<lambda>_. ()) \<rparr>) id
      (Some (\<lambda>_. Some ''token'')) None = Some r
    \<and> get_rpc_provider_for_chain_id first_sampler (\<lambda>_. ()) r ''eip155:1'' 5 = Inr ps \<and> 0 < length ps"
proof -
  have "''eip155:1'' \<in> fst ` set ACTIVE_CONFIG" by (simp add: ACTIVE_CONFIG_def active_config_1_def)
  moreover have "response_cache_pool (example_pool (Some ''redis://r'')) \<noteq> None"
    by (simp add: response_cache_pool_def example_pool_def)
  ultimately show ?thesis
    using startup_serves_active_chains [OF first_sampler_laws, of "\<lambda>_. Some ''token''" "''eip155:1''" 5 "example_pool (Some ''redis://r'')"
      "\<lparr> new_rpc = (\<lambda>k. k), new_ws = (\<lambda>_. ()), new_balance = (\<lambda>_. ()) \<rparr>" id None "\<lambda>_. ()"]
    by auto
qed

end
