(* ===== verification/Project.thy ===== *)
theory Project
  imports HttpErrors
begin

text \<open>
  Project data: the registry client with its cache and circuit breaker (\<open>project/mod.rs\<close>,
  \<open>project/storage\<close>) and the access checks of the application state (\<open>state.rs\<close>).  The registry service,
  the cache reads and the clock are the environment of a call; the calls and writes it makes are
  returned as a list of effects.  Times are milliseconds since the start of the registry, as the code
  keeps them.
\<close>

section \<open>Data\<close>

record project_key =
  pk_value :: string
  pk_is_valid :: bool

record project_data =
  pd_uuid :: string
  pd_creator :: string
  pd_name :: string
  pd_push_url :: "string option"
  pd_keys :: "project_key list"
  pd_is_enabled :: bool
  pd_is_verify_enabled :: bool
  pd_is_rate_limited :: bool
  pd_allowed_origins :: "string list"
  pd_verified_domains :: "string list"
  pd_bundle_ids :: "string list"
  pd_package_names :: "string list"

record plan_limits =
  pl_tier :: string
  pl_is_above_rpc_limit :: bool
  pl_is_above_mau_limit :: bool

record 'f project_response =
  pr_data :: project_data
  pr_limits :: "plan_limits option"
  pr_features :: "'f option"

record project_with_limits =
  pwl_data :: project_data
  pwl_limits :: plan_limits

record project_request =
  rq_id :: string
  rq_include_limits :: bool
  rq_include_features :: bool

definition request_new :: "string \<Rightarrow> project_request" where
  "request_new i = \<lparr> rq_id = i, rq_include_limits = False, rq_include_features = False \<rparr>"

definition include_limits :: "project_request \<Rightarrow> project_request" where
  "include_limits r = r \<lparr> rq_include_limits := True \<rparr>"

type_synonym 'f project_result = "(project_data_error, 'f project_response) result"

datatype registry_error = Registry_Config string | Registry_Other string

datatype response_source = From_Cache | From_Registry

section \<open>The cache of project data\<close>

definition build_cache_key :: "project_request \<Rightarrow> string" where
  "build_cache_key r =
    (let flags = (if rq_include_limits r then 1 else 0) + (if rq_include_features r then 2 else (0::nat))
     in ''project-data-v3/'' @ rq_id r @ ''/'' @ show_nat flags)"

text \<open>A cached value that does not deserialize counts as absent; any other read error is returned.\<close>

definition storage_fetch ::
  "(string \<Rightarrow> (storage_error, 'f project_result option) result) \<Rightarrow> project_request
    \<Rightarrow> (storage_error, 'f project_result option) result" where
  "storage_fetch get r = (case get (build_cache_key r) of
      Inr data \<Rightarrow> Inr data
    | Inl (SE_Deserialize _) \<Rightarrow> Inr None
    | Inl err \<Rightarrow> Inl err)"

section \<open>The registry\<close>

record registry =
  reg_client :: bool
  reg_cache :: bool
  reg_last_error_ms :: u64
  reg_cooldown_ms :: u64

record 'f registry_env =
  env_cache_get :: "string \<Rightarrow> (storage_error, 'f project_result option) result"
  env_client :: "project_request \<Rightarrow> (registry_error, 'f project_response option) result"
  env_now_check :: u64
  env_now_open :: u64

datatype 'f registry_effect =
    Cache_get string
  | Client_call project_request
  | Cache_set string "'f project_result"

text \<open>\<open>Registry::new\<close>: \<open>client\<close> and \<open>redis\<close> are the outcomes of constructing the HTTP client and opening
  the cache.\<close>

definition registry_new ::
  "string option \<Rightarrow> string option \<Rightarrow> bool \<Rightarrow> u64 \<Rightarrow> (string, unit) result \<Rightarrow> (storage_error, unit) result
    \<Rightarrow> (rpc_error, registry) result" where
  "registry_new api_url api_auth_token has_cache_addr cooldown client redis =
    (case api_url of
       None \<Rightarrow> Inr \<lparr> reg_client = False, reg_cache = False, reg_last_error_ms = 0, reg_cooldown_ms = cooldown \<rparr>
     | Some url \<Rightarrow>
        (case api_auth_token of
           None \<Rightarrow> Inl (RE_InvalidConfiguration ''missing registry api_auth_token'')
         | Some token \<Rightarrow>
            bind_res (map_err RE_RegistryError client) (\<lambda>_.
            bind_res (if has_cache_addr then map_err RE_StorageError redis else Inr ()) (\<lambda>_.
              Inr \<lparr> reg_client = True, reg_cache = has_cache_addr, reg_last_error_ms = 0,
                reg_cooldown_ms = cooldown \<rparr>))))"

definition is_circuit_open :: "registry \<Rightarrow> u64 \<Rightarrow> bool" where
  "is_circuit_open reg now = (reg_cooldown_ms reg \<noteq> 0 \<and> reg_last_error_ms reg \<noteq> 0
     \<and> saturating_sub now (reg_last_error_ms reg) < reg_cooldown_ms reg)"

definition open_circuit :: "u64 \<Rightarrow> registry \<Rightarrow> registry" where
  "open_circuit now reg = reg \<lparr> reg_last_error_ms := now \<rparr>"

definition anonymous_project :: "string \<Rightarrow> 'f project_response" where
  "anonymous_project i = \<lparr>
     pr_data = \<lparr> pd_uuid = '''', pd_creator = '''', pd_name = '''', pd_push_url = None,
       pd_keys = [\<lparr> pk_value = i, pk_is_valid = True \<rparr>], pd_is_enabled = True,
       pd_is_verify_enabled = False, pd_is_rate_limited = False, pd_allowed_origins = [],
       pd_verified_domains = [], pd_bundle_ids = [], pd_package_names = [] \<rparr>,
     pr_limits = Some \<lparr> pl_tier = '''', pl_is_above_rpc_limit = False, pl_is_above_mau_limit = False \<rparr>,
     pr_features = None \<rparr>"

definition fetch_registry ::
  "registry \<Rightarrow> 'f registry_env \<Rightarrow> project_request
    \<Rightarrow> (registry_error, 'f project_response option) result \<times> 'f registry_effect list" where
  "fetch_registry reg env r =
    (if reg_client reg then (env_client env r, [Client_call r])
     else (Inr (Some (anonymous_project (rq_id r))), []))"

text \<open>The part of \<open>project_data_internal\<close> after a cache miss.\<close>

definition project_data_miss ::
  "registry \<Rightarrow> 'f registry_env \<Rightarrow> project_request
    \<Rightarrow> (rpc_error, response_source \<times> 'f project_result) result \<times> registry \<times> 'f registry_effect list" where
  "project_data_miss reg env r =
    (if is_circuit_open reg (env_now_check env) then
       (Inl (RE_ProjectDataError RegistryTemporarilyUnavailable), reg, [])
     else
       (let (fetched, calls) = fetch_registry reg env r;
            answer = (\<lambda>data. (Inr (From_Registry, data), reg,
              calls @ (if reg_cache reg then [Cache_set (build_cache_key r) data] else [])))
        in (case fetched of
              Inr (Some data) \<Rightarrow> answer (Inr data)
            | Inr None \<Rightarrow> answer (Inl NotFound)
            | Inl (Registry_Config _) \<Rightarrow> answer (Inl RegistryConfigError)
            | Inl (Registry_Other _) \<Rightarrow>
                (Inl (RE_ProjectDataError RegistryTemporarilyUnavailable),
                 open_circuit (env_now_open env) reg, calls))))"

definition project_data_internal ::
  "registry \<Rightarrow> 'f registry_env \<Rightarrow> project_request
    \<Rightarrow> (rpc_error, response_source \<times> 'f project_result) result \<times> registry \<times> 'f registry_effect list" where
  "project_data_internal reg env r =
    (if reg_cache reg then
       (case storage_fetch (env_cache_get env) r of
          Inl e \<Rightarrow> (Inl (RE_StorageError e), reg, [Cache_get (build_cache_key r)])
        | Inr (Some data) \<Rightarrow> (Inr (From_Cache, data), reg, [Cache_get (build_cache_key r)])
        | Inr None \<Rightarrow>
            (let (res, reg', effs) = project_data_miss reg env r
             in (res, reg', Cache_get (build_cache_key r) # effs)))
     else project_data_miss reg env r)"

definition project_data_request ::
  "registry \<Rightarrow> 'f registry_env \<Rightarrow> project_request
    \<Rightarrow> (rpc_error, 'f project_response) result \<times> registry \<times> 'f registry_effect list" where
  "project_data_request reg env r =
    (let (res, reg', effs) = project_data_internal reg env r
     in (bind_res res (\<lambda>(_, data). map_err RE_ProjectDataError data), reg', effs))"

definition project_data ::
  "registry \<Rightarrow> 'f registry_env \<Rightarrow> string
    \<Rightarrow> (rpc_error, project_with_limits) result \<times> registry \<times> 'f registry_effect list" where
  "project_data reg env i =
    (let (res, reg', effs) = project_data_internal reg env (include_limits (request_new i))
     in (bind_res res (\<lambda>(_, data). bind_res (map_err RE_ProjectDataError data) (\<lambda>response.
           Inr \<lparr> pwl_data = pr_data response,
             pwl_limits = (case pr_limits response of Some l \<Rightarrow> l
               | None \<Rightarrow> \<lparr> pl_tier = '''', pl_is_above_rpc_limit = False, pl_is_above_mau_limit = False \<rparr>) \<rparr>)),
         reg', effs))"

section \<open>Access checks\<close>

text \<open>\<open>validate_access\<close> is the check of the project data by the registry library.\<close>

definition get_project_data_validated ::
  "(project_data \<Rightarrow> string \<Rightarrow> (string, unit) result) \<Rightarrow> registry \<Rightarrow> 'f registry_env \<Rightarrow> string
    \<Rightarrow> (rpc_error, project_with_limits) result \<times> registry \<times> 'f registry_effect list" where
  "get_project_data_validated validate_access reg env i =
    (let (res, reg', effs) = project_data reg env i
     in (bind_res res (\<lambda>project.
           bind_res (map_err RE_Cerberus (validate_access (pwl_data project) i)) (\<lambda>_. Inr project)),
         reg', effs))"

definition validate_project_access ::
  "(project_data \<Rightarrow> string \<Rightarrow> (string, unit) result) \<Rightarrow> bool \<Rightarrow> registry \<Rightarrow> 'f registry_env \<Rightarrow> string
    \<Rightarrow> (rpc_error, unit) result \<times> registry \<times> 'f registry_effect list" where
  "validate_project_access validate_access validate_project_id reg env i =
    (if \<not> validate_project_id then (Inr (), reg, [])
     else
       (let (res, reg', effs) = get_project_data_validated validate_access reg env i
        in (case res of
              Inr _ \<Rightarrow> Inr ()
            | Inl (RE_ProjectDataError RegistryTemporarilyUnavailable) \<Rightarrow> Inr ()
            | Inl e \<Rightarrow> Inl e, reg', effs)))"

definition validate_project_quota :: "project_with_limits \<Rightarrow> (rpc_error, unit) result" where
  "validate_project_quota p =
    (if \<not> pl_is_above_rpc_limit (pwl_limits p) then Inr () else Inl RE_QuotaLimitReached)"

definition validate_project_access_and_quota ::
  "(project_data \<Rightarrow> string \<Rightarrow> (string, unit) result) \<Rightarrow> bool \<Rightarrow> registry \<Rightarrow> 'f registry_env \<Rightarrow> string
    \<Rightarrow> (rpc_error, unit) result \<times> registry \<times> 'f registry_effect list" where
  "validate_project_access_and_quota validate_access validate_project_id reg env i =
    (if \<not> validate_project_id then (Inr (), reg, [])
     else
       (let (res, reg', effs) = get_project_data_validated validate_access reg env i
        in (case res of
              Inr project \<Rightarrow> validate_project_quota project
            | Inl (RE_ProjectDataError RegistryTemporarilyUnavailable) \<Rightarrow> Inr ()
            | Inl e \<Rightarrow> Inl e, reg', effs)))"

section \<open>Lemmas\<close>

lemmas registry_defs =
  project_data_internal_def project_data_miss_def fetch_registry_def storage_fetch_def Let_def

definition cache_miss :: "registry \<Rightarrow> 'f registry_env \<Rightarrow> project_request \<Rightarrow> bool" where
  "cache_miss reg env r = (reg_cache reg \<longrightarrow> storage_fetch (env_cache_get env) r = Inr None)"

lemma internal_miss:
  assumes "cache_miss reg env r"
  shows "fst (project_data_internal reg env r) = fst (project_data_miss reg env r)"
    and "fst (snd (project_data_internal reg env r)) = fst (snd (project_data_miss reg env r))"
    and "\<And>q. Client_call q \<in> set (snd (snd (project_data_internal reg env r))) \<longleftrightarrow>
      Client_call q \<in> set (snd (snd (project_data_miss reg env r)))"
  using assms by (auto simp: project_data_internal_def cache_miss_def Let_def split: prod.splits)

lemma is_circuit_open_iff:
  "is_circuit_open reg now \<longleftrightarrow> reg_cooldown_ms reg \<noteq> 0 \<and> reg_last_error_ms reg \<noteq> 0
     \<and> unat now - unat (reg_last_error_ms reg) < unat (reg_cooldown_ms reg)"
  by (simp add: is_circuit_open_def word_less_nat_alt unat_saturating_sub)

lemma miss_closed_calls:
  assumes "\<not> is_circuit_open reg (env_now_check env)" "reg_client reg"
  shows "Client_call r \<in> set (snd (snd (project_data_miss reg env r)))"
  using assms by (auto simp: registry_defs split: sum.splits option.splits registry_error.splits)

lemma miss_open:
  "is_circuit_open reg (env_now_check env) \<Longrightarrow> project_data_miss reg env r =
    (Inl (RE_ProjectDataError RegistryTemporarilyUnavailable), reg, [])"
  by (simp add: project_data_miss_def)

lemma internal_error_opens:
  assumes "reg_client reg" "env_client env r = Inl (Registry_Other e)"
    "\<not> is_circuit_open reg (env_now_check env)"
  shows "project_data_miss reg env r =
    (Inl (RE_ProjectDataError RegistryTemporarilyUnavailable), open_circuit (env_now_open env) reg,
     [Client_call r])"
  using assms by (simp add: project_data_miss_def fetch_registry_def)

lemma show_nat_flags: "n < 4 \<Longrightarrow> show_nat n = [digit_char n]"
  by (subst show_nat.simps) simp

lemma digit_char_eq: "m < 10 \<Longrightarrow> n < 10 \<Longrightarrow> digit_char m = digit_char n \<longleftrightarrow> m = n"
  by (metis digit_val_digit_char option.inject)

text \<open>C8: the circuit breaker: after an internal registry error at time \<open>t\<close> (not zero), a request that
  misses the cache before the cooldown has passed is refused as temporarily unavailable without
  calling the registry and without moving the window; once the cooldown has passed the registry is
  called again.\<close>

theorem circuit_breaker_window:
  assumes "reg_client reg" "reg_cooldown_ms reg \<noteq> 0" "env_now_open env \<noteq> 0"
    and "\<not> is_circuit_open reg (env_now_check env)" "env_client env r = Inl (Registry_Other e)"
    and "cache_miss reg env r"
    and "reg' = fst (snd (project_data_internal reg env r))"
    and "cache_miss reg' env' r'"
  shows "fst (project_data_internal reg env r) = Inl (RE_ProjectDataError RegistryTemporarilyUnavailable)
    \<and> (unat (env_now_check env') < unat (env_now_open env) + unat (reg_cooldown_ms reg) \<longrightarrow>
         fst (project_data_internal reg' env' r') = Inl (RE_ProjectDataError RegistryTemporarilyUnavailable)
         \<and> fst (snd (project_data_internal reg' env' r')) = reg'
         \<and> (\<forall>q. Client_call q \<notin> set (snd (snd (project_data_internal reg' env' r')))))
    \<and> (unat (env_now_open env) + unat (reg_cooldown_ms reg) \<le> unat (env_now_check env') \<longrightarrow>
         Client_call r' \<in> set (snd (snd (project_data_internal reg' env' r'))))"
proof -
  note err = internal_error_opens [OF assms(1,5,4)]
  have reg': "reg' = open_circuit (env_now_open env) reg"
    using assms(7) internal_miss(2) [OF assms(6)] err by simp
  have opn: "is_circuit_open reg' (env_now_check env') \<longleftrightarrow>
      unat (env_now_check env') < unat (env_now_open env) + unat (reg_cooldown_ms reg)"
  proof -
    have "0 < unat (reg_cooldown_ms reg)" using assms(2) by (simp add: unat_gt_0)
    then show ?thesis using assms(2,3) by (auto simp: reg' is_circuit_open_iff open_circuit_def)
  qed
  have cl: "reg_client reg'" using assms(1) by (simp add: reg' open_circuit_def)
  note m = internal_miss [OF assms(8)]
  have first: "fst (project_data_internal reg env r) = Inl (RE_ProjectDataError RegistryTemporarilyUnavailable)"
    using internal_miss(1) [OF assms(6)] err by simp
  show ?thesis
  proof (cases "is_circuit_open reg' (env_now_check env')")
    case True
    then show ?thesis using first m opn miss_open [OF True, of r'] by simp
  next
    case False
    then show ?thesis using first m(3) opn miss_closed_calls [of reg' env' r'] cl by auto
  qed
qed

lemma circuit_breaker_window_witness:
  "\<exists>(reg' :: registry) (env' :: unit registry_env).
     fst (project_data_internal reg' env' (request_new ''p'')) =
       Inl (RE_ProjectDataError RegistryTemporarilyUnavailable)"
proof -
  define reg :: registry where "reg = \<lparr> reg_client = True, reg_cache = False, reg_last_error_ms = 0,
    reg_cooldown_ms = 1000 \<rparr>"
  define env :: "unit registry_env" where "env = \<lparr> env_cache_get = (\<lambda>_. Inr None),
    env_client = (\<lambda>_. Inl (Registry_Other ''timeout'')), env_now_check = 10, env_now_open = 15 \<rparr>"
  define env' where "env' = env \<lparr> env_now_check := 900 \<rparr>"
  define reg' where "reg' = fst (snd (project_data_internal reg env (request_new ''p'')))"
  have "fst (project_data_internal reg' env' (request_new ''p'')) =
      Inl (RE_ProjectDataError RegistryTemporarilyUnavailable)"
    using circuit_breaker_window [of reg env "request_new ''p''" "''timeout''" reg' env' "request_new ''p''"]
    by (simp add: reg_def env_def env'_def is_circuit_open_def cache_miss_def reg'_def
        project_data_internal_def project_data_miss_def fetch_registry_def open_circuit_def Let_def)
  then show ?thesis by blast
qed

text \<open>C24: what a lookup does to the outside: the cache is written exactly when the registry answered
  (with a project, with no project, or with a configuration error), with the returned value under the
  key of the request; an answer from the cache calls no registry, at most one call is made, and only
  an internal error changes the circuit breaker.\<close>

theorem registry_lookup_effects:
  assumes "project_data_internal reg env r = (res, reg', effs)"
  shows "(Cache_set k v \<in> set effs \<longleftrightarrow>
            reg_cache reg \<and> k = build_cache_key r \<and> res = Inr (From_Registry, v))
    \<and> length (filter (\<lambda>e. \<exists>q. e = Client_call q) effs) \<le> 1
    \<and> (\<forall>v. res = Inr (From_Cache, v) \<longrightarrow> effs = [Cache_get (build_cache_key r)]
          \<and> storage_fetch (env_cache_get env) r = Inr (Some v))
    \<and> (reg' \<noteq> reg \<longrightarrow> reg_client reg \<and> (\<exists>e. env_client env r = Inl (Registry_Other e)))"
proof -
  have miss: "(Cache_set k v \<in> set effs \<longleftrightarrow>
            reg_cache reg \<and> k = build_cache_key r \<and> res = Inr (From_Registry, v))
    \<and> length (filter (\<lambda>e. \<exists>q. e = Client_call q) effs) \<le> 1
    \<and> (\<forall>v. res \<noteq> Inr (From_Cache, v))
    \<and> (reg' \<noteq> reg \<longrightarrow> reg_client reg \<and> (\<exists>e. env_client env r = Inl (Registry_Other e)))"
    if "project_data_miss reg env r = (res, reg', effs)" for effs
    using that by (auto simp: project_data_miss_def fetch_registry_def Let_def
        split: if_splits sum.splits option.splits registry_error.splits)
  show ?thesis
  proof (cases "cache_miss reg env r \<and> reg_cache reg")
    case True
    then obtain effs' where "project_data_miss reg env r = (res, reg', effs')"
      "effs = Cache_get (build_cache_key r) # effs'"
      using assms by (auto simp: project_data_internal_def cache_miss_def Let_def split: prod.splits)
    with miss [of effs'] show ?thesis by auto
  next
    case False
    show ?thesis
    proof (cases "reg_cache reg")
      case True
      with False assms show ?thesis
        by (auto simp: project_data_internal_def cache_miss_def split: sum.splits option.splits)
    next
      case False
      with assms have "project_data_miss reg env r = (res, reg', effs)"
        by (simp add: project_data_internal_def)
      with miss [of effs] show ?thesis by auto
    qed
  qed
qed

lemma registry_lookup_effects_witness:
  "\<exists>v. Cache_set (build_cache_key (request_new ''p'')) v \<in> set (snd (snd (project_data_internal
      \<lparr> reg_client = True, reg_cache = True, reg_last_error_ms = 0, reg_cooldown_ms = 1000 \<rparr>
      \<lparr> env_cache_get = (\<lambda>_. Inr None), env_client = (\<lambda>_. Inr None :: (registry_error, unit project_response option) result),
        env_now_check = 5, env_now_open = 5 \<rparr> (request_new ''p''))))"
proof -
  let ?reg = "\<lparr> reg_client = True, reg_cache = True, reg_last_error_ms = 0, reg_cooldown_ms = 1000 \<rparr>"
  let ?env = "\<lparr> env_cache_get = (\<lambda>_. Inr None), env_client = (\<lambda>_. Inr None :: (registry_error, unit project_response option) result),
        env_now_check = 5, env_now_open = 5 \<rparr>"
  obtain res reg' effs where e: "project_data_internal ?reg ?env (request_new ''p'') = (res, reg', effs)"
    using prod_cases3 by blast
  then have "res = Inr (From_Registry, Inl NotFound)"
    by (auto simp: registry_defs is_circuit_open_def)
  with registry_lookup_effects [OF e] e show ?thesis by auto
qed

text \<open>The cache key determines the request: two requests share a key exactly if they ask for the
  same project with the same flags, whatever the project id contains.\<close>

theorem cache_key_injective: "build_cache_key r = build_cache_key r' \<longleftrightarrow> r = r'"
proof
  assume eq: "build_cache_key r = build_cache_key r'"
  define f :: "project_request \<Rightarrow> nat" where
    "f r = (if rq_include_limits r then 1 else 0) + (if rq_include_features r then 2 else 0)" for r
  have f4: "f q < 4" for q by (simp add: f_def)
  have key: "build_cache_key q = ''project-data-v3/'' @ rq_id q @ [CHR ''/'', digit_char (f q)]" for q
    using f4 [of q] by (simp add: build_cache_key_def Let_def show_nat_flags f_def)
  have "rq_id r = rq_id r' \<and> digit_char (f r) = digit_char (f r')"
    using eq unfolding key by simp
  then have "rq_id r = rq_id r'" "f r = f r'"
    using f4 [of r] f4 [of r'] by (auto simp: digit_char_eq)
  then show "r = r'" by (cases r; cases r') (auto simp: f_def split: if_splits)
qed simp

text \<open>The access and quota check: it passes exactly when the check is switched off, when the registry
  is temporarily unavailable, or when the project is found, its access check passes and it is below
  its RPC limit; the failures are the error of the lookup, of the access check, or the quota error,
  in this order.\<close>

theorem access_and_quota_decision:
  "fst (validate_project_access_and_quota validate_access on reg env i) =
    (if \<not> on then Inr ()
     else (case fst (project_data reg env i) of
         Inl e \<Rightarrow> (if e = RE_ProjectDataError RegistryTemporarilyUnavailable then Inr () else Inl e)
       | Inr p \<Rightarrow>
          (case validate_access (pwl_data p) i of
             Inl e \<Rightarrow> Inl (RE_Cerberus e)
           | Inr _ \<Rightarrow> if pl_is_above_rpc_limit (pwl_limits p) then Inl RE_QuotaLimitReached else Inr ())))"
  by (cases "project_data reg env i")
    (auto simp: validate_project_access_and_quota_def get_project_data_validated_def
      validate_project_quota_def Let_def split: sum.splits rpc_error.splits project_data_error.splits)

end
