(* ===== verification/CryptoBytes.thy ===== *)
theory CryptoBytes
  imports Caip
begin

text \<open>
  The byte-level helpers of \<open>utils/crypto.rs\<close>: constant-time comparison, the CRC of TON addresses, the
  packing of user operations and signatures, the selectors of ERC-20 calls, and the decimal formatting
  of token amounts.  Bytes are 8-bit words.  ABI decoding and base64 are parameters.
\<close>

unbundle bit_operations_syntax

section \<open>Comparison\<close>

text \<open>The accumulator starts at zero and collects the bitwise differences.\<close>

fun ct_fold :: "u8 \<Rightarrow> (u8 \<times> u8) list \<Rightarrow> u8" where
  "ct_fold acc [] = acc"
| "ct_fold acc ((a, b) # rest) = ct_fold (acc OR (a XOR b)) rest"

definition constant_time_eq :: "bytes \<Rightarrow> bytes \<Rightarrow> bool" where
  "constant_time_eq a b =
    (if length a \<noteq> length b then False else ct_fold 0 (zip a b) = 0)"

definition string_bytes :: "string \<Rightarrow> bytes" where
  "string_bytes s = map (\<lambda>c. word_of_nat (char_code c)) s"

section \<open>Numbers as bytes\<close>

text \<open>\<open>to_be_bytes\<close>: \<open>n\<close> bytes, the most significant first.\<close>

fun to_be_bytes :: "nat \<Rightarrow> 'a::len word \<Rightarrow> bytes" where
  "to_be_bytes 0 w = []"
| "to_be_bytes (Suc n) w = ucast (drop_bit (8 * n) w) # to_be_bytes n w"

section \<open>TON addresses\<close>

definition crc16_bit :: "u16 \<Rightarrow> u16" where
  "crc16_bit crc = (if crc AND 0x8000 \<noteq> 0 then push_bit 1 crc XOR 0x1021 else push_bit 1 crc)"

definition crc16_byte :: "u16 \<Rightarrow> u8 \<Rightarrow> u16" where
  "crc16_byte crc b = (crc16_bit ^^ 8) (crc XOR push_bit 8 (ucast b))"

definition crc16_from :: "u16 \<Rightarrow> bytes \<Rightarrow> u16" where
  "crc16_from crc data = fold (\<lambda>b crc. crc16_byte crc b) data crc"

definition crc16_xmodem :: "bytes \<Rightarrow> u16" where
  "crc16_xmodem data = crc16_from 0 data"

text \<open>\<open>s.parse::<i32>()\<close>: an optional sign, then digits, within the range of the type.\<close>

definition parse_i32 :: "string \<Rightarrow> int option" where
  "parse_i32 s = (case s of
      [] \<Rightarrow> None
    | c # cs \<Rightarrow>
        if c = CHR ''-'' then
          (if cs = [] then None else map_option (\<lambda>n. - int n) (parse_acc (2 ^ 31 + 1) 0 cs))
        else map_option int (parse_uint (2 ^ 31) s))"

fun hex_decode :: "string \<Rightarrow> bytes option" where
  "hex_decode [] = Some []"
| "hex_decode [c] = None"
| "hex_decode (c # d # rest) =
    (case (radix_val 16 c, radix_val 16 d) of
       (Some h, Some l) \<Rightarrow> map_option (\<lambda>bs. word_of_nat (16 * h + l) # bs) (hex_decode rest)
     | _ \<Rightarrow> None)"

text \<open>The bytes that are encoded: tag, workchain byte (the low byte of the parsed number), the 32 address
  bytes and the checksum.\<close>

definition ton_friendly_bytes :: "int \<Rightarrow> bytes \<Rightarrow> bool \<Rightarrow> bool \<Rightarrow> bytes" where
  "ton_friendly_bytes wc addr bounceable testnet =
    (let tag = (if bounceable then 0x11 else 0x51) OR (if testnet then 0x80 else 0);
         body = [tag, word_of_int wc] @ addr
     in body @ to_be_bytes 2 (crc16_xmodem body))"

definition ton_raw_to_friendly :: "(bytes \<Rightarrow> string) \<Rightarrow> string \<Rightarrow> bool \<Rightarrow> bool \<Rightarrow> string option" where
  "ton_raw_to_friendly b64url raw bounceable testnet =
    (case split_on CHR '':'' raw of
       wc # hex # _ \<Rightarrow>
        (case parse_i32 wc of
           None \<Rightarrow> None
         | Some w \<Rightarrow>
            if length hex \<noteq> 64 then None
            else (case hex_decode hex of
               None \<Rightarrow> None
             | Some addr \<Rightarrow> Some (b64url (ton_friendly_bytes w addr bounceable testnet))))
     | _ \<Rightarrow> None)"

definition to_friendly_if_raw :: "(bytes \<Rightarrow> string) \<Rightarrow> string \<Rightarrow> string" where
  "to_friendly_if_raw b64url addr =
    (if CHR '':'' \<in> set addr then
       (case ton_raw_to_friendly b64url addr True False of Some f \<Rightarrow> f | None \<Rightarrow> addr)
     else addr)"

section \<open>User operations\<close>

text \<open>Addresses are lists of 20 bytes, the 128-bit limits are \<open>U128\<close>.\<close>

record user_operation =
  uo_sender :: bytes
  uo_nonce :: u256
  uo_call_data :: bytes
  uo_call_gas_limit :: u128
  uo_verification_gas_limit :: u128
  uo_pre_verification_gas :: u256
  uo_max_priority_fee_per_gas :: u128
  uo_max_fee_per_gas :: u128
  uo_signature :: bytes
  uo_factory :: "bytes option"
  uo_factory_data :: "bytes option"
  uo_paymaster :: "bytes option"
  uo_paymaster_verification_gas_limit :: "u128 option"
  uo_paymaster_post_op_gas_limit :: "u128 option"
  uo_paymaster_data :: "bytes option"

record packed_user_operation =
  po_sender :: bytes
  po_nonce :: u256
  po_init_code :: bytes
  po_call_data :: bytes
  po_account_gas_limits :: bytes
  po_pre_verification_gas :: u256
  po_gas_fees :: bytes
  po_paymaster_and_data :: bytes
  po_signature :: bytes

definition concat_128 :: "bytes \<Rightarrow> bytes \<Rightarrow> bytes" where
  "concat_128 a b = map (\<lambda>i. if 16 \<le> i then b ! (i - 16) else a ! i) [0..<32]"

definition get_packed :: "user_operation \<Rightarrow> packed_user_operation" where
  "get_packed u = \<lparr>
     po_sender = uo_sender u,
     po_nonce = uo_nonce u,
     po_init_code = (case (uo_factory u, uo_factory_data u) of
         (Some factory, Some factory_data) \<Rightarrow> factory @ factory_data
       | _ \<Rightarrow> []),
     po_call_data = uo_call_data u,
     po_account_gas_limits =
       concat_128 (to_be_bytes 16 (uo_verification_gas_limit u)) (to_be_bytes 16 (uo_call_gas_limit u)),
     po_pre_verification_gas = uo_pre_verification_gas u,
     po_gas_fees =
       concat_128 (to_be_bytes 16 (uo_max_priority_fee_per_gas u)) (to_be_bytes 16 (uo_max_fee_per_gas u)),
     po_paymaster_and_data = (case (uo_paymaster u, uo_paymaster_verification_gas_limit u,
           uo_paymaster_post_op_gas_limit u, uo_paymaster_data u) of
         (Some p, Some v, Some o', Some d) \<Rightarrow> p @ to_be_bytes 16 v @ to_be_bytes 16 o' @ d
       | _ \<Rightarrow> []),
     po_signature = uo_signature u \<rparr>"

section \<open>Signatures and messages\<close>

record eth_signature =
  sig_r :: u256
  sig_s :: u256
  sig_v :: u64

definition pack_signature :: "eth_signature \<Rightarrow> bytes" where
  "pack_signature s = to_be_bytes 32 (sig_r s) @ to_be_bytes 32 (sig_s s)
     @ [if sig_v s = 27 then 0x1b else 0x1c]"

definition to_eip191_message :: "bytes \<Rightarrow> bytes" where
  "to_eip191_message message =
     [0x19] @ string_bytes ''Ethereum Signed Message:'' @ [10] @ string_bytes (show_nat (length message))
     @ message"

section \<open>ERC-20 calls\<close>

datatype erc20_function_type = BalanceOf | Transfer | Approve | TransferFrom | Allowance

text \<open>The four-byte selectors are computed by the \<open>sol!\<close> macro and are parameters.  The slice
  \<open>function_data[0..4]\<close> panics (\<open>None\<close>) on shorter data.\<close>

record erc20_selectors =
  sel_balance_of :: bytes
  sel_transfer :: bytes
  sel_approve :: bytes
  sel_transfer_from :: bytes
  sel_allowance :: bytes

definition decode_erc20_function_type ::
  "erc20_selectors \<Rightarrow> bytes \<Rightarrow> (crypto_utils_error, erc20_function_type) result option" where
  "decode_erc20_function_type S function_data =
    (if length function_data < 4 then None
     else (let selector = take 4 function_data in Some (
       if selector = sel_balance_of S then Inr BalanceOf
       else if selector = sel_transfer S then Inr Transfer
       else if selector = sel_approve S then Inr Approve
       else if selector = sel_transfer_from S then Inr TransferFrom
       else if selector = sel_allowance S then Inr Allowance
       else Inl (CU_Erc20DecodeError ''Unknown function selector.''))))"

definition decode_erc20_transfer_data ::
  "erc20_selectors \<Rightarrow> (bytes \<Rightarrow> (string, bytes \<times> u256) result) \<Rightarrow> bytes
    \<Rightarrow> (crypto_utils_error, bytes \<times> u256) result" where
  "decode_erc20_transfer_data S abi_decode data =
    (if length data < 4 then
       Inl (CU_Erc20DecodeError ''ERC20 function data is less than 4 bytes.'')
     else if take 4 data \<noteq> sel_transfer S then
       Inl (CU_Erc20DecodeError ''ERC20 function data is not a transfer function.'')
     else map_err (\<lambda>err. CU_Erc20DecodeError (''Failed to decode ERC20 transfer params: '' @ err))
       (abi_decode data))"

section \<open>Formatting\<close>

definition format_token_amount :: "u256 \<Rightarrow> u8 \<Rightarrow> string" where
  "format_token_amount amount decimals =
    (let amount_str = show_nat (unat amount); d = unat decimals in
     if length amount_str \<le> d
     then ''0.'' @ replicate (d - length amount_str) CHR ''0'' @ amount_str
     else take (length amount_str - d) amount_str @ ''.'' @ drop (length amount_str - d) amount_str)"

section \<open>Lemmas\<close>

lemma or_eq_0: "(a :: u8) OR b = 0 \<longleftrightarrow> a = 0 \<and> b = 0"
  by (rule or_eq_0_iff)

lemma xor_eq_0: "(a :: u8) XOR b = 0 \<longleftrightarrow> a = b"
proof
  assume z: "a XOR b = 0"
  have "b = (a XOR a) XOR b" by (simp only: xor_self_eq xor.left_neutral)
  also have "\<dots> = a" unfolding xor.assoc z by (rule xor.right_neutral)
  finally show "a = b" by (rule sym)
qed simp

lemma ct_fold_zero: "ct_fold acc ps = 0 \<longleftrightarrow> acc = 0 \<and> list_all (\<lambda>(a, b). a = b) ps"
proof (induction ps arbitrary: acc)
  case (Cons p ps)
  obtain a b where p: "p = (a, b)" by force
  show ?case
    unfolding p ct_fold.simps Cons.IH or_eq_0 xor_eq_0 list.pred_inject prod.case by blast
qed simp

lemma zip_all_eq: "length a = length b \<Longrightarrow> list_all (\<lambda>(x, y). x = y) (zip a b) \<longleftrightarrow> a = b"
  by (induction a b rule: list_induct2) auto

lemma string_bytes_inj: "string_bytes s = string_bytes t \<longleftrightarrow> s = t"
proof -
  have "inj (\<lambda>c. word_of_nat (char_code c) :: u8)"
  proof (rule injI)
    fix c d :: char
    assume eq: "(word_of_nat (char_code c) :: u8) = word_of_nat (char_code d)"
    have b: "char_code e < 256" for e by (simp add: char_code_def)
    have "unat (word_of_nat (char_code e) :: u8) = char_code e" for e
      using b [of e] by (simp add: unat_of_nat)
    then have "char_code c = char_code d" using eq by metis
    then show "c = d" by (simp add: char_code_def)
  qed
  then show ?thesis by (simp add: string_bytes_def inj_map_eq_map)
qed

lemma length_to_be_bytes [simp]: "length (to_be_bytes n w) = n"
  by (induction n) auto

lemma crc16_from_append: "crc16_from crc (xs @ ys) = crc16_from (crc16_from crc xs) ys"
  by (simp add: crc16_from_def)

lemma crc16_bit_cases:
  "crc16_bit w = (if bit w 15 then push_bit 1 w XOR 0x1021 else push_bit 1 w)"
proof -
  have "push_bit 15 (1 :: u16) = 0x8000" by (simp add: push_bit_eq_mult)
  then show ?thesis by (simp add: crc16_bit_def bit_iff_and_push_bit_not_eq_0)
qed

lemma crc16_bits_low:
  assumes "\<And>n. 8 \<le> n \<Longrightarrow> \<not> bit (x :: u16) n" "k \<le> 8"
  shows "(crc16_bit ^^ k) x = push_bit k x"
  using assms(2)
proof (induction k)
  case (Suc k)
  have "\<not> bit (push_bit k x) 15"
    using assms(1) [of "15 - k"] Suc.prems by (auto simp: bit_push_bit_iff)
  with Suc show ?case by (simp add: crc16_bit_cases push_bit_push_bit)
qed simp

lemma crc16_bits_zero: "(crc16_bit ^^ k) 0 = 0"
  by (induction k) (simp_all add: crc16_bit_cases)

lemma to_be_bytes_two: "to_be_bytes 2 (w :: u16) = [ucast (drop_bit 8 w), ucast w]"
  by (simp add: numeral_eq_Suc)

lemma crc_high_step:
  "crc XOR push_bit 8 (ucast (ucast (drop_bit 8 crc) :: u8)) = take_bit 8 (crc :: u16)"
  by (rule bit_word_eqI)
    (auto simp: bit_xor_iff bit_push_bit_iff bit_take_bit_iff bit_ucast_iff bit_drop_bit_eq)

lemma crc_low_step: "push_bit 8 (take_bit 8 (crc :: u16)) XOR push_bit 8 (ucast (ucast crc :: u8)) = 0"
  by (rule bit_word_eqI)
    (auto simp: bit_xor_iff bit_push_bit_iff bit_take_bit_iff bit_ucast_iff)

lemma crc16_self_check: "crc16_from crc (to_be_bytes 2 crc) = 0"
proof -
  have "\<not> bit (take_bit 8 crc) n" if "8 \<le> n" for n
    using that by (simp add: bit_take_bit_iff)
  then have "(crc16_bit ^^ 8) (take_bit 8 crc) = push_bit 8 (take_bit 8 crc)"
    by (rule crc16_bits_low [OF _ order.refl])
  then have "crc16_byte crc (ucast (drop_bit 8 crc)) = push_bit 8 (take_bit 8 crc)"
    unfolding crc16_byte_def crc_high_step .
  then show ?thesis
    unfolding crc16_from_def to_be_bytes_two
    by (simp add: crc16_byte_def crc_low_step crc16_bits_zero)
qed

lemma hex_decode_length: "hex_decode s = Some bs \<Longrightarrow> length s = 2 * length bs"
  by (induction s arbitrary: bs rule: hex_decode.induct) (auto split: option.splits)

lemma concat_128_append:
  assumes "length a = 16" "length b = 16"
  shows "concat_128 a b = a @ b"
proof (rule nth_equalityI)
  show "length (concat_128 a b) = length (a @ b)" using assms by (simp add: concat_128_def)
  show "concat_128 a b ! i = (a @ b) ! i" if "i < length (concat_128 a b)" for i
    using that assms by (auto simp: concat_128_def nth_append)
qed

lemma parse_acc_zeros: "0 < b \<Longrightarrow> parse_acc b 0 (replicate k CHR ''0'' @ s) = parse_acc b 0 s"
  by (induction k) (simp_all add: digit_val_def is_digit_def char_code_def)

lemma constant_time_eq_iff: "constant_time_eq a b \<longleftrightarrow> a = b"
  by (auto simp: constant_time_eq_def ct_fold_zero zip_all_eq)

text \<open>The constant-time comparison decides equality.\<close>

theorem constant_time_eq_correct: "constant_time_eq a b \<longleftrightarrow> a = b"
  by (rule constant_time_eq_iff)

text \<open>A user-friendly TON address has 36 bytes and passes its own check: the CRC over all of them,
  checksum included, is zero; it carries the tag, the low byte of the workchain and the address.\<close>

theorem ton_friendly_checksum:
  assumes "ton_raw_to_friendly b64url raw bounceable testnet = Some f"
  shows "\<exists>bs. f = b64url bs \<and> length bs = 36 \<and> crc16_xmodem bs = 0
    \<and> (\<exists>wc hex rest. split_on CHR '':'' raw = wc # hex # rest
        \<and> map_option (\<lambda>w. word_of_int w) (parse_i32 wc) = Some (bs ! 1)
        \<and> hex_decode hex = Some (take 32 (drop 2 bs)))"
proof -
  obtain wc hex rest w addr where parts: "split_on CHR '':'' raw = wc # hex # rest"
      "parse_i32 wc = Some w" "length hex = 64" "hex_decode hex = Some addr"
    and f: "f = b64url (ton_friendly_bytes w addr bounceable testnet)"
    using assms by (auto simp: ton_raw_to_friendly_def split: list.splits option.splits if_splits)
  have len: "length addr = 32" using hex_decode_length [OF parts(4)] parts(3) by simp
  let ?body = "[(if bounceable then 0x11 else 0x51) OR (if testnet then 0x80 else 0), word_of_int w] @ addr"
  have bs: "ton_friendly_bytes w addr bounceable testnet = ?body @ to_be_bytes 2 (crc16_xmodem ?body)"
    by (simp add: ton_friendly_bytes_def Let_def)
  have "crc16_xmodem (ton_friendly_bytes w addr bounceable testnet) = 0"
    unfolding bs crc16_xmodem_def crc16_from_append by (rule crc16_self_check)
  with f parts len show ?thesis
    by (intro exI [of _ "ton_friendly_bytes w addr bounceable testnet"]) (simp add: bs)
qed

lemma ton_friendly_checksum_witness:
  "\<exists>f. ton_raw_to_friendly (map (\<lambda>b. char_of (unat b))) (''-1:'' @ replicate 64 CHR ''0'') True False = Some f
    \<and> (\<exists>bs. f = map (\<lambda>b. char_of (unat b)) bs \<and> crc16_xmodem bs = 0)"
proof -
  have "split_on CHR '':'' (''-1:'' @ replicate 64 CHR ''0'') = [''-1'', replicate 64 CHR ''0'']"
    by (simp add: split_on_no_sep)
  moreover have "hex_decode (replicate 64 CHR ''0'') \<noteq> None"
    by (simp add: numeral_eq_Suc radix_val_def is_digit_def char_code_def)
  moreover have "parse_i32 ''-1'' = Some (-1)"
    by (simp add: parse_i32_def digit_val_def is_digit_def char_code_def)
  ultimately obtain f where
    f: "ton_raw_to_friendly (map (\<lambda>b. char_of (unat b))) (''-1:'' @ replicate 64 CHR ''0'') True False = Some f"
    by (auto simp: ton_raw_to_friendly_def)
  from ton_friendly_checksum [OF f] f show ?thesis by blast
qed

text \<open>The packed user operation: both 32-byte limit words are the big-endian concatenation of their
  two 16-byte limits, and the optional factory and paymaster parts are present exactly when all their
  fields are.\<close>

theorem get_packed_layout:
  "po_account_gas_limits (get_packed u) =
      to_be_bytes 16 (uo_verification_gas_limit u) @ to_be_bytes 16 (uo_call_gas_limit u)
   \<and> po_gas_fees (get_packed u) =
      to_be_bytes 16 (uo_max_priority_fee_per_gas u) @ to_be_bytes 16 (uo_max_fee_per_gas u)
   \<and> length (po_account_gas_limits (get_packed u)) = 32 \<and> length (po_gas_fees (get_packed u)) = 32
   \<and> po_init_code (get_packed u) =
      (if uo_factory u = None \<or> uo_factory_data u = None then []
       else the (uo_factory u) @ the (uo_factory_data u))
   \<and> (uo_paymaster u = Some p \<and> uo_paymaster_verification_gas_limit u = Some v
        \<and> uo_paymaster_post_op_gas_limit u = Some l \<and> uo_paymaster_data u = Some d \<longrightarrow>
      po_paymaster_and_data (get_packed u) = p @ to_be_bytes 16 v @ to_be_bytes 16 l @ d)"
  by (auto simp: get_packed_def concat_128_append split: option.splits)

lemma get_packed_layout_witness:
  "po_paymaster_and_data (get_packed \<lparr> uo_sender = [], uo_nonce = 0, uo_call_data = [],
     uo_call_gas_limit = 0, uo_verification_gas_limit = 0, uo_pre_verification_gas = 0,
     uo_max_priority_fee_per_gas = 0, uo_max_fee_per_gas = 0, uo_signature = [], uo_factory = None,
     uo_factory_data = None, uo_paymaster = Some [1], uo_paymaster_verification_gas_limit = Some 2,
     uo_paymaster_post_op_gas_limit = Some 3, uo_paymaster_data = Some [] \<rparr>)
   = [1] @ to_be_bytes 16 (2::u128) @ to_be_bytes 16 (3::u128)"
  using get_packed_layout [of "\<lparr> uo_sender = [], uo_nonce = 0, uo_call_data = [],
     uo_call_gas_limit = 0, uo_verification_gas_limit = 0, uo_pre_verification_gas = 0,
     uo_max_priority_fee_per_gas = 0, uo_max_fee_per_gas = 0, uo_signature = [], uo_factory = None,
     uo_factory_data = None, uo_paymaster = Some [1], uo_paymaster_verification_gas_limit = Some 2,
     uo_paymaster_post_op_gas_limit = Some 3, uo_paymaster_data = Some [] \<rparr>" "[1]" 2 3 "[]"]
  by simp

text \<open>The decimal form of a token amount is exact: an integer part, a point and exactly as many
  fractional digits as the token has decimals, all digits together reading as the amount (so a token
  without decimals is printed with a trailing point).\<close>

theorem format_token_amount_exact:
  "\<exists>whole frac. format_token_amount amount decimals = whole @ ''.'' @ frac \<and> whole \<noteq> []
    \<and> length frac = unat decimals \<and> parse_acc (2 ^ 256) 0 (whole @ frac) = Some (unat amount)"
proof -
  let ?s = "show_nat (unat amount)" and ?d = "unat decimals"
  have bound: "unat amount < 2 ^ 256" using unsigned_less [of amount, where ?'a = nat] by simp
  have p: "parse_acc (2 ^ 256) 0 ?s = Some (unat amount)" by (rule parse_acc_show_nat [OF bound])
  show ?thesis
  proof (cases "length ?s \<le> ?d")
    case True
    have "parse_acc (2 ^ 256) 0 (replicate (Suc (?d - length ?s)) CHR ''0'' @ ?s) = Some (unat amount)"
      by (subst parse_acc_zeros) (simp_all only: p zero_less_power zero_less_numeral)
    then have "parse_acc (2 ^ 256) 0 (''0'' @ replicate (?d - length ?s) CHR ''0'' @ ?s) = Some (unat amount)"
      by (simp only: replicate.simps append.simps)
    with True show ?thesis
      by (intro exI [of _ "''0''"] exI [of _ "replicate (?d - length ?s) CHR ''0'' @ ?s"])
        (simp add: format_token_amount_def Let_def)
  next
    case False
    then show ?thesis
      using p by (intro exI [of _ "take (length ?s - ?d) ?s"] exI [of _ "drop (length ?s - ?d) ?s"])
        (simp add: format_token_amount_def Let_def)
  qed
qed

text \<open>Decoding the function of an ERC-20 call panics on data shorter than a selector (the error the
  code prepares for that case is never returned); on longer data the result depends on the selector
  only and unknown selectors are an error.\<close>

theorem decode_erc20_function_type_total:
  "(decode_erc20_function_type S data = None \<longleftrightarrow> length data < 4)
   \<and> decode_erc20_function_type S data \<noteq>
       Some (Inl (CU_Erc20DecodeError ''Function data is less then 4 bytes.''))
   \<and> (decode_erc20_function_type S data = Some (Inl e) \<longrightarrow> take 4 data \<notin>
       {sel_balance_of S, sel_transfer S, sel_approve S, sel_transfer_from S, sel_allowance S})"
  by (auto simp: decode_erc20_function_type_def Let_def)

lemma decode_erc20_function_type_total_witness:
  "decode_erc20_function_type \<lparr> sel_balance_of = [1,1,1,1], sel_transfer = [2,2,2,2], sel_approve = [3,3,3,3],
     sel_transfer_from = [4,4,4,4], sel_allowance = [5,5,5,5] \<rparr> [0xa9, 0x05] = None"
  using decode_erc20_function_type_total [of "\<lparr> sel_balance_of = [1,1,1,1], sel_transfer = [2,2,2,2],
     sel_approve = [3,3,3,3], sel_transfer_from = [4,4,4,4], sel_allowance = [5,5,5,5] \<rparr>" "[0xa9, 0x05]"]
  by simp

end
