(* ===== verification/Proxy.thy ===== *)
theory Proxy
  imports Repository Project CryptoBytes
begin

text \<open>
  The RPC proxy (\<open>handlers/proxy.rs\<close>) with its in-memory answers (\<open>utils/json_rpc_cache.rs\<close>): the access
  check, the cached methods, the provider pinned to a session, the exact provider of the testing
  project, and the retry loop over the selected providers.  What a provider answers, reading and
  parsing a body, and the in-memory cache of the \<open>moka\<close> crate
  are parameters.  Metrics, logging and analytics have no effect on the answer and are omitted; the
  sequence of provider calls is returned with the answer.
\<close>

section \<open>Answers from memory\<close>

datatype cached_method = EthChainId | NetListening | NetVersion

definition cached_method_from_str :: "string \<Rightarrow> cached_method option" where
  "cached_method_from_str s =
    (if s = ''eth_chainId'' then Some EthChainId
     else if s = ''net_listening'' then Some NetListening
     else if s = ''net_version'' then Some NetVersion
     else None)"

fun cached_method_display :: "cached_method \<Rightarrow> string" where
  "cached_method_display EthChainId = ''eth_chainId''"
| "cached_method_display NetListening = ''net_listening''"
| "cached_method_display NetVersion = ''net_version''"

datatype rpc_value = Json_string string | Json_bool bool

record 'i json_rpc_request =
  jr_id :: 'i
  jr_method :: string

record 'i json_rpc_result =
  jres_id :: 'i
  jres_value :: rpc_value

record 'c mem_cache =
  mc_get :: "'c \<Rightarrow> string \<Rightarrow> string option"
  mc_insert :: "'c \<Rightarrow> string \<Rightarrow> string \<Rightarrow> 'c"

definition hex_digit :: "nat \<Rightarrow> char" where
  "hex_digit n = (if n < 10 then digit_char n else char_of (87 + n))"

fun show_hex :: "nat \<Rightarrow> string" where
  "show_hex n = (if n < 16 then [hex_digit n] else show_hex (n div 16) @ [hex_digit (n mod 16)])"

declare show_hex.simps [simp del]

definition construct_mem_cache_key :: "string \<Rightarrow> string \<Rightarrow> string" where
  "construct_mem_cache_key method caip2_chain_id = ''rpc_cache:'' @ method @ '':'' @ caip2_chain_id"

definition get_evm_chain_id_bytes :: "string \<Rightarrow> string option" where
  "get_evm_chain_id_bytes chain_id =
    (case parse_u64 chain_id of
       None \<Rightarrow> None
     | Some n \<Rightarrow> Some (''0x'' @ show_hex (unat n)))"

definition handle_eth_chain_id ::
  "'c mem_cache \<Rightarrow> string \<Rightarrow> 'i json_rpc_request \<Rightarrow> 'c \<Rightarrow> 'i json_rpc_result option \<times> 'c" where
  "handle_eth_chain_id M caip2_chain_id req cache =
    (case disassemble_caip2 caip2_chain_id of
       Inl _ \<Rightarrow> (None, cache)
     | Inr (_, chain_id) \<Rightarrow>
        (let key = construct_mem_cache_key (cached_method_display EthChainId) caip2_chain_id in
         (case mc_get M cache key of
            Some cached \<Rightarrow> (Some \<lparr> jres_id = jr_id req, jres_value = Json_string cached \<rparr>, cache)
          | None \<Rightarrow>
             (case get_evm_chain_id_bytes chain_id of
                None \<Rightarrow> (None, cache)
              | Some bytes \<Rightarrow>
                  (Some \<lparr> jres_id = jr_id req, jres_value = Json_string bytes \<rparr>,
                   mc_insert M cache key bytes)))))"

definition handle_net_listening ::
  "string \<Rightarrow> 'i json_rpc_request \<Rightarrow> 'i json_rpc_result option" where
  "handle_net_listening caip2_chain_id req = Some \<lparr> jres_id = jr_id req, jres_value = Json_bool True \<rparr>"

definition handle_net_version ::
  "string \<Rightarrow> 'i json_rpc_request \<Rightarrow> 'i json_rpc_result option" where
  "handle_net_version caip2_chain_id req =
    (case disassemble_caip2 caip2_chain_id of
       Inl _ \<Rightarrow> None
     | Inr (_, chain_id) \<Rightarrow> Some \<lparr> jres_id = jr_id req, jres_value = Json_string chain_id \<rparr>)"

definition is_cached_response ::
  "'c mem_cache \<Rightarrow> string \<Rightarrow> 'i json_rpc_request \<Rightarrow> 'c \<Rightarrow> 'i json_rpc_result option \<times> 'c" where
  "is_cached_response M caip2_chain_id req cache =
    (case cached_method_from_str (jr_method req) of
       None \<Rightarrow> (None, cache)
     | Some EthChainId \<Rightarrow> handle_eth_chain_id M caip2_chain_id req cache
     | Some NetListening \<Rightarrow> (handle_net_listening caip2_chain_id req, cache)
     | Some NetVersion \<Rightarrow> (handle_net_version caip2_chain_id req, cache))"

section \<open>One call to a provider\<close>

record provider_response =
  pv_status :: nat
  pv_body :: string

datatype call_outcome =
    Timed_out string
  | Call_failed rpc_error
  | Responded provider_response

text \<open>\<open>px_outcome\<close> is the outcome of the n-th call to a provider; \<open>px_read\<close> reads a body within the size
  limit, \<open>px_parse\<close> parses it as a JSON-RPC response, giving the code and message of its error.\<close>

record 'p proxy_env =
  px_kind :: "'p \<Rightarrow> provider_kind"
  px_outcome :: "nat \<Rightarrow> 'p \<Rightarrow> call_outcome"
  px_read :: "string \<Rightarrow> string option"
  px_parse :: "string \<Rightarrow> (int \<times> string) option option"

text \<open>\<open>is_rate_limited\<close> of the providers: all compare the status with 429, Binance with 403.\<close>

definition is_rate_limited :: "provider_kind \<Rightarrow> provider_response \<Rightarrow> bool" where
  "is_rate_limited kind r = (pv_status r = (if kind = PK_Binance then 403 else 429))"

definition rpc_provider_call ::
  "'p proxy_env \<Rightarrow> nat \<Rightarrow> 'p \<Rightarrow> (rpc_error, provider_response) result" where
  "rpc_provider_call E n provider = (case px_outcome E n provider of
      Timed_out e \<Rightarrow> Inl (RE_ProxyTimeoutError e)
    | Call_failed e \<Rightarrow> Inl e
    | Responded r \<Rightarrow>
        (let r1 = (if is_rate_limited (px_kind E provider) r then r \<lparr> pv_status := 503 \<rparr> else r)
         in Inr (if pv_status r1 = 200 \<or> pv_status r1 = 400 then r1 else r1 \<lparr> pv_status := 503 \<rparr>)))"

section \<open>The retry loop\<close>

definition is_success :: "nat \<Rightarrow> bool" where
  "is_success status = (200 \<le> status \<and> status < 300)"

text \<open>A response built by the proxy has the default content type, a response passed through keeps the
  headers of the provider (\<open>None\<close>).  The body's JSON-RPC error asks for another provider.\<close>

definition retry_on_body :: "'p proxy_env \<Rightarrow> string \<Rightarrow> bool" where
  "retry_on_body E body = (case px_parse E body of
      Some (Some (code, message)) \<Rightarrow> is_internal_error_rpc_code code
        \<and> (is_rate_limited_error_rpc_message message \<or> is_node_error_rpc_message message)
    | _ \<Rightarrow> False)"

record proxy_response =
  rs_status :: nat
  rs_content_type :: "(string \<times> string) option"
  rs_body :: string

definition DEFAULT_CONTENT_TYPE :: "string \<times> string" where
  "DEFAULT_CONTENT_TYPE = (''content-type'', ''application/json'')"

fun try_providers ::
  "'p proxy_env \<Rightarrow> string \<Rightarrow> nat \<Rightarrow> 'p list \<Rightarrow> (rpc_error, proxy_response) result \<times> 'p list" where
  "try_providers E chain_id n [] = (Inl (RE_ChainTemporarilyUnavailable chain_id), [])"
| "try_providers E chain_id n (p # ps) =
    (let next = (\<lambda>_. let (res, called) = try_providers E chain_id (Suc n) ps in (res, p # called))
     in (case rpc_provider_call E n p of
           Inl e \<Rightarrow> next ()
         | Inr response \<Rightarrow>
            if is_success (pv_status response) \<or> pv_status response = 400 then
              (case px_read E (pv_body response) of
                 None \<Rightarrow> next ()
               | Some body \<Rightarrow>
                  if retry_on_body E body then next ()
                  else (Inr \<lparr> rs_status = pv_status response, rs_content_type = Some DEFAULT_CONTENT_TYPE,
                          rs_body = body \<rparr>, [p]))
            else next ()))"

section \<open>The call\<close>

definition PROVIDER_PROXY_MAX_CALLS :: nat where
  "PROVIDER_PROXY_MAX_CALLS = 5"

record rpc_query =
  q_chain_id :: string
  q_project_id :: string
  q_provider_id :: "string option"
  q_session_id :: "string option"

definition session_provider_kind :: "string \<Rightarrow> provider_kind option" where
  "session_provider_kind chain_id =
    (if chain_id = ''eip155:10'' then Some PK_Quicknode
     else if chain_id = ''eip155:8453'' then Some PK_Publicnode
     else if chain_id = ''eip155:42161'' then Some PK_Publicnode
     else None)"

text \<open>The answer of the provider pinned to a session: \<open>None\<close> when there is none or it failed.\<close>

definition session_call ::
  "'p proxy_env \<Rightarrow> ('p, 'w, 'b) repository \<Rightarrow> rpc_query
    \<Rightarrow> (rpc_error, proxy_response option) result \<times> 'p list" where
  "session_call E repo q =
    (case q_session_id q of
       None \<Rightarrow> (Inr None, [])
     | Some _ \<Rightarrow>
        (case session_provider_kind (q_chain_id q) of
           None \<Rightarrow> (Inr None, [])
         | Some kind \<Rightarrow>
            (case get_rpc_provider_by_provider_kind repo kind of
               None \<Rightarrow> (Inl (RE_UnsupportedProvider (kind_display kind)), [])
             | Some p \<Rightarrow>
                (case rpc_provider_call E 0 p of
                   Inr response \<Rightarrow>
                     if \<not> (500 \<le> pv_status response \<and> pv_status response < 600)
                     then (Inr (Some \<lparr> rs_status = pv_status response,
                             rs_content_type = None, rs_body = pv_body response \<rparr>), [p])
                     else (Inr None, [p])
                 | Inl _ \<Rightarrow> (Inr None, [p])))))"

definition select_providers ::
  "('d, 'r) sampler \<Rightarrow> (nat \<Rightarrow> 'r) \<Rightarrow> string option \<Rightarrow> ('p, 'w, 'b) repository \<Rightarrow> rpc_query
    \<Rightarrow> (rpc_error, 'p list) result" where
  "select_providers S rnd testing_project_id repo q =
    (case q_provider_id q of
       Some provider_id \<Rightarrow>
        (case get_rpc_provider_by_provider_id repo provider_id of
           None \<Rightarrow> Inl (RE_UnsupportedProvider provider_id)
         | Some p \<Rightarrow>
            (case testing_project_id of
               Some t \<Rightarrow>
                 if \<not> constant_time_eq (string_bytes t) (string_bytes (q_project_id q)) then
                   Inl (RE_InvalidParameter (''The project ID '' @ q_project_id q
                     @ '' is not allowed to use the exact provider request''))
                 else Inr [p]
             | None \<Rightarrow> Inl (RE_InvalidParameter
                 ''RPC_PROXY_TESTING_PROJECT_ID should be configured for this type of request'')))
     | None \<Rightarrow> get_rpc_provider_for_chain_id S rnd repo (q_chain_id q) PROVIDER_PROXY_MAX_CALLS)"

text \<open>\<open>parsed\<close> is the body parsed as a JSON-RPC request; \<open>print_result\<close> serializes an answer from memory.\<close>

definition rpc_call ::
  "('d, 'r) sampler \<Rightarrow> (nat \<Rightarrow> 'r) \<Rightarrow> 'c mem_cache \<Rightarrow> ('i json_rpc_result \<Rightarrow> string)
    \<Rightarrow> 'p proxy_env \<Rightarrow> string option \<Rightarrow> ('p, 'w, 'b) repository \<Rightarrow> rpc_query
    \<Rightarrow> 'i json_rpc_request option \<Rightarrow> 'c
    \<Rightarrow> (rpc_error, proxy_response) result \<times> 'p list \<times> 'c" where
  "rpc_call S rnd M print_result E testing_project_id repo q parsed cache =
    (let (cached, cache') = (case parsed of
            None \<Rightarrow> (None, cache)
          | Some req \<Rightarrow> is_cached_response M (q_chain_id q) req cache)
     in (case cached of
           Some r \<Rightarrow> (Inr \<lparr> rs_status = 200, rs_content_type = Some DEFAULT_CONTENT_TYPE,
               rs_body = print_result r \<rparr>, [], cache')
         | None \<Rightarrow>
            (case session_call E repo q of
               (Inl e, called) \<Rightarrow> (Inl e, called, cache')
             | (Inr (Some response), called) \<Rightarrow> (Inr response, called, cache')
             | (Inr None, called) \<Rightarrow>
                (case select_providers S rnd testing_project_id repo q of
                   Inl e \<Rightarrow> (Inl e, called, cache')
                 | Inr providers \<Rightarrow>
                    (let (res, tried) = try_providers E (q_chain_id q) (length called) providers
                     in (res, called @ tried, cache'))))))"

definition handler_internal ::
  "(project_data \<Rightarrow> string \<Rightarrow> (string, unit) result) \<Rightarrow> bool \<Rightarrow> string list \<Rightarrow> registry \<Rightarrow> 'f registry_env
    \<Rightarrow> ('d, 'r) sampler \<Rightarrow> (nat \<Rightarrow> 'r) \<Rightarrow> 'c mem_cache \<Rightarrow> ('i json_rpc_result \<Rightarrow> string)
    \<Rightarrow> 'p proxy_env \<Rightarrow> string option \<Rightarrow> ('p, 'w, 'b) repository \<Rightarrow> rpc_query
    \<Rightarrow> 'i json_rpc_request option \<Rightarrow> 'c
    \<Rightarrow> (rpc_error, proxy_response) result \<times> 'p list \<times> 'c \<times> registry" where
  "handler_internal validate_access validate_project_id skip_quota_chains reg renv
      S rnd M print_result E testing_project_id repo q parsed cache =
    (let (access, reg', _) =
        (if q_chain_id q \<in> set skip_quota_chains
         then validate_project_access validate_access validate_project_id reg renv (q_project_id q)
         else validate_project_access_and_quota validate_access validate_project_id reg renv (q_project_id q))
     in (case access of
           Inl e \<Rightarrow> (Inl e, [], cache, reg')
         | Inr _ \<Rightarrow>
            (let (res, called, cache') =
                rpc_call S rnd M print_result E testing_project_id repo q parsed cache
             in (res, called, cache', reg'))))"

section \<open>The answers from memory do not depend on the cache\<close>

text \<open>The interface of the in-memory cache: a lookup after an insertion.\<close>

locale mem_cache_laws =
  fixes M :: "'c mem_cache"
  assumes get_insert: "mc_get M (mc_insert M c k v) k' = (if k' = k then Some v else mc_get M c k')"
begin

lemma get_insert_same: "mc_get M (mc_insert M c k v) k = Some v"
  by (simp add: get_insert)

lemma insert_keeps:
  "(\<And>k v. mc_get M c k = Some v \<Longrightarrow> P k v) \<Longrightarrow> P k v \<Longrightarrow>
    mc_get M (mc_insert M c k v) k' = Some v' \<Longrightarrow> P k' v'"
  by (auto simp: get_insert split: if_splits)

end

definition map_cache :: "(string \<Rightarrow> string option) mem_cache" where
  "map_cache = \<lparr> mc_get = (\<lambda>c k. c k), mc_insert = (\<lambda>c k v. c(k \<mapsto> v)) \<rparr>"

interpretation mc: mem_cache_laws map_cache
  by unfold_locales (simp add: map_cache_def)

text \<open>The value an entry of the chain id method must have.\<close>

definition chain_id_entry :: "string \<Rightarrow> string option" where
  "chain_id_entry caip2 = (case disassemble_caip2 caip2 of
      Inl _ \<Rightarrow> None
    | Inr (_, chain_id) \<Rightarrow> get_evm_chain_id_bytes chain_id)"

definition cache_ok :: "'c mem_cache \<Rightarrow> 'c \<Rightarrow> bool" where
  "cache_ok M c = (\<forall>k v. mc_get M c k = Some v \<longrightarrow>
     (\<forall>caip2. k = construct_mem_cache_key ''eth_chainId'' caip2 \<longrightarrow> chain_id_entry caip2 = Some v))"

lemma mem_cache_key_inj:
  "construct_mem_cache_key m c = construct_mem_cache_key m c' \<longleftrightarrow> c = c'"
  by (simp add: construct_mem_cache_key_def)

lemma cache_ok_insert:
  assumes "mem_cache_laws M" "cache_ok M c" "chain_id_entry caip2 = Some v"
  shows "cache_ok M (mc_insert M c (construct_mem_cache_key ''eth_chainId'' caip2) v)"
  using assms(2,3) unfolding cache_ok_def
  by (auto simp: mem_cache_laws.get_insert [OF assms(1)] mem_cache_key_inj split: if_splits)

text \<open>The answer of a method, computed without a cache.\<close>

definition memory_answer :: "string \<Rightarrow> 'i json_rpc_request \<Rightarrow> 'i json_rpc_result option" where
  "memory_answer caip2 req = map_option (\<lambda>v. \<lparr> jres_id = jr_id req, jres_value = v \<rparr>)
    (if jr_method req = ''eth_chainId'' then map_option Json_string (chain_id_entry caip2)
     else if jr_method req = ''net_listening'' then Some (Json_bool True)
     else if jr_method req = ''net_version'' then
       (case disassemble_caip2 caip2 of Inl _ \<Rightarrow> None | Inr (_, chain_id) \<Rightarrow> Some (Json_string chain_id))
     else None)"

lemma handle_eth_chain_id_spec:
  assumes "mem_cache_laws M" "cache_ok M c" "jr_method req = ''eth_chainId''"
  shows "fst (handle_eth_chain_id M caip2 req c) = memory_answer caip2 req"
    and "cache_ok M (snd (handle_eth_chain_id M caip2 req c))"
proof -
  let ?k = "construct_mem_cache_key ''eth_chainId'' caip2"
  have hit: "chain_id_entry caip2 = Some v" if "mc_get M c ?k = Some v" for v
    using assms(2) that unfolding cache_ok_def by blast
  show "fst (handle_eth_chain_id M caip2 req c) = memory_answer caip2 req"
    using hit by (auto simp: handle_eth_chain_id_def memory_answer_def assms(3) chain_id_entry_def
        Let_def split: sum.splits option.splits)
  show "cache_ok M (snd (handle_eth_chain_id M caip2 req c))"
    using assms(2) cache_ok_insert [OF assms(1,2)]
    by (auto simp: handle_eth_chain_id_def chain_id_entry_def Let_def split: sum.splits option.splits)
qed

section \<open>Retry loop\<close>

text \<open>The answer a provider's n-th call contributes, \<open>None\<close> when the next provider is tried: the provider
  responded with status 200 or 400 (a rate limited response has neither), a readable body and no JSON-RPC error that
  asks for another node.\<close>

definition accepted :: "'p proxy_env \<Rightarrow> nat \<Rightarrow> 'p \<Rightarrow> proxy_response option" where
  "accepted E n p = (case px_outcome E n p of
      Responded r \<Rightarrow>
        if pv_status r \<notin> {200, 400} then None
        else (case px_read E (pv_body r) of
            Some body \<Rightarrow> if retry_on_body E body then None
              else Some \<lparr> rs_status = pv_status r, rs_content_type = Some DEFAULT_CONTENT_TYPE, rs_body = body \<rparr>
          | None \<Rightarrow> None)
    | _ \<Rightarrow> None)"

lemma try_providers_step:
  "try_providers E c n (p # ps) = (case accepted E n p of
      Some r \<Rightarrow> (Inr r, [p])
    | None \<Rightarrow> (let (res, called) = try_providers E c (Suc n) ps in (res, p # called)))"
  by (auto simp: accepted_def rpc_provider_call_def is_rate_limited_def is_success_def Let_def
      split: call_outcome.splits option.splits)

lemma try_providers_all_fail:
  "(\<forall>i<length ps. accepted E (n + i) (ps ! i) = None) \<Longrightarrow>
    try_providers E c n ps = (Inl (RE_ChainTemporarilyUnavailable c), ps)"
proof (induction ps arbitrary: n)
  case (Cons p ps)
  have "accepted E n p = None" using Cons.prems by force
  moreover have "\<forall>i<length ps. accepted E (Suc n + i) (ps ! i) = None"
    using Cons.prems by force
  ultimately show ?case using Cons.IH [of "Suc n"] by (simp add: try_providers_step del: try_providers.simps)
qed simp

lemma try_providers_first:
  "i < length ps \<Longrightarrow> accepted E (n + i) (ps ! i) = Some r \<Longrightarrow>
    (\<forall>j<i. accepted E (n + j) (ps ! j) = None) \<Longrightarrow>
    try_providers E c n ps = (Inr r, take (Suc i) ps)"
proof (induction ps arbitrary: n i)
  case (Cons p ps)
  show ?case
  proof (cases i)
    case 0
    then show ?thesis using Cons.prems by (simp add: try_providers_step del: try_providers.simps)
  next
    case (Suc k)
    have "accepted E n p = None" using Cons.prems(3) Suc by force
    moreover have "\<forall>j<k. accepted E (Suc n + j) (ps ! j) = None" using Cons.prems(3) Suc by force
    ultimately show ?thesis
      using Cons.IH [of k "Suc n"] Cons.prems Suc
      by (simp add: try_providers_step del: try_providers.simps)
  qed
qed simp

lemma accepted_status: "accepted E n p = Some r \<Longrightarrow> rs_status r \<in> {200, 400}"
  by (auto simp: accepted_def split: call_outcome.splits option.splits if_splits)

lemma try_providers_cases:
  assumes "try_providers E c n ps = (res, called)"
  shows "(res = Inl (RE_ChainTemporarilyUnavailable c) \<or> (\<exists>r. res = Inr r \<and> rs_status r \<in> {200, 400}))
    \<and> length called \<le> length ps"
  using assms
proof (induction ps arbitrary: n called)
  case (Cons p ps)
  then show ?case
    by (cases "accepted E n p"; cases "try_providers E c (Suc n) ps")
      (auto simp: try_providers_step simp del: try_providers.simps dest: accepted_status)
qed simp

lemma rpc_provider_call_status: "rpc_provider_call E n p = Inr r \<Longrightarrow> pv_status r \<in> {200, 400, 503}"
  by (auto simp: rpc_provider_call_def Let_def split: call_outcome.splits if_splits)

section \<open>The call\<close>

lemma session_call_cases:
  assumes "session_call E repo q = (res, called)"
  shows "length called \<le> 1
    \<and> (\<forall>r. res = Inr (Some r) \<longrightarrow> rs_status r \<in> {200, 400} \<and> q_session_id q \<noteq> None)
    \<and> (\<forall>e. res = Inl e \<longrightarrow> (\<exists>k. e = RE_UnsupportedProvider k))"
  using assms rpc_provider_call_status [of E 0]
  by (fastforce simp: session_call_def split: option.splits sum.splits if_splits)

lemma select_providers_result:
  assumes laws: "sampler_laws S repr" and ok: "repository_ok repo"
    and fits: "\<And>es. rpc_weight_resolver repo (q_chain_id q) = Some es \<Longrightarrow>
      sum_list (map unat (rpc_weights es)) < 2 ^ 64"
  shows "(\<exists>ps. select_providers S rnd t repo q = Inr ps \<and> length ps \<le> 5)
    \<or> (\<exists>e. select_providers S rnd t repo q = Inl e \<and>
        ((\<exists>s. e = RE_UnsupportedProvider s) \<or> (\<exists>s. e = RE_InvalidParameter s)
          \<or> e = RE_UnsupportedChain (q_chain_id q)))"
proof (cases "q_provider_id q")
  case (Some i)
  then show ?thesis by (simp add: select_providers_def split: option.splits)
next
  case None
  show ?thesis
  proof (cases "rpc_weight_resolver repo (q_chain_id q)")
    case None
    with \<open>q_provider_id q = None\<close> show ?thesis
      by (simp add: select_providers_def get_rpc_provider_for_chain_id_def)
  next
    case (Some es)
    obtain ks where "length ks = min PROVIDER_PROXY_MAX_CALLS (length es)"
      "get_rpc_provider_for_chain_id S rnd repo (q_chain_id q) PROVIDER_PROXY_MAX_CALLS
        = Inr (map (\<lambda>k. the (rpc_providers repo k)) ks)"
      using rpc_selection [OF laws ok Some fits [OF Some]] by blast
    with \<open>q_provider_id q = None\<close> show ?thesis
      by (simp add: select_providers_def PROVIDER_PROXY_MAX_CALLS_def)
  qed
qed

text \<open>C25: the retry loop returns the answer of the first provider whose answer is acceptable, having
  called exactly the providers up to it in order; when none is acceptable all have been called and the
  chain is reported as temporarily unavailable.\<close>

theorem retry_loop_first_acceptable:
  "((\<forall>i<length ps. accepted E (n + i) (ps ! i) = None) \<longrightarrow>
      try_providers E c n ps = (Inl (RE_ChainTemporarilyUnavailable c), ps))
   \<and> (i < length ps \<and> accepted E (n + i) (ps ! i) = Some r
        \<and> (\<forall>j<i. accepted E (n + j) (ps ! j) = None) \<longrightarrow>
      try_providers E c n ps = (Inr r, take (Suc i) ps))"
  using try_providers_all_fail [of ps E n c] try_providers_first [of i ps E n r c] by blast

definition demo_env :: "nat proxy_env" where
  "demo_env = \<lparr> px_kind = (\<lambda>_. PK_Pokt),
     px_outcome = (\<lambda>_ p. if p = 1 then Timed_out ''10s'' else Responded \<lparr> pv_status = (if p = 2 then 429 else 400),
        pv_body = ''{}'' \<rparr>),
     px_read = (\<lambda>b. Some b), px_parse = (\<lambda>_. Some None) \<rparr>"

lemma retry_loop_first_acceptable_witness:
  "try_providers demo_env ''eip155:1'' 0 [1, 2, 3, 4] =
    (Inr \<lparr> rs_status = 400, rs_content_type = Some DEFAULT_CONTENT_TYPE, rs_body = ''{}'' \<rparr>, [1, 2, 3])"
proof -
  have a: "accepted demo_env n 1 = None" "accepted demo_env n 2 = None"
    "accepted demo_env n 3 = Some \<lparr> rs_status = 400, rs_content_type = Some DEFAULT_CONTENT_TYPE, rs_body = ''{}'' \<rparr>" for n
    by (simp_all add: accepted_def demo_env_def retry_on_body_def)
  have none: "\<forall>j<2. accepted demo_env (0 + j) ([1, 2, 3, 4] ! j) = None"
  proof (intro allI impI)
    fix j :: nat assume "j < 2"
    then have "j = 0 \<or> j = 1" by auto
    then show "accepted demo_env (0 + j) ([1, 2, 3, 4] ! j) = None" using a by auto
  qed
  have third: "accepted demo_env (0 + 2) ([1, 2, 3, 4] ! 2)
      = Some \<lparr> rs_status = 400, rs_content_type = Some DEFAULT_CONTENT_TYPE, rs_body = ''{}'' \<rparr>"
    using a(3) [of 2] by (simp add: numeral_2_eq_2)
  have "try_providers demo_env ''eip155:1'' 0 [1, 2, 3, 4] =
    (Inr \<lparr> rs_status = 400, rs_content_type = Some DEFAULT_CONTENT_TYPE, rs_body = ''{}'' \<rparr>,
     take (Suc 2) [1, 2, 3, 4])"
    by (rule conjunct2 [OF retry_loop_first_acceptable, THEN mp]) (use none third in simp)
  then show ?thesis by (simp add: numeral_2_eq_2 del: try_providers.simps)
qed

text \<open>C7: the proxy answers with status 200 or 400 of a provider (or 200 from memory), after at most six
  provider calls, and an answer from memory makes none; its errors are an unknown provider, a forbidden
  exact provider, an unsupported chain, and a temporarily unavailable chain, so that an error response
  has status 400 or 503.\<close>

theorem rpc_call_outcomes:
  assumes "sampler_laws S repr" "repository_ok repo"
    and "\<And>es. rpc_weight_resolver repo (q_chain_id q) = Some es \<Longrightarrow>
      sum_list (map unat (rpc_weights es)) < 2 ^ 64"
    and "rpc_call S rnd M print_result E t repo q parsed cache = (res, called, cache')"
  shows "length called \<le> 6
    \<and> (\<forall>r. res = Inr r \<longrightarrow> rs_status r \<in> {200, 400})
    \<and> (\<forall>e. res = Inl e \<longrightarrow> rsp_status (rpc_error_into_response e) \<in> {400, 503}
        \<and> (rsp_status (rpc_error_into_response e) = 503 \<longrightarrow> e = RE_ChainTemporarilyUnavailable (q_chain_id q)))"
proof -
  have errs: "rsp_status (rpc_error_into_response (RE_UnsupportedProvider k)) = 400"
    "rsp_status (rpc_error_into_response (RE_InvalidParameter k)) = 400"
    "rsp_status (rpc_error_into_response (RE_UnsupportedChain k)) = 400"
    "rsp_status (rpc_error_into_response (RE_ChainTemporarilyUnavailable k)) = 503" for k
    by (simp_all add: rpc_response_defs)
  obtain c c1 where cached: "(case parsed of None \<Rightarrow> (None, cache)
      | Some req \<Rightarrow> is_cached_response M (q_chain_id q) req cache) = (c, c1)"
    using surj_pair by metis
  obtain sres scalled where sess: "session_call E repo q = (sres, scalled)" by force
  note s = session_call_cases [OF sess]
  show ?thesis
  proof (cases c)
    case (Some r)
    then show ?thesis using assms(4) cached by (auto simp: rpc_call_def)
  next
    case None
    note call = assms(4) [unfolded rpc_call_def Let_def cached prod.case None option.case sess]
    show ?thesis
    proof (cases sres)
      case (Inl e)
      then show ?thesis using call s errs by auto
    next
      case (Inr o')
      show ?thesis
      proof (cases o')
        case (Some r)
        then show ?thesis using call Inr s by auto
      next
        case None
        with call Inr have sel: "(case select_providers S rnd t repo q of
            Inl e \<Rightarrow> (Inl e, scalled, c1)
          | Inr ps \<Rightarrow> (case try_providers E (q_chain_id q) (length scalled) ps of
              (res, tried) \<Rightarrow> (res, scalled @ tried, c1))) = (res, called, cache')"
          by simp
        consider (ps) ps where "select_providers S rnd t repo q = Inr ps" "length ps \<le> 5"
          | (err) e where "select_providers S rnd t repo q = Inl e"
            "(\<exists>s. e = RE_UnsupportedProvider s) \<or> (\<exists>s. e = RE_InvalidParameter s)
              \<or> e = RE_UnsupportedChain (q_chain_id q)"
          using select_providers_result [OF assms(1-3), where rnd = rnd and t = t] by blast
        then show ?thesis
        proof cases
          case ps
          obtain tres tried where tp: "try_providers E (q_chain_id q) (length scalled) ps = (tres, tried)"
            by force
          have "length tried \<le> 5" using try_providers_cases [OF tp] ps(2) by simp
          then show ?thesis
            using sel ps(1) tp try_providers_cases [OF tp] s errs by auto
        next
          case err
          then show ?thesis using sel s errs by auto
        qed
      qed
    qed
  qed
qed

lemma two_providers_ok: "repository_ok two_providers"
  by (simp add: two_providers_def repository_ok_rpc repository_ok_new)

lemma two_providers_fit:
  "rpc_weight_resolver two_providers ''eip155:1'' = Some es \<Longrightarrow> sum_list (map unat (rpc_weights es)) < 2 ^ 64"
  by (auto simp: two_providers_def add_rpc_provider_def rpc_enroll_def rpc_register_def
      resolver_insert_def repository_new_def rpc_weights_def max_def)

definition demo_query :: rpc_query where
  "demo_query = \<lparr> q_chain_id = ''eip155:1'', q_project_id = ''p'', q_provider_id = None, q_session_id = None \<rparr>"

lemma rpc_call_outcomes_witness:
  "\<exists>res called cache'. rpc_call first_sampler (\<lambda>_. ()) map_cache (\<lambda>_ :: nat json_rpc_result. '''') demo_env None
      two_providers demo_query None (\<lambda>_. None) = (res, called, cache') \<and> length called \<le> 6"
proof -
  obtain res called cache' where c: "rpc_call first_sampler (\<lambda>_. ()) map_cache (\<lambda>_ :: nat json_rpc_result. '''')
      demo_env None two_providers demo_query None (\<lambda>_. None) = (res, called, cache')"
    using prod_cases3 by blast
  have "length called \<le> 6"
    using rpc_call_outcomes [OF first_sampler_laws two_providers_ok _ c] two_providers_fit
    by (simp add: demo_query_def)
  with c show ?thesis by blast
qed

text \<open>C26: the cached methods: whatever consistent in-memory cache is used, a request is answered from
  memory with the value computed from the chain id alone and with the id of the request, the cache
  stays consistent, and requests of any other method are not answered and leave the cache unchanged.\<close>

theorem memory_answers_transparent:
  assumes "mem_cache_laws M" "cache_ok M c"
  shows "fst (is_cached_response M caip2 req c) = memory_answer caip2 req
    \<and> cache_ok M (snd (is_cached_response M caip2 req c))
    \<and> (jr_method req \<noteq> ''eth_chainId'' \<longrightarrow> snd (is_cached_response M caip2 req c) = c)"
proof -
  consider "jr_method req = ''eth_chainId''" | "jr_method req = ''net_listening''"
    | "jr_method req = ''net_version''" | "cached_method_from_str (jr_method req) = None"
    unfolding cached_method_from_str_def by metis
  then show ?thesis
  proof cases
    case 1
    then show ?thesis
      using handle_eth_chain_id_spec [OF assms 1] by (simp add: is_cached_response_def cached_method_from_str_def)
  next
    case 2
    then show ?thesis using assms(2)
      by (simp add: is_cached_response_def cached_method_from_str_def handle_net_listening_def memory_answer_def)
  next
    case 3
    then show ?thesis using assms(2)
      by (simp add: is_cached_response_def cached_method_from_str_def handle_net_version_def memory_answer_def
          split: sum.splits)
  next
    case 4
    then show ?thesis using assms(2)
      by (auto simp: is_cached_response_def cached_method_from_str_def memory_answer_def split: if_splits)
  qed
qed

lemma memory_answers_transparent_witness:
  "fst (is_cached_response map_cache ''eip155:10'' \<lparr> jr_id = 7, jr_method = ''eth_chainId'' \<rparr> (\<lambda>_. None)) =
    Some \<lparr> jres_id = 7 :: nat, jres_value = Json_string ''0xa'' \<rparr>"
proof -
  have "cache_ok map_cache (\<lambda>_. None)" by (simp add: cache_ok_def map_cache_def)
  note spec = memory_answers_transparent [OF mc.mem_cache_laws_axioms this, THEN conjunct1]
  have "disassemble_caip2 ''eip155:10'' = Inr (Eip155, ''10'')"
    by (simp add: disassemble_caip2_def caip_regex_defs matches_class_def char_class_defs namespace_from_str_def Let_def
        CAIP_CHAIN_ID_REGEX_def run_at_def)
  moreover have "get_evm_chain_id_bytes ''10'' = Some ''0xa''"
  proof -
    have "parse_u64 ''10'' = Some 10"
      by (simp add: parse_u64_def parse_uint_def digit_val_def is_digit_def char_code_def)
    moreover have "show_hex 10 = ''a''" by (simp add: show_hex.simps hex_digit_def char_of_def bit_iff_odd)
    ultimately show ?thesis by (simp add: get_evm_chain_id_bytes_def)
  qed
  ultimately show ?thesis by (simp add: spec memory_answer_def chain_id_entry_def)
qed

lemma ct_strings_eq: "constant_time_eq (string_bytes a) (string_bytes b) \<longleftrightarrow> a = b"
  by (auto simp: constant_time_eq_def ct_fold_zero zip_all_eq string_bytes_inj)

text \<open>A request that names an exact provider is served only for the configured testing project, by
  that provider alone; the handler calls no provider, and leaves the cache alone, when the access
  check fails.\<close>

theorem exact_provider_guarded:
  "(q_provider_id q = Some i \<and> select_providers S rnd testing repo q = Inr ps \<longrightarrow>
      testing = Some (q_project_id q)
      \<and> (\<exists>p. get_rpc_provider_by_provider_id repo i = Some p \<and> ps = [p]))
   \<and> (fst (validate_project_access_and_quota va on reg renv (q_project_id q)) = Inl e
        \<and> q_chain_id q \<notin> set skip \<longrightarrow>
      (\<exists>reg'. handler_internal va on skip reg renv S rnd M print_result E testing repo q parsed cache
        = (Inl e, [], cache, reg')))"
proof (intro conjI impI)
  assume "q_provider_id q = Some i \<and> select_providers S rnd testing repo q = Inr ps"
  then show "testing = Some (q_project_id q)" "\<exists>p. get_rpc_provider_by_provider_id repo i = Some p \<and> ps = [p]"
    by (auto simp: select_providers_def ct_strings_eq split: option.splits if_splits)
next
  assume "fst (validate_project_access_and_quota va on reg renv (q_project_id q)) = Inl e
        \<and> q_chain_id q \<notin> set skip"
  then show "\<exists>reg'. handler_internal va on skip reg renv S rnd M print_result E testing repo q parsed cache
        = (Inl e, [], cache, reg')"
    by (cases "validate_project_access_and_quota va on reg renv (q_project_id q)") (simp add: handler_internal_def)
qed

lemma exact_provider_guarded_witness:
  "\<exists>ps. select_providers first_sampler (\<lambda>_. ()) (Some ''t'') two_providers
      \<lparr> q_chain_id = ''eip155:1'', q_project_id = ''t'', q_provider_id = Some ''Pokt'', q_session_id = None \<rparr>
    = Inr ps \<and> length ps = 1"
proof -
  let ?q = "\<lparr> q_chain_id = ''eip155:1'', q_project_id = ''t'', q_provider_id = Some ''Pokt'', q_session_id = None \<rparr>"
  have "\<exists>ps. select_providers first_sampler (\<lambda>_. ()) (Some ''t'') two_providers ?q = Inr ps"
    by (simp add: select_providers_def get_rpc_provider_by_provider_id_def two_providers_def kind_from_str_def
        kind_arms_def get_rpc_provider_by_provider_kind_def add_rpc_provider_def rpc_register_def rpc_enroll_def
        ct_strings_eq repository_new_def)
  then obtain ps where "select_providers first_sampler (\<lambda>_. ()) (Some ''t'') two_providers ?q = Inr ps" by blast
  with exact_provider_guarded [of ?q "''Pokt''" first_sampler "\<lambda>_. ()" "Some ''t''" two_providers ps]
  show ?thesis by fastforce
qed

end
