(* ===== verification/Exchanges.thy ===== *)
theory Exchanges
  imports HttpErrors Project CryptoBytes
begin

text \<open>
  The exchanges of the payment methods (\<open>handlers/json_rpc/exchanges\<close>): the exchange types with their
  asset and network tables, the features that enable them, the listing handler, and the translation of
  the order states of Binance, Coinbase and the test exchange into one transaction status.  The JSON of
  a feature's configuration is read by a parameter that returns the \<open>coinbase\<close> flag of every item.
  The HTTP exchange with the providers and the signing of requests are not modelled.
\<close>

section \<open>Types\<close>

datatype feature_type = Payments | FundWallet

fun feature_id :: "feature_type \<Rightarrow> string" where
  "feature_id Payments = ''payments''"
| "feature_id FundWallet = ''fund_from_exchange''"

fun feature_display :: "feature_type \<Rightarrow> string" where
  "feature_display Payments = ''Payments''"
| "feature_display FundWallet = ''Fund Wallet''"

record 'v feature =
  ft_id :: string
  ft_is_enabled :: bool
  ft_config :: "'v option"

datatype exchange_type = Binance | Coinbase | ReownTest

definition exchange_types :: "exchange_type list" where
  "exchange_types = [Binance, Coinbase, ReownTest]"

record exchange =
  ex_id :: string
  ex_name :: string
  ex_image_url :: "string option"

datatype exchange_error =
    EE_ConfigurationError string
  | EE_ValidationError string
  | EE_GetPayUrlError string
  | EE_FeatureNotEnabled string
  | EE_ExchangeNotEnabled string
  | EE_ProjectDataError string
  | EE_InternalError string

fun exchange_error_display :: "exchange_error \<Rightarrow> string" where
  "exchange_error_display (EE_ConfigurationError s) = ''Configuration error: '' @ s"
| "exchange_error_display (EE_ValidationError s) = ''Validation error: '' @ s"
| "exchange_error_display (EE_GetPayUrlError s) = ''Get pay url error: '' @ s"
| "exchange_error_display (EE_FeatureNotEnabled s) = ''Feature not enabled: '' @ s"
| "exchange_error_display (EE_ExchangeNotEnabled s) = ''Exchange is not enabled: '' @ s"
| "exchange_error_display (EE_ProjectDataError s) = ''Project data error: '' @ s"
| "exchange_error_display (EE_InternalError s) = ''Exchange internal error: '' @ s"

section \<open>Asset tables\<close>

definition CAIP19_TO_BINANCE_CRYPTO :: "(string \<times> string) list" where
  "CAIP19_TO_BINANCE_CRYPTO = [
    (''eip155:1/erc20:0xA0b86991c6218b36c1d19D4a2e9Eb0cE3606eB48'', ''USDC''),
    (''eip155:137/erc20:0x2791Bca1f2de4661ED88A30C99A7a9449Aa84174'', ''USDC''),
    (''eip155:8453/erc20:0x833589fCD6eDb6E08f4c7C32D4f71b54bdA02913'', ''USDC''),
    (''eip155:42161/erc20:0xaf88d065e77c8cC2239327C5EDb3A432268e5831'', ''USDC''),
    (''eip155:1/slip44:60'', ''ETH''),
    (''solana:5eykt4UsFv8P8NJdTREpY1vzqKqZKvdp/slip44:501'', ''SOL''),
    (''eip155:1/erc20:0xdAC17F958D2ee523a2206206994597C13D831ec7'', ''USDT''),
    (''eip155:42161/erc20:0xFd086bC7CD5C481DCC9C85ebE478A1C0b69FCbb9'', ''USDT''),
    (''eip155:10/erc20:0x94b008aA00579c1307B0EF2c499aD98a8ce58e58'', ''USDT''),
    (''eip155:137/erc20:0xc2132D05D31c914a87C6611C10748AEb04B58e8F'', ''USDT''),
    (''solana:5eykt4UsFv8P8NJdTREpY1vzqKqZKvdp/token:EPjFWdd5AufqSSqeM2qN1xzybapC8G4wEGGkZwyTDt1v'', ''USDC''),
    (''solana:5eykt4UsFv8P8NJdTREpY1vzqKqZKvdp/token:Es9vMFrzaCERmJfrF4H2FYD4KCoNkY11McCe8BenwNYB'', ''USDT''),
    (''eip155:30/erc20:0x2AcC95758f8b5F583470ba265EB685a8F45fC9D5'', ''RIF'')]"

definition CHAIN_ID_TO_BINANCE_NETWORK :: "(string \<times> string) list" where
  "CHAIN_ID_TO_BINANCE_NETWORK = [
    (''eip155:1'', ''ETH''),
    (''eip155:137'', ''MATIC''),
    (''eip155:8453'', ''BASE''),
    (''eip155:42161'', ''ARBITRUM''),
    (''eip155:10'', ''OPTIMISM''),
    (''solana:5eykt4UsFv8P8NJdTREpY1vzqKqZKvdp'', ''SOL''),
    (''eip155:30'', ''RSK'')]"

definition CAIP19_TO_COINBASE_CRYPTO :: "(string \<times> string) list" where
  "CAIP19_TO_COINBASE_CRYPTO = [
    (''eip155:8453/erc20:0x833589fCD6eDb6E08f4c7C32D4f71b54bdA02913'', ''USDC''),
    (''eip155:10/erc20:0x94b008aA00579c1307B0EF2c499aD98a8ce58e58'', ''USDC''),
    (''eip155:42161/erc20:0xAf88d065E77C8Ccc2239327C5EDb3A432268e5831'', ''USDC''),
    (''eip155:137/erc20:0x2791Bca1f2de4661ED88A30C99A7a9449Aa84174'', ''USDC''),
    (''eip155:1/erc20:0xA0b86991c6218b36c1d19D4a2e9Eb0cE3606eB48'', ''USDC''),
    (''eip155:1/slip44:60'', ''ETH''),
    (''eip155:1/erc20:0xdAC17F958D2ee523a2206206994597C13D831ec7'', ''USDT''),
    (''solana:5eykt4UsFv8P8NJdTREpY1vzqKqZKvdp/token:EPjFWdd5AufqSSqeM2qN1xzybapC8G4wEGGkZwyTDt1v'', ''USDC'')]"

definition CHAIN_ID_TO_COINBASE_NETWORK :: "(string \<times> string) list" where
  "CHAIN_ID_TO_COINBASE_NETWORK = [
    (''eip155:8453'', ''base''),
    (''eip155:10'', ''optimism''),
    (''eip155:42161'', ''arbitrum''),
    (''eip155:137'', ''polygon''),
    (''eip155:1'', ''ethereum''),
    (''solana:5eykt4UsFv8P8NJdTREpY1vzqKqZKvdp'', ''solana'')]"

definition CAIP_19_SUPPORTED_ASSETS :: "caip19_asset list" where
  "CAIP_19_SUPPORTED_ASSETS = map (\<lambda>chain. \<lparr> a_chain_id = \<lparr> c2_namespace = ''eip155'', c2_reference = chain \<rparr>,
     a_namespace = ''slip44'', a_reference = ''60'', a_token_id = None \<rparr>) [''11155111'', ''84532'']"

definition map_asset ::
  "(string \<times> string) list \<Rightarrow> (string \<times> string) list \<Rightarrow> caip19_asset
    \<Rightarrow> (exchange_error, string \<times> string) result" where
  "map_asset cryptos networks asset =
    (let full_caip19 = caip19_display asset; chain_id = caip2_display (a_chain_id asset) in
     bind_res (ok_or (EE_ValidationError (''Unsupported asset: '' @ full_caip19)) (map_of cryptos full_caip19))
       (\<lambda>crypto. bind_res
         (ok_or (EE_ValidationError (''Unsupported chain ID: '' @ chain_id)) (map_of networks chain_id))
         (\<lambda>network. Inr (crypto, network))))"

definition map_asset_to_binance_format :: "caip19_asset \<Rightarrow> (exchange_error, string \<times> string) result" where
  "map_asset_to_binance_format = map_asset CAIP19_TO_BINANCE_CRYPTO CHAIN_ID_TO_BINANCE_NETWORK"

definition map_asset_to_coinbase_format :: "caip19_asset \<Rightarrow> (exchange_error, string \<times> string) result" where
  "map_asset_to_coinbase_format = map_asset CAIP19_TO_COINBASE_CRYPTO CHAIN_ID_TO_COINBASE_NETWORK"

section \<open>Operations of an exchange type\<close>

fun to_exchange :: "exchange_type \<Rightarrow> exchange" where
  "to_exchange Binance = \<lparr> ex_id = ''binance'', ex_name = ''Binance'',
     ex_image_url = Some ''https://pay-assets.reown.com/binance_128_128.webp'' \<rparr>"
| "to_exchange Coinbase = \<lparr> ex_id = ''coinbase'', ex_name = ''Coinbase'',
     ex_image_url = Some ''https://pay-assets.reown.com/coinbase_128_128.webp'' \<rparr>"
| "to_exchange ReownTest = \<lparr> ex_id = ''reown_test'', ex_name = ''Reown Test Exchange'',
     ex_image_url = Some ''https://pay-assets.reown.com/reown_test_128_128.webp'' \<rparr>"

definition exchange_from_id :: "string \<Rightarrow> exchange_type option" where
  "exchange_from_id i = find (\<lambda>e. ex_id (to_exchange e) = i) exchange_types"

fun is_transaction_storage_enabled :: "exchange_type \<Rightarrow> bool" where
  "is_transaction_storage_enabled Binance = True"
| "is_transaction_storage_enabled Coinbase = True"
| "is_transaction_storage_enabled ReownTest = False"

fun is_asset_supported :: "exchange_type \<Rightarrow> caip19_asset \<Rightarrow> bool" where
  "is_asset_supported Binance asset = is_ok (map_asset_to_binance_format asset)"
| "is_asset_supported Coinbase asset = (map_of CAIP19_TO_COINBASE_CRYPTO (caip19_display asset) \<noteq> None)"
| "is_asset_supported ReownTest asset = (asset \<in> set CAIP_19_SUPPORTED_ASSETS)"

text \<open>\<open>parse_config\<close> reads a configuration as the list of the \<open>coinbase\<close> flags of its items.\<close>

definition is_coinbase_enabled_in_config :: "('v \<Rightarrow> bool list option) \<Rightarrow> 'v feature \<Rightarrow> bool" where
  "is_coinbase_enabled_in_config parse_config f = (case ft_config f of
      None \<Rightarrow> False
    | Some c \<Rightarrow> (case parse_config c of None \<Rightarrow> False | Some items \<Rightarrow> list_ex (\<lambda>coinbase. coinbase) items))"

fun is_exchange_enabled ::
  "('v \<Rightarrow> bool list option) \<Rightarrow> exchange_type \<Rightarrow> feature_type \<Rightarrow> 'v feature list \<Rightarrow> bool" where
  "is_exchange_enabled parse_config Binance ft features = True"
| "is_exchange_enabled parse_config Coinbase ft features =
    (if ft \<noteq> FundWallet then False
     else (case find (\<lambda>f. ft_id f = feature_id ft \<and> ft_is_enabled f) features of
         None \<Rightarrow> False
       | Some f \<Rightarrow> is_coinbase_enabled_in_config parse_config f))"
| "is_exchange_enabled parse_config ReownTest ft features = True"

definition get_supported_exchanges ::
  "(string \<Rightarrow> 'h option) \<Rightarrow> ('h \<Rightarrow> string) \<Rightarrow> ('v \<Rightarrow> bool list option) \<Rightarrow> string option
    \<Rightarrow> feature_type \<Rightarrow> 'v feature list \<Rightarrow> (exchange_error, exchange list) result" where
  "get_supported_exchanges h160_from_str to_checksum parse_config asset ft features = (case asset of
      Some asset_str \<Rightarrow>
        bind_res (map_err (\<lambda>e. EE_ValidationError (crypto_utils_error_display e))
            (caip19_parse h160_from_str to_checksum asset_str))
          (\<lambda>asset. Inr (map to_exchange (filter
             (\<lambda>e. is_asset_supported e asset \<and> is_exchange_enabled parse_config e ft features) exchange_types)))
    | None \<Rightarrow> Inr (map to_exchange
        (filter (\<lambda>e. is_exchange_enabled parse_config e ft features) exchange_types)))"

definition get_exchange_by_id ::
  "('v \<Rightarrow> bool list option) \<Rightarrow> string \<Rightarrow> feature_type \<Rightarrow> 'v feature list
    \<Rightarrow> (exchange_error, exchange_type) result" where
  "get_exchange_by_id parse_config i ft features =
    bind_res (ok_or (EE_ValidationError (''Exchange '' @ i @ '' not found'')) (exchange_from_id i))
      (\<lambda>e. if \<not> is_exchange_enabled parse_config e ft features
           then Inl (EE_ExchangeNotEnabled (''Exchange '' @ i @ '' is not enabled''))
           else Inr e)"

definition get_feature_type :: "string option \<Rightarrow> feature_type" where
  "get_feature_type source = (if source = Some ''fund-wallet'' then FundWallet else Payments)"

text \<open>\<open>show_error\<close> is the printed text of an RPC error.\<close>

definition get_enabled_features ::
  "(rpc_error \<Rightarrow> string) \<Rightarrow> registry \<Rightarrow> 'v feature list registry_env \<Rightarrow> string
    \<Rightarrow> (exchange_error, 'v feature list) result \<times> registry \<times> 'v feature list registry_effect list" where
  "get_enabled_features show_error reg env project_id =
    (let (res, reg', effs) = project_data_request reg env
        \<lparr> rq_id = project_id, rq_include_limits = True, rq_include_features = True \<rparr>
     in (bind_res (map_err (\<lambda>e. EE_ProjectDataError (show_error e)) res)
          (\<lambda>data. Inr (case pr_features data of Some fs \<Rightarrow> fs | None \<Rightarrow> [])), reg', effs))"

definition is_feature_enabled_for_project_id ::
  "string option \<Rightarrow> string list option \<Rightarrow> string \<Rightarrow> 'v feature list \<Rightarrow> feature_type
    \<Rightarrow> (exchange_error, unit) result" where
  "is_feature_enabled_for_project_id testing_project_id allowed_project_ids project_id features ft =
    (if (case testing_project_id of Some t \<Rightarrow> constant_time_eq (string_bytes t) (string_bytes project_id)
         | None \<Rightarrow> False) then Inr ()
     else if (case allowed_project_ids of Some ids \<Rightarrow> project_id \<in> set ids | None \<Rightarrow> False) then Inr ()
     else if list_ex (\<lambda>f. ft_id f = feature_id ft \<and> ft_is_enabled f) features then Inr ()
     else Inl (EE_FeatureNotEnabled (feature_display ft @ '' feature is not enabled for this project'')))"

section \<open>Listing\<close>

record get_exchanges_request =
  ge_include_only :: "string list option"
  ge_exclude :: "string list option"
  ge_asset :: "string option"

datatype get_exchanges_error = GE_ValidationError string | GE_UnableToGetEnabledFeatures string

definition get_exchanges_internal ::
  "(string \<Rightarrow> 'h option) \<Rightarrow> ('h \<Rightarrow> string) \<Rightarrow> ('v \<Rightarrow> bool list option) \<Rightarrow> get_exchanges_request
    \<Rightarrow> feature_type \<Rightarrow> 'v feature list \<Rightarrow> (get_exchanges_error, nat \<times> exchange list) result" where
  "get_exchanges_internal h160_from_str to_checksum parse_config request ft features =
    (case get_supported_exchanges h160_from_str to_checksum parse_config (ge_asset request) ft features of
       Inl _ \<Rightarrow> Inr (0, [])
     | Inr all_exchanges \<Rightarrow>
        bind_res (case (ge_include_only request, ge_exclude request) of
            (Some _, Some _) \<Rightarrow> Inl (GE_ValidationError ''includeOnly and exclude are mutually exclusive'')
          | (Some include_only, None) \<Rightarrow> Inr (filter (\<lambda>e. ex_id e \<in> set include_only) all_exchanges)
          | (None, Some exclude) \<Rightarrow> Inr (filter (\<lambda>e. ex_id e \<notin> set exclude) all_exchanges)
          | (None, None) \<Rightarrow> Inr all_exchanges)
          (\<lambda>exchanges. Inr (length exchanges, exchanges)))"

definition get_exchanges ::
  "(rpc_error \<Rightarrow> string) \<Rightarrow> (string \<Rightarrow> 'h option) \<Rightarrow> ('h \<Rightarrow> string) \<Rightarrow> ('v \<Rightarrow> bool list option)
    \<Rightarrow> string option \<Rightarrow> string list option \<Rightarrow> registry \<Rightarrow> 'v feature list registry_env \<Rightarrow> string
    \<Rightarrow> string option \<Rightarrow> get_exchanges_request \<Rightarrow> (get_exchanges_error, nat \<times> exchange list) result" where
  "get_exchanges show_error h160_from_str to_checksum parse_config testing allowed reg env project_id
      source request =
    (let ft = get_feature_type source in
     bind_res (map_err (\<lambda>e. GE_UnableToGetEnabledFeatures (exchange_error_display e))
         (fst (get_enabled_features show_error reg env project_id)))
       (\<lambda>features. bind_res (map_err (\<lambda>e. GE_ValidationError (exchange_error_display e))
           (is_feature_enabled_for_project_id testing allowed project_id features ft))
         (\<lambda>_. get_exchanges_internal h160_from_str to_checksum parse_config request ft features)))"

section \<open>Transaction status\<close>

datatype buy_transaction_status = BT_Unknown | BT_InProgress | BT_Success | BT_Failed

record buy_status_response =
  bs_status :: buy_transaction_status
  bs_tx_hash :: "string option"

datatype binance_order_status =
    BO_Init | BO_OnRampProcessing | BO_OnRampCompleted | BO_OffRampProcessing | BO_WithdrawInit
  | BO_WithdrawProcessing | BO_Completed | BO_OffRampFailed | BO_WithdrawAbandoned | BO_OnRampFailed
  | BO_WithdrawFailed | BO_FailedReserved | BO_Unknown u64

definition binance_order_status_from :: "u64 \<Rightarrow> binance_order_status" where
  "binance_order_status_from v =
    (if v = 0 then BO_Init else if v = 1 then BO_OnRampProcessing else if v = 2 then BO_OnRampCompleted
     else if v = 6 then BO_OffRampProcessing else if v = 10 then BO_WithdrawInit
     else if v = 11 then BO_WithdrawProcessing else if v = 20 then BO_Completed
     else if v = 95 then BO_OffRampFailed else if v = 96 then BO_WithdrawAbandoned
     else if v = 97 then BO_OnRampFailed else if v = 98 then BO_WithdrawFailed
     else if v = 99 then BO_FailedReserved else BO_Unknown v)"

definition binance_buy_status :: "u64 \<Rightarrow> string option \<Rightarrow> buy_status_response" where
  "binance_buy_status status withdraw_tx_hash = \<lparr>
     bs_status = (case binance_order_status_from status of
         BO_OnRampCompleted \<Rightarrow> BT_Success
       | BO_Completed \<Rightarrow> BT_Success
       | BO_Init \<Rightarrow> BT_InProgress
       | BO_OnRampProcessing \<Rightarrow> BT_InProgress
       | BO_OffRampProcessing \<Rightarrow> BT_InProgress
       | BO_WithdrawInit \<Rightarrow> BT_InProgress
       | BO_WithdrawProcessing \<Rightarrow> BT_InProgress
       | BO_OffRampFailed \<Rightarrow> BT_Failed
       | BO_WithdrawAbandoned \<Rightarrow> BT_Failed
       | BO_OnRampFailed \<Rightarrow> BT_Failed
       | BO_WithdrawFailed \<Rightarrow> BT_Failed
       | BO_FailedReserved \<Rightarrow> BT_Failed
       | BO_Unknown _ \<Rightarrow> BT_Unknown),
     bs_tx_hash = withdraw_tx_hash \<rparr>"

datatype coinbase_transaction_status = CT_InProgress | CT_Success | CT_Failed | CT_Created

text \<open>\<open>transactions\<close> are the status and the hash of the listed transactions; the first one counts.\<close>

definition coinbase_buy_status ::
  "(coinbase_transaction_status \<times> string option) list \<Rightarrow> buy_status_response" where
  "coinbase_buy_status transactions = (case transactions of
      (status, tx_hash) # _ \<Rightarrow> \<lparr>
        bs_status = (case status of
            CT_Success \<Rightarrow> (if (case tx_hash of None \<Rightarrow> True | Some h \<Rightarrow> h = '''') then BT_InProgress else BT_Success)
          | CT_InProgress \<Rightarrow> BT_InProgress
          | CT_Failed \<Rightarrow> BT_Failed
          | CT_Created \<Rightarrow> BT_InProgress),
        bs_tx_hash = tx_hash \<rparr>
    | [] \<Rightarrow> \<lparr> bs_status = BT_Unknown, bs_tx_hash = None \<rparr>)"

text \<open>\<open>answer\<close> is the status text and the transaction id of a successful response.\<close>

definition test_exchange_buy_status :: "(string \<times> string option) option \<Rightarrow> buy_status_response" where
  "test_exchange_buy_status answer = (case answer of
      Some (status, txid) \<Rightarrow>
        (let s = to_lowercase status in \<lparr>
           bs_status = (if s = ''success'' then BT_Success
             else if s = ''pending'' \<or> s = ''in_progress'' then BT_InProgress
             else if s = ''failed'' \<or> s = ''error'' then BT_Failed
             else BT_Unknown),
           bs_tx_hash = txid \<rparr>)
    | None \<Rightarrow> \<lparr> bs_status = BT_Unknown, bs_tx_hash = None \<rparr>)"

section \<open>Lemmas\<close>

interpretation binance_cryptos: keyed_table CAIP19_TO_BINANCE_CRYPTO fst
  by unfold_locales (simp add: CAIP19_TO_BINANCE_CRYPTO_def)

interpretation binance_networks: keyed_table CHAIN_ID_TO_BINANCE_NETWORK fst
  by unfold_locales (simp add: CHAIN_ID_TO_BINANCE_NETWORK_def)

interpretation coinbase_cryptos: keyed_table CAIP19_TO_COINBASE_CRYPTO fst
  by unfold_locales (simp add: CAIP19_TO_COINBASE_CRYPTO_def)

interpretation coinbase_networks: keyed_table CHAIN_ID_TO_COINBASE_NETWORK fst
  by unfold_locales (simp add: CHAIN_ID_TO_COINBASE_NETWORK_def)

interpretation exchange_table: keyed_table exchange_types "\<lambda>e. ex_id (to_exchange e)"
  by unfold_locales (simp add: exchange_types_def)

lemma in_exchange_types [simp]: "e \<in> set exchange_types"
  by (cases e) (simp_all add: exchange_types_def)

lemma exchange_from_id_iff: "exchange_from_id i = Some e \<longleftrightarrow> ex_id (to_exchange e) = i"
  by (simp add: exchange_from_id_def exchange_table.find_key_iff)

lemma to_exchange_inj: "to_exchange e = to_exchange e' \<longleftrightarrow> e = e'"
  using exchange_table.key_unique [of e e'] by auto

lemma break_at_display:
  "caip2_wf (a_chain_id a) \<Longrightarrow> fst (break_at CHR ''/'' (caip19_display a)) = caip2_display (a_chain_id a)"
  using break_at_sep [OF caip2_display_no_slash]
  by (auto simp: caip19_display_def split: option.splits)

text \<open>The chain of every listed asset has a network.\<close>

definition networks_cover :: "(string \<times> string) list \<Rightarrow> (string \<times> string) list \<Rightarrow> bool" where
  "networks_cover cryptos networks =
    list_all (\<lambda>(k, _). list_ex (\<lambda>(c, _). c = fst (break_at CHR ''/'' k)) networks) cryptos"

lemma binance_covered: "networks_cover CAIP19_TO_BINANCE_CRYPTO CHAIN_ID_TO_BINANCE_NETWORK"
  by (simp add: networks_cover_def CAIP19_TO_BINANCE_CRYPTO_def CHAIN_ID_TO_BINANCE_NETWORK_def)

lemma coinbase_covered: "networks_cover CAIP19_TO_COINBASE_CRYPTO CHAIN_ID_TO_COINBASE_NETWORK"
  by (simp add: networks_cover_def CAIP19_TO_COINBASE_CRYPTO_def CHAIN_ID_TO_COINBASE_NETWORK_def)

lemma map_asset_ok:
  assumes "networks_cover cryptos networks" "caip2_wf (a_chain_id a)"
  shows "is_ok (map_asset cryptos networks a) \<longleftrightarrow> map_of cryptos (caip19_display a) \<noteq> None"
proof (cases "map_of cryptos (caip19_display a)")
  case None
  then show ?thesis by (simp add: map_asset_def Let_def)
next
  case (Some crypto)
  then have "(caip19_display a, crypto) \<in> set cryptos" by (rule map_of_SomeD)
  then have "caip2_display (a_chain_id a) \<in> fst ` set networks"
    using assms(1) break_at_display [OF assms(2)]
    by (force simp: networks_cover_def list_all_iff list_ex_iff)
  then obtain network where "map_of networks (caip2_display (a_chain_id a)) = Some network"
    by (metis map_of_eq_None_iff not_None_eq)
  with Some show ?thesis by (simp add: map_asset_def Let_def)
qed

text \<open>The test exchange's assets are what their CAIP-19 strings parse to.\<close>

lemma test_assets_parse:
  "map (\<lambda>s. caip19_parse f t s) [''eip155:11155111/slip44:60'', ''eip155:84532/slip44:60''] =
    map Inr CAIP_19_SUPPORTED_ASSETS"
  by (simp add: CAIP_19_SUPPORTED_ASSETS_def caip19_parse_def caip2_parse_def caip2_new_def caip19_new_def
      caip_regex_defs matches_class_def char_class_defs numeral_eq_Suc is_evm_token_def)

lemma distinct_supported:
  "get_supported_exchanges f t pc asset ft features = Inr es \<Longrightarrow> distinct es"
proof -
  have "distinct (map to_exchange (filter P exchange_types))" for P
    by (auto simp: exchange_types_def)
  then show "get_supported_exchanges f t pc asset ft features = Inr es \<Longrightarrow> distinct es"
    by (auto simp: get_supported_exchanges_def res_simps split: option.splits)
qed

text \<open>What the listing offers for an asset.\<close>

definition offered ::
  "(string \<Rightarrow> 'h option) \<Rightarrow> ('h \<Rightarrow> string) \<Rightarrow> ('v \<Rightarrow> bool list option) \<Rightarrow> string option
    \<Rightarrow> feature_type \<Rightarrow> 'v feature list \<Rightarrow> exchange_type \<Rightarrow> bool" where
  "offered f t pc asset ft features e = (is_exchange_enabled pc e ft features
     \<and> (case asset of None \<Rightarrow> True | Some s \<Rightarrow> (case caip19_parse f t s of
           Inl _ \<Rightarrow> False | Inr a \<Rightarrow> is_asset_supported e a)))"

lemma supported_exchanges_offered:
  "get_supported_exchanges f t pc asset ft features = Inr es \<Longrightarrow>
    x \<in> set es \<longleftrightarrow> (\<exists>e. x = to_exchange e \<and> offered f t pc asset ft features e)"
  by (auto simp: get_supported_exchanges_def offered_def res_simps split: option.splits)

lemma supported_exchanges_error:
  "get_supported_exchanges f t pc asset ft features = Inl err \<Longrightarrow> \<not> offered f t pc asset ft features e"
  by (auto simp: get_supported_exchanges_def offered_def res_simps split: option.splits)

text \<open>The listing returns, without duplicates, exactly the exchanges that are enabled for the
  feature, support the asset, and pass the filter of the request; an exchange of the list is found again by its
  id, and for Binance and Coinbase the asset of the request then has a currency and a network.\<close>

theorem exchange_listing:
  assumes "checksum_codec f t"
    and "get_exchanges_internal f t pc request ft features = Inr (n, es)"
  shows "n = length es \<and> distinct es
    \<and> (\<forall>e. to_exchange e \<in> set es \<longleftrightarrow> offered f t pc (ge_asset request) ft features e
        \<and> (\<forall>ids. ge_include_only request = Some ids \<longrightarrow> ex_id (to_exchange e) \<in> set ids)
        \<and> (\<forall>ids. ge_exclude request = Some ids \<longrightarrow> ex_id (to_exchange e) \<notin> set ids))
    \<and> (\<forall>x\<in>set es. \<exists>e. x = to_exchange e \<and> get_exchange_by_id pc (ex_id x) ft features = Inr e
        \<and> (\<forall>s a. ge_asset request = Some s \<and> caip19_parse f t s = Inr a \<longrightarrow>
              (e = Binance \<longrightarrow> is_ok (map_asset_to_binance_format a))
            \<and> (e = Coinbase \<longrightarrow> is_ok (map_asset_to_coinbase_format a))))"
proof (cases "get_supported_exchanges f t pc (ge_asset request) ft features")
  case (Inl err)
  then show ?thesis
    using assms(2) supported_exchanges_error [OF Inl] by (auto simp: get_exchanges_internal_def)
next
  case (Inr all)
  have es: "n = length es" "set es = {x \<in> set all.
        (\<forall>ids. ge_include_only request = Some ids \<longrightarrow> ex_id x \<in> set ids)
        \<and> (\<forall>ids. ge_exclude request = Some ids \<longrightarrow> ex_id x \<notin> set ids)}" "distinct es"
    using assms(2) Inr distinct_supported [OF Inr]
    by (auto simp: get_exchanges_internal_def res_simps split: option.splits)
  have found: "get_exchange_by_id pc (ex_id (to_exchange e)) ft features = Inr e"
    if "offered f t pc (ge_asset request) ft features e" for e
  proof -
    have "exchange_from_id (ex_id (to_exchange e)) = Some e" by (simp add: exchange_from_id_iff)
    then show ?thesis using that by (simp add: get_exchange_by_id_def offered_def)
  qed
  have mapped: "(e = Binance \<longrightarrow> is_ok (map_asset_to_binance_format a))
      \<and> (e = Coinbase \<longrightarrow> is_ok (map_asset_to_coinbase_format a))"
    if "offered f t pc (ge_asset request) ft features e" "ge_asset request = Some s"
      "caip19_parse f t s = Inr a" for e s a
  proof -
    have "caip2_wf (a_chain_id a)"
      using caip19_parse_result [OF assms(1) that(3)] by (simp add: caip19_wf_def)
    from map_asset_ok [OF coinbase_covered this] show ?thesis
      using that by (auto simp: offered_def map_asset_to_coinbase_format_def)
  qed
  show ?thesis
    using es supported_exchanges_offered [OF Inr] found mapped by (auto simp: to_exchange_inj)
qed

lemma exchange_listing_witness:
  "\<exists>(f :: string \<Rightarrow> unit option) t es. checksum_codec f t \<and> get_exchanges_internal f t (\<lambda>_. None)
      \<lparr> ge_include_only = None, ge_exclude = Some [''binance''], ge_asset = None \<rparr> Payments
      ([] :: unit feature list) = Inr (1, es) \<and> es = [to_exchange ReownTest] \<and> distinct es"
proof -
  let ?f = "\<lambda>_ :: string. Some ()" and ?t = "\<lambda>_ :: unit. ''0x'' @ replicate 40 CHR ''0''"
  have c: "checksum_codec ?f ?t" by (simp add: checksum_codec_def list_all_iff char_class_defs)
  let ?r = "\<lparr> ge_include_only = None, ge_exclude = Some [''binance''], ge_asset = None \<rparr>"
  have r: "get_exchanges_internal ?f ?t (\<lambda>_. None) ?r Payments ([] :: unit feature list)
      = Inr (1, [to_exchange ReownTest])"
    by (simp add: get_exchanges_internal_def get_supported_exchanges_def exchange_types_def)
  from exchange_listing [OF c r] have "distinct [to_exchange ReownTest]" by blast
  with c r show ?thesis by blast
qed

text \<open>An EVM token whose printed form has the reference \<open>r\<close> has \<open>r\<close> in checksummed form.\<close>

lemma evm_token_reference:
  assumes "checksum_codec f t" "caip19_parse f t s = Inr a" "caip19_display a = c @ ''/erc20:'' @ r"
    and "caip2_parse c = Inr \<lparr> c2_namespace = ''eip155'', c2_reference = n \<rparr>" "CHR ''/'' \<notin> set r"
  shows "\<exists>h. f r = Some h \<and> t h = r"
proof -
  have str: "c @ ''/erc20:'' @ r = caip19_string c ''erc20'' r None"
    by (simp add: caip19_string_def)
  have c: "caip2_wf \<lparr> c2_namespace = ''eip155'', c2_reference = n \<rparr>"
    "caip2_display \<lparr> c2_namespace = ''eip155'', c2_reference = n \<rparr> = c"
    using assms(4) by (simp_all add: caip2_parse_iff)
  have noslash: "CHR ''/'' \<notin> set c" using caip2_display_no_slash [OF c(1)] c(2) by simp
  have "caip19_parse f t (caip19_string c ''erc20'' r None) = Inr a"
    using caip19_parse_result [OF assms(1,2)] caip19_parse_display assms(3) by (metis str)
  then have new: "caip19_new f t \<lparr> c2_namespace = ''eip155'', c2_reference = n \<rparr> ''erc20'' r None = Inr a"
    using noslash assms(4,5) by (subst (asm) caip19_parse_string) (auto simp: res_simps)
  then obtain h where "f r = Some h" "a_reference a = t h"
    by (auto simp: caip19_new_iff is_evm_token_def)
  moreover have "a_reference a = r"
    using assms(3) new c(2) by (auto simp: caip19_new_iff caip19_display_def)
  ultimately show ?thesis by auto
qed

definition coinbase_arbitrum_usdc :: string where
  "coinbase_arbitrum_usdc = ''eip155:42161'' @ ''/erc20:'' @ ''0xAf88d065E77C8Ccc2239327C5EDb3A432268e5831''"

definition optimism_stablecoin :: string where
  "optimism_stablecoin = ''eip155:10/erc20:0x94b008aA00579c1307B0EF2c499aD98a8ce58e58''"

text \<open>Two entries of the Coinbase table are wrong: one Optimism token is USDT for Binance and USDC
  for Coinbase (every other shared asset has the same currency), and the key for USDC on Arbitrum has 41
  hexadecimal digits, so that, as the address of a parsed asset is printed with 40 digits, no asset
  ever matches it.\<close>

theorem coinbase_table_errors:
  assumes "checksum_codec f t"
  shows "(\<forall>k c b. map_of CAIP19_TO_COINBASE_CRYPTO k = Some c \<and> map_of CAIP19_TO_BINANCE_CRYPTO k = Some b
        \<longrightarrow> (c = b \<longleftrightarrow> k \<noteq> optimism_stablecoin))
    \<and> map_of CAIP19_TO_COINBASE_CRYPTO optimism_stablecoin = Some ''USDC''
    \<and> map_of CAIP19_TO_BINANCE_CRYPTO optimism_stablecoin = Some ''USDT''
    \<and> map_of CAIP19_TO_COINBASE_CRYPTO coinbase_arbitrum_usdc = Some ''USDC''
    \<and> \<not> (\<exists>s a. caip19_parse f t s = Inr a \<and> caip19_display a = coinbase_arbitrum_usdc)"
proof (intro conjI)
  have arb: "caip2_parse ''eip155:42161'' = Inr \<lparr> c2_namespace = ''eip155'', c2_reference = ''42161'' \<rparr>"
    by (simp add: caip2_parse_def caip2_new_def caip_regex_defs matches_class_def char_class_defs numeral_eq_Suc)
  let ?c = "''0xAf88d065E77C8Ccc2239327C5EDb3A432268e5831''"
  show "\<not> (\<exists>s a. caip19_parse f t s = Inr a \<and> caip19_display a = coinbase_arbitrum_usdc)"
  proof
    assume "\<exists>s a. caip19_parse f t s = Inr a \<and> caip19_display a = coinbase_arbitrum_usdc"
    then obtain s a where c: "caip19_parse f t s = Inr a" "caip19_display a = coinbase_arbitrum_usdc" by blast
    have "\<exists>h. f ?c = Some h \<and> t h = ?c"
      by (rule evm_token_reference [OF assms c [unfolded coinbase_arbitrum_usdc_def] arb]) simp
    then obtain h where h: "t h = ?c" by blast
    obtain d where "t h = ''0x'' @ d" "length d = 40" using assms by (auto simp: checksum_codec_def)
    then have "length (t h) = 42" by simp
    then show False unfolding h by simp
  qed
  show "\<forall>k c b. map_of CAIP19_TO_COINBASE_CRYPTO k = Some c \<and> map_of CAIP19_TO_BINANCE_CRYPTO k = Some b
        \<longrightarrow> (c = b \<longleftrightarrow> k \<noteq> optimism_stablecoin)"
    by (auto simp: CAIP19_TO_COINBASE_CRYPTO_def CAIP19_TO_BINANCE_CRYPTO_def optimism_stablecoin_def
        split: if_splits)
qed (simp_all add: CAIP19_TO_COINBASE_CRYPTO_def CAIP19_TO_BINANCE_CRYPTO_def optimism_stablecoin_def
    coinbase_arbitrum_usdc_def)

lemma coinbase_table_errors_witness:
  "\<exists>(f :: string \<Rightarrow> unit option) t. checksum_codec f t
     \<and> \<not> (\<exists>s a. caip19_parse f t s = Inr a \<and> caip19_display a = coinbase_arbitrum_usdc)"
proof -
  have c: "checksum_codec (\<lambda>_. Some ()) (\<lambda>_. ''0x'' @ replicate 40 CHR ''0'')"
    by (simp add: checksum_codec_def list_all_iff char_class_defs)
  from coinbase_table_errors [OF c] c show ?thesis by blast
qed

text \<open>The provider's order states become a transaction status as follows: Binance reports success for its
  states 2 and 20 and failure for 95 to 99, every unlisted state is unknown; Coinbase reports success
  only together with a transaction hash, and without any transaction the status is unknown.\<close>

theorem buy_status_translation:
  "(bs_status (binance_buy_status v h) = BT_Success \<longleftrightarrow> v \<in> {2, 20})
   \<and> (bs_status (binance_buy_status v h) = BT_Failed \<longleftrightarrow> v \<in> {95, 96, 97, 98, 99})
   \<and> (bs_status (binance_buy_status v h) = BT_InProgress \<longleftrightarrow> v \<in> {0, 1, 6, 10, 11})
   \<and> bs_tx_hash (binance_buy_status v h) = h
   \<and> (bs_status (coinbase_buy_status ts) = BT_Success \<longleftrightarrow>
        (\<exists>h rest. ts = (CT_Success, Some h) # rest \<and> h \<noteq> ''''))
   \<and> (bs_status (coinbase_buy_status ts) = BT_Failed \<longleftrightarrow> (\<exists>h rest. ts = (CT_Failed, h) # rest))
   \<and> (bs_status (coinbase_buy_status ts) = BT_Unknown \<longleftrightarrow> ts = [])"
proof -
  have b: "bs_status (binance_buy_status v h) = (if v \<in> {2, 20} then BT_Success
      else if v \<in> {95, 96, 97, 98, 99} then BT_Failed
      else if v \<in> {0, 1, 6, 10, 11} then BT_InProgress else BT_Unknown)"
    by (simp add: binance_buy_status_def binance_order_status_from_def)
  have c: "bs_status (coinbase_buy_status ts) = (case ts of [] \<Rightarrow> BT_Unknown
      | (CT_Success, Some h) # _ \<Rightarrow> if h = '''' then BT_InProgress else BT_Success
      | (CT_Failed, _) # _ \<Rightarrow> BT_Failed | _ \<Rightarrow> BT_InProgress)"
    by (auto simp: coinbase_buy_status_def split: list.splits coinbase_transaction_status.splits option.splits)
  have "bs_tx_hash (binance_buy_status v h) = h" by (simp add: binance_buy_status_def)
  moreover have "bs_status (coinbase_buy_status ts) = BT_Success \<longleftrightarrow>
      (\<exists>h rest. ts = (CT_Success, Some h) # rest \<and> h \<noteq> '''')"
    "bs_status (coinbase_buy_status ts) = BT_Failed \<longleftrightarrow> (\<exists>h rest. ts = (CT_Failed, h) # rest)"
    "bs_status (coinbase_buy_status ts) = BT_Unknown \<longleftrightarrow> ts = []"
    unfolding c by (auto split: list.splits coinbase_transaction_status.splits option.splits if_splits)
  ultimately show ?thesis unfolding b by simp
qed

end
