(* ===== verification/Ledger.thy ===== *)
theory Ledger
  imports Exchanges
begin

text \<open>
  The ledger of exchange transactions: the table and the statements of
  \<open>database/exchange_reconciliation.rs\<close> with the schema of its migration, the transactions of
  \<open>exchanges/transactions.rs\<close>, the reconciler and the handlers that write the ledger.  A statement is
  atomic and runs at a time \<open>now\<close>; times are microseconds, as Postgres keeps them.  Which rows a claim
  takes among equally old ones, the answers of the exchanges, and failures of the database or of the
  analytics are parameters.
\<close>

section \<open>The table\<close>

definition minutes :: "int \<Rightarrow> time" where
  "minutes n = n * 60000000"

definition hours :: "int \<Rightarrow> time" where
  "hours n = minutes (60 * n)"

datatype tx_status = Pending | Succeeded | Failed

record 'a exchange_transaction =
  tx_id :: nat
  tx_session_id :: string
  tx_exchange_id :: string
  tx_project_id :: "string option"
  tx_asset :: "string option"
  tx_amount :: "'a option"
  tx_recipient :: "string option"
  tx_pay_url :: "string option"
  tx_status :: tx_status
  tx_failure_reason :: "string option"
  tx_tx_hash :: "string option"
  tx_created_at :: time
  tx_updated_at :: time
  tx_last_checked_at :: "time option"
  tx_completed_at :: "time option"
  tx_locked_at :: "time option"

record 'a ledger =
  lg_rows :: "'a exchange_transaction list"
  lg_next_id :: nat

definition empty_ledger :: "'a ledger" where
  "empty_ledger = \<lparr> lg_rows = [], lg_next_id = 1 \<rparr>"

datatype database_error = Unique_violation | Value_too_long | Row_not_found | Bad_argument string | Db_failure string

fun varchar_opt :: "nat \<Rightarrow> string option \<Rightarrow> string option option" where
  "varchar_opt n None = Some None"
| "varchar_opt n (Some s) = map_option Some (varchar n s)"

definition bpchar :: "nat \<Rightarrow> string \<Rightarrow> string option" where
  "bpchar n s = map_option (\<lambda>s. s @ replicate (n - length s) CHR '' '') (varchar n s)"

text \<open>A \<open>CHAR\<close> column compares to a text without its trailing blanks.\<close>

definition rstrip :: "string \<Rightarrow> string" where
  "rstrip s = rev (dropWhile (\<lambda>c. c = CHR '' '') (rev s))"

definition has_session :: "string \<Rightarrow> 'a exchange_transaction \<Rightarrow> bool" where
  "has_session session_id r = (rstrip (tx_session_id r) = session_id)"

section \<open>Statements\<close>

record 'a new_exchange_transaction =
  nt_session_id :: string
  nt_exchange_id :: string
  nt_project_id :: "string option"
  nt_asset :: "string option"
  nt_amount :: "'a option"
  nt_recipient :: "string option"
  nt_pay_url :: "string option"

text \<open>The row an insertion stores, if every value fits its column.\<close>

definition stored_row :: "time \<Rightarrow> nat \<Rightarrow> 'a new_exchange_transaction \<Rightarrow> 'a exchange_transaction option" where
  "stored_row now i tx =
    (case (bpchar 32 (nt_session_id tx), varchar 64 (nt_exchange_id tx), varchar_opt 255 (nt_project_id tx),
           varchar_opt 255 (nt_asset tx), varchar_opt 255 (nt_recipient tx)) of
       (Some s, Some e, Some p, Some a, Some r) \<Rightarrow>
         Some \<lparr> tx_id = i, tx_session_id = s, tx_exchange_id = e, tx_project_id = p, tx_asset = a,
           tx_amount = nt_amount tx, tx_recipient = r, tx_pay_url = nt_pay_url tx, tx_status = Pending,
           tx_failure_reason = None, tx_tx_hash = None, tx_created_at = now, tx_updated_at = now,
           tx_last_checked_at = None, tx_completed_at = None, tx_locked_at = None \<rparr>
     | _ \<Rightarrow> None)"

text \<open>The row sequence advances also when the insertion fails.\<close>

definition insert_new ::
  "time \<Rightarrow> 'a new_exchange_transaction \<Rightarrow> 'a ledger
    \<Rightarrow> (database_error, 'a exchange_transaction) result \<times> 'a ledger" where
  "insert_new now tx L =
    (let L1 = L \<lparr> lg_next_id := Suc (lg_next_id L) \<rparr> in
     (case stored_row now (lg_next_id L) tx of
        None \<Rightarrow> (Inl Value_too_long, L1)
      | Some row \<Rightarrow>
          if tx_session_id row \<in> tx_session_id ` set (lg_rows L) then (Inl Unique_violation, L1)
          else (Inr row, L1 \<lparr> lg_rows := lg_rows L @ [row] \<rparr>)))"

definition update_where ::
  "('a exchange_transaction \<Rightarrow> bool) \<Rightarrow> ('a exchange_transaction \<Rightarrow> 'a exchange_transaction)
    \<Rightarrow> 'a ledger \<Rightarrow> 'a ledger" where
  "update_where P f L = L \<lparr> lg_rows := map (\<lambda>r. if P r then f r else r) (lg_rows L) \<rparr>"

definition set_status ::
  "tx_status \<Rightarrow> string option \<Rightarrow> string option \<Rightarrow> time \<Rightarrow> 'a exchange_transaction
    \<Rightarrow> 'a exchange_transaction" where
  "set_status status hash reason now r = r \<lparr> tx_status := status, tx_tx_hash := hash,
     tx_failure_reason := reason, tx_last_checked_at := Some now,
     tx_completed_at := (if status = Succeeded \<or> status = Failed then Some now else None),
     tx_updated_at := now, tx_locked_at := None \<rparr>"

definition update_status ::
  "time \<Rightarrow> string \<Rightarrow> tx_status \<Rightarrow> string option \<Rightarrow> string option \<Rightarrow> 'a ledger
    \<Rightarrow> (database_error, 'a exchange_transaction) result \<times> 'a ledger" where
  "update_status now session_id status hash reason L =
    (case filter (has_session session_id) (lg_rows L) of
       [] \<Rightarrow> (Inl Row_not_found, L)
     | r # _ \<Rightarrow>
        (case (varchar_opt 255 hash, varchar_opt 64 reason) of
           (Some h, Some f) \<Rightarrow> (Inr (set_status status h f now r),
             update_where (has_session session_id) (set_status status h f now) L)
         | _ \<Rightarrow> (Inl Value_too_long, L)))"

definition touch_row :: "time \<Rightarrow> 'a exchange_transaction \<Rightarrow> 'a exchange_transaction" where
  "touch_row now r = r \<lparr> tx_last_checked_at := Some now, tx_updated_at := now, tx_locked_at := None \<rparr>"

definition touch_non_terminal :: "time \<Rightarrow> string \<Rightarrow> 'a ledger \<Rightarrow> 'a ledger" where
  "touch_non_terminal now session_id = update_where (has_session session_id) (touch_row now)"

definition LOCK_EXPIRATION_MINUTES :: int where "LOCK_EXPIRATION_MINUTES = 15"
definition CHECK_BACKOFF_MINUTES :: int where "CHECK_BACKOFF_MINUTES = 5"
definition MIN_CLAIM_AGE_HOURS :: int where "MIN_CLAIM_AGE_HOURS = 3"

fun absent_or_before :: "time option \<Rightarrow> time \<Rightarrow> bool" where
  "absent_or_before None b = True"
| "absent_or_before (Some t) b = (t < b)"

definition is_due :: "time \<Rightarrow> 'a exchange_transaction \<Rightarrow> bool" where
  "is_due now r = (tx_status r = Pending
     \<and> absent_or_before (tx_locked_at r) (now - minutes LOCK_EXPIRATION_MINUTES)
     \<and> absent_or_before (tx_last_checked_at r) (now - minutes CHECK_BACKOFF_MINUTES)
     \<and> tx_created_at r < now - hours MIN_CLAIM_AGE_HOURS)"

text \<open>The order of a claim: \<open>last_checked_at NULLS FIRST, created_at ASC\<close>.\<close>

definition claimed_before :: "'a exchange_transaction \<Rightarrow> 'a exchange_transaction \<Rightarrow> bool" where
  "claimed_before r s = (case (tx_last_checked_at r, tx_last_checked_at s) of
      (None, Some _) \<Rightarrow> True
    | (Some _, None) \<Rightarrow> False
    | (None, None) \<Rightarrow> tx_created_at r < tx_created_at s
    | (Some a, Some b) \<Rightarrow> a < b \<or> a = b \<and> tx_created_at r < tx_created_at s)"

text \<open>The candidates of a claim are any \<open>max_claim\<close> first due rows, the rows \<open>busy\<close> in another transaction
  skipped.\<close>

definition claimable :: "time \<Rightarrow> nat \<Rightarrow> nat list \<Rightarrow> nat list \<Rightarrow> 'a ledger \<Rightarrow> bool" where
  "claimable now max_claim busy ids L =
    (let due = filter (\<lambda>r. is_due now r \<and> tx_id r \<notin> set busy) (lg_rows L) in
     distinct ids \<and> set ids \<subseteq> tx_id ` set due \<and> length ids = min max_claim (length due)
     \<and> (\<forall>r\<in>set due. \<forall>s\<in>set due. tx_id r \<in> set ids \<and> tx_id s \<notin> set ids \<longrightarrow> \<not> claimed_before s r))"

definition lock_row :: "time \<Rightarrow> 'a exchange_transaction \<Rightarrow> 'a exchange_transaction" where
  "lock_row now r = r \<lparr> tx_locked_at := Some now, tx_updated_at := now \<rparr>"

definition claim_due_batch ::
  "time \<Rightarrow> nat list \<Rightarrow> 'a ledger \<Rightarrow> 'a exchange_transaction list \<times> 'a ledger" where
  "claim_due_batch now ids L =
    (let L' = update_where (\<lambda>r. tx_id r \<in> set ids) (lock_row now) L
     in (List.map_filter (\<lambda>i. find (\<lambda>r. tx_id r = i) (lg_rows L')) ids, L'))"

definition expire_row :: "time \<Rightarrow> 'a exchange_transaction \<Rightarrow> 'a exchange_transaction" where
  "expire_row now r = r \<lparr> tx_status := Failed,
     tx_failure_reason := (case tx_failure_reason r of Some f \<Rightarrow> Some f | None \<Rightarrow> Some ''expired''),
     tx_completed_at := Some now, tx_updated_at := now \<rparr>"

definition is_expired :: "time \<Rightarrow> int \<Rightarrow> 'a exchange_transaction \<Rightarrow> bool" where
  "is_expired now max_age_hours r = (tx_status r = Pending \<and> tx_created_at r < now - hours max_age_hours
     \<and> absent_or_before (tx_locked_at r) (now - minutes 20))"

definition expire_old_pending :: "time \<Rightarrow> int \<Rightarrow> 'a ledger \<Rightarrow> nat \<times> 'a ledger" where
  "expire_old_pending now max_age_hours L =
    (length (filter (is_expired now max_age_hours) (lg_rows L)),
     update_where (is_expired now max_age_hours) (expire_row now) L)"

section \<open>Transactions\<close>

text \<open>The outcome of opening the transaction, of sending the analytics event and of the commit.  A
  transaction that is not committed leaves the rows as they were.\<close>

record db_env =
  db_begin :: "(database_error, unit) result"
  db_event :: "(database_error, unit) result"
  db_commit :: "(database_error, unit) result"

definition rollback :: "'a ledger \<Rightarrow> 'a ledger \<Rightarrow> 'a ledger" where
  "rollback L L' = L \<lparr> lg_next_id := lg_next_id L' \<rparr>"

definition in_transaction ::
  "db_env \<Rightarrow> ('a ledger \<Rightarrow> (database_error, 'r) result \<times> 'a ledger) \<Rightarrow> 'a ledger
    \<Rightarrow> (database_error, unit) result \<times> 'a ledger" where
  "in_transaction D stmt L =
    (case db_begin D of
       Inl e \<Rightarrow> (Inl e, L)
     | Inr _ \<Rightarrow>
        (let (res, L') = stmt L
         in (case bind_res res (\<lambda>_. bind_res (db_event D) (\<lambda>_. db_commit D)) of
               Inl e \<Rightarrow> (Inl e, rollback L L')
             | Inr _ \<Rightarrow> (Inr (), L'))))"

definition with_storage ::
  "string \<Rightarrow> ('a ledger \<Rightarrow> (database_error, unit) result \<times> 'a ledger) \<Rightarrow> 'a ledger
    \<Rightarrow> (database_error, unit) result \<times> 'a ledger" where
  "with_storage exchange_id act L =
    (case exchange_from_id exchange_id of
       None \<Rightarrow> (Inl (Bad_argument ''Invalid exchange id''), L)
     | Some exchange \<Rightarrow> if \<not> is_transaction_storage_enabled exchange then (Inr (), L) else act L)"

definition create_transaction ::
  "db_env \<Rightarrow> time \<Rightarrow> 'a new_exchange_transaction \<Rightarrow> 'a ledger
    \<Rightarrow> (database_error, unit) result \<times> 'a ledger" where
  "create_transaction D now args = with_storage (nt_exchange_id args) (in_transaction D (insert_new now args))"

definition mark_succeeded ::
  "db_env \<Rightarrow> time \<Rightarrow> string \<Rightarrow> string \<Rightarrow> string option \<Rightarrow> 'a ledger
    \<Rightarrow> (database_error, unit) result \<times> 'a ledger" where
  "mark_succeeded D now session_id exchange_id hash =
     with_storage exchange_id (in_transaction D (update_status now session_id Succeeded hash None))"

definition mark_failed ::
  "db_env \<Rightarrow> time \<Rightarrow> string \<Rightarrow> string \<Rightarrow> string option \<Rightarrow> string option \<Rightarrow> 'a ledger
    \<Rightarrow> (database_error, unit) result \<times> 'a ledger" where
  "mark_failed D now session_id exchange_id reason hash =
     with_storage exchange_id (in_transaction D (update_status now session_id Failed hash reason))"

text \<open>No analytics event is sent for a touched row.\<close>

definition touch_pending ::
  "db_env \<Rightarrow> time \<Rightarrow> string \<Rightarrow> string \<Rightarrow> 'a ledger \<Rightarrow> (database_error, unit) result \<times> 'a ledger" where
  "touch_pending D now exchange_id session_id =
     with_storage exchange_id (in_transaction (D \<lparr> db_event := Inr () \<rparr>)
       (\<lambda>L. (Inr (), touch_non_terminal now session_id L)))"

section \<open>The reconciler\<close>

definition CLAIM_BATCH_SIZE :: nat where "CLAIM_BATCH_SIZE = 200"
definition EXPIRE_PENDING_AFTER_HOURS :: int where "EXPIRE_PENDING_AFTER_HOURS = 12"

text \<open>What happens while a row is processed: the time of its database statement, the answer of the exchange
  to the status request, and the outcome of the transaction.\<close>

record row_env =
  re_now :: time
  re_answer :: "(exchange_error, buy_status_response) result"
  re_db :: db_env

definition apply_answer ::
  "db_env \<Rightarrow> time \<Rightarrow> string \<Rightarrow> string \<Rightarrow> (exchange_error, buy_status_response) result \<Rightarrow> 'a ledger
    \<Rightarrow> 'a ledger" where
  "apply_answer D now session_id exchange_id answer L = snd (case answer of
      Inr status \<Rightarrow>
        (case bs_status status of
           BT_Success \<Rightarrow> mark_succeeded D now session_id exchange_id (bs_tx_hash status) L
         | BT_Failed \<Rightarrow>
             mark_failed D now session_id exchange_id (Some ''provider_failed'') (bs_tx_hash status) L
         | _ \<Rightarrow> touch_pending D now exchange_id session_id L)
    | Inl _ \<Rightarrow> touch_pending D now exchange_id session_id L)"

definition process_row :: "row_env \<Rightarrow> 'a exchange_transaction \<Rightarrow> 'a ledger \<Rightarrow> 'a ledger" where
  "process_row E row L =
    (let fail = snd (mark_failed (re_db E) (re_now E) (tx_session_id row) (tx_exchange_id row)
           (Some ''provider_failed'') None L)
     in (case tx_project_id row of
           None \<Rightarrow> fail
         | Some _ \<Rightarrow>
            (case exchange_from_id (tx_exchange_id row) of
               Some Coinbase \<Rightarrow>
                 apply_answer (re_db E) (re_now E) (tx_session_id row) (tx_exchange_id row) (re_answer E) L
             | Some Binance \<Rightarrow>
                 apply_answer (re_db E) (re_now E) (tx_session_id row) (tx_exchange_id row) (re_answer E) L
             | _ \<Rightarrow> fail)))"

fun process_rows ::
  "(nat \<Rightarrow> row_env) \<Rightarrow> nat \<Rightarrow> 'a exchange_transaction list \<Rightarrow> 'a ledger \<Rightarrow> 'a ledger" where
  "process_rows E n [] L = L"
| "process_rows E n (row # rows) L = process_rows E (Suc n) rows (process_row (E n) row L)"

text \<open>One turn of the loop: \<open>claim\<close> is the outcome of the claim with the rows it took, \<open>expire_ok\<close> says that
  the expiry statement succeeded.\<close>

definition reconcile_tick ::
  "time \<Rightarrow> (database_error, nat list) result \<Rightarrow> (nat \<Rightarrow> row_env) \<Rightarrow> time \<Rightarrow> bool \<Rightarrow> 'a ledger \<Rightarrow> 'a ledger" where
  "reconcile_tick now claim E expire_now expire_ok L =
    (case claim of
       Inl _ \<Rightarrow> L
     | Inr ids \<Rightarrow>
        (let (rows, L1) = claim_due_batch now ids L in
         if rows = [] then L1
         else (let L2 = process_rows E 0 rows L1 in
           if expire_ok then snd (expire_old_pending expire_now EXPIRE_PENDING_AFTER_HOURS L2) else L2)))"

section \<open>Invariant\<close>

text \<open>A well-formed row at time \<open>t\<close>: it is complete exactly if it is not pending, belongs to an exchange with
  storage, and its times are ordered.\<close>

definition row_ok :: "time \<Rightarrow> 'a exchange_transaction \<Rightarrow> bool" where
  "row_ok t r = ((tx_completed_at r = None \<longleftrightarrow> tx_status r = Pending)
     \<and> (\<exists>e. exchange_from_id (tx_exchange_id r) = Some e \<and> is_transaction_storage_enabled e)
     \<and> tx_created_at r \<le> tx_updated_at r \<and> tx_updated_at r \<le> t
     \<and> (\<forall>c. tx_last_checked_at r = Some c \<longrightarrow> tx_created_at r \<le> c \<and> c \<le> tx_updated_at r)
     \<and> (\<forall>c. tx_completed_at r = Some c \<longrightarrow> tx_created_at r \<le> c \<and> c \<le> tx_updated_at r)
     \<and> (\<forall>c. tx_locked_at r = Some c \<longrightarrow> tx_created_at r \<le> c \<and> c \<le> tx_updated_at r))"

definition ledger_ok :: "time \<Rightarrow> 'a ledger \<Rightarrow> bool" where
  "ledger_ok t L = (distinct (map tx_session_id (lg_rows L)) \<and> distinct (map tx_id (lg_rows L))
     \<and> (\<forall>r\<in>set (lg_rows L). tx_id r < lg_next_id L \<and> row_ok t r))"

text \<open>Row \<open>i\<close> is held since \<open>t\<close>: it is complete, or locked or checked no earlier than \<open>t\<close>.\<close>

definition held :: "time \<Rightarrow> 'a exchange_transaction \<Rightarrow> bool" where
  "held t r = (tx_status r \<noteq> Pending \<or> (\<exists>l. tx_locked_at r = Some l \<and> t \<le> l)
     \<or> (\<exists>c. tx_last_checked_at r = Some c \<and> t \<le> c))"

lemma row_ok_mono: "row_ok t r \<Longrightarrow> t \<le> t' \<Longrightarrow> row_ok t' r"
  by (auto simp: row_ok_def)

lemma ledger_ok_mono: "ledger_ok t L \<Longrightarrow> t \<le> t' \<Longrightarrow> ledger_ok t' L"
  by (auto simp: ledger_ok_def intro: row_ok_mono)

lemma ledger_ok_empty: "ledger_ok t empty_ledger"
  by (simp add: ledger_ok_def empty_ledger_def)

text \<open>How a ledger evolves: rows keep their place, identity and creation data, and a row that is complete
  or held stays so; new rows come after the old ones with new ids.\<close>

definition row_evolves :: "'a exchange_transaction \<Rightarrow> 'a exchange_transaction \<Rightarrow> bool" where
  "row_evolves r r' = (tx_id r' = tx_id r \<and> tx_session_id r' = tx_session_id r
     \<and> tx_exchange_id r' = tx_exchange_id r \<and> tx_project_id r' = tx_project_id r \<and> tx_asset r' = tx_asset r
     \<and> tx_amount r' = tx_amount r \<and> tx_recipient r' = tx_recipient r \<and> tx_pay_url r' = tx_pay_url r
     \<and> tx_created_at r' = tx_created_at r \<and> tx_updated_at r \<le> tx_updated_at r'
     \<and> (tx_status r \<noteq> Pending \<longrightarrow> tx_status r' \<noteq> Pending))"

definition ledger_evolves :: "'a ledger \<Rightarrow> 'a ledger \<Rightarrow> bool" where
  "ledger_evolves L L' = (lg_next_id L \<le> lg_next_id L'
     \<and> length (lg_rows L) \<le> length (lg_rows L')
     \<and> (\<forall>i<length (lg_rows L). row_evolves (lg_rows L ! i) (lg_rows L' ! i))
     \<and> (\<forall>i. length (lg_rows L) \<le> i \<and> i < length (lg_rows L') \<longrightarrow> lg_next_id L \<le> tx_id (lg_rows L' ! i)))"

lemma row_evolves_refl: "row_evolves r r"
  by (simp add: row_evolves_def)

lemma row_evolves_trans: "row_evolves a b \<Longrightarrow> row_evolves b c \<Longrightarrow> row_evolves a c"
  by (auto simp: row_evolves_def)

lemma ledger_evolves_refl: "ledger_evolves L L"
  by (simp add: ledger_evolves_def row_evolves_refl)

lemma ledger_evolves_trans:
  assumes "ledger_evolves A B" "ledger_evolves B C"
  shows "ledger_evolves A C"
proof -
  have "lg_next_id A \<le> tx_id (lg_rows C ! i)"
    if i: "length (lg_rows A) \<le> i" "i < length (lg_rows C)" for i
  proof (cases "i < length (lg_rows B)")
    case True
    then have "lg_next_id A \<le> tx_id (lg_rows B ! i)" "tx_id (lg_rows C ! i) = tx_id (lg_rows B ! i)"
      using assms i(1) by (auto simp: ledger_evolves_def row_evolves_def)
    then show ?thesis by simp
  next
    case False
    then have "lg_next_id B \<le> tx_id (lg_rows C ! i)" using assms i(2) by (simp add: ledger_evolves_def)
    then show ?thesis using assms(1) by (simp add: ledger_evolves_def)
  qed
  then show ?thesis
    using assms by (auto simp: ledger_evolves_def intro: row_evolves_trans)
qed

text \<open>The contract of a statement that updates rows in place: identities stay, well-formedness and
  completeness are kept, and a row held since some time stays held.\<close>

locale row_update =
  fixes upd :: "time \<Rightarrow> 'a exchange_transaction \<Rightarrow> 'a exchange_transaction"
  assumes evolves: "row_ok t r \<Longrightarrow> t \<le> now \<Longrightarrow> row_evolves r (upd now r)"
    and keeps_ok: "row_ok t r \<Longrightarrow> t \<le> now \<Longrightarrow> row_ok now (upd now r)"
    and keeps_held: "held h r \<Longrightarrow> h \<le> now \<Longrightarrow> held h (upd now r)"
begin

lemma where_ok:
  assumes "ledger_ok t L" "t \<le> now"
  shows "ledger_ok now (update_where P (upd now) L)"
proof -
  let ?f = "\<lambda>r. if P r then upd now r else r"
  have same: "tx_session_id (?f r) = tx_session_id r" "tx_id (?f r) = tx_id r" if "r \<in> set (lg_rows L)" for r
    using evolves [of t r now] assms(1,2) that by (auto simp: ledger_ok_def row_evolves_def)
  have keys: "map tx_session_id (map ?f (lg_rows L)) = map tx_session_id (lg_rows L)"
    "map tx_id (map ?f (lg_rows L)) = map tx_id (lg_rows L)"
    using same by simp_all
  have rows: "row_ok now (?f r)" if "r \<in> set (lg_rows L)" for r
    using assms that keeps_ok [of t r now] row_ok_mono [of t r now] by (auto simp: ledger_ok_def)
  have "\<forall>r\<in>set (map ?f (lg_rows L)). tx_id r < lg_next_id L \<and> row_ok now r"
    using rows same(2) assms(1) unfolding set_map ball_simps by (metis ledger_ok_def)
  moreover have "lg_rows (update_where P (upd now) L) = map ?f (lg_rows L)"
    "lg_next_id (update_where P (upd now) L) = lg_next_id L"
    by (simp_all add: update_where_def)
  ultimately show ?thesis
    using assms(1) by (simp only: ledger_ok_def keys simp_thms)
qed

lemma where_evolves:
  assumes "ledger_ok t L" "t \<le> now"
  shows "ledger_evolves L (update_where P (upd now) L)"
proof -
  have "row_evolves r (upd now r)" if "r \<in> set (lg_rows L)" for r
    using assms that by (auto simp: ledger_ok_def intro: evolves [of t])
  then show ?thesis by (simp add: ledger_evolves_def update_where_def row_evolves_refl)
qed

lemma where_held:
  assumes "\<forall>r\<in>set (lg_rows L). tx_id r = i \<longrightarrow> held h r" "h \<le> now" "ledger_ok t L" "t \<le> now"
  shows "\<forall>r\<in>set (lg_rows (update_where P (upd now) L)). tx_id r = i \<longrightarrow> held h r"
  using assms keeps_held evolves by (fastforce simp: update_where_def ledger_ok_def row_evolves_def)

end

interpretation succeed_row: row_update "set_status Succeeded h f" for h f :: "string option"
  by unfold_locales (auto simp: set_status_def row_evolves_def row_ok_def held_def)

interpretation fail_row: row_update "set_status Failed h f" for h f :: "string option"
  by unfold_locales (auto simp: set_status_def row_evolves_def row_ok_def held_def)

interpretation touch: row_update touch_row
  by unfold_locales (auto simp: touch_row_def row_evolves_def row_ok_def held_def)

interpretation lock: row_update lock_row
  by unfold_locales (auto simp: lock_row_def row_evolves_def row_ok_def held_def)

interpretation expire: row_update expire_row
  by unfold_locales (auto simp: expire_row_def row_evolves_def row_ok_def held_def)

section \<open>Sound actions\<close>

text \<open>An action at time \<open>now\<close> is sound if it keeps a well-formed ledger well-formed, only lets it evolve,
  and keeps held rows held.\<close>

definition rows_held :: "time \<Rightarrow> nat \<Rightarrow> 'a ledger \<Rightarrow> bool" where
  "rows_held h i L = (i < lg_next_id L \<and> (\<forall>r\<in>set (lg_rows L). tx_id r = i \<longrightarrow> held h r))"

definition sound_action :: "time \<Rightarrow> ('a ledger \<Rightarrow> 'a ledger) \<Rightarrow> bool" where
  "sound_action now f = (\<forall>t L. ledger_ok t L \<and> t \<le> now \<longrightarrow>
     ledger_ok now (f L) \<and> ledger_evolves L (f L)
     \<and> (\<forall>h i. h \<le> now \<and> rows_held h i L \<longrightarrow> rows_held h i (f L)))"

lemma sound_id: "sound_action now (\<lambda>L. L)"
  by (auto simp: sound_action_def ledger_evolves_refl intro: ledger_ok_mono)

context row_update
begin

lemma where_sound: "sound_action now (update_where P (upd now))"
  unfolding sound_action_def rows_held_def
  using where_ok where_evolves where_held by (fastforce simp: update_where_def)

end

lemma sound_rollback:
  fixes f :: "'a ledger \<Rightarrow> 'a ledger"
  assumes "sound_action now f"
  shows "sound_action now (\<lambda>L. rollback L (f L))"
  unfolding sound_action_def
proof (intro allI impI, elim conjE)
  fix t and L :: "'a ledger"
  assume L: "ledger_ok t L" "t \<le> now"
  have "lg_next_id L \<le> lg_next_id (f L)"
    using assms L by (auto simp: sound_action_def ledger_evolves_def)
  then show "ledger_ok now (rollback L (f L)) \<and> ledger_evolves L (rollback L (f L))
     \<and> (\<forall>h i. h \<le> now \<and> rows_held h i L \<longrightarrow> rows_held h i (rollback L (f L)))"
    using L by (auto simp: rollback_def ledger_ok_def ledger_evolves_def row_evolves_refl rows_held_def
        intro: row_ok_mono)
qed

lemma sound_in_transaction:
  assumes "sound_action now (\<lambda>L. snd (stmt L))"
  shows "sound_action now (\<lambda>L. snd (in_transaction D stmt L))"
proof -
  have r: "sound_action now (\<lambda>L. rollback L (snd (stmt L)))" by (rule sound_rollback [OF assms])
  have "snd (in_transaction D stmt L) \<in> {L, snd (stmt L), rollback L (snd (stmt L))}" for L
    by (auto simp: in_transaction_def split: sum.splits prod.splits)
  then show ?thesis
    using assms r sound_id [of now] unfolding sound_action_def
    by (metis (no_types, lifting) empty_iff insert_iff)
qed

lemma sound_with_storage:
  assumes "\<And>e. exchange_from_id exchange_id = Some e \<Longrightarrow> is_transaction_storage_enabled e \<Longrightarrow>
    sound_action now (\<lambda>L. snd (act L))"
  shows "sound_action now (\<lambda>L. snd (with_storage exchange_id act L))"
proof (cases "exchange_from_id exchange_id")
  case (Some e)
  then show ?thesis using assms sound_id [of now]
    by (cases "is_transaction_storage_enabled e") (auto simp: with_storage_def)
qed (simp add: with_storage_def sound_id)

lemma stored_row_fields:
  "stored_row now i tx = Some row \<Longrightarrow>
    bpchar 32 (nt_session_id tx) = Some (tx_session_id row) \<and> varchar 64 (nt_exchange_id tx) = Some (tx_exchange_id row)
    \<and> tx_id row = i \<and> tx_status row = Pending \<and> tx_tx_hash row = None
    \<and> tx_created_at row = now \<and> tx_updated_at row = now
    \<and> tx_last_checked_at row = None \<and> tx_completed_at row = None \<and> tx_locked_at row = None"
  by (auto simp: stored_row_def split: option.splits)

lemma insert_new_cases:
  assumes "insert_new now args L = (res, L')"
  obtains (error) e where "res = Inl e" "L' = L \<lparr> lg_next_id := Suc (lg_next_id L) \<rparr>"
    | (row) row where "res = Inr row" "stored_row now (lg_next_id L) args = Some row"
      "L' = L \<lparr> lg_next_id := Suc (lg_next_id L), lg_rows := lg_rows L @ [row] \<rparr>"
      "tx_session_id row \<notin> tx_session_id ` set (lg_rows L)"
  using assms by (auto simp: insert_new_def Let_def split: option.splits if_splits)

lemma sound_insert:
  fixes args :: "'a new_exchange_transaction"
  assumes "exchange_from_id (nt_exchange_id args) = Some e" "is_transaction_storage_enabled e"
  shows "sound_action now (\<lambda>L. snd (insert_new now args L))"
  unfolding sound_action_def
proof (intro allI impI, elim conjE)
  fix t and L :: "'a ledger"
  assume L: "ledger_ok t L" "t \<le> now"
  have "length (nt_exchange_id args) \<le> 64"
    using assms by (cases e) (auto simp: exchange_from_id_iff dest: sym)
  then have e: "varchar 64 (nt_exchange_id args) = Some (nt_exchange_id args)" by (rule varchar_short)
  obtain res L' where ins: "insert_new now args L = (res, L')" by force
  then show "ledger_ok now (snd (insert_new now args L)) \<and> ledger_evolves L (snd (insert_new now args L))
     \<and> (\<forall>h i. h \<le> now \<and> rows_held h i L \<longrightarrow> rows_held h i (snd (insert_new now args L)))"
  proof (cases rule: insert_new_cases)
    case error
    then show ?thesis
      using L ins by (auto simp: ledger_ok_def ledger_evolves_def row_evolves_refl rows_held_def
          intro: row_ok_mono less_SucI)
  next
    case (row row)
    note f = stored_row_fields [OF row(2)]
    have "row_ok now row" using f e assms by (auto simp: row_ok_def)
    then show ?thesis
      using L ins row f by (auto simp: ledger_ok_def ledger_evolves_def row_evolves_refl rows_held_def nth_append
          intro: row_ok_mono less_SucI)
  qed
qed

lemma sound_update_status:
  "status \<noteq> Pending \<Longrightarrow> sound_action now (\<lambda>L. snd (update_status now s status hash reason L))"
proof -
  assume st: "status \<noteq> Pending"
  have w: "sound_action now (update_where P (set_status status h f now))" for P h f
    using succeed_row.where_sound fail_row.where_sound st by (cases status) auto
  have "snd (update_status now s status hash reason L) = L
    \<or> (\<exists>h f. varchar_opt 255 hash = Some h \<and> varchar_opt 64 reason = Some f \<and>
        snd (update_status now s status hash reason L)
          = update_where (has_session s) (set_status status h f now) L)" for L
    by (auto simp: update_status_def split: list.splits option.splits)
  then show ?thesis
    using w sound_id [of now] unfolding sound_action_def by (metis (no_types, lifting))
qed

lemma sound_create: "sound_action now (\<lambda>L. snd (create_transaction D now args L))"
  unfolding create_transaction_def
  by (intro sound_with_storage sound_in_transaction) (rule sound_insert)

lemma sound_succeeded: "sound_action now (\<lambda>L. snd (mark_succeeded D now s e h L))"
  unfolding mark_succeeded_def by (intro sound_with_storage sound_in_transaction sound_update_status) simp

lemma sound_failed: "sound_action now (\<lambda>L. snd (mark_failed D now s e f h L))"
  unfolding mark_failed_def by (intro sound_with_storage sound_in_transaction sound_update_status) simp

lemma sound_touch: "sound_action now (\<lambda>L. snd (touch_pending D now e s L))"
  unfolding touch_pending_def
  by (intro sound_with_storage sound_in_transaction)
    (simp add: touch_non_terminal_def touch.where_sound)

lemma sound_claim: "sound_action now (\<lambda>L. snd (claim_due_batch now ids L))"
  by (simp add: claim_due_batch_def Let_def lock.where_sound)

lemma sound_expire: "sound_action now (\<lambda>L. snd (expire_old_pending now n L))"
  by (simp add: expire_old_pending_def expire.where_sound)

section \<open>The ledger as a state machine\<close>

inductive ledger_step :: "time \<times> 'a ledger \<Rightarrow> time \<times> 'a ledger \<Rightarrow> bool" where
  Create: "t \<le> now \<Longrightarrow> ledger_step (t, L) (now, snd (create_transaction D now args L))"
| Succeed: "t \<le> now \<Longrightarrow> ledger_step (t, L) (now, snd (mark_succeeded D now session ex hash L))"
| Fail: "t \<le> now \<Longrightarrow> ledger_step (t, L) (now, snd (mark_failed D now session ex reason hash L))"
| Touch: "t \<le> now \<Longrightarrow> ledger_step (t, L) (now, snd (touch_pending D now ex session L))"
| Claim: "t \<le> now \<Longrightarrow> claimable now CLAIM_BATCH_SIZE busy ids L \<Longrightarrow>
    ledger_step (t, L) (now, snd (claim_due_batch now ids L))"
| Expire: "t \<le> now \<Longrightarrow>
    ledger_step (t, L) (now, snd (expire_old_pending now EXPIRE_PENDING_AFTER_HOURS L))"

inductive_cases ledger_stepE: "ledger_step (t, L) (t', L')"

text \<open>Every step is a sound action.\<close>

lemma ledger_step_sound:
  assumes "ledger_step (t, L) (t', L')"
  shows "t \<le> t' \<and> (\<exists>f. L' = f L \<and> sound_action t' f)"
  using assms
  by (auto elim!: ledger_stepE intro: sound_create sound_succeeded sound_failed sound_touch sound_claim
      sound_expire)

lemma ledger_step_keeps:
  assumes "ledger_step (t, L) (t', L')" "ledger_ok t L"
  shows "t \<le> t'" "ledger_ok t' L'" "ledger_evolves L L'"
    "h \<le> t \<Longrightarrow> rows_held h i L \<Longrightarrow> rows_held h i L'"
  using ledger_step_sound [OF assms(1)] assms(2) by (auto simp: sound_action_def)

lemma ledger_steps_keep:
  assumes "ledger_step\<^sup>*\<^sup>* s s'" "ledger_ok (fst s) (snd s)"
  shows "fst s \<le> fst s' \<and> ledger_ok (fst s') (snd s') \<and> ledger_evolves (snd s) (snd s')
    \<and> (\<forall>h i. h \<le> fst s \<longrightarrow> rows_held h i (snd s) \<longrightarrow> rows_held h i (snd s'))"
  using assms(1)
proof (induction rule: rtranclp_induct)
  case base
  then show ?case using assms(2) by (simp add: ledger_evolves_refl)
next
  case (step y z)
  obtain t L t' L' where yz: "y = (t, L)" "z = (t', L')" by (cases y; cases z) auto
  have st: "ledger_step (t, L) (t', L')" and ok: "ledger_ok t L" using step yz by auto
  note k = ledger_step_keeps [OF st ok]
  show ?case
    using step.IH k ledger_evolves_trans [of "snd s" L L'] unfolding yz by auto
qed

text \<open>C3: in every ledger reached from the empty one by creations, status updates, touches, claims and
  expiries, at any times in order and whatever the database, the analytics and the callers do, the
  rows have distinct ids and sessions, belong to exchanges with storage, are complete exactly if they
  are not pending, and their times are ordered.\<close>

theorem ledger_invariant:
  assumes "ledger_step\<^sup>*\<^sup>* (t, empty_ledger) (t', L)"
  shows "distinct (map tx_id (lg_rows L)) \<and> distinct (map tx_session_id (lg_rows L))
    \<and> (\<forall>r\<in>set (lg_rows L). (tx_completed_at r = None \<longleftrightarrow> tx_status r = Pending)
        \<and> exchange_from_id (tx_exchange_id r) \<in> {Some Binance, Some Coinbase}
        \<and> tx_created_at r \<le> tx_updated_at r \<and> tx_updated_at r \<le> t'
        \<and> (\<forall>c. c \<in> {tx_last_checked_at r, tx_completed_at r, tx_locked_at r} \<longrightarrow>
             c \<noteq> None \<longrightarrow> tx_created_at r \<le> the c \<and> the c \<le> tx_updated_at r))"
proof -
  have ok: "ledger_ok t' L"
    using ledger_steps_keep [OF assms] by (simp add: ledger_ok_empty)
  have "exchange_from_id (tx_exchange_id r) \<in> {Some Binance, Some Coinbase}" if r: "row_ok t' r" for r :: "'a exchange_transaction"
  proof -
    obtain e where "exchange_from_id (tx_exchange_id r) = Some e" "is_transaction_storage_enabled e"
      using r by (auto simp: row_ok_def)
    then show ?thesis by (cases e) auto
  qed
  with ok show ?thesis by (auto simp: ledger_ok_def row_ok_def)
qed

definition db_ok :: db_env where
  "db_ok = \<lparr> db_begin = Inr (), db_event = Inr (), db_commit = Inr () \<rparr>"

definition demo_args :: "unit new_exchange_transaction" where
  "demo_args = \<lparr> nt_session_id = replicate 32 CHR ''a'', nt_exchange_id = ''binance'', nt_project_id = Some ''p'',
     nt_asset = None, nt_amount = Some (), nt_recipient = None, nt_pay_url = Some ''u'' \<rparr>"

definition demo_row :: "unit exchange_transaction" where
  "demo_row = \<lparr> tx_id = 1, tx_session_id = replicate 32 CHR ''a'', tx_exchange_id = ''binance'',
     tx_project_id = Some ''p'', tx_asset = None, tx_amount = Some (), tx_recipient = None,
     tx_pay_url = Some ''u'', tx_status = Pending, tx_failure_reason = None, tx_tx_hash = None,
     tx_created_at = 0, tx_updated_at = 0, tx_last_checked_at = None, tx_completed_at = None,
     tx_locked_at = None \<rparr>"

lemma demo_create:
  "create_transaction db_ok 0 demo_args empty_ledger = (Inr (), \<lparr> lg_rows = [demo_row], lg_next_id = 2 \<rparr>)"
  by (simp add: create_transaction_def with_storage_def exchange_from_id_def exchange_types_def
      in_transaction_def db_ok_def insert_new_def stored_row_def demo_args_def demo_row_def empty_ledger_def
      bpchar_def varchar_def Let_def numeral_2_eq_2)

lemma demo_reachable:
  "ledger_step\<^sup>*\<^sup>* (0, empty_ledger) (0, \<lparr> lg_rows = [demo_row], lg_next_id = 2 \<rparr>)"
  using ledger_step.Create [of 0 0 "empty_ledger" db_ok demo_args] by (simp add: demo_create r_into_rtranclp)

lemma ledger_invariant_witness:
  "\<exists>L :: unit ledger. ledger_step\<^sup>*\<^sup>* (0, empty_ledger) (0, L) \<and> lg_rows L \<noteq> []
     \<and> distinct (map tx_id (lg_rows L))"
  using ledger_invariant [OF demo_reachable] demo_reachable by fastforce

text \<open>Rows are never removed or reordered: from a well-formed ledger every row keeps its place, id,
  session, exchange, project, asset, amount, recipient, URL and creation time, and a row that has
  succeeded or failed is never pending again.\<close>

theorem ledger_rows_persist:
  assumes "ledger_ok t L" "ledger_step\<^sup>*\<^sup>* (t, L) (t', L')" "i < length (lg_rows L)"
  shows "i < length (lg_rows L') \<and> row_evolves (lg_rows L ! i) (lg_rows L' ! i)
    \<and> (tx_status (lg_rows L ! i) \<noteq> Pending \<longrightarrow> tx_status (lg_rows L' ! i) \<noteq> Pending)"
  using ledger_steps_keep [OF assms(2)] assms(1,3)
  by (auto simp: ledger_evolves_def row_evolves_def)

lemma demo_ledger_ok: "ledger_ok 0 \<lparr> lg_rows = [demo_row], lg_next_id = 2 \<rparr>"
  using ledger_steps_keep [OF demo_reachable] by (simp add: ledger_ok_empty)

lemma ledger_rows_persist_witness:
  "\<exists>L'. ledger_step\<^sup>*\<^sup>* (0, \<lparr> lg_rows = [demo_row], lg_next_id = 2 \<rparr>) (5, L')
     \<and> tx_id (lg_rows L' ! 0) = 1"
proof -
  let ?L = "\<lparr> lg_rows = [demo_row], lg_next_id = 2 \<rparr>"
  have "ledger_step (0, ?L) (5, snd (mark_succeeded db_ok 5 (replicate 32 CHR ''a'') ''binance'' None ?L))"
    by (rule ledger_step.Succeed) simp
  then have s: "ledger_step\<^sup>*\<^sup>* (0, ?L) (5, snd (mark_succeeded db_ok 5 (replicate 32 CHR ''a'') ''binance'' None ?L))"
    by (rule r_into_rtranclp)
  from ledger_rows_persist [OF demo_ledger_ok s, of 0] s show ?thesis
    by (auto simp: row_evolves_def demo_row_def)
qed

section \<open>Claims\<close>

lemma find_id_Some:
  "find (\<lambda>r. tx_id r = i) rs = Some r \<Longrightarrow> r \<in> set rs \<and> tx_id r = i"
  by (rule find_SomeD)

lemma claim_holds:
  assumes "ledger_ok t L" "t \<le> now" "claimable now n busy ids L" "i \<in> set ids"
  shows "rows_held now i (snd (claim_due_batch now ids L))"
proof -
  have "i \<in> tx_id ` set (lg_rows L)" using assms(3,4) by (auto simp: claimable_def Let_def)
  then have "i < lg_next_id L" using assms(1) by (auto simp: ledger_ok_def)
  then show ?thesis
    using assms(4) by (auto simp: rows_held_def claim_due_batch_def Let_def update_where_def lock_row_def held_def)
qed

lemma held_not_due:
  "held h r \<Longrightarrow> is_due now r \<Longrightarrow> h < now - minutes 5"
  by (auto simp: held_def is_due_def minutes_def LOCK_EXPIRATION_MINUTES_def CHECK_BACKOFF_MINUTES_def)

text \<open>C9: a row is not checked twice at once: when a batch claimed at \<open>t1\<close> and one claimed later at \<open>t2\<close>,
  with any steps of the service in between, contain the same row, more than five minutes lie between
  the two claims.\<close>

theorem claims_exclusive:
  assumes "ledger_ok t L" "t \<le> t1" "claimable t1 n busy ids L" "i \<in> set ids"
    and "ledger_step\<^sup>*\<^sup>* (t1, snd (claim_due_batch t1 ids L)) (t', L')"
    and "claimable t2 n' busy' ids' L'" "i \<in> set ids'"
  shows "t1 + minutes 5 < t2"
proof -
  have ok: "ledger_ok t1 (snd (claim_due_batch t1 ids L))"
    using sound_claim [of t1 ids] assms(1,2) by (auto simp: sound_action_def)
  have "rows_held t1 i (snd (claim_due_batch t1 ids L))" by (rule claim_holds [OF assms(1-4)])
  then have h: "rows_held t1 i L'"
    using ledger_steps_keep [OF assms(5)] ok by auto
  obtain r where "r \<in> set (lg_rows L')" "tx_id r = i" "is_due t2 r"
    using assms(6,7) by (auto simp: claimable_def Let_def)
  then have "t1 < t2 - minutes 5" using h held_not_due by (auto simp: rows_held_def)
  then show ?thesis by simp
qed

lemma claims_exclusive_witness:
  "let L = \<lparr> lg_rows = [demo_row], lg_next_id = 2 \<rparr>; L1 = snd (claim_due_batch (hours 4) [1] L) in
     claimable (hours 4) 200 [] [1] L \<and> claimable (hours 5) 200 [] [1] L1 \<and> hours 4 + minutes 5 < hours 5"
proof -
  let ?L = "\<lparr> lg_rows = [demo_row], lg_next_id = 2 \<rparr>"
  let ?L1 = "snd (claim_due_batch (hours 4) [1] ?L)"
  have c1: "claimable (hours 4) 200 [] [1] ?L"
    by (simp add: claimable_def demo_row_def is_due_def hours_def minutes_def LOCK_EXPIRATION_MINUTES_def
        CHECK_BACKOFF_MINUTES_def MIN_CLAIM_AGE_HOURS_def)
  have c2: "claimable (hours 5) 200 [] [1] ?L1"
    by (simp add: claimable_def claim_due_batch_def update_where_def lock_row_def demo_row_def is_due_def
        hours_def minutes_def LOCK_EXPIRATION_MINUTES_def CHECK_BACKOFF_MINUTES_def MIN_CLAIM_AGE_HOURS_def Let_def)
  have "hours 4 + minutes 5 < hours 5"
    by (rule claims_exclusive [OF demo_ledger_ok _ c1 _ rtranclp.rtrancl_refl c2]) (simp_all add: hours_def minutes_def)
  with c1 c2 show ?thesis by (simp only: Let_def simp_thms)
qed

section \<open>The reconciler refines the answers of the exchanges\<close>

text \<open>The abstract ledger: the status and transaction hash of every session.\<close>

definition ledger_view :: "'a ledger \<Rightarrow> string \<Rightarrow> (tx_status \<times> string option) option" where
  "ledger_view L s = map_option (\<lambda>r. (tx_status r, tx_tx_hash r)) (find (has_session s) (lg_rows L))"

text \<open>What an answer makes of a session.\<close>

definition answered ::
  "(exchange_error, buy_status_response) result \<Rightarrow> tx_status \<times> string option \<Rightarrow> tx_status \<times> string option" where
  "answered answer old = (case answer of
      Inl _ \<Rightarrow> old
    | Inr status \<Rightarrow> (case bs_status status of
        BT_Success \<Rightarrow> (Succeeded, bs_tx_hash status)
      | BT_Failed \<Rightarrow> (Failed, bs_tx_hash status)
      | _ \<Rightarrow> old))"

definition hash_fits :: "(exchange_error, buy_status_response) result \<Rightarrow> bool" where
  "hash_fits answer = (case answer of Inl _ \<Rightarrow> True
    | Inr status \<Rightarrow> (case bs_tx_hash status of None \<Rightarrow> True | Some h \<Rightarrow> length h \<le> 255))"

lemma varchar_opt_fits: "(case h of None \<Rightarrow> True | Some h \<Rightarrow> length h \<le> n) \<Longrightarrow> varchar_opt n h = Some h"
  by (cases h) (auto simp: varchar_short)

lemma db_ok_event: "db_ok \<lparr> db_event := Inr () \<rparr> = db_ok"
  by (simp add: db_ok_def)

lemma in_transaction_db_ok:
  "fst (stmt L) = Inr r \<Longrightarrow> in_transaction db_ok stmt L = (Inr (), snd (stmt L))"
  by (cases "stmt L") (auto simp: in_transaction_def db_ok_def)

lemma find_map_keep:
  "(\<And>x. P (f x) = P x) \<Longrightarrow> find P (map f xs) = map_option f (find P xs)"
  by (induction xs) auto

text \<open>The row of a session, and how the statements change it.\<close>

definition row_at :: "'a ledger \<Rightarrow> string \<Rightarrow> 'a exchange_transaction option" where
  "row_at L s = find (has_session s) (lg_rows L)"

lemma ledger_view_row: "ledger_view L s = map_option (\<lambda>r. (tx_status r, tx_tx_hash r)) (row_at L s)"
  by (simp add: ledger_view_def row_at_def)

lemma row_at_update_where:
  assumes "\<And>r. tx_session_id (f r) = tx_session_id r"
  shows "row_at (update_where P f L) s = map_option (\<lambda>r. if P r then f r else r) (row_at L s)"
proof -
  have "has_session s (if P r then f r else r) = has_session s r" for r
    using assms by (simp add: has_session_def)
  from find_map_keep [of "has_session s" "\<lambda>r. if P r then f r else r", OF this]
  show ?thesis by (simp add: row_at_def update_where_def)
qed

lemma has_session_unique: "has_session s r \<Longrightarrow> has_session s' r \<longleftrightarrow> s' = s"
  by (auto simp: has_session_def)

lemma row_at_has: "row_at L s = Some r \<Longrightarrow> has_session s r \<and> r \<in> set (lg_rows L)"
  by (auto simp: row_at_def dest: find_SomeD)

lemma row_at_update_session:
  assumes "row_at L s = Some r" and f: "\<And>r. tx_session_id (f r) = tx_session_id r"
  shows "row_at (update_where (has_session s) f L) = (row_at L)(s \<mapsto> f r)"
proof (rule ext)
  fix s'
  show "row_at (update_where (has_session s) f L) s' = ((row_at L)(s \<mapsto> f r)) s'"
  proof (cases "row_at L s'")
    case None
    then show ?thesis using assms(1) by (auto simp: row_at_update_where [of f, OF f])
  next
    case (Some r')
    then have "has_session s r' \<longleftrightarrow> s' = s" using has_session_unique row_at_has by blast
    then show ?thesis using Some assms(1) by (auto simp: row_at_update_where [of f, OF f])
  qed
qed

lemma same_sessions:
  "tx_session_id (set_status st h f now r) = tx_session_id r" "tx_session_id (touch_row now r) = tx_session_id r"
  "tx_session_id (lock_row now r) = tx_session_id r" "tx_session_id (expire_row now r) = tx_session_id r"
  by (simp_all add: set_status_def touch_row_def lock_row_def expire_row_def)

lemma row_at_filter: "row_at L s = Some r \<Longrightarrow> \<exists>rest. filter (has_session s) (lg_rows L) = r # rest"
proof -
  have "find P xs = Some r \<Longrightarrow> \<exists>rest. filter P xs = r # rest" for P :: "_ \<Rightarrow> bool" and xs
    by (induction xs) (auto split: if_splits)
  then show "row_at L s = Some r \<Longrightarrow> \<exists>rest. filter (has_session s) (lg_rows L) = r # rest" by (simp add: row_at_def)
qed

lemma update_status_row:
  assumes "row_at L s = Some r" "varchar_opt 255 h = Some h" "varchar_opt 64 f = Some f"
  shows "\<exists>r. fst (update_status now s st h f L) = Inr r"
    and "row_at (snd (update_status now s st h f L)) = (row_at L)(s \<mapsto> set_status st h f now r)"
  using row_at_filter [OF assms(1)] row_at_update_session [OF assms(1) same_sessions(1)] assms(2,3)
  by (auto simp: update_status_def)

text \<open>What an answer makes of the row of a session.\<close>

definition definite_answer ::
  "(exchange_error, buy_status_response) result \<Rightarrow> (tx_status \<times> string option \<times> string option) option" where
  "definite_answer answer = (case answer of
      Inl _ \<Rightarrow> None
    | Inr status \<Rightarrow> (case bs_status status of
        BT_Success \<Rightarrow> Some (Succeeded, bs_tx_hash status, None)
      | BT_Failed \<Rightarrow> Some (Failed, bs_tx_hash status, Some ''provider_failed'')
      | _ \<Rightarrow> None))"

definition settled ::
  "(exchange_error, buy_status_response) result \<Rightarrow> time \<Rightarrow> 'a exchange_transaction \<Rightarrow> 'a exchange_transaction" where
  "settled answer now r = (case definite_answer answer of
      Some (st, hash, reason) \<Rightarrow> set_status st hash reason now r
    | None \<Rightarrow> touch_row now r)"

lemma settled_view:
  "answered answer (tx_status r, tx_tx_hash r) = (tx_status (settled answer now r), tx_tx_hash (settled answer now r))"
  by (auto simp: settled_def definite_answer_def answered_def set_status_def touch_row_def
      split: sum.splits buy_transaction_status.splits)

lemma apply_answer_row:
  assumes "row_at L s = Some r" "hash_fits answer"
    and "exchange_from_id ex = Some e" "is_transaction_storage_enabled e"
  shows "row_at (apply_answer db_ok now s ex answer L) = (row_at L)(s \<mapsto> settled answer now r)"
proof -
  have touch: "row_at (snd (touch_pending db_ok now ex s L)) = (row_at L)(s \<mapsto> touch_row now r)"
    using assms(3,4) row_at_update_session [OF assms(1) same_sessions(2)]
    by (simp add: touch_pending_def with_storage_def db_ok_event in_transaction_db_ok touch_non_terminal_def)
  have reason: "varchar_opt 64 (Some ''provider_failed'') = Some (Some ''provider_failed'')"
    by (simp add: varchar_def)
  show ?thesis
  proof (cases answer)
    case (Inl err)
    then show ?thesis using touch by (simp add: apply_answer_def settled_def definite_answer_def)
  next
    case (Inr status)
    have fits: "varchar_opt 255 (bs_tx_hash status) = Some (bs_tx_hash status)"
      using assms(2) Inr by (intro varchar_opt_fits) (simp add: hash_fits_def)
    note ok = update_status_row [OF assms(1) fits]
    note upd = ok(1) [OF varchar_opt.simps(1)] ok(2) [OF varchar_opt.simps(1)] ok(1) [OF reason] ok(2) [OF reason]
    have S: "row_at (snd (mark_succeeded db_ok now s ex (bs_tx_hash status) L))
        = (row_at L)(s \<mapsto> set_status Succeeded (bs_tx_hash status) None now r)"
      using upd(1) [of now Succeeded] upd(2) [of now Succeeded] assms(3,4)
      by (auto simp: mark_succeeded_def with_storage_def in_transaction_db_ok)
    have F: "row_at (snd (mark_failed db_ok now s ex (Some ''provider_failed'') (bs_tx_hash status) L))
        = (row_at L)(s \<mapsto> set_status Failed (bs_tx_hash status) (Some ''provider_failed'') now r)"
      using upd(3) [of now Failed] upd(4) [of now Failed] assms(3,4)
      by (auto simp: mark_failed_def with_storage_def in_transaction_db_ok)
    show ?thesis
      using Inr S F touch by (cases "bs_status status") (simp_all add: apply_answer_def settled_def definite_answer_def)
  qed
qed

lemma apply_answer_view:
  assumes "ledger_view L s = Some old" "hash_fits answer"
    and "exchange_from_id ex = Some e" "is_transaction_storage_enabled e"
  shows "ledger_view (apply_answer db_ok now s ex answer L) = (ledger_view L)(s \<mapsto> answered answer old)"
proof -
  obtain r where r: "row_at L s = Some r" "old = (tx_status r, tx_tx_hash r)"
    using assms(1) by (auto simp: ledger_view_row)
  show ?thesis
    unfolding fun_eq_iff ledger_view_row apply_answer_row [OF r(1) assms(2-4)]
    by (simp add: r(2) settled_view [where now = now] ledger_view_row)
qed

text \<open>The environment in which a row is processed as the code intends: the database works, the hash fits
  its column, the row has its project and an exchange with storage.\<close>

definition row_processable :: "row_env \<Rightarrow> 'a exchange_transaction \<Rightarrow> bool" where
  "row_processable E r = (re_db E = db_ok \<and> hash_fits (re_answer E) \<and> tx_project_id r \<noteq> None
     \<and> exchange_from_id (tx_exchange_id r) \<in> {Some Binance, Some Coinbase})"

lemma process_row_row:
  assumes "row_processable E r" "row_at L (tx_session_id r) = Some r0"
  shows "row_at (process_row E r L) = (row_at L)(tx_session_id r \<mapsto> settled (re_answer E) (re_now E) r0)"
proof -
  obtain e where e: "exchange_from_id (tx_exchange_id r) = Some e" "e = Binance \<or> e = Coinbase"
    using assms(1) by (auto simp: row_processable_def)
  then have "process_row E r L
      = apply_answer db_ok (re_now E) (tx_session_id r) (tx_exchange_id r) (re_answer E) L"
    using assms(1) by (auto simp: process_row_def row_processable_def)
  moreover have "is_transaction_storage_enabled e" using e(2) by auto
  ultimately show ?thesis
    using apply_answer_row [OF assms(2) _ e(1)] assms(1) by (simp add: row_processable_def)
qed

lemma process_rows_row:
  assumes "distinct (map tx_session_id rows)"
    and "\<forall>k<length rows. row_processable (E (n + k)) (rows ! k)"
    and "\<forall>r\<in>set rows. row_at L (tx_session_id r) \<noteq> None"
  shows "(\<forall>k<length rows. row_at (process_rows E n rows L) (tx_session_id (rows ! k))
        = map_option (settled (re_answer (E (n + k))) (re_now (E (n + k)))) (row_at L (tx_session_id (rows ! k))))
    \<and> (\<forall>s. s \<notin> tx_session_id ` set rows \<longrightarrow> row_at (process_rows E n rows L) s = row_at L s)"
  using assms
proof (induction rows arbitrary: n L)
  case (Cons r rows)
  obtain old where old: "row_at L (tx_session_id r) = Some old" using Cons.prems(3) by auto
  let ?L = "process_row (E n) r L"
  have "row_processable (E n) r" using Cons.prems(2) by force
  note v = process_row_row [OF this old]
  have pre: "distinct (map tx_session_id rows)"
    "\<forall>k<length rows. row_processable (E (Suc n + k)) (rows ! k)"
    "\<forall>x\<in>set rows. row_at ?L (tx_session_id x) \<noteq> None"
    using Cons.prems v by force+
  note IH = Cons.IH [OF pre]
  have "row_at (process_rows E n (r # rows) L) (tx_session_id ((r # rows) ! k))
      = map_option (settled (re_answer (E (n + k))) (re_now (E (n + k)))) (row_at L (tx_session_id ((r # rows) ! k)))"
    if k: "k < length (r # rows)" for k
  proof (cases k)
    case 0
    then show ?thesis using IH Cons.prems(1) v old by simp
  next
    case (Suc j)
    then have "tx_session_id (rows ! j) \<in> tx_session_id ` set rows" using k by simp
    then have "tx_session_id (rows ! j) \<noteq> tx_session_id r" using Cons.prems(1) by auto
    then show ?thesis using IH Suc k v by simp
  qed
  then show ?case using IH v by simp
qed simp

text \<open>The sessions the service creates are 32 hexadecimal digits, without trailing blanks.\<close>

definition full_sessions :: "'a ledger \<Rightarrow> bool" where
  "full_sessions L = (\<forall>r\<in>set (lg_rows L). rstrip (tx_session_id r) = tx_session_id r)"

lemma find_equal: "r \<in> set xs \<Longrightarrow> find (\<lambda>x. x = r) xs = Some r"
  by (induction xs) auto

lemma row_at_row:
  assumes "ledger_ok t L" "full_sessions L" "r \<in> set (lg_rows L)"
  shows "row_at L (tx_session_id r) = Some r"
proof -
  have eq: "has_session (tx_session_id r) x \<longleftrightarrow> x = r" if "x \<in> set (lg_rows L)" for x
  proof -
    have "inj_on tx_session_id (set (lg_rows L))"
      using assms(1) by (simp add: ledger_ok_def distinct_map)
    then show ?thesis
      using assms(2,3) that by (auto simp: has_session_def full_sessions_def inj_on_def)
  qed
  have "find (has_session (tx_session_id r)) xs = find (\<lambda>x. x = r) xs" if "set xs \<subseteq> set (lg_rows L)" for xs
    using that eq by (induction xs) auto
  then have "find (has_session (tx_session_id r)) (lg_rows L) = find (\<lambda>x. x = r) (lg_rows L)" by simp
  also have "\<dots> = Some r" by (rule find_equal [OF assms(3)])
  finally show ?thesis by (simp add: row_at_def)
qed

lemma claim_rows:
  assumes "ledger_ok t L" "claimable now n busy ids L" "claim_due_batch now ids L = (rows, L1)"
  shows "L1 = update_where (\<lambda>r. tx_id r \<in> set ids) (lock_row now) L"
    and "distinct (map tx_session_id rows)"
    and "r \<in> set rows \<Longrightarrow> \<exists>r0\<in>set (lg_rows L). r = lock_row now r0 \<and> is_due now r0 \<and> tx_id r0 \<in> set ids"
    and "rows = [] \<longleftrightarrow> ids = []"
    and "r0 \<in> set (lg_rows L) \<Longrightarrow> tx_id r0 \<in> set ids \<Longrightarrow> lock_row now r0 \<in> set rows"
proof -
  show L1: "L1 = update_where (\<lambda>r. tx_id r \<in> set ids) (lock_row now) L"
    using assms(3) by (simp add: claim_due_batch_def Let_def)
  have rows: "rows = List.map_filter (\<lambda>i. find (\<lambda>r. tx_id r = i) (lg_rows L1)) ids"
    using assms(3) by (auto simp: claim_due_batch_def Let_def)
  have ids: "\<exists>r0\<in>set (lg_rows L). tx_id r0 = i \<and> is_due now r0" if "i \<in> set ids" for i
    using assms(2) that by (auto simp: claimable_def Let_def)
  have inj: "inj_on tx_id (set (lg_rows L))" using assms(1) by (simp add: ledger_ok_def distinct_map)
  have found: "\<exists>r0\<in>set (lg_rows L). find (\<lambda>r. tx_id r = i) (lg_rows L1) = Some (lock_row now r0)
      \<and> tx_id r0 = i \<and> is_due now r0" if i: "i \<in> set ids" for i
  proof -
    obtain r0 where r0: "r0 \<in> set (lg_rows L)" "tx_id r0 = i" "is_due now r0" using ids [OF i] by blast
    obtain x where x: "find (\<lambda>r. tx_id r = i) (lg_rows L) = Some x"
      using r0(1,2) by (cases "find (\<lambda>r. tx_id r = i) (lg_rows L)") (auto simp: find_None_iff)
    have "x = r0" using find_SomeD [OF x] r0 inj by (auto dest: inj_onD)
    moreover have "find (\<lambda>r. tx_id r = i) (lg_rows L1)
        = map_option (\<lambda>r. if tx_id r \<in> set ids then lock_row now r else r) (find (\<lambda>r. tx_id r = i) (lg_rows L))"
      unfolding L1 update_where_def by (simp add: find_map_keep lock_row_def)
    ultimately show ?thesis using x r0 i by auto
  qed
  define pick where "pick i = the (find (\<lambda>r. tx_id r = i) (lg_rows L1))" for i
  have map: "rows = map pick ids"
  proof -
    have "find (\<lambda>r. tx_id r = i) (lg_rows L1) = Some (pick i)" if "i \<in> set ids" for i
      using found [OF that] by (auto simp: pick_def)
    then show ?thesis unfolding rows by (induction ids) (auto simp: List.map_filter_simps)
  qed
  have pick: "\<exists>r0\<in>set (lg_rows L). pick i = lock_row now r0 \<and> tx_id r0 = i \<and> is_due now r0"
    if "i \<in> set ids" for i
    using found [OF that] by (auto simp: pick_def)
  then show "r \<in> set rows \<Longrightarrow> \<exists>r0\<in>set (lg_rows L). r = lock_row now r0 \<and> is_due now r0 \<and> tx_id r0 \<in> set ids"
    unfolding map by auto
  show "lock_row now r0 \<in> set rows" if r0: "r0 \<in> set (lg_rows L)" "tx_id r0 \<in> set ids"
  proof -
    obtain x where "x \<in> set (lg_rows L)" "pick (tx_id r0) = lock_row now x" "tx_id x = tx_id r0"
      using pick [OF r0(2)] by blast
    then have "pick (tx_id r0) = lock_row now r0" using inj r0(1) by (auto dest: inj_onD)
    then show ?thesis using r0(2) unfolding map by (metis image_eqI list.set_map)
  qed
  show "rows = [] \<longleftrightarrow> ids = []" by (simp add: map)
  have sessions: "inj_on tx_session_id (set (lg_rows L))"
    using assms(1) by (simp add: ledger_ok_def distinct_map)
  have "inj_on (\<lambda>i. tx_session_id (pick i)) (set ids)"
  proof (rule inj_onI)
    fix i j assume ij: "i \<in> set ids" "j \<in> set ids" "tx_session_id (pick i) = tx_session_id (pick j)"
    obtain a b where a: "a \<in> set (lg_rows L)" "pick i = lock_row now a" "tx_id a = i"
      and b: "b \<in> set (lg_rows L)" "pick j = lock_row now b" "tx_id b = j"
      using pick [OF ij(1)] pick [OF ij(2)] by blast
    have "a = b" using ij(3) a b sessions by (simp add: lock_row_def inj_on_def)
    then show "i = j" using a b by simp
  qed
  moreover have "distinct ids" using assms(2) by (simp add: claimable_def Let_def)
  ultimately show "distinct (map tx_session_id rows)" unfolding map by (simp add: distinct_map comp_def)
qed

lemma row_at_expire:
  "row_at (snd (expire_old_pending now n L)) s
    = map_option (\<lambda>r. if is_expired now n r then expire_row now r else r) (row_at L s)"
  unfolding expire_old_pending_def snd_conv by (rule row_at_update_where [OF same_sessions(4)])

lemma no_expired_left: "r \<in> set (lg_rows (snd (expire_old_pending now n L))) \<Longrightarrow> \<not> is_expired now n r"
  by (auto simp: expire_old_pending_def update_where_def expire_row_def is_expired_def)

text \<open>A claimed row after the tick: as its exchange answered, or without a definite answer still pending, unless it
  is older than twelve hours.\<close>

lemma settled_expired:
  assumes "tx_status r = Pending"
    and r': "r' = (if is_expired expire_now 12 (settled answer now r) then expire_row expire_now (settled answer now r)
      else settled answer now r)"
  shows "tx_locked_at r' = None \<and> tx_last_checked_at r' = Some now
    \<and> (tx_status r', tx_tx_hash r', tx_failure_reason r') = (case definite_answer answer of
        Some outcome \<Rightarrow> outcome
      | None \<Rightarrow> if tx_created_at r < expire_now - hours 12
          then (Failed, tx_tx_hash r, Some (case tx_failure_reason r of Some reason \<Rightarrow> reason | None \<Rightarrow> ''expired''))
          else (Pending, tx_tx_hash r, tx_failure_reason r))"
proof (cases "definite_answer answer")
  case None
  then show ?thesis using assms(1)
    by (auto simp: r' settled_def touch_row_def is_expired_def expire_row_def split: option.splits)
next
  case (Some outcome)
  moreover have "fst outcome \<noteq> Pending"
    using Some by (auto simp: definite_answer_def split: sum.splits buy_transaction_status.splits)
  ultimately show ?thesis
    by (cases outcome) (simp add: r' settled_def set_status_def is_expired_def)
qed

text \<open>C5: one turn of the reconciler, when the database works and the claimed rows are processable.  If no row is due,
  nothing changes (old rows are not expired either).  Otherwise every claimed row ends unlocked and checked, and as
  its exchange answered: succeeded or failed with the given hash and the reason of the code; without a definite answer
  it stays pending with its hash and reason, unless it was created more than twelve hours before the expiry
  statement, and then it is failed, as expired if it has no reason yet.  A row that was not claimed keeps everything
  unless the statement expires it, and afterwards no pending row is older than twelve hours unless it is
  locked for less than twenty minutes.\<close>

theorem reconcile_tick_refines_answers:
  assumes "ledger_ok t L" "full_sessions L" "claimable now CLAIM_BATCH_SIZE busy ids L"
    and "claim_due_batch now ids L = (rows, L1)"
    and "\<forall>k<length rows. row_processable (E k) (rows ! k)"
    and "L' = reconcile_tick now (Inr ids) E expire_now True L"
  shows "if ids = [] then L' = L else
    (\<forall>k<length rows. \<exists>r'. row_at L' (tx_session_id (rows ! k)) = Some r'
        \<and> tx_locked_at r' = None \<and> tx_last_checked_at r' = Some (re_now (E k))
        \<and> (tx_status r', tx_tx_hash r', tx_failure_reason r') = (case definite_answer (re_answer (E k)) of
            Some outcome \<Rightarrow> outcome
          | None \<Rightarrow> if tx_created_at (rows ! k) < expire_now - hours 12
              then (Failed, tx_tx_hash (rows ! k),
                Some (case tx_failure_reason (rows ! k) of Some reason \<Rightarrow> reason | None \<Rightarrow> ''expired''))
              else (Pending, tx_tx_hash (rows ! k), tx_failure_reason (rows ! k))))
    \<and> (\<forall>s r. s \<notin> tx_session_id ` set rows \<and> row_at L s = Some r \<longrightarrow>
        row_at L' s = Some (if is_expired expire_now 12 r then expire_row expire_now r else r))
    \<and> (\<forall>r\<in>set (lg_rows L'). \<not> is_expired expire_now 12 r)"
proof -
  note cl = claim_rows [OF assms(1,3,4)]
  let ?L2 = "process_rows E 0 rows L1"
  have none: "L' = L" if "ids = []"
    using assms(4,6) cl(1,4) that by (simp add: reconcile_tick_def update_where_def)
  have L': "L' = snd (expire_old_pending expire_now 12 ?L2)" if "ids \<noteq> []"
    using assms(4,6) cl(4) that by (simp add: reconcile_tick_def EXPIRE_PENDING_AFTER_HOURS_def)
  note v1 = row_at_update_where [of "lock_row now" "\<lambda>r. tx_id r \<in> set ids" L, OF same_sessions(3), folded cl(1)]
  have old: "row_at L1 (tx_session_id r) = Some r \<and> tx_status r = Pending" if r: "r \<in> set rows" for r
  proof -
    obtain r0 where "r0 \<in> set (lg_rows L)" "r = lock_row now r0" "is_due now r0" "tx_id r0 \<in> set ids" using cl(3) [OF r] by blast
    then show ?thesis
      using row_at_row [OF assms(1,2), of r0] by (simp add: v1 same_sessions) (simp add: lock_row_def is_due_def)
  qed
  have "\<forall>k<length rows. row_processable (E (0 + k)) (rows ! k)" using assms(5) by simp
  moreover have "\<forall>r\<in>set rows. row_at L1 (tx_session_id r) \<noteq> None" using old by auto
  ultimately have v2: "\<forall>k<length rows. row_at ?L2 (tx_session_id (rows ! k))
        = map_option (settled (re_answer (E k)) (re_now (E k))) (row_at L1 (tx_session_id (rows ! k)))"
    "\<forall>s. s \<notin> tx_session_id ` set rows \<longrightarrow> row_at ?L2 s = row_at L1 s"
    using process_rows_row [OF cl(2), of E 0 L1] by simp_all
  have claimed: "row_at ?L2 (tx_session_id (rows ! k)) = Some (settled (re_answer (E k)) (re_now (E k)) (rows ! k))"
    if "k < length rows" for k
    using v2(1) old that by simp
  have rest: "row_at ?L2 s = Some r" if "s \<notin> tx_session_id ` set rows" "row_at L s = Some r" for s r
  proof -
    have r: "r \<in> set (lg_rows L)" "tx_session_id r = s"
      using row_at_has [OF that(2)] assms(2) by (auto simp: has_session_def full_sessions_def)
    have "tx_id r \<notin> set ids" using cl(5) [OF r(1)] that(1) r(2) same_sessions(3) [of now r] by (metis image_eqI)
    then show ?thesis using v2(2) that by (simp add: v1)
  qed
  show ?thesis
  proof (cases "ids = []")
    case False
    have row: "\<exists>r'. row_at L' (tx_session_id (rows ! k)) = Some r'
        \<and> r' = (if is_expired expire_now 12 (settled (re_answer (E k)) (re_now (E k)) (rows ! k))
          then expire_row expire_now (settled (re_answer (E k)) (re_now (E k)) (rows ! k))
          else settled (re_answer (E k)) (re_now (E k)) (rows ! k))" if "k < length rows" for k
      unfolding L' [OF False] row_at_expire claimed [OF that] by simp
    show ?thesis
      unfolding if_not_P [OF False]
    proof (intro conjI allI impI ballI)
      fix k assume k: "k < length rows"
      have "tx_status (rows ! k) = Pending" using old k by simp
      from row [OF k] settled_expired [OF this]
      show "\<exists>r'. row_at L' (tx_session_id (rows ! k)) = Some r'
        \<and> tx_locked_at r' = None \<and> tx_last_checked_at r' = Some (re_now (E k))
        \<and> (tx_status r', tx_tx_hash r', tx_failure_reason r') = (case definite_answer (re_answer (E k)) of
            Some outcome \<Rightarrow> outcome
          | None \<Rightarrow> if tx_created_at (rows ! k) < expire_now - hours 12
              then (Failed, tx_tx_hash (rows ! k),
                Some (case tx_failure_reason (rows ! k) of Some reason \<Rightarrow> reason | None \<Rightarrow> ''expired''))
              else (Pending, tx_tx_hash (rows ! k), tx_failure_reason (rows ! k)))" by blast
    next
      fix s r assume "s \<notin> tx_session_id ` set rows \<and> row_at L s = Some r"
      then show "row_at L' s = Some (if is_expired expire_now 12 r then expire_row expire_now r else r)"
        unfolding L' [OF False] row_at_expire using rest by simp
    next
      fix r assume "r \<in> set (lg_rows L')"
      then show "\<not> is_expired expire_now 12 r" unfolding L' [OF False] by (rule no_expired_left)
    qed
  qed (simp add: none)
qed

lemma demo_full: "full_sessions \<lparr> lg_rows = [demo_row], lg_next_id = 2 \<rparr>"
  by (simp add: full_sessions_def demo_row_def rstrip_def)

lemma reconcile_tick_refines_answers_witness:
  "map_option tx_status (row_at (reconcile_tick (hours 4) (Inr [1])
      (\<lambda>_. \<lparr> re_now = hours 4, re_answer = Inr \<lparr> bs_status = BT_Success, bs_tx_hash = Some ''0xab'' \<rparr>, re_db = db_ok \<rparr>)
      (hours 5) True \<lparr> lg_rows = [demo_row], lg_next_id = 2 \<rparr>) (replicate 32 CHR ''a''))
    = Some Succeeded"
proof -
  let ?L = "\<lparr> lg_rows = [demo_row], lg_next_id = 2 \<rparr>"
  let ?E = "\<lambda>_ :: nat. \<lparr> re_now = hours 4,
     re_answer = Inr \<lparr> bs_status = BT_Success, bs_tx_hash = Some ''0xab'' \<rparr>, re_db = db_ok \<rparr>"
  have c: "claimable (hours 4) CLAIM_BATCH_SIZE [] [1] ?L"
    by (simp add: claimable_def demo_row_def is_due_def hours_def minutes_def LOCK_EXPIRATION_MINUTES_def
        CHECK_BACKOFF_MINUTES_def MIN_CLAIM_AGE_HOURS_def CLAIM_BATCH_SIZE_def)
  have b: "claim_due_batch (hours 4) [1] ?L
      = ([lock_row (hours 4) demo_row], \<lparr> lg_rows = [lock_row (hours 4) demo_row], lg_next_id = 2 \<rparr>)"
    by (simp add: claim_due_batch_def update_where_def demo_row_def lock_row_def List.map_filter_simps)
  have p: "\<forall>k<length [lock_row (hours 4) demo_row]. row_processable (?E k) ([lock_row (hours 4) demo_row] ! k)"
    by (simp add: row_processable_def hash_fits_def lock_row_def demo_row_def exchange_from_id_def exchange_types_def)
  show ?thesis
    using reconcile_tick_refines_answers [OF demo_ledger_ok demo_full c b p refl, of "hours 5"]
    by (auto simp: lock_row_def demo_row_def definite_answer_def)
qed

end
