(* ===== verification/ExchangeHandlers.thy ===== *)
theory ExchangeHandlers
  imports Ledger
begin

text \<open>
  The payment handlers that use an exchange and write the ledger (\<open>exchanges/get_exchange_url.rs\<close>,
  \<open>exchanges/get_exchange_buy_status.rs\<close>).  The answers of the exchange, the new session id, the
  reading of a decimal amount and the debug text of an error are parameters; the feature check is the one
  of \<open>Exchanges\<close>.
\<close>

section \<open>The pay URL\<close>

datatype get_exchange_url_error =
    UE_ValidationError string
  | UE_ExchangeNotFound string
  | UE_InternalError string

text \<open>\<open>parse_f64\<close> reads a decimal number, \<open>of_usize\<close> converts an integer; a hexadecimal amount is a 64-bit
  integer.\<close>

definition parse_amount :: "(string \<Rightarrow> 'a option) \<Rightarrow> (nat \<Rightarrow> 'a) \<Rightarrow> string \<Rightarrow> 'a option" where
  "parse_amount parse_f64 of_usize s = (case parse_f64 s of
      Some a \<Rightarrow> Some a
    | None \<Rightarrow> map_option of_usize (parse_radix_uint 16 (2 ^ 64) (trim_start_0x s)))"

record url_request =
  ur_exchange_id :: string
  ur_asset :: string
  ur_amount :: string
  ur_recipient :: string

text \<open>The third-party functions the handler calls.\<close>

record ('h, 'v, 'a) url_env =
  ue_h160 :: "string \<Rightarrow> 'h option"
  ue_checksum :: "'h \<Rightarrow> string"
  ue_b58 :: "string \<Rightarrow> bytes option"
  ue_config :: "'v \<Rightarrow> bool list option"
  ue_f64 :: "string \<Rightarrow> 'a option"
  ue_of_usize :: "nat \<Rightarrow> 'a"
  ue_debug :: "exchange_error \<Rightarrow> string"
  ue_session :: string
  ue_buy_url :: "exchange_type \<Rightarrow> caip19_asset \<Rightarrow> 'a \<Rightarrow> string \<Rightarrow> (exchange_error, string) result"

definition check_url_request ::
  "('h, 'v, 'a) url_env \<Rightarrow> url_request \<Rightarrow> feature_type \<Rightarrow> 'v feature list
    \<Rightarrow> (get_exchange_url_error, exchange_type \<times> caip19_asset \<times> string \<times> 'a) result" where
  "check_url_request E request ft features =
    bind_res (map_err (\<lambda>e. UE_ExchangeNotFound (exchange_error_display e))
        (get_exchange_by_id (ue_config E) (ur_exchange_id request) ft features)) (\<lambda>exchange.
    bind_res (map_err (\<lambda>e. UE_ValidationError (crypto_utils_error_display e))
        (caip19_parse (ue_h160 E) (ue_checksum E) (ur_asset request))) (\<lambda>asset.
    bind_res (map_err (\<lambda>e. UE_ValidationError (crypto_utils_error_display e))
        (disassemble_caip10 (ue_h160 E) (ue_b58 E) (ur_recipient request))) (\<lambda>(namespace, chain_id, address).
      if namespace_display namespace \<noteq> c2_namespace (a_chain_id asset) then
        Inl (UE_ValidationError (''Invalid recipient. CAIP-10 namespace must match asset namespace: ''
          @ namespace_display namespace @ '' != '' @ a_namespace asset))
      else if chain_id \<noteq> c2_reference (a_chain_id asset) then
        Inl (UE_ValidationError (''Invalid recipient. CAIP-10 chainId must match asset chainId: ''
          @ chain_id @ '' != '' @ caip19_asset_id asset))
      else if \<not> is_asset_supported exchange asset then
        Inl (UE_ValidationError (''Asset '' @ caip19_display asset @ '' is not supported by exchange ''
          @ ur_exchange_id request))
      else (case parse_amount (ue_f64 E) (ue_of_usize E) (ur_amount request) of
          None \<Rightarrow> Inl (UE_ValidationError
            (''Invalid amount. Expected a valid number or hexadecimal string: '' @ ur_amount request))
        | Some amount \<Rightarrow> Inr (exchange, asset, address, amount)))))"

definition get_exchange_url ::
  "('h, 'v, 'a) url_env \<Rightarrow> db_env \<Rightarrow> time \<Rightarrow> string \<Rightarrow> url_request \<Rightarrow> feature_type \<Rightarrow> 'v feature list
    \<Rightarrow> 'a ledger \<Rightarrow> (get_exchange_url_error, string \<times> string) result \<times> 'a ledger" where
  "get_exchange_url E D now project_id request ft features L =
    (case check_url_request E request ft features of
       Inl e \<Rightarrow> (Inl e, L)
     | Inr (exchange, asset, address, amount) \<Rightarrow>
        (case ue_buy_url E exchange asset amount address of
           Inr url \<Rightarrow>
            (let (res, L') = create_transaction D now \<lparr> nt_session_id = ue_session E,
                 nt_exchange_id = ur_exchange_id request, nt_project_id = Some project_id,
                 nt_asset = Some (ur_asset request), nt_amount = Some amount, nt_recipient = Some address,
                 nt_pay_url = Some url \<rparr> L
             in (case res of
                   Inl _ \<Rightarrow> (Inl (UE_InternalError ''Failed to persist exchange transaction''), L')
                 | Inr _ \<Rightarrow> (Inr (url, ue_session E), L')))
         | Inl (EE_ValidationError msg) \<Rightarrow> (Inl (UE_ValidationError msg), L)
         | Inl e \<Rightarrow> (Inl (UE_InternalError (''Unable to get exchange URL: '' @ ue_debug E e)), L)))"

section \<open>The status of a purchase\<close>

definition MAX_SESSION_ID_LENGTH :: nat where "MAX_SESSION_ID_LENGTH = 50"

datatype get_buy_status_error =
    BE_ValidationError string
  | BE_ExchangeNotFound string
  | BE_SessionNotFound string
  | BE_InternalError string

text \<open>\<open>answer\<close> is what the exchange answers for the session; the outcome of the ledger update is ignored.\<close>

definition get_exchange_buy_status ::
  "('v \<Rightarrow> bool list option) \<Rightarrow> (exchange_error \<Rightarrow> string) \<Rightarrow> db_env \<Rightarrow> time
    \<Rightarrow> (exchange_type \<Rightarrow> string \<Rightarrow> (exchange_error, buy_status_response) result)
    \<Rightarrow> string \<Rightarrow> string \<Rightarrow> feature_type \<Rightarrow> 'v feature list \<Rightarrow> 'a ledger
    \<Rightarrow> (get_buy_status_error, buy_status_response) result \<times> 'a ledger" where
  "get_exchange_buy_status parse_config debug D now answer exchange_id session_id ft features L =
    (case get_exchange_by_id parse_config exchange_id ft features of
       Inl e \<Rightarrow> (Inl (BE_ExchangeNotFound (exchange_error_display e)), L)
     | Inr exchange \<Rightarrow>
        if session_id = '''' \<or> MAX_SESSION_ID_LENGTH < length session_id then
          (Inl (BE_ValidationError ''Invalid session ID''), L)
        else
          (case answer exchange session_id of
             Inr response \<Rightarrow>
               (Inr response, apply_answer D now session_id exchange_id (Inr response) L)
           | Inl (EE_ValidationError msg) \<Rightarrow> (Inl (BE_ValidationError msg), L)
           | Inl e \<Rightarrow> (Inl (BE_InternalError (''Unable to get exchange buy status: '' @ debug e)), L)))"

section \<open>Properties\<close>

lemma create_transaction_rows:
  assumes "create_transaction D now args L = (Inr (), L')"
  shows "(\<exists>e row. exchange_from_id (nt_exchange_id args) = Some e \<and> is_transaction_storage_enabled e
        \<and> stored_row now (lg_next_id L) args = Some row \<and> lg_rows L' = lg_rows L @ [row]
        \<and> tx_session_id row \<notin> tx_session_id ` set (lg_rows L))
    \<or> exchange_from_id (nt_exchange_id args) = Some ReownTest \<and> L' = L"
proof (cases "exchange_from_id (nt_exchange_id args)")
  case None
  then show ?thesis using assms by (simp add: create_transaction_def with_storage_def)
next
  case (Some e)
  show ?thesis
  proof (cases "is_transaction_storage_enabled e")
    case False
    then have "e = ReownTest" by (cases e) auto
    then show ?thesis using assms Some False by (simp add: create_transaction_def with_storage_def)
  next
    case True
    obtain res L1 where ins: "insert_new now args L = (res, L1)" by force
    with assms Some True have "L' = L1" "\<exists>r. res = Inr r"
      by (auto simp: create_transaction_def with_storage_def in_transaction_def res_simps split: sum.splits)
    with ins show ?thesis
      using Some True by (cases rule: insert_new_cases [OF ins]) auto
  qed
qed

lemma create_transaction_fails:
  "fst (create_transaction D now args L) = Inl e \<Longrightarrow> lg_rows (snd (create_transaction D now args L)) = lg_rows L"
  by (auto simp: create_transaction_def with_storage_def in_transaction_def rollback_def
      split: option.splits sum.splits prod.splits if_splits)

lemma check_url_request_ok:
  "check_url_request E request ft features = Inr (exchange, asset, address, amount) \<Longrightarrow>
    exchange_from_id (ur_exchange_id request) = Some exchange
    \<and> is_exchange_enabled (ue_config E) exchange ft features
    \<and> caip19_parse (ue_h160 E) (ue_checksum E) (ur_asset request) = Inr asset
    \<and> is_asset_supported exchange asset
    \<and> (\<exists>ns. namespace_display ns = c2_namespace (a_chain_id asset)
        \<and> disassemble_caip10 (ue_h160 E) (ue_b58 E) (ur_recipient request)
          = Inr (ns, c2_reference (a_chain_id asset), address))
    \<and> parse_amount (ue_f64 E) (ue_of_usize E) (ur_amount request) = Some amount"
  by (auto simp: check_url_request_def res_simps get_exchange_by_id_def split: if_splits option.splits)

text \<open>A pay URL is returned only for an enabled exchange that supports the asset and a recipient on the
  chain of the asset; then, for an exchange with storage, exactly one new pending row with the session,
  the amount and the URL has been added; on every error the rows of the ledger are unchanged.\<close>

theorem pay_url_records_transaction:
  assumes "get_exchange_url E D now project_id request ft features L = (res, L')"
  shows "(\<forall>e. res = Inl e \<longrightarrow> lg_rows L' = lg_rows L)
    \<and> (\<forall>url session. res = Inr (url, session) \<longrightarrow>
        (\<exists>exchange asset address amount. exchange_from_id (ur_exchange_id request) = Some exchange
          \<and> is_exchange_enabled (ue_config E) exchange ft features
          \<and> caip19_parse (ue_h160 E) (ue_checksum E) (ur_asset request) = Inr asset
          \<and> is_asset_supported exchange asset
          \<and> (\<exists>ns. namespace_display ns = c2_namespace (a_chain_id asset)
              \<and> disassemble_caip10 (ue_h160 E) (ue_b58 E) (ur_recipient request)
                = Inr (ns, c2_reference (a_chain_id asset), address))
          \<and> (if is_transaction_storage_enabled exchange then
               (\<exists>row. lg_rows L' = lg_rows L @ [row] \<and> tx_status row = Pending
                 \<and> bpchar 32 session = Some (tx_session_id row) \<and> tx_amount row = Some amount
                 \<and> tx_pay_url row = Some url \<and> tx_created_at row = now)
             else L' = L)))"
proof (cases "check_url_request E request ft features")
  case (Inl e)
  then show ?thesis using assms by (auto simp: get_exchange_url_def)
next
  case (Inr c)
  obtain exchange asset address amount where c: "c = (exchange, asset, address, amount)"
    using prod_cases4 by blast
  note ok = check_url_request_ok [OF Inr [unfolded c]]
  show ?thesis
  proof (cases "ue_buy_url E exchange asset amount address")
    case (Inl e)
    then show ?thesis
      using assms Inr c by (cases e) (auto simp: get_exchange_url_def)
  next
    case url: (Inr url)
    define args where "args = \<lparr> nt_session_id = ue_session E,
                 nt_exchange_id = ur_exchange_id request, nt_project_id = Some project_id,
                 nt_asset = Some (ur_asset request), nt_amount = Some amount, nt_recipient = Some address,
                 nt_pay_url = Some url \<rparr>"
    obtain cres L1 where create: "create_transaction D now args L = (cres, L1)" by force
    have res: "L' = L1" "res = (case cres of
        Inl _ \<Rightarrow> Inl (UE_InternalError ''Failed to persist exchange transaction'')
      | Inr _ \<Rightarrow> Inr (url, ue_session E))"
      using assms Inr c url create by (auto simp: get_exchange_url_def args_def Let_def split: sum.splits)
    show ?thesis
    proof (cases cres)
      case (Inl e)
      then show ?thesis using res create_transaction_fails [of D now args L] create by auto
    next
      case (Inr u)
      have stored: "tx_amount row = Some amount \<and> tx_pay_url row = Some url"
        if "stored_row now (lg_next_id L) args = Some row" for row
        using that by (auto simp: stored_row_def args_def split: option.splits)
      have "create_transaction D now args L = (Inr (), L1)" using create Inr by simp
      from create_transaction_rows [OF this] show ?thesis
        using res Inr ok stored stored_row_fields [of now "lg_next_id L" args] by (fastforce simp: args_def)
    qed
  qed
qed

definition demo_url_env :: "(unit, unit, unit) url_env" where
  "demo_url_env = \<lparr> ue_h160 = (\<lambda>_. Some ()), ue_checksum = (\<lambda>_. ''0x'' @ replicate 40 CHR ''0''),
     ue_b58 = (\<lambda>_. None), ue_config = (\<lambda>_. None), ue_f64 = (\<lambda>_. Some ()), ue_of_usize = (\<lambda>_. ()),
     ue_debug = (\<lambda>_. ''''), ue_session = replicate 32 CHR ''a'', ue_buy_url = (\<lambda>_ _ _ _. Inl (EE_InternalError ''down'')) \<rparr>"

lemma pay_url_records_transaction_witness:
  "\<exists>L'. get_exchange_url demo_url_env db_ok 0 ''p'' \<lparr> ur_exchange_id = ''nobody'', ur_asset = '''',
      ur_amount = ''1'', ur_recipient = '''' \<rparr> Payments [] empty_ledger
     = (Inl (UE_ExchangeNotFound ''Validation error: Exchange nobody not found''), L') \<and> lg_rows L' = []"
proof -
  let ?r = "\<lparr> ur_exchange_id = ''nobody'', ur_asset = '''', ur_amount = ''1'', ur_recipient = '''' \<rparr>"
  have "get_exchange_url demo_url_env db_ok 0 ''p'' ?r Payments [] empty_ledger
     = (Inl (UE_ExchangeNotFound ''Validation error: Exchange nobody not found''), empty_ledger)"
    by (simp add: get_exchange_url_def check_url_request_def get_exchange_by_id_def exchange_from_id_def
        exchange_types_def)
  with pay_url_records_transaction [OF this] show ?thesis by (auto simp: empty_ledger_def)
qed

text \<open>C27: a status request for a session of the ledger, when the database works and the hash fits its
  column, leaves the session in the state the exchange answered and every other session as it was,
  whatever the state was before (also a session that had failed or expired becomes succeeded); on
  an error the ledger is unchanged.\<close>

theorem buy_status_updates_ledger:
  assumes "get_exchange_buy_status parse_config debug db_ok now answer ex s ft features L = (res, L')"
    and "ledger_view L s = Some old" "\<And>r. res = Inr r \<Longrightarrow> hash_fits (Inr r)"
  shows "(\<forall>e. res = Inl e \<longrightarrow> L' = L)
    \<and> (\<forall>response exchange. res = Inr response \<and> exchange_from_id ex = Some exchange \<longrightarrow>
        answer exchange s = Inr response
        \<and> ledger_view L' = (if is_transaction_storage_enabled exchange
            then (ledger_view L)(s \<mapsto> answered (Inr response) old) else ledger_view L))"
proof (cases res)
  case (Inl e)
  then show ?thesis
    using assms(1) by (auto simp: get_exchange_buy_status_def split: sum.splits if_splits exchange_error.splits)
next
  case (Inr response)
  have get: "get_exchange_by_id parse_config ex ft features = Inr exchange \<Longrightarrow> exchange_from_id ex = Some exchange"
    for exchange by (auto simp: get_exchange_by_id_def res_simps split: if_splits)
  obtain exchange where e: "exchange_from_id ex = Some exchange" "answer exchange s = Inr response"
    "L' = apply_answer db_ok now s ex (Inr response) L"
    using assms(1) Inr get
    by (auto simp: get_exchange_buy_status_def split: sum.splits if_splits exchange_error.splits)
  have fits: "hash_fits (Inr response)" using assms(3) Inr by simp
  have off: "apply_answer db_ok now s ex (Inr response) L = L" if "\<not> is_transaction_storage_enabled exchange"
    using that e(1) by (simp add: apply_answer_def mark_succeeded_def mark_failed_def touch_pending_def
        with_storage_def split: buy_transaction_status.splits)
  show ?thesis
    using Inr e off apply_answer_view [OF assms(2) fits e(1)] by auto
qed

lemma buy_status_updates_ledger_witness:
  "\<exists>L'. ledger_view L' (replicate 32 CHR ''a'') = Some (Succeeded, Some ''0xab'')
     \<and> snd (get_exchange_buy_status (\<lambda>_ :: unit. None) (\<lambda>_. '''') db_ok 9
         (\<lambda>_ _. Inr \<lparr> bs_status = BT_Success, bs_tx_hash = Some ''0xab'' \<rparr>) ''binance'' (replicate 32 CHR ''a'')
         Payments [] \<lparr> lg_rows = [expire_row 5 demo_row], lg_next_id = 2 \<rparr>) = L'"
proof -
  let ?L = "\<lparr> lg_rows = [expire_row 5 demo_row], lg_next_id = 2 \<rparr>"
  let ?a = "Inr \<lparr> bs_status = BT_Success, bs_tx_hash = Some ''0xab'' \<rparr> :: (exchange_error, buy_status_response) result"
  let ?s = "replicate 32 CHR ''a''"
  have v: "ledger_view ?L ?s = Some (Failed, None)"
    by (simp add: ledger_view_def has_session_def expire_row_def demo_row_def rstrip_def)
  have f: "hash_fits ?a" by (simp add: hash_fits_def)
  have g: "get_exchange_buy_status (\<lambda>_ :: unit. None) (\<lambda>_. '''') db_ok 9 (\<lambda>_ _. ?a) ''binance'' ?s Payments [] ?L
    = (Inr \<lparr> bs_status = BT_Success, bs_tx_hash = Some ''0xab'' \<rparr>, apply_answer db_ok 9 ?s ''binance'' ?a ?L)"
    by (simp add: get_exchange_buy_status_def get_exchange_by_id_def exchange_from_id_def exchange_types_def
        MAX_SESSION_ID_LENGTH_def)
  have "exchange_from_id ''binance'' = Some Binance" by (simp add: exchange_from_id_iff)
  with buy_status_updates_ledger [OF g v] f g show ?thesis by (auto simp: answered_def)
qed

end
