(* ===== verification/Storage.thy ===== *)
theory Storage
  imports HttpErrors
begin

text \<open>
  Storage clients (\<open>storage/mod.rs\<close>, \<open>storage/irn/mod.rs\<close>, \<open>storage/redis/mod.rs\<close>): the configuration of the IRN
  client and its parsing, the IRN operations as wrappers of the replication client under one namespace, and
  the Redis key-value storage with its read and write addresses.  The replication client, the Redis server
  and the serialization are parameters; the values are any type \<open>'b\<close> of serialized data.
\<close>

section \<open>Configuration of the IRN client\<close>

datatype config_error =
    MissingClientKey | InvalidClientKey | InvalidPeerAddr string | InvalidClusterKey
  | InvalidOperatorId string | MissingNamespace | InvalidNamespace string | MissingEncryptionSecret

record irn_config =
  ic_client_key :: "string option"
  ic_cluster_key :: "string option"
  ic_nodes :: "string list option"
  ic_trusted_operators :: "string list option"
  ic_namespace :: "string option"
  ic_encryption_secret :: "string option"

record ('k, 'c, 'p, 'a, 'o, 'n) client_config =
  cc_keypair :: 'k
  cc_cluster_key :: 'c
  cc_nodes :: "('p \<times> 'a) list"
  cc_trusted_operators :: "'o set"
  cc_namespace :: 'n
  cc_encryption_secret :: string

text \<open>The parsers of the client library: base64, the key pair, the cluster key, the peer identifier, the
  socket address, the operator identifier and the namespace.\<close>

record ('k, 'c, 'p, 'a, 'o, 'n) wcn_parsers =
  wp_base64 :: "string \<Rightarrow> bytes option"
  wp_keypair :: "bytes \<Rightarrow> 'k option"
  wp_cluster_key :: "string \<Rightarrow> 'c option"
  wp_peer_id :: "string \<Rightarrow> 'p option"
  wp_socket_addr :: "string \<Rightarrow> 'a option"
  wp_operator :: "string \<Rightarrow> 'o option"
  wp_namespace :: "string \<Rightarrow> 'n option"

definition client_keypair ::
  "('k, 'c, 'p, 'a, 'o, 'n) wcn_parsers \<Rightarrow> irn_config \<Rightarrow> (config_error, 'k) result" where
  "client_keypair W c =
    bind_res (ok_or MissingClientKey (ic_client_key c)) (\<lambda>key.
    bind_res (ok_or MissingClientKey (wp_base64 W key)) (\<lambda>bytes.
      ok_or MissingClientKey (wp_keypair W bytes)))"

definition cluster_key ::
  "('k, 'c, 'p, 'a, 'o, 'n) wcn_parsers \<Rightarrow> irn_config \<Rightarrow> (config_error, 'c) result" where
  "cluster_key W c =
    bind_res (ok_or InvalidClusterKey (ic_cluster_key c)) (\<lambda>key.
      ok_or InvalidClusterKey (wp_cluster_key W key))"

text \<open>\<open>collect_res\<close>: the values of an iterator of results, up to the first error.\<close>

fun collect_res :: "('a \<Rightarrow> ('e, 'b) result) \<Rightarrow> 'a list \<Rightarrow> ('e, 'b list) result" where
  "collect_res f [] = Inr []"
| "collect_res f (x # xs) = bind_res (f x) (\<lambda>y. bind_res (collect_res f xs) (\<lambda>ys. Inr (y # ys)))"

definition parse_peer_addr ::
  "('k, 'c, 'p, 'a, 'o, 'n) wcn_parsers \<Rightarrow> string \<Rightarrow> ('p \<times> 'a) option" where
  "parse_peer_addr W addr = (case break_at CHR ''-'' addr of
      (i, Some a) \<Rightarrow> (case wp_peer_id W i of
          None \<Rightarrow> None
        | Some peer \<Rightarrow> map_option (Pair peer) (wp_socket_addr W a))
    | (_, None) \<Rightarrow> None)"

definition nodes ::
  "('k, 'c, 'p, 'a, 'o, 'n) wcn_parsers \<Rightarrow> irn_config \<Rightarrow> (config_error, ('p \<times> 'a) list) result" where
  "nodes W c = (case ic_nodes c of
      Some ns \<Rightarrow> collect_res (\<lambda>addr. ok_or (InvalidPeerAddr addr) (parse_peer_addr W addr)) ns
    | None \<Rightarrow> Inr [])"

definition trusted_operators ::
  "('k, 'c, 'p, 'a, 'o, 'n) wcn_parsers \<Rightarrow> irn_config \<Rightarrow> (config_error, 'o set) result" where
  "trusted_operators W c = (case ic_trusted_operators c of
      Some ops \<Rightarrow> bind_res (collect_res (\<lambda>addr. ok_or (InvalidOperatorId addr) (wp_operator W addr)) ops)
        (\<lambda>os. Inr (set os))
    | None \<Rightarrow> Inr {})"

definition irn_namespace ::
  "('k, 'c, 'p, 'a, 'o, 'n) wcn_parsers \<Rightarrow> irn_config \<Rightarrow> (config_error, 'n) result" where
  "irn_namespace W c =
    bind_res (ok_or MissingNamespace (ic_namespace c)) (\<lambda>ns.
      ok_or (InvalidNamespace ns) (wp_namespace W ns))"

definition encryption_secret :: "irn_config \<Rightarrow> (config_error, string) result" where
  "encryption_secret c = ok_or MissingEncryptionSecret (ic_encryption_secret c)"

definition parse_config ::
  "('k, 'c, 'p, 'a, 'o, 'n) wcn_parsers \<Rightarrow> irn_config
    \<Rightarrow> (config_error, ('k, 'c, 'p, 'a, 'o, 'n) client_config) result" where
  "parse_config W c =
    bind_res (client_keypair W c) (\<lambda>keypair.
    bind_res (cluster_key W c) (\<lambda>cluster.
    bind_res (nodes W c) (\<lambda>ns.
    bind_res (trusted_operators W c) (\<lambda>operators.
    bind_res (irn_namespace W c) (\<lambda>namespace.
    bind_res (encryption_secret c) (\<lambda>secret.
      Inr \<lparr> cc_keypair = keypair, cc_cluster_key = cluster, cc_nodes = ns, cc_trusted_operators = operators,
        cc_namespace = namespace, cc_encryption_secret = secret \<rparr>))))))"

section \<open>The IRN operations\<close>

definition RECORDS_TTL :: nat where "RECORDS_TTL = 60 * 60 * 24 * 30"

text \<open>The replication client: every operation is on a namespace and a key, writes carry a time to live in
  seconds, a scan answers a page of fields with their values and the cursor of the next page.\<close>

record ('s, 'n, 'b) wcn_client =
  wcn_set :: "'s \<Rightarrow> 'n \<Rightarrow> string \<Rightarrow> 'b \<Rightarrow> nat \<Rightarrow> (string, 's) result"
  wcn_get :: "'s \<Rightarrow> 'n \<Rightarrow> string \<Rightarrow> (string, 'b option) result"
  wcn_del :: "'s \<Rightarrow> 'n \<Rightarrow> string \<Rightarrow> (string, 's) result"
  wcn_hset :: "'s \<Rightarrow> 'n \<Rightarrow> string \<Rightarrow> string \<Rightarrow> 'b \<Rightarrow> nat \<Rightarrow> (string, 's) result"
  wcn_hget :: "'s \<Rightarrow> 'n \<Rightarrow> string \<Rightarrow> string \<Rightarrow> (string, 'b option) result"
  wcn_hdel :: "'s \<Rightarrow> 'n \<Rightarrow> string \<Rightarrow> string \<Rightarrow> (string, 's) result"
  wcn_hscan :: "'s \<Rightarrow> 'n \<Rightarrow> string \<Rightarrow> nat \<Rightarrow> bytes option
    \<Rightarrow> (string, (bytes \<times> 'b) list \<times> bytes option) result"

text \<open>The \<open>Irn\<close> of the service: the client with its namespace, and \<open>String::from_utf8\<close> for the fields.\<close>

record ('s, 'n, 'b) irn_client =
  irn_inner :: "('s, 'n, 'b) wcn_client"
  irn_ns :: 'n
  irn_utf8 :: "bytes \<Rightarrow> (string, string) result"

definition irn_set :: "('s, 'n, 'b) irn_client \<Rightarrow> 's \<Rightarrow> string \<Rightarrow> 'b \<Rightarrow> (storage_error, 's) result" where
  "irn_set I st key v = map_err SE_WcnClientError (wcn_set (irn_inner I) st (irn_ns I) key v RECORDS_TTL)"

definition irn_get :: "('s, 'n, 'b) irn_client \<Rightarrow> 's \<Rightarrow> string \<Rightarrow> (storage_error, 'b option) result" where
  "irn_get I st key = map_err SE_WcnClientError (wcn_get (irn_inner I) st (irn_ns I) key)"

definition irn_delete :: "('s, 'n, 'b) irn_client \<Rightarrow> 's \<Rightarrow> string \<Rightarrow> (storage_error, 's) result" where
  "irn_delete I st key = map_err SE_WcnClientError (wcn_del (irn_inner I) st (irn_ns I) key)"

definition irn_hset ::
  "('s, 'n, 'b) irn_client \<Rightarrow> 's \<Rightarrow> string \<Rightarrow> string \<Rightarrow> 'b \<Rightarrow> (storage_error, 's) result" where
  "irn_hset I st key field v =
    map_err SE_WcnClientError (wcn_hset (irn_inner I) st (irn_ns I) key field v RECORDS_TTL)"

definition irn_hget ::
  "('s, 'n, 'b) irn_client \<Rightarrow> 's \<Rightarrow> string \<Rightarrow> string \<Rightarrow> (storage_error, 'b option) result" where
  "irn_hget I st key field = map_err SE_WcnClientError (wcn_hget (irn_inner I) st (irn_ns I) key field)"

definition irn_hdel ::
  "('s, 'n, 'b) irn_client \<Rightarrow> 's \<Rightarrow> string \<Rightarrow> string \<Rightarrow> (storage_error, 's) result" where
  "irn_hdel I st key field = map_err SE_WcnClientError (wcn_hdel (irn_inner I) st (irn_ns I) key field)"

definition irn_hscan ::
  "('s, 'n, 'b) irn_client \<Rightarrow> 's \<Rightarrow> string \<Rightarrow> nat \<Rightarrow> bytes option
    \<Rightarrow> (storage_error, (string \<times> 'b) list \<times> bytes option) result" where
  "irn_hscan I st key count cursor =
    bind_res (map_err SE_WcnClientError (wcn_hscan (irn_inner I) st (irn_ns I) key count cursor))
      (\<lambda>(records, next_cursor).
    bind_res (collect_res (\<lambda>(field, v).
        bind_res (map_err SE_Utf8Error (irn_utf8 I field)) (\<lambda>field_string. Inr (field_string, v))) records)
      (\<lambda>fields_values. Inr (fields_values, next_cursor)))"

section \<open>Redis\<close>

definition LOCAL_REDIS_ADDR :: string where "LOCAL_REDIS_ADDR = ''redis://localhost:6379/0''"

datatype addr = Combined string | Separate string string

definition addr_default :: addr where "addr_default = Combined LOCAL_REDIS_ADDR"

fun addr_read :: "addr \<Rightarrow> string" where
  "addr_read (Combined a) = a"
| "addr_read (Separate r w) = r"

fun addr_write :: "addr \<Rightarrow> string" where
  "addr_write (Combined a) = a"
| "addr_write (Separate r w) = w"

fun addr_from :: "string option \<times> string option \<Rightarrow> addr" where
  "addr_from (Some r, Some w) = Separate r w"
| "addr_from (Some a, None) = Combined a"
| "addr_from (None, Some a) = Combined a"
| "addr_from (None, None) = addr_default"

text \<open>The servers by address: a connection, and the commands \<open>GET\<close>, \<open>SET\<close>, \<open>SETEX\<close> and \<open>DEL\<close>.\<close>

record ('s, 'b) redis_server =
  rd_connect :: "'s \<Rightarrow> string \<Rightarrow> (string, unit) result"
  rd_get :: "'s \<Rightarrow> string \<Rightarrow> string \<Rightarrow> (string, 'b option) result"
  rd_set :: "'s \<Rightarrow> string \<Rightarrow> string \<Rightarrow> 'b \<Rightarrow> (string, 's) result"
  rd_set_ex :: "'s \<Rightarrow> string \<Rightarrow> string \<Rightarrow> 'b \<Rightarrow> nat \<Rightarrow> (string, 's) result"
  rd_del :: "'s \<Rightarrow> string \<Rightarrow> string \<Rightarrow> (string, 's) result"

text \<open>\<open>rmp_serde\<close> as \<open>rm_enc\<close> and \<open>rm_dec\<close>; \<open>to_secs\<close> reads a duration in seconds.\<close>

record ('t, 'b) rmp =
  rm_enc :: "'t \<Rightarrow> 'b option"
  rm_dec :: "'b \<Rightarrow> (string, 't) result"

definition serialize :: "('t, 'b) rmp \<Rightarrow> 't \<Rightarrow> (storage_error, 'b) result" where
  "serialize M x = ok_or SE_Serialize (rm_enc M x)"

definition deserialize :: "('t, 'b) rmp \<Rightarrow> 'b \<Rightarrow> (string, 't) result" where
  "deserialize M d = rm_dec M d"

text \<open>\<open>redis_get\<close> wraps the error of \<open>deserialize\<close> a second time, so its text carries the prefix twice.\<close>

definition redis_get ::
  "('s, 'b) redis_server \<Rightarrow> ('t, 'b) rmp \<Rightarrow> addr \<Rightarrow> 's \<Rightarrow> string \<Rightarrow> (storage_error, 't option) result" where
  "redis_get R M a st key =
    bind_res (map_err SE_Connection (rd_connect R st (addr_read a))) (\<lambda>_.
    bind_res (map_err SE_Other (rd_get R st (addr_read a) key)) (\<lambda>opt. case opt of
        None \<Rightarrow> Inr None
      | Some data \<Rightarrow> bind_res (map_err (\<lambda>e. SE_Deserialize (''error on deserialize data: '' @ e))
          (deserialize M data)) (\<lambda>x. Inr (Some x))))"

definition set_internal ::
  "('s, 'b) redis_server \<Rightarrow> addr \<Rightarrow> 's \<Rightarrow> string \<Rightarrow> 'b \<Rightarrow> nat option \<Rightarrow> (storage_error, 's) result" where
  "set_internal R a st key data ttl =
    bind_res (map_err SE_Connection (rd_connect R st (addr_write a))) (\<lambda>_.
      map_err SE_Other (case ttl of
          Some secs \<Rightarrow> rd_set_ex R st (addr_write a) key data secs
        | None \<Rightarrow> rd_set R st (addr_write a) key data))"

definition redis_set ::
  "('s, 'b) redis_server \<Rightarrow> ('t, 'b) rmp \<Rightarrow> addr \<Rightarrow> 's \<Rightarrow> string \<Rightarrow> 't \<Rightarrow> nat option
    \<Rightarrow> (storage_error, 's) result" where
  "redis_set R M a st key v ttl =
    bind_res (serialize M v) (\<lambda>data. set_internal R a st key data ttl)"

definition redis_del ::
  "('s, 'b) redis_server \<Rightarrow> addr \<Rightarrow> 's \<Rightarrow> string \<Rightarrow> (storage_error, 's) result" where
  "redis_del R a st key =
    bind_res (map_err SE_Connection (rd_connect R st (addr_write a))) (\<lambda>_.
      map_err SE_Other (rd_del R st (addr_write a) key))"

section \<open>Key-value stores\<close>

text \<open>The contract of the stores: a successful write is read back and leaves the other keys alone, a deleted
  key reads as absent.\<close>

locale key_value_store =
  fixes get :: "'s \<Rightarrow> 'k \<Rightarrow> ('e, 'v option) result"
    and put :: "'s \<Rightarrow> 'k \<Rightarrow> 'v \<Rightarrow> ('e, 's) result"
    and del :: "'s \<Rightarrow> 'k \<Rightarrow> ('e, 's) result"
  assumes get_put: "put st k v = Inr st' \<Longrightarrow> get st' k' = (if k' = k then Inr (Some v) else get st k')"
    and get_del: "del st k = Inr st' \<Longrightarrow> get st' k' = (if k' = k then Inr None else get st k')"

datatype ('k, 'v) kv_op = Put 'k 'v | Del 'k

fun run_ops ::
  "('s \<Rightarrow> 'k \<Rightarrow> 'v \<Rightarrow> ('e, 's) result) \<Rightarrow> ('s \<Rightarrow> 'k \<Rightarrow> ('e, 's) result) \<Rightarrow> ('k, 'v) kv_op list \<Rightarrow> 's \<Rightarrow> ('e, 's) result" where
  "run_ops put del [] st = Inr st"
| "run_ops put del (Put k v # ops) st = bind_res (put st k v) (run_ops put del ops)"
| "run_ops put del (Del k # ops) st = bind_res (del st k) (run_ops put del ops)"

text \<open>The abstract store is a map.\<close>

fun map_ops :: "('k, 'v) kv_op list \<Rightarrow> ('k \<Rightarrow> 'v option) \<Rightarrow> 'k \<Rightarrow> 'v option" where
  "map_ops [] m = m"
| "map_ops (Put k v # ops) m = map_ops ops (m(k \<mapsto> v))"
| "map_ops (Del k # ops) m = map_ops ops (m(k := None))"

context key_value_store
begin

lemma run_refines:
  assumes "run_ops put del ops st = Inr st'" and "\<And>k. get st k = Inr (m k)"
  shows "get st' k = Inr (map_ops ops m k)"
  using assms
proof (induction ops arbitrary: st m)
  case (Cons op ops)
  show ?case
  proof (cases op)
    case (Put j v)
    then obtain st1 where st1: "put st j v = Inr st1" "run_ops put del ops st1 = Inr st'"
      using Cons.prems(1) by (auto simp: res_simps)
    then have "get st1 i = Inr ((m(j \<mapsto> v)) i)" for i using Cons.prems(2) by (simp add: get_put)
    with Cons.IH [OF st1(2), of "m(j \<mapsto> v)"] show ?thesis unfolding Put map_ops.simps by blast
  next
    case (Del j)
    then obtain st1 where st1: "del st j = Inr st1" "run_ops put del ops st1 = Inr st'"
      using Cons.prems(1) by (auto simp: res_simps)
    then have "get st1 i = Inr ((m(j := None)) i)" for i using Cons.prems(2) by (simp add: get_del)
    with Cons.IH [OF st1(2), of "m(j := None)"] show ?thesis unfolding Del map_ops.simps by blast
  qed
qed simp

lemma run_untouched:
  "run_ops put del ops st = Inr st' \<Longrightarrow> \<forall>op\<in>set ops. (case op of Put j v \<Rightarrow> j \<noteq> k | Del j \<Rightarrow> j \<noteq> k) \<Longrightarrow>
    get st' k = get st k"
proof (induction ops arbitrary: st)
  case (Cons op ops)
  then show ?case by (cases op) (auto simp: res_simps get_put get_del)
qed simp

end

text \<open>What the replication client documents: the plain keys and the fields of a hash are independent stores,
  and namespaces do not interfere.  A state is the store at one moment, its clock included: the laws compare the
  store before an operation with the store right after it, for a positive time to live.  That time passes, and takes
  entries away, is a change of the state that is not one of these operations.\<close>

locale wcn_laws =
  fixes I :: "('s, 'n, 'b) irn_client"
  assumes hget_hset: "wcn_hset (irn_inner I) st n k f v t = Inr st' \<Longrightarrow> 0 < t \<Longrightarrow>
      wcn_hget (irn_inner I) st' n' k' f'
        = (if (n', k', f') = (n, k, f) then Inr (Some v) else wcn_hget (irn_inner I) st n' k' f')"
    and hget_hdel: "wcn_hdel (irn_inner I) st n k f = Inr st' \<Longrightarrow>
      wcn_hget (irn_inner I) st' n' k' f'
        = (if (n', k', f') = (n, k, f) then Inr None else wcn_hget (irn_inner I) st n' k' f')"
    and get_set: "wcn_set (irn_inner I) st n k v t = Inr st' \<Longrightarrow> 0 < t \<Longrightarrow>
      wcn_get (irn_inner I) st' n' k' = (if (n', k') = (n, k) then Inr (Some v) else wcn_get (irn_inner I) st n' k')"
    and get_del: "wcn_del (irn_inner I) st n k = Inr st' \<Longrightarrow>
      wcn_get (irn_inner I) st' n' k' = (if (n', k') = (n, k) then Inr None else wcn_get (irn_inner I) st n' k')"

lemma RECORDS_TTL_positive: "0 < RECORDS_TTL" by (simp add: RECORDS_TTL_def)

lemmas irn_defs = irn_set_def irn_get_def irn_delete_def irn_hset_def irn_hget_def irn_hdel_def

sublocale wcn_laws \<subseteq> fields: key_value_store "\<lambda>st (k, f). irn_hget I st k f"
  "\<lambda>st (k, f) v. irn_hset I st k f v" "\<lambda>st (k, f). irn_hdel I st k f"
  by unfold_locales (auto simp: irn_defs res_simps hget_hset [OF _ RECORDS_TTL_positive] hget_hdel split: if_splits)

sublocale wcn_laws \<subseteq> keys: key_value_store "irn_get I" "irn_set I" "irn_delete I"
  by unfold_locales (auto simp: irn_defs res_simps get_set [OF _ RECORDS_TTL_positive] get_del split: if_splits)

text \<open>A Redis server reached at one address, a time to live that is positive if there is one, and values that survive
  their serialization; again a state is the server at one moment.\<close>

locale redis_laws =
  fixes R :: "('s, 'b) redis_server" and M :: "('t, 'b) rmp" and a :: addr and ttl :: "nat option"
  assumes one_server: "addr_read a = addr_write a" and alive: "ttl \<noteq> Some 0"
    and get_set: "rd_set R st (addr_write a) k d = Inr st' \<Longrightarrow> rd_get R st' (addr_write a) k'
      = (if k' = k then Inr (Some d) else rd_get R st (addr_write a) k')"
    and get_set_ex: "rd_set_ex R st (addr_write a) k d secs = Inr st' \<Longrightarrow> 0 < secs \<Longrightarrow> rd_get R st' (addr_write a) k'
      = (if k' = k then Inr (Some d) else rd_get R st (addr_write a) k')"
    and get_del: "rd_del R st (addr_write a) k = Inr st' \<Longrightarrow> rd_get R st' (addr_write a) k'
      = (if k' = k then Inr None else rd_get R st (addr_write a) k')"
    and connected: "rd_connect R st (addr_write a) = Inr ()"
    and dec_enc: "rm_enc M x = Some d \<Longrightarrow> rm_dec M d = Inr x"

sublocale redis_laws \<subseteq> entries: key_value_store "redis_get R M a"
  "\<lambda>st k v. redis_set R M a st k v ttl" "redis_del R a"
proof unfold_locales
  fix st k v st' k'
  assume "redis_set R M a st k v ttl = Inr st'"
  then obtain d where d: "rm_enc M v = Some d" "set_internal R a st k d ttl = Inr st'"
    by (auto simp: redis_set_def serialize_def res_simps)
  then have "rd_get R st' (addr_write a) k' = (if k' = k then Inr (Some d) else rd_get R st (addr_write a) k')"
    using alive by (auto simp: set_internal_def res_simps get_set get_set_ex split: option.splits)
  then show "redis_get R M a st' k' = (if k' = k then Inr (Some v) else redis_get R M a st k')"
    by (simp add: redis_get_def one_server connected deserialize_def dec_enc [OF d(1)])
next
  fix st k st' k'
  assume "redis_del R a st k = Inr st'"
  then have "rd_get R st' (addr_write a) k' = (if k' = k then Inr None else rd_get R st (addr_write a) k')"
    by (auto simp: redis_del_def res_simps get_del)
  then show "redis_get R M a st' k' = (if k' = k then Inr None else redis_get R M a st k')"
    by (simp add: redis_get_def one_server connected)
qed

section \<open>The clients on maps\<close>

definition map_wcn :: "(('n \<times> string \<Rightarrow> 'b option) \<times> ('n \<times> string \<times> string \<Rightarrow> 'b option), 'n, 'b) wcn_client" where
  "map_wcn = \<lparr> wcn_set = (\<lambda>(m, h) n k v t. Inr (m((n, k) \<mapsto> v), h)), wcn_get = (\<lambda>(m, h) n k. Inr (m (n, k))),
     wcn_del = (\<lambda>(m, h) n k. Inr (m((n, k) := None), h)),
     wcn_hset = (\<lambda>(m, h) n k f v t. Inr (m, h((n, k, f) \<mapsto> v))), wcn_hget = (\<lambda>(m, h) n k f. Inr (h (n, k, f))),
     wcn_hdel = (\<lambda>(m, h) n k f. Inr (m, h((n, k, f) := None))), wcn_hscan = (\<lambda>_ _ _ _ _. Inr ([], None)) \<rparr>"

definition map_irn :: "'n \<Rightarrow> (('n \<times> string \<Rightarrow> 'b option) \<times> ('n \<times> string \<times> string \<Rightarrow> 'b option), 'n, 'b) irn_client" where
  "map_irn n = \<lparr> irn_inner = map_wcn, irn_ns = n, irn_utf8 = (\<lambda>_. Inl ''utf8'') \<rparr>"

interpretation map_irn: wcn_laws "map_irn n" for n
  by unfold_locales (auto simp: map_irn_def map_wcn_def split: prod.splits)

text \<open>Servers with a clock, in seconds, whose entries expire: an entry has the time at which it ends, if it does.\<close>

definition live :: "nat \<Rightarrow> ('b \<times> nat option) option \<Rightarrow> 'b option" where
  "live now entry = (case entry of
      Some (v, Some until) \<Rightarrow> if now < until then Some v else None
    | Some (v, None) \<Rightarrow> Some v
    | None \<Rightarrow> None)"

lemma live_simps [simp]:
  "live now None = None" "live now (Some (v, None)) = Some v"
  "live now (Some (v, Some until)) = (if now < until then Some v else None)"
  by (simp_all add: live_def)

definition clock_wcn ::
  "(nat \<times> ('n \<times> string \<Rightarrow> ('b \<times> nat option) option) \<times> ('n \<times> string \<times> string \<Rightarrow> ('b \<times> nat option) option), 'n, 'b) wcn_client"
where
  "clock_wcn = \<lparr> wcn_set = (\<lambda>(c, m, h) n k v t. Inr (c, m((n, k) \<mapsto> (v, Some (c + t))), h)),
     wcn_get = (\<lambda>(c, m, h) n k. Inr (live c (m (n, k)))), wcn_del = (\<lambda>(c, m, h) n k. Inr (c, m((n, k) := None), h)),
     wcn_hset = (\<lambda>(c, m, h) n k f v t. Inr (c, m, h((n, k, f) \<mapsto> (v, Some (c + t))))),
     wcn_hget = (\<lambda>(c, m, h) n k f. Inr (live c (h (n, k, f)))),
     wcn_hdel = (\<lambda>(c, m, h) n k f. Inr (c, m, h((n, k, f) := None))), wcn_hscan = (\<lambda>_ _ _ _ _. Inr ([], None)) \<rparr>"

definition clock_irn where
  "clock_irn n = \<lparr> irn_inner = clock_wcn, irn_ns = n, irn_utf8 = (\<lambda>_. Inl ''utf8'') \<rparr>"

interpretation clock_irn: wcn_laws "clock_irn n" for n
  by unfold_locales (auto simp: clock_irn_def clock_wcn_def split: prod.splits)

definition clock_redis :: "(nat \<times> (string \<times> string \<Rightarrow> ('b \<times> nat option) option), 'b) redis_server" where
  "clock_redis = \<lparr> rd_connect = (\<lambda>_ _. Inr ()), rd_get = (\<lambda>(c, m) a k. Inr (live c (m (a, k)))),
     rd_set = (\<lambda>(c, m) a k v. Inr (c, m((a, k) \<mapsto> (v, None)))),
     rd_set_ex = (\<lambda>(c, m) a k v t. if t = 0 then Inl ''ERR invalid expire time'' else Inr (c, m((a, k) \<mapsto> (v, Some (c + t))))),
     rd_del = (\<lambda>(c, m) a k. Inr (c, m((a, k) := None))) \<rparr>"

definition id_rmp :: "('t, 't) rmp" where "id_rmp = \<lparr> rm_enc = Some, rm_dec = Inr \<rparr>"

interpretation clock_redis: redis_laws clock_redis id_rmp "Combined u" "Some (Suc secs)" for u secs
  by unfold_locales (auto simp: clock_redis_def id_rmp_def split: prod.splits if_splits)

section \<open>Properties\<close>

lemma collect_res_ok: "collect_res f xs = Inr ys \<longleftrightarrow> list_all2 (\<lambda>x y. f x = Inr y) xs ys"
proof (induction xs arbitrary: ys)
  case Nil
  then show ?case by auto
next
  case (Cons x xs)
  then show ?case by (cases ys) (auto simp: res_simps)
qed

lemma collect_res_error: "collect_res f xs = Inl e \<Longrightarrow> \<exists>x\<in>set xs. f x = Inl e"
  by (induction xs) (auto simp: res_simps)

lemma parse_config_ok:
  "parse_config W c = Inr r \<longleftrightarrow>
      client_keypair W c = Inr (cc_keypair r) \<and> cluster_key W c = Inr (cc_cluster_key r)
      \<and> nodes W c = Inr (cc_nodes r) \<and> trusted_operators W c = Inr (cc_trusted_operators r)
      \<and> irn_namespace W c = Inr (cc_namespace r) \<and> ic_encryption_secret c = Some (cc_encryption_secret r)"
  by (cases r) (auto simp: parse_config_def encryption_secret_def res_simps)

lemma client_keypair_error: "client_keypair W c = Inl e \<Longrightarrow> e = MissingClientKey"
  by (auto simp: client_keypair_def res_simps)

lemma cluster_key_error: "cluster_key W c = Inl e \<Longrightarrow> e = InvalidClusterKey"
  by (auto simp: cluster_key_def res_simps)

lemma nodes_error:
  "nodes W c = Inl e \<Longrightarrow> \<exists>ns n. ic_nodes c = Some ns \<and> n \<in> set ns \<and> parse_peer_addr W n = None \<and> e = InvalidPeerAddr n"
  by (auto simp: nodes_def res_simps dest!: collect_res_error split: option.splits)

lemma trusted_operators_error:
  "trusted_operators W c = Inl e \<Longrightarrow> \<exists>n. e = InvalidOperatorId n"
  by (auto simp: trusted_operators_def res_simps dest!: collect_res_error split: option.splits)

lemma irn_namespace_error:
  "irn_namespace W c = Inl e \<Longrightarrow> e = MissingNamespace \<or> (\<exists>n. e = InvalidNamespace n)"
  by (auto simp: irn_namespace_def res_simps)

lemma parse_config_error:
  "parse_config W c = Inl e \<Longrightarrow>
      e = (case client_keypair W c of Inl _ \<Rightarrow> MissingClientKey | Inr _ \<Rightarrow>
          (case cluster_key W c of Inl _ \<Rightarrow> InvalidClusterKey | Inr _ \<Rightarrow>
          (case nodes W c of Inl d \<Rightarrow> d | Inr _ \<Rightarrow>
          (case trusted_operators W c of Inl d \<Rightarrow> d | Inr _ \<Rightarrow>
          (case irn_namespace W c of Inl d \<Rightarrow> d | Inr _ \<Rightarrow> MissingEncryptionSecret)))))"
  by (auto simp: parse_config_def encryption_secret_def res_simps client_keypair_error cluster_key_error)

lemma parse_config_error_kind: "parse_config W c = Inl e \<Longrightarrow> e \<noteq> InvalidClientKey"
  by (auto simp: parse_config_def encryption_secret_def res_simps
      dest!: client_keypair_error cluster_key_error nodes_error trusted_operators_error irn_namespace_error)

text \<open>Parsing the configuration of the IRN client succeeds exactly if all six parts do; missing
  lists of nodes and operators count as empty; every problem of the client key, also a key that does not
  decode, is reported as a missing key; and the first part that fails, in the order client key, cluster
  key, nodes, operators, namespace, secret, gives the error.\<close>

theorem irn_config_parse:
  "(parse_config W c = Inr r \<longleftrightarrow>
      client_keypair W c = Inr (cc_keypair r) \<and> cluster_key W c = Inr (cc_cluster_key r)
      \<and> nodes W c = Inr (cc_nodes r) \<and> trusted_operators W c = Inr (cc_trusted_operators r)
      \<and> irn_namespace W c = Inr (cc_namespace r) \<and> ic_encryption_secret c = Some (cc_encryption_secret r))
   \<and> (parse_config W c = Inl e \<longrightarrow>
      e = (case client_keypair W c of Inl _ \<Rightarrow> MissingClientKey | Inr _ \<Rightarrow>
          (case cluster_key W c of Inl _ \<Rightarrow> InvalidClusterKey | Inr _ \<Rightarrow>
          (case nodes W c of Inl d \<Rightarrow> d | Inr _ \<Rightarrow>
          (case trusted_operators W c of Inl d \<Rightarrow> d | Inr _ \<Rightarrow>
          (case irn_namespace W c of Inl d \<Rightarrow> d | Inr _ \<Rightarrow> MissingEncryptionSecret)))))
      \<and> e \<noteq> InvalidClientKey)
   \<and> (ic_nodes c = None \<longrightarrow> nodes W c = Inr [])
   \<and> (ic_nodes c = Some ns \<longrightarrow> (nodes W c = Inr ps \<longleftrightarrow> list_all2 (\<lambda>n p. parse_peer_addr W n = Some p) ns ps)
      \<and> (nodes W c = Inl d \<longrightarrow> (\<exists>n\<in>set ns. parse_peer_addr W n = None \<and> d = InvalidPeerAddr n)))"
proof (intro conjI impI)
  show "parse_config W c = Inr r \<longleftrightarrow>
      client_keypair W c = Inr (cc_keypair r) \<and> cluster_key W c = Inr (cc_cluster_key r)
      \<and> nodes W c = Inr (cc_nodes r) \<and> trusted_operators W c = Inr (cc_trusted_operators r)
      \<and> irn_namespace W c = Inr (cc_namespace r) \<and> ic_encryption_secret c = Some (cc_encryption_secret r)"
    by (rule parse_config_ok)
qed (auto simp: parse_config_error_kind nodes_def collect_res_ok res_simps dest: parse_config_error nodes_error collect_res_error)

lemma irn_config_parse_witness:
  "parse_config \<lparr> wp_base64 = (\<lambda>_. Some []), wp_keypair = (\<lambda>_. None :: unit option), wp_cluster_key = Some,
       wp_peer_id = Some, wp_socket_addr = Some, wp_operator = Some, wp_namespace = Some \<rparr>
     \<lparr> ic_client_key = Some ''x'', ic_cluster_key = None, ic_nodes = Some [''a''], ic_trusted_operators = None,
       ic_namespace = None, ic_encryption_secret = None \<rparr> = Inl MissingClientKey"
  (is "parse_config ?W ?c = _")
proof -
  have key: "client_keypair ?W ?c = Inl MissingClientKey" by (simp add: client_keypair_def)
  then have "parse_config ?W ?c = Inl MissingClientKey" by (simp add: parse_config_def)
  with irn_config_parse [of ?W ?c undefined MissingClientKey] key show ?thesis by simp
qed

end
