(* ===== verification/Sessions.thy ===== *)
theory Sessions
  imports Project CryptoBytes Chains Storage
begin

text \<open>
  Sessions of smart accounts (\<open>handlers/sessions\<close>, \<open>utils/permissions.rs\<close>, \<open>utils/sessions.rs\<close>): creating,
  activating, revoking, reading and listing permission items in the IRN store, and co-signing a user
  operation under the stored permissions.  The store, the serialization of items, the JSON data of
  permissions, ABI decoding of the outer call, hashing and signing are parameters.  Seconds are 64-bit
  integers.
\<close>

unbundle bit_operations_syntax

section \<open>Data\<close>

record 'j permission_type_data =
  pt_type :: string
  pt_data :: 'j

record 'j storage_permissions_item =
  sp_pci :: string
  sp_expiry :: u64
  sp_created_at :: u64
  sp_project_id :: string
  sp_signer :: "'j permission_type_data"
  sp_permissions :: "'j permission_type_data list"
  sp_policies :: "'j permission_type_data list"
  sp_context :: "bytes option"
  sp_verification_key :: string
  sp_signing_key :: string
  sp_revoked_at :: "u64 option"

record 'j new_permission_payload =
  np_expiry :: u64
  np_signer :: "'j permission_type_data"
  np_permissions :: "'j permission_type_data list"
  np_policies :: "'j permission_type_data list"

datatype permission_type = ContractCall | NativeTokenRecurringAllowance

definition permission_type_from_str :: "string \<Rightarrow> permission_type option" where
  "permission_type_from_str s =
    (if s = ''contract-call'' then Some ContractCall
     else if s = ''native-token-recurring-allowance'' then Some NativeTokenRecurringAllowance
     else None)"

record native_token_allowance_data =
  na_allowance :: u256
  na_start :: u64
  na_period :: u64

section \<open>Requests\<close>

text \<open>The environment of a request: the access check of the project, the address decoders, the store client
  if it is configured, the serialization of items, and the clock.\<close>

record ('h, 's, 'n, 'b, 'j) session_env =
  se_access :: "string \<Rightarrow> (rpc_error, unit) result"
  se_h160 :: "string \<Rightarrow> 'h option"
  se_b58 :: "string \<Rightarrow> bytes option"
  se_irn :: "('s, 'n, 'b) irn_client option"
  se_enc :: "'j storage_permissions_item \<Rightarrow> 'b"
  se_dec :: "'b \<Rightarrow> (string, 'j storage_permissions_item) result"
  se_now :: u64

definition check_session_request ::
  "('h, 's, 'n, 'b, 'j) session_env \<Rightarrow> string \<Rightarrow> string \<Rightarrow> (rpc_error, ('s, 'n, 'b) irn_client) result" where
  "check_session_request E project_id address =
    bind_res (se_access E project_id) (\<lambda>_.
    bind_res (ok_or RE_IrnNotConfigured (se_irn E)) (\<lambda>irn.
    bind_res (map_err RE_CryptoUtilsError (disassemble_caip10 (se_h160 E) (se_b58 E) address)) (\<lambda>_. Inr irn)))"

definition get_item ::
  "('h, 's, 'n, 'b, 'j) session_env \<Rightarrow> ('s, 'n, 'b) irn_client \<Rightarrow> string \<Rightarrow> string \<Rightarrow> 's
    \<Rightarrow> (rpc_error, 'j storage_permissions_item) result" where
  "get_item E irn address pci st =
    bind_res (map_err RE_StorageError (irn_hget irn st address pci)) (\<lambda>found.
    bind_res (ok_or (RE_PermissionNotFound address pci) found) (\<lambda>b.
      map_err RE_SerdeJson (se_dec E b)))"

definition put_item ::
  "('h, 's, 'n, 'b, 'j) session_env \<Rightarrow> ('s, 'n, 'b) irn_client \<Rightarrow> string \<Rightarrow> string \<Rightarrow> 'j storage_permissions_item \<Rightarrow> 's
    \<Rightarrow> (rpc_error, 's) result" where
  "put_item E irn address pci item st =
    map_err RE_StorageError (irn_hset irn st address pci (se_enc E item))"

section \<open>Handlers\<close>

text \<open>\<open>pci\<close> is the new identifier, \<open>public_hex\<close> and \<open>private_hex\<close> the new key pair in hexadecimal.  The result
  is the identifier and the public key in the form of the API version.\<close>

definition session_create ::
  "('h, 's, 'n, 'b, 'j) session_env \<Rightarrow> string \<Rightarrow> nat option \<Rightarrow> string \<Rightarrow> 'j new_permission_payload
    \<Rightarrow> string \<Rightarrow> string \<Rightarrow> string \<Rightarrow> 's \<Rightarrow> (rpc_error, (string \<times> string) \<times> 's) result" where
  "session_create E project_id api_version address payload pci public_hex private_hex st =
    bind_res (check_session_request E project_id address) (\<lambda>irn.
    bind_res (put_item E irn address pci \<lparr> sp_pci = pci, sp_expiry = np_expiry payload, sp_created_at = se_now E,
        sp_project_id = project_id, sp_signer = np_signer payload, sp_permissions = np_permissions payload,
        sp_policies = np_policies payload, sp_context = None, sp_verification_key = public_hex,
        sp_signing_key = private_hex, sp_revoked_at = None \<rparr> st) (\<lambda>st'.
      Inr ((pci, if api_version = Some 2 then ''0x'' @ public_hex
                 else ''0x'' @ hex_encode (string_bytes public_hex)), st')))"

definition session_context_update ::
  "('h, 's, 'n, 'b, 'j) session_env \<Rightarrow> string \<Rightarrow> string \<Rightarrow> string \<Rightarrow> bytes \<Rightarrow> 's \<Rightarrow> (rpc_error, 's) result" where
  "session_context_update E project_id address pci ctx st =
    bind_res (check_session_request E project_id address) (\<lambda>irn.
    bind_res (get_item E irn address pci st) (\<lambda>item.
      put_item E irn address pci (item \<lparr> sp_context := Some ctx \<rparr>) st))"

definition session_revoke ::
  "('h, 's, 'n, 'b, 'j) session_env \<Rightarrow> string \<Rightarrow> string \<Rightarrow> string \<Rightarrow> 's \<Rightarrow> (rpc_error, 's) result" where
  "session_revoke E project_id address pci st =
    bind_res (check_session_request E project_id address) (\<lambda>irn.
    bind_res (get_item E irn address pci st) (\<lambda>item.
      if sp_revoked_at item \<noteq> None then Inl (RE_RevokedPermission pci)
      else put_item E irn address pci (item \<lparr> sp_revoked_at := Some (se_now E) \<rparr>) st))"

text \<open>The errors of \<open>get_session_context\<close> distinguish a missing permission from internal failures.\<close>

definition session_get ::
  "('h, 's, 'n, 'b, 'j) session_env \<Rightarrow> string \<Rightarrow> string \<Rightarrow> string \<Rightarrow> 's \<Rightarrow> (rpc_error, bytes option) result" where
  "session_get E project_id address pci st =
    bind_res (check_session_request E project_id address) (\<lambda>irn.
    bind_res (map_err (\<lambda>e. RE_InternalGetSessionContextError (GSC_Storage e)) (irn_hget irn st address pci)) (\<lambda>found.
    bind_res (ok_or (RE_PermissionNotFound address pci) found) (\<lambda>b.
    bind_res (map_err (\<lambda>e. RE_InternalGetSessionContextError (GSC_Deserializing e)) (se_dec E b)) (\<lambda>item.
      Inr (sp_context item)))))"

definition MAX_PCIS_COUNT :: nat where "MAX_PCIS_COUNT = 255"

record 'j pci_entry =
  pe_project_id :: string
  pe_project_name :: string
  pe_pci :: string
  pe_expiry :: u64
  pe_created_at :: u64
  pe_permissions :: "'j permission_type_data list"
  pe_policies :: "'j permission_type_data list"
  pe_context :: "bytes option"
  pe_revoked_at :: "u64 option"

fun list_entries ::
  "('h, 's, 'n, 'b, 'j) session_env \<Rightarrow> (string \<Rightarrow> (rpc_error, project_with_limits) result)
    \<Rightarrow> (string \<times> 'b) list \<Rightarrow> (rpc_error, 'j pci_entry list) result" where
  "list_entries E project [] = Inr []"
| "list_entries E project ((_, entity) # rest) =
    bind_res (map_err RE_SerdeJson (se_dec E entity)) (\<lambda>item.
    bind_res (project (sp_project_id item)) (\<lambda>p.
    bind_res (list_entries E project rest) (\<lambda>entries.
      Inr (\<lparr> pe_project_id = sp_project_id item, pe_project_name = pd_name (pwl_data p), pe_pci = sp_pci item,
         pe_expiry = sp_expiry item, pe_created_at = sp_created_at item, pe_permissions = sp_permissions item,
         pe_policies = sp_policies item, pe_context = sp_context item, pe_revoked_at = sp_revoked_at item \<rparr>
        # entries))))"

definition session_list ::
  "('h, 's, 'n, 'b, 'j) session_env \<Rightarrow> (string \<Rightarrow> (rpc_error, project_with_limits) result) \<Rightarrow> string \<Rightarrow> string \<Rightarrow> 's
    \<Rightarrow> (rpc_error, 'j pci_entry list) result" where
  "session_list E project project_id address st =
    bind_res (check_session_request E project_id address) (\<lambda>irn.
    bind_res (map_err RE_StorageError (irn_hscan irn st address MAX_PCIS_COUNT None)) (\<lambda>(pcis, _).
      list_entries E project pcis))"

section \<open>Execution batches\<close>

record execution_transaction =
  et_address :: bytes
  et_value :: u256
  et_call_data :: bytes

definition from_be_nat :: "bytes \<Rightarrow> nat" where
  "from_be_nat bs = fold (\<lambda>b acc. acc * 256 + unat b) bs 0"

definition from_be_bytes :: "bytes \<Rightarrow> 'a::len word" where
  "from_be_bytes bs = word_of_nat (from_be_nat bs)"

text \<open>\<open>decode_execute\<close> decodes \<open>executeCall\<close> into the 32 mode bytes and the execution calldata, \<open>decode_batch\<close> a
  list of transactions.  A single transaction is packed and taken apart here.\<close>

definition extract_execution_batch_components ::
  "(bytes \<Rightarrow> (string, bytes \<times> bytes) result) \<Rightarrow> (bytes \<Rightarrow> (string, (bytes \<times> u256 \<times> bytes) list) result)
    \<Rightarrow> bytes \<Rightarrow> (rpc_error, execution_transaction list) result" where
  "extract_execution_batch_components decode_execute decode_batch call_data =
    bind_res (map_err (\<lambda>e. RE_AbiDecodingError (''Failed to decode executeCall: '' @ e))
        (decode_execute call_data)) (\<lambda>(mode, execution_calldata).
      if hd mode \<noteq> 0 then
        bind_res (map_err (\<lambda>e. RE_AbiDecodingError (''Failed to decode batch transactions ABI type: '' @ e))
            (decode_batch execution_calldata))
          (\<lambda>txs. Inr (map (\<lambda>(t, v, d). \<lparr> et_address = t, et_value = v, et_call_data = d \<rparr>) txs))
      else if length execution_calldata < 20 + 32 then
        Inl (RE_AbiDecodingError ''executionCalldata is too short for a single transaction'')
      else Inr [\<lparr> et_address = take 20 execution_calldata,
        et_value = from_be_bytes (take 32 (drop 20 execution_calldata)),
        et_call_data = drop 52 execution_calldata \<rparr>])"

definition extract_addresses_from_execution_batch :: "execution_transaction list \<Rightarrow> bytes list" where
  "extract_addresses_from_execution_batch batch = map et_address batch"

definition extract_contract_call_addresses_from_execution_batch ::
  "execution_transaction list \<Rightarrow> bytes list" where
  "extract_contract_call_addresses_from_execution_batch batch =
     map et_address (filter (\<lambda>tx. et_call_data tx \<noteq> []) batch)"

text \<open>The sum of the alloy integers wraps around.\<close>

definition extract_values_sum_from_execution_batch :: "execution_transaction list \<Rightarrow> u256" where
  "extract_values_sum_from_execution_batch batch = fold (\<lambda>x acc. acc + x) (map et_value batch) 0"

text \<open>\<open>show_address\<close> and \<open>show_u256\<close> print the values of an error message.\<close>

definition contract_call_permission_check ::
  "(bytes \<Rightarrow> string) \<Rightarrow> execution_transaction list \<Rightarrow> bytes \<Rightarrow> (rpc_error, unit) result" where
  "contract_call_permission_check show_address batch call_address =
    (case find (\<lambda>a. a \<noteq> call_address) (extract_addresses_from_execution_batch batch) of
       Some a \<Rightarrow> Inl (RE_CosignerPermissionDenied
         (''Execution address does not match the contract address in the permission data. Execution Address: ''
           @ show_address a @ '', Contract Address: '' @ show_address call_address))
     | None \<Rightarrow> Inr ())"

definition native_token_transfer_permission_check ::
  "(u256 \<Rightarrow> string) \<Rightarrow> execution_transaction list \<Rightarrow> native_token_allowance_data \<Rightarrow> (rpc_error, unit) result" where
  "native_token_transfer_permission_check show_u256 batch data =
    (let allowance = na_allowance data; sum = extract_values_sum_from_execution_batch batch in
     if allowance < sum then
       Inl (RE_CosignerPermissionDenied (''Execution value is greater than the allowance. Execution Value: ''
         @ show_u256 sum @ '', Allowance: '' @ show_u256 allowance))
     else Inr ())"

section \<open>Co-signing\<close>

definition OWNABLE_VALIDATOR_ADDRESS :: bytes where
  "OWNABLE_VALIDATOR_ADDRESS = [0x24, 0x83, 0xda, 0x3a, 0x33, 0x88, 0x95, 0x19, 0x9e, 0x5e, 0x53, 0x85, 0x30,
     0x21, 0x31, 0x57, 0xe9, 0x31, 0xbf, 0x06]"

definition is_ownable_validator_address :: "bytes \<Rightarrow> bool" where
  "is_ownable_validator_address address = (address = OWNABLE_VALIDATOR_ADDRESS)"

record permission_verdict =
  vd_allowed_targets :: "bytes list"
  vd_any_contract_call :: bool
  vd_any_allowance :: bool
  vd_allowed_by_allowance :: bool

text \<open>The third-party functions of the co-signer: the data of both permission types, the ABI decoders, the user
  operation hash of the entry point contract, the signer, the ABI encoding of two byte arrays, and the
  texts of values in error messages.\<close>

record 'j cosign_env =
  ce_contract :: "'j \<Rightarrow> (string, bytes) result"
  ce_allowance :: "'j \<Rightarrow> (string, native_token_allowance_data) result"
  ce_execute :: "bytes \<Rightarrow> (string, bytes \<times> bytes) result"
  ce_batch :: "bytes \<Rightarrow> (string, (bytes \<times> u256 \<times> bytes) list) result"
  ce_testing_project :: "string option"
  ce_user_op_hash :: "string \<Rightarrow> string \<Rightarrow> user_operation \<Rightarrow> (crypto_utils_error, bytes) result"
  ce_sign :: "bytes \<Rightarrow> bytes \<Rightarrow> (rpc_error, eth_signature) result"
  ce_abi_encode :: "bytes \<Rightarrow> bytes \<Rightarrow> bytes"
  ce_show_address :: "bytes \<Rightarrow> string"
  ce_show_u256 :: "u256 \<Rightarrow> string"
  ce_hex_error :: "string \<Rightarrow> string"

fun evaluate_permissions ::
  "'j cosign_env \<Rightarrow> execution_transaction list \<Rightarrow> 'j permission_type_data list \<Rightarrow> permission_verdict
    \<Rightarrow> (rpc_error, permission_verdict) result" where
  "evaluate_permissions C batch [] v = Inr v"
| "evaluate_permissions C batch (p # ps) v = (case permission_type_from_str (pt_type p) of
      Some ContractCall \<Rightarrow>
        bind_res (map_err RE_SerdeJson (ce_contract C (pt_data p))) (\<lambda>address.
          evaluate_permissions C batch ps (v \<lparr> vd_allowed_targets := address # vd_allowed_targets v,
            vd_any_contract_call := True \<rparr>))
    | Some NativeTokenRecurringAllowance \<Rightarrow>
        bind_res (map_err RE_SerdeJson (ce_allowance C (pt_data p))) (\<lambda>data.
          evaluate_permissions C batch ps (v \<lparr> vd_any_allowance := True,
            vd_allowed_by_allowance := (vd_allowed_by_allowance v
              \<or> is_ok (native_token_transfer_permission_check (ce_show_u256 C) batch data)) \<rparr>))
    | None \<Rightarrow> Inl (RE_CosignerUnsupportedPermission (pt_type p)))"

definition no_verdict :: permission_verdict where
  "no_verdict = \<lparr> vd_allowed_targets = [], vd_any_contract_call = False, vd_any_allowance = False,
     vd_allowed_by_allowance = False \<rparr>"

definition check_verdict ::
  "'j cosign_env \<Rightarrow> execution_transaction list \<Rightarrow> permission_verdict \<Rightarrow> (rpc_error, unit) result" where
  "check_verdict C batch v =
    bind_res
      (if vd_any_contract_call v then
         (case find (\<lambda>a. a \<notin> set (vd_allowed_targets v))
             (extract_contract_call_addresses_from_execution_batch batch) of
            Some a \<Rightarrow> Inl (RE_CosignerPermissionDenied
              (''Execution address '' @ ce_show_address C a @ '' is not in allowed contracts''))
          | None \<Rightarrow> Inr ())
       else Inr ())
      (\<lambda>_. if vd_any_allowance v \<and> \<not> vd_allowed_by_allowance v
           then Inl (RE_CosignerPermissionDenied ''Execution value exceeds all configured allowances'')
           else Inr ())"

text \<open>The checks of a stored item against the call of the user operation; the result is the context.\<close>

definition authorize_item ::
  "'j cosign_env \<Rightarrow> u64 \<Rightarrow> string \<Rightarrow> bytes \<Rightarrow> 'j storage_permissions_item
    \<Rightarrow> (rpc_error, bytes) result" where
  "authorize_item C now pci call_data item =
    (if sp_revoked_at item \<noteq> None then Inl (RE_RevokedPermission pci)
     else if sp_expiry item < now then Inl (RE_PermissionExpired pci)
     else bind_res (extract_execution_batch_components (ce_execute C) (ce_batch C) call_data) (\<lambda>batch.
       if sp_permissions item = [] then Inl RE_CoSignerEmptyPermissions
       else bind_res (evaluate_permissions C batch (sp_permissions item) no_verdict) (\<lambda>v.
         bind_res (check_verdict C batch v) (\<lambda>_.
           ok_or (RE_PermissionContextNotUpdated pci) (sp_context item)))))"

definition sign_user_op ::
  "'j cosign_env \<Rightarrow> string \<Rightarrow> bytes \<Rightarrow> user_operation \<Rightarrow> bytes \<Rightarrow> string \<Rightarrow> (rpc_error, bytes) result" where
  "sign_user_op C pci user_op_hash user_op ctx signing_key =
    bind_res (ok_or (RE_WrongHexFormat (ce_hex_error C signing_key)) (hex_decode signing_key)) (\<lambda>key.
    bind_res (ce_sign C key (to_eip191_message user_op_hash)) (\<lambda>signature.
      if length ctx < 20 then Inl (RE_PermissionContextNotUpdated pci)
      else Inr (if is_ownable_validator_address (take 20 ctx)
        then uo_signature user_op @ pack_signature signature
        else ce_abi_encode C (pack_signature signature) (uo_signature user_op))))"

definition cosign ::
  "('h, 's, 'n, 'b, 'j) session_env \<Rightarrow> 'j cosign_env \<Rightarrow> string \<Rightarrow> string \<Rightarrow> string
    \<Rightarrow> user_operation \<Rightarrow> 's \<Rightarrow> (rpc_error, string) result" where
  "cosign E C project_id caip10_address pci user_op st =
    bind_res (se_access E project_id) (\<lambda>_.
    bind_res (map_err RE_CryptoUtilsError (disassemble_caip10 (se_h160 E) (se_b58 E) caip10_address))
      (\<lambda>(namespace, chain_id, address).
      if namespace \<noteq> Eip155 then Inl (RE_UnsupportedNamespace namespace)
      else if \<not> is_address_valid_impl (se_h160 E) (se_b58 E) address namespace then Inl RE_InvalidAddress
      else bind_res (ok_or (RE_InvalidChainIdFormat chain_id) (parse_u64 chain_id)) (\<lambda>chain.
        if \<not> is_supported chain then Inl (RE_UnsupportedChain chain_id)
        else bind_res (ok_or (RE_InvalidConfiguration
            ''Missing testing project id in the configuration for the cosigner RPC calls'')
            (ce_testing_project C)) (\<lambda>rpc_project_id.
        bind_res (map_err RE_CryptoUtilsError
            (ce_user_op_hash C rpc_project_id (namespace_display namespace @ '':'' @ chain_id) user_op))
          (\<lambda>user_op_hash.
        bind_res (ok_or RE_IrnNotConfigured (se_irn E)) (\<lambda>irn.
        bind_res (get_item E irn caip10_address pci st) (\<lambda>item.
        bind_res (authorize_item C (se_now E) pci (uo_call_data user_op) item) (\<lambda>ctx.
        bind_res (sign_user_op C pci user_op_hash user_op ctx (sp_signing_key item)) (\<lambda>signature.
          Inr (''0x'' @ hex_encode signature))))))))))"

section \<open>Lemmas\<close>

subsection \<open>Packed executions\<close>

lemma from_be_nat_append: "from_be_nat (xs @ [b]) = from_be_nat xs * 256 + unat b"
  by (simp add: from_be_nat_def)

lemma fold_be: "fold (\<lambda>b acc. acc * 256 + unat b) bs a = a * 256 ^ length bs + from_be_nat bs" for bs :: bytes
proof (induction bs rule: rev_induct)
  case (snoc b bs)
  then show ?case by (simp add: from_be_nat_append algebra_simps)
qed (simp add: from_be_nat_def)

lemma from_be_nat_Cons: "from_be_nat (b # bs) = unat b * 256 ^ length bs + from_be_nat bs"
  using fold_be [of bs "unat b"] by (simp add: from_be_nat_def)

lemma unat_byte: "unat (ucast (drop_bit (8 * n) w) :: u8) = unat w div 256 ^ n mod 256"
proof -
  have "unat (ucast (drop_bit (8 * n) w) :: u8) = unat (drop_bit (8 * n) w) mod 256"
    by (simp add: unsigned_ucast_eq unsigned_take_bit_eq take_bit_eq_mod)
  also have "unat (drop_bit (8 * n) w) = drop_bit (8 * n) (unat w)" by (rule unat_drop_bit_eq)
  also have "drop_bit (8 * n) (unat w) = unat w div 256 ^ n" by (simp add: drop_bit_eq_div power_mult)
  finally show ?thesis .
qed

lemma from_be_nat_to_be_bytes: "from_be_nat (to_be_bytes n w) = unat w mod 256 ^ n"
proof (induction n)
  case 0
  then show ?case by (simp add: from_be_nat_def)
next
  case (Suc n)
  have "unat w mod 256 ^ Suc n = 256 ^ n * (unat w div 256 ^ n mod 256) + unat w mod 256 ^ n"
    by (subst power_Suc2) (rule mod_mult2_eq)
  then show ?case using Suc by (simp add: from_be_nat_Cons unat_byte del: power_Suc)
qed

lemma from_be_bytes_to_be_bytes: "from_be_bytes (to_be_bytes 32 w) = (w :: u256)"
proof -
  have "unat w < 256 ^ 32" using unsigned_less [of w, where ?'a = nat] by simp
  then show ?thesis by (simp add: from_be_bytes_def from_be_nat_to_be_bytes)
qed

subsection \<open>Values and permissions\<close>

lemma unat_sum_mod:
  "unat (fold (\<lambda>x acc. acc + x) vs (a :: u256)) = (unat a + sum_list (map unat vs)) mod 2 ^ 256"
proof (induction vs arbitrary: a)
  case Nil
  then show ?case using unsigned_less [of a, where ?'a = nat] by simp
next
  case (Cons v vs)
  have "unat (a + v) = (unat a + unat v) mod 2 ^ 256" by (simp add: unat_word_ariths)
  then show ?case using Cons.IH [of "a + v"] by (simp add: mod_add_left_eq add.assoc)
qed

lemma unat_values_sum:
  "unat (extract_values_sum_from_execution_batch batch) = sum_list (map (\<lambda>tx. unat (et_value tx)) batch) mod 2 ^ 256"
  using unat_sum_mod [of "map et_value batch" 0]
  by (simp add: extract_values_sum_from_execution_batch_def comp_def)

lemma native_check_iff:
  "native_token_transfer_permission_check sh batch data = Inr () \<longleftrightarrow>
    sum_list (map (\<lambda>tx. unat (et_value tx)) batch) mod 2 ^ 256 \<le> unat (na_allowance data)"
  by (simp add: native_token_transfer_permission_check_def Let_def unat_values_sum word_less_nat_alt not_less)

definition contract_targets :: "'j cosign_env \<Rightarrow> 'j permission_type_data list \<Rightarrow> bytes set" where
  "contract_targets C ps = {a. \<exists>p\<in>set ps. permission_type_from_str (pt_type p) = Some ContractCall
     \<and> ce_contract C (pt_data p) = Inr a}"

definition within_allowance :: "'j cosign_env \<Rightarrow> execution_transaction list \<Rightarrow> 'j permission_type_data list \<Rightarrow> bool" where
  "within_allowance C batch ps = (\<exists>p\<in>set ps. \<exists>d.
     permission_type_from_str (pt_type p) = Some NativeTokenRecurringAllowance
     \<and> ce_allowance C (pt_data p) = Inr d
     \<and> sum_list (map (\<lambda>tx. unat (et_value tx)) batch) mod 2 ^ 256 \<le> unat (na_allowance d))"

definition has_type :: "permission_type \<Rightarrow> 'j permission_type_data list \<Rightarrow> bool" where
  "has_type t ps = (\<exists>p\<in>set ps. permission_type_from_str (pt_type p) = Some t)"

lemma evaluate_permissions_result:
  "evaluate_permissions C batch ps v = Inr v' \<Longrightarrow>
    (\<forall>p\<in>set ps. permission_type_from_str (pt_type p) \<noteq> None)
    \<and> set (vd_allowed_targets v') = set (vd_allowed_targets v) \<union> contract_targets C ps
    \<and> (vd_any_contract_call v' \<longleftrightarrow> vd_any_contract_call v \<or> has_type ContractCall ps)
    \<and> (vd_any_allowance v' \<longleftrightarrow> vd_any_allowance v \<or> has_type NativeTokenRecurringAllowance ps)
    \<and> (vd_allowed_by_allowance v' \<longleftrightarrow> vd_allowed_by_allowance v \<or> within_allowance C batch ps)"
proof (induction ps arbitrary: v)
  case Nil
  then show ?case by (simp add: contract_targets_def has_type_def within_allowance_def)
next
  case (Cons p ps)
  show ?case
  proof (cases "permission_type_from_str (pt_type p)")
    case None
    then show ?thesis using Cons.prems by simp
  next
    case (Some t)
    show ?thesis
    proof (cases t)
      case ContractCall
      then obtain a where "ce_contract C (pt_data p) = Inr a"
        using Cons.prems Some by (auto simp: res_simps)
      then show ?thesis
        using Cons.IH Cons.prems Some ContractCall
        by (fastforce simp: contract_targets_def has_type_def within_allowance_def)
    next
      case NativeTokenRecurringAllowance
      then obtain d where "ce_allowance C (pt_data p) = Inr d"
        using Cons.prems Some by (auto simp: res_simps)
      then show ?thesis
        using Cons.IH Cons.prems Some NativeTokenRecurringAllowance
        by (fastforce simp: contract_targets_def has_type_def within_allowance_def res_simps native_check_iff)
    qed
  qed
qed

lemma check_verdict_ok:
  "check_verdict C batch v = Inr u \<longleftrightarrow>
    (vd_any_contract_call v \<longrightarrow> (\<forall>tx\<in>set batch. et_call_data tx \<noteq> [] \<longrightarrow> et_address tx \<in> set (vd_allowed_targets v)))
    \<and> (vd_any_allowance v \<longrightarrow> vd_allowed_by_allowance v)"
  by (auto simp: check_verdict_def res_simps extract_contract_call_addresses_from_execution_batch_def
      find_None_iff split: option.splits dest!: find_SomeD)

lemma authorize_item_ok:
  assumes "authorize_item C now pci call_data item = Inr ctx"
  shows "\<exists>batch. sp_revoked_at item = None \<and> now \<le> sp_expiry item \<and> sp_context item = Some ctx
    \<and> extract_execution_batch_components (ce_execute C) (ce_batch C) call_data = Inr batch
    \<and> sp_permissions item \<noteq> [] \<and> (\<forall>p\<in>set (sp_permissions item). permission_type_from_str (pt_type p) \<noteq> None)
    \<and> (has_type ContractCall (sp_permissions item) \<longrightarrow>
        (\<forall>tx\<in>set batch. et_call_data tx \<noteq> [] \<longrightarrow> et_address tx \<in> contract_targets C (sp_permissions item)))
    \<and> (has_type NativeTokenRecurringAllowance (sp_permissions item) \<longrightarrow>
        within_allowance C batch (sp_permissions item))"
proof -
  obtain batch v where b: "sp_revoked_at item = None" "\<not> sp_expiry item < now"
    "extract_execution_batch_components (ce_execute C) (ce_batch C) call_data = Inr batch"
    "sp_permissions item \<noteq> []" "evaluate_permissions C batch (sp_permissions item) no_verdict = Inr v"
    "check_verdict C batch v = Inr ()" "sp_context item = Some ctx"
    using assms by (auto simp: authorize_item_def res_simps split: if_splits)
  from evaluate_permissions_result [OF b(5)] b(6) show ?thesis
    using b by (intro exI [of _ batch]) (auto simp: check_verdict_ok no_verdict_def)
qed

lemma cosign_ok:
  assumes "cosign E C project_id address pci op st = Inr s"
  shows "\<exists>irn item ctx. se_access E project_id = Inr () \<and> se_irn E = Some irn
    \<and> get_item E irn address pci st = Inr item
    \<and> authorize_item C (se_now E) pci (uo_call_data op) item = Inr ctx \<and> 20 \<le> length ctx"
  using assms
  by (auto simp: cosign_def res_simps sign_user_op_def not_less split: if_splits prod.splits)

section \<open>The store of permissions\<close>

text \<open>What the handlers rely on: the laws of the replication client, and that an item survives its
  serialization.\<close>

definition stored_item ::
  "('s, 'n, 'b) irn_client \<Rightarrow> ('b \<Rightarrow> (string, 'i) result) \<Rightarrow> 's \<Rightarrow> string \<Rightarrow> string \<Rightarrow> 'i option" where
  "stored_item irn dec st k f = (case irn_hget irn st k f of
      Inr (Some b) \<Rightarrow> (case dec b of Inr i \<Rightarrow> Some i | Inl _ \<Rightarrow> None)
    | _ \<Rightarrow> None)"

locale permission_store = wcn_laws I
  for I :: "('s, 'n, 'b) irn_client" +
  fixes enc :: "'i \<Rightarrow> 'b"
    and dec :: "'b \<Rightarrow> (string, 'i) result"
  assumes dec_enc: "dec (enc i) = Inr i"
begin

lemma hget_hset_field: "irn_hset I st k f v = Inr st' \<Longrightarrow>
    irn_hget I st' k' f' = (if k' = k \<and> f' = f then Inr (Some v) else irn_hget I st k' f')"
  using fields.get_put [of st "(k, f)" v st' "(k', f')"] by simp

lemma stored_put:
  "irn_hset I st k f (enc i) = Inr st' \<Longrightarrow>
    stored_item I dec st' k' f' = (if k' = k \<and> f' = f then Some i else stored_item I dec st k' f')"
  by (simp add: stored_item_def hget_hset_field dec_enc)

end

interpretation map_store: permission_store "map_irn n" "\<lambda>i. i" "\<lambda>i. Inr i" for n
  by unfold_locales simp

lemma get_item_stored:
  "get_item E irn k f st = Inr item \<longleftrightarrow> stored_item irn (se_dec E) st k f = Some item"
  by (auto simp: get_item_def stored_item_def res_simps split: sum.splits option.splits)

text \<open>The requests of the service on one store, at any times and for any projects.\<close>

definition uses_store ::
  "('s, 'n, 'b) irn_client \<Rightarrow> ('j storage_permissions_item \<Rightarrow> 'b) \<Rightarrow> ('b \<Rightarrow> (string, 'j storage_permissions_item) result)
    \<Rightarrow> ('h, 's, 'n, 'b, 'j) session_env \<Rightarrow> bool" where
  "uses_store irn enc dec E = (se_irn E = Some irn \<and> se_enc E = enc \<and> se_dec E = dec)"

inductive session_step ::
  "('s, 'n, 'b) irn_client \<Rightarrow> ('j storage_permissions_item \<Rightarrow> 'b) \<Rightarrow> ('b \<Rightarrow> (string, 'j storage_permissions_item) result)
    \<Rightarrow> 'h itself \<Rightarrow> 's \<Rightarrow> 's \<Rightarrow> bool"
  for irn enc dec and T :: "'h itself" where
  Create: "uses_store irn enc dec (E :: ('h, 's, 'n, 'b, 'j) session_env) \<Longrightarrow> stored_item irn dec st address pci = None \<Longrightarrow>
    session_create E project v address payload pci pub priv st = Inr (r, st') \<Longrightarrow>
    session_step irn enc dec T st st'"
| Update: "uses_store irn enc dec (E :: ('h, 's, 'n, 'b, 'j) session_env) \<Longrightarrow>
    session_context_update E project address pci ctx st = Inr st' \<Longrightarrow> session_step irn enc dec T st st'"
| Revoke: "uses_store irn enc dec (E :: ('h, 's, 'n, 'b, 'j) session_env) \<Longrightarrow>
    session_revoke E project address pci st = Inr st' \<Longrightarrow> session_step irn enc dec T st st'"

text \<open>What never changes in a stored item, and the way its other fields change.\<close>

definition item_evolves :: "'j storage_permissions_item \<Rightarrow> 'j storage_permissions_item \<Rightarrow> bool" where
  "item_evolves i i' = (sp_pci i' = sp_pci i \<and> sp_expiry i' = sp_expiry i \<and> sp_created_at i' = sp_created_at i
     \<and> sp_project_id i' = sp_project_id i \<and> sp_permissions i' = sp_permissions i
     \<and> sp_signing_key i' = sp_signing_key i \<and> sp_verification_key i' = sp_verification_key i
     \<and> (sp_context i \<noteq> None \<longrightarrow> sp_context i' \<noteq> None)
     \<and> (sp_revoked_at i \<noteq> None \<longrightarrow> sp_revoked_at i' = sp_revoked_at i))"

lemma session_step_put:
  assumes "session_step irn enc dec T st st'"
  shows "\<exists>k f i. irn_hset irn st k f (enc i) = Inr st'
    \<and> (\<forall>old. stored_item irn dec st k f = Some old \<longrightarrow> item_evolves old i)"
  using assms
proof cases
  case (Create E address pci project v payload pub priv r)
  then obtain i where "irn_hset irn st address pci (enc i) = Inr st'"
    by (auto simp: session_create_def uses_store_def check_session_request_def put_item_def res_simps)
  then show ?thesis
    using Create(2) by (intro exI [of _ address] exI [of _ pci] exI [of _ i]) simp
next
  case (Update E project address pci ctx)
  then obtain i where "stored_item irn dec st address pci = Some i"
    "irn_hset irn st address pci (enc (i \<lparr> sp_context := Some ctx \<rparr>)) = Inr st'"
    by (auto simp: session_context_update_def uses_store_def check_session_request_def put_item_def res_simps
        get_item_stored)
  then show ?thesis
    by (intro exI [of _ address] exI [of _ pci] exI [of _ "i \<lparr> sp_context := Some ctx \<rparr>"])
      (simp add: item_evolves_def)
next
  case (Revoke E project address pci)
  then obtain i where "stored_item irn dec st address pci = Some i" "sp_revoked_at i = None"
    "irn_hset irn st address pci (enc (i \<lparr> sp_revoked_at := Some (se_now E) \<rparr>)) = Inr st'"
    by (auto simp: session_revoke_def uses_store_def check_session_request_def put_item_def res_simps
        get_item_stored split: if_splits)
  then show ?thesis
    by (intro exI [of _ address] exI [of _ pci] exI [of _ "i \<lparr> sp_revoked_at := Some (se_now E) \<rparr>"])
      (simp add: item_evolves_def)
qed

lemma item_evolves_refl: "item_evolves i i"
  by (simp add: item_evolves_def)

lemma item_evolves_trans: "item_evolves a b \<Longrightarrow> item_evolves b c \<Longrightarrow> item_evolves a c"
  by (auto simp: item_evolves_def)

lemma session_step_evolves:
  assumes "permission_store irn enc dec" "session_step irn enc dec T st st'"
    "stored_item irn dec st k f = Some i"
  shows "\<exists>i'. stored_item irn dec st' k f = Some i' \<and> item_evolves i i'"
proof -
  obtain k' f' j where j: "irn_hset irn st k' f' (enc j) = Inr st'"
    "\<forall>old. stored_item irn dec st k' f' = Some old \<longrightarrow> item_evolves old j"
    using session_step_put [OF assms(2)] by blast
  from permission_store.stored_put [OF assms(1) j(1), of k f] show ?thesis
    using j(2) assms(3) by (auto simp: item_evolves_refl)
qed

lemma session_steps_evolve:
  assumes "permission_store irn enc dec" "(session_step irn enc dec T)\<^sup>*\<^sup>* st st'"
    "stored_item irn dec st k f = Some i"
  shows "\<exists>i'. stored_item irn dec st' k f = Some i' \<and> item_evolves i i'"
  using assms(2)
proof (induction rule: rtranclp_induct)
  case base
  then show ?case using assms(3) item_evolves_refl by auto
next
  case (step y z)
  then show ?case using session_step_evolves [OF assms(1) step(2)] item_evolves_trans by blast
qed

section \<open>A small service\<close>

text \<open>A store with one item, of which a contract call permission and an allowance of ten allow the call.\<close>

definition demo_item :: "bytes storage_permissions_item" where
  "demo_item = \<lparr> sp_pci = ''pci'', sp_expiry = 2000, sp_created_at = 500, sp_project_id = ''p'',
     sp_signer = \<lparr> pt_type = ''key'', pt_data = [] \<rparr>,
     sp_permissions = [\<lparr> pt_type = ''contract-call'', pt_data = replicate 20 7 \<rparr>,
       \<lparr> pt_type = ''native-token-recurring-allowance'', pt_data = [10] \<rparr>],
     sp_policies = [], sp_context = Some (replicate 20 1), sp_verification_key = ''aa'', sp_signing_key = ''0b'',
     sp_revoked_at = None \<rparr>"

definition demo_address :: string where
  "demo_address = ''eip155:1:0x0000000000000000000000000000000000000001''"

type_synonym demo_state = "(unit \<times> string \<Rightarrow> bytes storage_permissions_item option)
  \<times> (unit \<times> string \<times> string \<Rightarrow> bytes storage_permissions_item option)"

definition demo_store :: demo_state where
  "demo_store = (Map.empty, [((), demo_address, ''pci'') \<mapsto> demo_item])"

definition demo_revoked :: demo_state where
  "demo_revoked = (Map.empty, [((), demo_address, ''pci'') \<mapsto> demo_item \<lparr> sp_revoked_at := Some 7 \<rparr>])"

definition demo_env ::
  "(unit, demo_state, unit, bytes storage_permissions_item, bytes) session_env" where
  "demo_env = \<lparr> se_access = (\<lambda>_. Inr ()), se_h160 = (\<lambda>_. Some ()), se_b58 = (\<lambda>_. None), se_irn = Some (map_irn ()),
     se_enc = (\<lambda>i. i), se_dec = Inr, se_now = 1000 \<rparr>"

definition demo_cosign :: "bytes cosign_env" where
  "demo_cosign = \<lparr> ce_contract = Inr,
     ce_allowance = (\<lambda>d. Inr \<lparr> na_allowance = from_be_bytes d, na_start = 0, na_period = 0 \<rparr>),
     ce_execute = (\<lambda>d. Inr (replicate 32 0, d)), ce_batch = (\<lambda>_. Inl ''batch''), ce_testing_project = Some ''t'',
     ce_user_op_hash = (\<lambda>_ _ _. Inr (replicate 32 5)),
     ce_sign = (\<lambda>_ _. Inr \<lparr> sig_r = 1, sig_s = 2, sig_v = 27 \<rparr>), ce_abi_encode = (@),
     ce_show_address = (\<lambda>_. ''''), ce_show_u256 = (\<lambda>_. ''''), ce_hex_error = (\<lambda>_. '''') \<rparr>"

definition demo_op :: user_operation where
  "demo_op = \<lparr> uo_sender = replicate 20 1, uo_nonce = 0,
     uo_call_data = replicate 20 7 @ to_be_bytes 32 (10 :: u256) @ [1], uo_call_gas_limit = 0,
     uo_verification_gas_limit = 0, uo_pre_verification_gas = 0, uo_max_priority_fee_per_gas = 0,
     uo_max_fee_per_gas = 0, uo_signature = [9], uo_factory = None, uo_factory_data = None, uo_paymaster = None,
     uo_paymaster_verification_gas_limit = None, uo_paymaster_post_op_gas_limit = None,
     uo_paymaster_data = None \<rparr>"

lemma map_irn_puts: "\<exists>st'. put_item demo_env (map_irn ()) a k i st = Inr st'"
  by (cases st) (simp add: put_item_def irn_hset_def map_irn_def map_wcn_def demo_env_def)

lemma demo_disassemble:
  "disassemble_caip10 (\<lambda>_. Some ()) (\<lambda>_. None) demo_address
    = Inr (Eip155, ''1'', ''0x0000000000000000000000000000000000000001'')"
  by code_simp

lemma demo_chain: "is_supported 1" "parse_u64 ''1'' = Some 1"
  by (simp_all add: is_supported_def all_chains_def parse_u64_def parse_uint_def digit_val_def is_digit_def
      char_code_def)

lemma demo_valid:
  "is_address_valid_impl (\<lambda>_. Some ()) (\<lambda>_. None) ''0x0000000000000000000000000000000000000001'' Eip155"
  by code_simp

lemma demo_authorized:
  "authorize_item demo_cosign 1000 ''pci'' (uo_call_data demo_op) demo_item = Inr (replicate 20 1)"
proof -
  have "from_be_bytes [10] = (10 :: u256)" by (simp add: from_be_bytes_def from_be_nat_def)
  then show ?thesis
    by (simp add: authorize_item_def demo_item_def demo_op_def demo_cosign_def
        extract_execution_batch_components_def permission_type_from_str_def no_verdict_def check_verdict_def
        from_be_bytes_to_be_bytes native_token_transfer_permission_check_def
        extract_values_sum_from_execution_batch_def extract_contract_call_addresses_from_execution_batch_def)
qed

lemma demo_signed: "is_ok (sign_user_op demo_cosign ''pci'' h demo_op (replicate 20 1) ''0b'')"
proof -
  have "hex_decode ''0b'' = Some [11]" by code_simp
  then show ?thesis
    by (simp add: sign_user_op_def demo_cosign_def)
qed

lemma demo_cosign_signs: "is_ok (cosign demo_env demo_cosign ''p'' demo_address ''pci'' demo_op demo_store)"
proof -
  obtain s where "sign_user_op demo_cosign ''pci'' (replicate 32 5) demo_op (replicate 20 1) ''0b'' = Inr s"
    using demo_signed [of "replicate 32 5"] by (auto simp: is_ok_iff)
  moreover have "get_item demo_env (map_irn ()) demo_address ''pci'' demo_store = Inr demo_item"
    by (simp add: get_item_def irn_hget_def map_irn_def map_wcn_def demo_env_def demo_store_def)
  moreover have "sp_signing_key demo_item = ''0b''" by (simp add: demo_item_def)
  ultimately show ?thesis
    using demo_disassemble demo_chain demo_valid demo_authorized
    by (simp add: cosign_def demo_env_def demo_cosign_def)
qed

section \<open>Properties\<close>

text \<open>The packed encoding of a single execution (20 bytes of target, 32 bytes of value, the calldata) is
  taken apart exactly, whatever the calldata; a calldata shorter than 52 bytes is an ABI error, and a
  decoding error of the outer call is reported.\<close>

theorem single_execution_roundtrip:
  "(decode_execute cd = Inr (mode, et_address tx @ to_be_bytes 32 (et_value tx) @ et_call_data tx) \<longrightarrow>
      hd mode = 0 \<longrightarrow> length (et_address tx) = 20 \<longrightarrow>
      extract_execution_batch_components decode_execute decode_batch cd = Inr [tx])
   \<and> (decode_execute cd = Inr (mode, execution) \<longrightarrow> hd mode = 0 \<longrightarrow> length execution < 52 \<longrightarrow>
      extract_execution_batch_components decode_execute decode_batch cd
        = Inl (RE_AbiDecodingError ''executionCalldata is too short for a single transaction''))
   \<and> (decode_execute cd = Inl e \<longrightarrow>
      extract_execution_batch_components decode_execute decode_batch cd
        = Inl (RE_AbiDecodingError (''Failed to decode executeCall: '' @ e)))"
  by (auto simp: extract_execution_batch_components_def length_to_be_bytes from_be_bytes_to_be_bytes)

lemma single_execution_roundtrip_witness:
  "extract_execution_batch_components (\<lambda>d. Inr ([0], d)) (\<lambda>_. Inl [])
     (replicate 20 7 @ to_be_bytes 32 (5 :: u256) @ [1, 2])
   = Inr [\<lparr> et_address = replicate 20 7, et_value = 5, et_call_data = [1, 2] \<rparr>]"
  using single_execution_roundtrip [of "\<lambda>d. Inr ([0], d)"
      "replicate 20 7 @ to_be_bytes 32 (5 :: u256) @ [1, 2]" "[0]"
      "\<lparr> et_address = replicate 20 7, et_value = 5, et_call_data = [1, 2] \<rparr>" "\<lambda>_. Inl []" "[]" "[]"] by simp

text \<open>C1: a user operation is co-signed only under a stored permission item that is neither revoked nor
  expired, has an activated context and a non-empty list of known permissions; if one of them is a
  contract call permission, every call of the batch that carries data goes to a contract one of them
  names, and if one is an allowance, the sum of the values (modulo \<open>2 ^ 256\<close>) is within one of them.\<close>

theorem cosign_enforces_permissions:
  assumes "cosign E C project_id address pci op st = Inr s"
  shows "\<exists>irn item batch ctx. se_access E project_id = Inr () \<and> se_irn E = Some irn
    \<and> get_item E irn address pci st = Inr item
    \<and> sp_revoked_at item = None \<and> se_now E \<le> sp_expiry item
    \<and> sp_context item = Some ctx \<and> 20 \<le> length ctx
    \<and> extract_execution_batch_components (ce_execute C) (ce_batch C) (uo_call_data op) = Inr batch
    \<and> sp_permissions item \<noteq> [] \<and> (\<forall>p\<in>set (sp_permissions item). permission_type_from_str (pt_type p) \<noteq> None)
    \<and> (has_type ContractCall (sp_permissions item) \<longrightarrow>
        (\<forall>tx\<in>set batch. et_call_data tx \<noteq> [] \<longrightarrow> et_address tx \<in> contract_targets C (sp_permissions item)))
    \<and> (has_type NativeTokenRecurringAllowance (sp_permissions item) \<longrightarrow>
        within_allowance C batch (sp_permissions item))"
proof -
  obtain irn item ctx where c: "se_access E project_id = Inr ()" "se_irn E = Some irn"
    "get_item E irn address pci st = Inr item" "20 \<le> length ctx"
    and a: "authorize_item C (se_now E) pci (uo_call_data op) item = Inr ctx"
    using cosign_ok [OF assms] by blast
  from authorize_item_ok [OF a] obtain batch where
    "extract_execution_batch_components (ce_execute C) (ce_batch C) (uo_call_data op) = Inr batch"
    and "sp_revoked_at item = None \<and> se_now E \<le> sp_expiry item \<and> sp_context item = Some ctx
      \<and> sp_permissions item \<noteq> [] \<and> (\<forall>p\<in>set (sp_permissions item). permission_type_from_str (pt_type p) \<noteq> None)
      \<and> (has_type ContractCall (sp_permissions item) \<longrightarrow>
        (\<forall>tx\<in>set batch. et_call_data tx \<noteq> [] \<longrightarrow> et_address tx \<in> contract_targets C (sp_permissions item)))
      \<and> (has_type NativeTokenRecurringAllowance (sp_permissions item) \<longrightarrow>
        within_allowance C batch (sp_permissions item))" by blast
  with c show ?thesis
    by (intro exI [of _ irn] exI [of _ item] exI [of _ batch] exI [of _ ctx]) simp
qed

lemma cosign_enforces_permissions_witness:
  "\<exists>s. cosign demo_env demo_cosign ''p'' demo_address ''pci'' demo_op demo_store = Inr s
    \<and> (\<exists>irn item. get_item demo_env irn demo_address ''pci'' demo_store = Inr item
      \<and> sp_revoked_at item = None \<and> se_now demo_env \<le> sp_expiry item)"
proof -
  obtain s where s: "cosign demo_env demo_cosign ''p'' demo_address ''pci'' demo_op demo_store = Inr s"
    using demo_cosign_signs by (auto simp: is_ok_iff)
  obtain irn item where "get_item demo_env irn demo_address ''pci'' demo_store = Inr item
    \<and> sp_revoked_at item = None \<and> se_now demo_env \<le> sp_expiry item"
    using cosign_enforces_permissions [OF s] by (elim exE conjE) (rule that, intro conjI, assumption+)
  with s show ?thesis by (intro exI [of _ s]) (rule conjI, assumption, intro exI)
qed

text \<open>C28: the allowance check compares the sum of the values modulo \<open>2 ^ 256\<close> and nothing else: whatever the
  start and period of the allowance, a batch passes exactly if the wrapped sum is at most the
  allowance; so a batch whose values add up to \<open>2 ^ 256\<close> passes under an allowance of zero.\<close>

theorem allowance_check_wraps:
  "(native_token_transfer_permission_check sh batch data = Inr () \<longleftrightarrow>
      sum_list (map (\<lambda>tx. unat (et_value tx)) batch) mod 2 ^ 256 \<le> unat (na_allowance data))
   \<and> native_token_transfer_permission_check sh
       [\<lparr> et_address = a, et_value = - 1, et_call_data = d \<rparr>, \<lparr> et_address = b, et_value = 1, et_call_data = e \<rparr>]
       \<lparr> na_allowance = 0, na_start = t, na_period = p \<rparr> = Inr ()"
  unfolding native_check_iff by (simp add: unsigned_minus_1_eq_mask mask_eq_exp_minus_1)

text \<open>C6: revocation is final: in every store a permission item once revoked stays revoked at the same time
  through all later creations (under fresh identifiers), activations and revocations that run one after
  the other, keeps its permissions, expiry and keys, and can never again co-sign.\<close>

theorem revoked_session_never_signs:
  assumes "permission_store irn enc dec" "(session_step irn enc dec (TYPE('h)))\<^sup>*\<^sup>* st st'"
    and "stored_item irn dec st address pci = Some item" "sp_revoked_at item = Some t"
    and "uses_store irn enc dec (E :: ('h, 's, 'n, 'b, 'j) session_env)"
  shows "(\<exists>item'. stored_item irn dec st' address pci = Some item' \<and> sp_revoked_at item' = Some t
      \<and> sp_permissions item' = sp_permissions item \<and> sp_expiry item' = sp_expiry item
      \<and> sp_signing_key item' = sp_signing_key item)
    \<and> cosign E C project_id address pci op st' \<noteq> Inr s
    \<and> session_revoke E project_id address pci st' \<noteq> Inr st2"
proof -
  obtain item' where i: "stored_item irn dec st' address pci = Some item'" "item_evolves item item'"
    using session_steps_evolve [OF assms(1,2,3)] by blast
  then have r: "sp_revoked_at item' = Some t" using assms(4) by (auto simp: item_evolves_def)
  have get: "get_item E irn address pci st' = Inr item'"
    using i(1) assms(5) by (simp add: get_item_stored uses_store_def)
  have "cosign E C project_id address pci op st' \<noteq> Inr s"
  proof
    assume "cosign E C project_id address pci op st' = Inr s"
    from cosign_ok [OF this] get r assms(5) show False
      by (auto simp: uses_store_def dest!: authorize_item_ok)
  qed
  moreover have "session_revoke E project_id address pci st' \<noteq> Inr st2"
    using get r assms(5) by (auto simp: session_revoke_def res_simps check_session_request_def uses_store_def)
  ultimately show ?thesis using i r by (auto simp: item_evolves_def)
qed

lemma revoked_session_never_signs_witness:
  "\<not> is_ok (cosign demo_env demo_cosign ''p'' demo_address ''pci'' demo_op demo_revoked)"
proof -
  have st: "stored_item (map_irn ()) Inr demo_revoked demo_address ''pci''
      = Some (demo_item \<lparr> sp_revoked_at := Some 7 \<rparr>)"
    by (simp add: stored_item_def demo_revoked_def irn_hget_def map_irn_def map_wcn_def)
  have env: "uses_store (map_irn ()) (\<lambda>i. i) Inr demo_env" by (simp add: uses_store_def demo_env_def)
  show ?thesis
    using revoked_session_never_signs [OF map_store.permission_store_axioms rtranclp.rtrancl_refl st _ env]
    by (simp add: is_ok_iff)
qed

text \<open>The activation of a permission reads the item and later writes it back whole, so a revocation
  that completes in between is undone: the item the activation stores is not revoked, with the permissions
  and the key it had, and revoking it again succeeds.\<close>

theorem interleaved_activation_undoes_revocation:
  assumes "permission_store irn enc dec" "uses_store irn enc dec (E :: ('h, 's, 'n, 'b, 'j) session_env)"
    and "get_item E irn address pci st = Inr item"
    and "session_revoke E project address pci st = Inr st1"
    and "put_item E irn address pci (item \<lparr> sp_context := Some ctx \<rparr>) st1 = Inr st2"
  shows "get_item E irn address pci st2 = Inr (item \<lparr> sp_context := Some ctx \<rparr>)
    \<and> sp_revoked_at item = None
    \<and> (\<exists>t item1. get_item E irn address pci st1 = Inr item1 \<and> sp_revoked_at item1 = Some t)"
proof -
  note env = assms(2) [unfolded uses_store_def]
  have "irn_hset irn st1 address pci (enc (item \<lparr> sp_context := Some ctx \<rparr>)) = Inr st2"
    using assms(5) env by (auto simp: put_item_def res_simps)
  from permission_store.stored_put [OF assms(1) this, of address pci]
  have final: "get_item E irn address pci st2 = Inr (item \<lparr> sp_context := Some ctx \<rparr>)"
    using env by (simp add: get_item_stored)
  have rev: "sp_revoked_at item = None"
    "irn_hset irn st address pci (enc (item \<lparr> sp_revoked_at := Some (se_now E) \<rparr>)) = Inr st1"
    using assms(3,4) env
    by (auto simp: session_revoke_def check_session_request_def put_item_def res_simps split: if_splits)
  from permission_store.stored_put [OF assms(1) rev(2), of address pci]
  have "get_item E irn address pci st1 = Inr (item \<lparr> sp_revoked_at := Some (se_now E) \<rparr>)"
    using env by (simp add: get_item_stored)
  with final rev(1) show ?thesis by auto
qed

lemma interleaved_activation_undoes_revocation_witness:
  "\<exists>st1 st2. session_revoke demo_env ''p'' demo_address ''pci'' demo_store = Inr st1
    \<and> put_item demo_env (map_irn ()) demo_address ''pci'' (demo_item \<lparr> sp_context := Some [1] \<rparr>) st1 = Inr st2
    \<and> get_item demo_env (map_irn ()) demo_address ''pci'' st2 = Inr (demo_item \<lparr> sp_context := Some [1] \<rparr>)"
proof -
  have get: "get_item demo_env (map_irn ()) demo_address ''pci'' demo_store = Inr demo_item"
    by (simp add: get_item_def irn_hget_def map_irn_def map_wcn_def demo_env_def demo_store_def)
  have env: "uses_store (map_irn ()) (\<lambda>i. i) Inr demo_env" by (simp add: uses_store_def demo_env_def)
  obtain st1 where "put_item demo_env (map_irn ()) demo_address ''pci''
      (demo_item \<lparr> sp_revoked_at := Some (se_now demo_env) \<rparr>) demo_store = Inr st1"
    using map_irn_puts by blast
  then have st1: "session_revoke demo_env ''p'' demo_address ''pci'' demo_store = Inr st1"
    using demo_disassemble get
    by (simp add: session_revoke_def check_session_request_def demo_env_def demo_item_def)
  obtain st2 where st2: "put_item demo_env (map_irn ()) demo_address ''pci''
      (demo_item \<lparr> sp_context := Some [1] \<rparr>) st1 = Inr st2"
    using map_irn_puts by blast
  from interleaved_activation_undoes_revocation [OF map_store.permission_store_axioms env get st1 st2] st1 st2
  show ?thesis by (intro exI [of _ st1] exI [of _ st2]) simp
qed

end
