(* ===== verification/NamesDb.thy ===== *)
theory NamesDb
  imports HttpErrors "HOL-Library.Multiset"
begin

text \<open>
  The tables of account names (\<open>migrations/*_init-names.sql\<close>, \<open>*_init-addresses.sql\<close>) and the statements of
  \<open>database/helpers.rs\<close>, \<open>database/types.rs\<close> and \<open>database/utils.rs\<close>.  A hash map is a list of entries in
  its iteration order.  Parameters of a call are the time, the failures of the database by the number of
  the statement, the order in which Postgres returns the rows of a query without \<open>ORDER BY\<close>, and the input
  function of the \<open>hstore\<close> type.
\<close>

section \<open>Tables\<close>

datatype supported_namespaces = NS_Eip155

fun from_slip44 :: "u32 \<Rightarrow> supported_namespaces option" where
  "from_slip44 coin_type = (if coin_type = 60 then Some NS_Eip155 else None)"

fun to_slip44 :: "supported_namespaces \<Rightarrow> u32" where
  "to_slip44 NS_Eip155 = 60"

type_synonym attributes = "(string \<times> string) list"

record name_row =
  nr_name :: string
  nr_registered_at :: time
  nr_updated_at :: time
  nr_attributes :: "attributes option"

record address_row =
  ar_name :: string
  ar_namespace :: supported_namespaces
  ar_chain_id :: string
  ar_address :: string
  ar_created_at :: time

record names_db =
  nd_names :: "name_row list"
  nd_addresses :: "address_row list"

datatype sqlx_error = SX_RowNotFound | SX_UniqueViolation | SX_CheckViolation | SX_ForeignKeyViolation
  | SX_ValueTooLong | SX_InvalidText | SX_Failure string

datatype names_error = NE_Sqlx sqlx_error | NE_BadArgument string | NE_AddressRequired string

record names_env =
  ne_now :: time
  ne_fail :: "nat \<Rightarrow> string option"
  ne_order :: "address_row list \<Rightarrow> address_row list"
  ne_hstore :: "string \<Rightarrow> attributes option"

text \<open>The \<open>n\<close>-th statement of a call fails or runs.\<close>

definition statement :: "names_env \<Rightarrow> nat \<Rightarrow> (sqlx_error, 'a) result \<Rightarrow> (sqlx_error, 'a) result" where
  "statement E n r = (case ne_fail E n of Some e \<Rightarrow> Inl (SX_Failure e) | None \<Rightarrow> r)"

definition hashmap_to_hstore :: "attributes \<Rightarrow> string" where
  "hashmap_to_hstore hashmap =
    (let quote = [CHR 0x22];
         entries = map (\<lambda>(key, value). quote @ key @ quote @ '' => '' @ quote @ value @ quote) hashmap
     in case entries of [] \<Rightarrow> [] | e # es \<Rightarrow> e @ concat (map (\<lambda>x. '', '' @ x) es))"

text \<open>The character class of the check constraint of the table and of the domain format.\<close>

definition is_domain_char :: "char \<Rightarrow> bool" where
  "is_domain_char c = (is_lower c \<or> is_digit c \<or> c = CHR ''.'' \<or> c = CHR ''-'')"

section \<open>Queries\<close>

text \<open>An address of the ENSIP-11 map, by coin type.\<close>

record ensip_address =
  ea_address :: string
  ea_created_at :: "time option"

type_synonym ensip_addresses = "(u32 \<times> ensip_address) list"

record name_and_addresses =
  na_name :: string
  na_registered_at :: time
  na_updated_at :: time
  na_attributes :: "attributes option"
  na_addresses :: ensip_addresses

definition coin_type_of :: "string \<Rightarrow> u32" where
  "coin_type_of chain_id = (case parse_u32 chain_id of Some n \<Rightarrow> n | None \<Rightarrow> 0)"

definition get_name :: "names_env \<Rightarrow> nat \<Rightarrow> string \<Rightarrow> names_db \<Rightarrow> (sqlx_error, name_row) result" where
  "get_name E n name db =
    statement E n (ok_or SX_RowNotFound (find (\<lambda>r. nr_name r = name) (nd_names db)))"

text \<open>A hash map insert: the later entry of a key replaces the earlier one.\<close>

fun map_insert :: "'k \<Rightarrow> 'v \<Rightarrow> ('k \<times> 'v) list \<Rightarrow> ('k \<times> 'v) list" where
  "map_insert k v [] = [(k, v)]"
| "map_insert k v ((k', v') # m) = (if k' = k then (k, v) # m else (k', v') # map_insert k v m)"

definition row_entry :: "address_row \<Rightarrow> ensip_addresses \<Rightarrow> ensip_addresses" where
  "row_entry row = map_insert (coin_type_of (ar_chain_id row))
     \<lparr> ea_address = ar_address row, ea_created_at = Some (ar_created_at row) \<rparr>"

definition get_addresses_by_name ::
  "names_env \<Rightarrow> nat \<Rightarrow> string \<Rightarrow> names_db \<Rightarrow> (sqlx_error, ensip_addresses) result" where
  "get_addresses_by_name E n name db =
    statement E n (Inr (fold (\<lambda>row m. if ar_namespace row \<noteq> NS_Eip155 then m else row_entry row m)
      (ne_order E (filter (\<lambda>r. ar_name r = name) (nd_addresses db))) []))"

definition get_name_and_addresses_by_name ::
  "names_env \<Rightarrow> nat \<Rightarrow> string \<Rightarrow> names_db \<Rightarrow> (sqlx_error, name_and_addresses) result" where
  "get_name_and_addresses_by_name E n name db =
    bind_res (get_name E n name db) (\<lambda>result.
    bind_res (get_addresses_by_name E (Suc n) name db) (\<lambda>addresses.
      Inr \<lparr> na_name = nr_name result, na_registered_at = nr_registered_at result,
        na_updated_at = nr_updated_at result, na_attributes = nr_attributes result, na_addresses = addresses \<rparr>))"

text \<open>The join of the names with their addresses has one row per address row.\<close>

definition get_names_by_address ::
  "names_env \<Rightarrow> nat \<Rightarrow> string \<Rightarrow> names_db \<Rightarrow> (sqlx_error, name_row list) result" where
  "get_names_by_address E n address db =
    statement E n (Inr (concat (map (\<lambda>a. filter (\<lambda>r. nr_name r = ar_name a) (nd_names db))
      (ne_order E (filter (\<lambda>a. ar_address a = address) (nd_addresses db))))))"

definition get_names_by_address_and_namespace ::
  "names_env \<Rightarrow> nat \<Rightarrow> string \<Rightarrow> supported_namespaces \<Rightarrow> names_db \<Rightarrow> (sqlx_error, name_row list) result" where
  "get_names_by_address_and_namespace E n address namespace db =
    statement E n (Inr (concat (map (\<lambda>a. filter (\<lambda>r. nr_name r = ar_name a) (nd_names db))
      (ne_order E (filter (\<lambda>a. ar_address a = address \<and> ar_namespace a = namespace) (nd_addresses db))))))"

definition get_account_names_stats :: "names_env \<Rightarrow> nat \<Rightarrow> names_db \<Rightarrow> (sqlx_error, nat) result" where
  "get_account_names_stats E n db = statement E n (Inr (length (nd_names db)))"

section \<open>Updates\<close>

definition insert_name_row ::
  "names_env \<Rightarrow> nat \<Rightarrow> string \<Rightarrow> attributes \<Rightarrow> names_db \<Rightarrow> (sqlx_error, names_db) result" where
  "insert_name_row E n name attributes db = statement E n (
    (case ne_hstore E (hashmap_to_hstore attributes) of
       None \<Rightarrow> Inl SX_InvalidText
     | Some attrs \<Rightarrow>
        (case varchar 255 name of
           None \<Rightarrow> Inl SX_ValueTooLong
         | Some stored \<Rightarrow>
             if \<not> list_all is_domain_char stored then Inl SX_CheckViolation
             else if stored \<in> nr_name ` set (nd_names db) then Inl SX_UniqueViolation
             else Inr (db \<lparr> nd_names := nd_names db @ [\<lparr> nr_name = stored, nr_registered_at = ne_now E,
               nr_updated_at = ne_now E, nr_attributes = Some attrs \<rparr>] \<rparr>))))"

definition same_key :: "address_row \<Rightarrow> address_row \<Rightarrow> bool" where
  "same_key r s = (ar_name r = ar_name s \<and> ar_namespace r = ar_namespace s \<and> ar_chain_id r = ar_chain_id s
     \<and> ar_address r = ar_address s)"

definition insert_or_update_address ::
  "names_env \<Rightarrow> nat \<Rightarrow> string \<Rightarrow> supported_namespaces \<Rightarrow> string \<Rightarrow> string \<Rightarrow> names_db
    \<Rightarrow> (sqlx_error, ensip_addresses \<times> names_db) result" where
  "insert_or_update_address E n name namespace chain_id address db = statement E n (
    (case (varchar 255 name, varchar 255 chain_id, varchar 255 address) of
       (Some n', Some c, Some a) \<Rightarrow>
         (let row = \<lparr> ar_name = n', ar_namespace = namespace, ar_chain_id = c, ar_address = a,
                ar_created_at = ne_now E \<rparr> in
          if list_ex (same_key row) (nd_addresses db) then
            Inr (row_entry row [], db \<lparr> nd_addresses :=
              map (\<lambda>r. if same_key row r then r \<lparr> ar_address := a, ar_created_at := ne_now E \<rparr> else r)
                (nd_addresses db) \<rparr>)
          else if n' \<notin> nr_name ` set (nd_names db) then Inl SX_ForeignKeyViolation
          else Inr (row_entry row [], db \<lparr> nd_addresses := nd_addresses db @ [row] \<rparr>))
     | _ \<Rightarrow> Inl SX_ValueTooLong))"

fun insert_addresses ::
  "names_env \<Rightarrow> nat \<Rightarrow> string \<Rightarrow> supported_namespaces \<Rightarrow> ensip_addresses \<Rightarrow> names_db
    \<Rightarrow> (sqlx_error, names_db) result" where
  "insert_addresses E n name namespace [] db = Inr db"
| "insert_addresses E n name namespace ((coin_type, a) # rest) db =
    bind_res (insert_or_update_address E n name namespace (show_nat (unat coin_type)) (ea_address a) db)
      (\<lambda>(_, db'). insert_addresses E (Suc n) name namespace rest db')"

text \<open>The inserts run in one transaction: statement 0 opens it, a failure rolls it back, the last statement
  commits.\<close>

definition insert_name ::
  "names_env \<Rightarrow> string \<Rightarrow> attributes \<Rightarrow> supported_namespaces \<Rightarrow> ensip_addresses \<Rightarrow> names_db
    \<Rightarrow> (names_error, unit) result \<times> names_db" where
  "insert_name E name attributes namespace addresses db =
    (if addresses = [] then
       (Inl (NE_BadArgument ''At least one address is required for the new name''), db)
     else
       (case bind_res (statement E 0 (Inr ())) (\<lambda>_.
          bind_res (insert_name_row E 1 name attributes db) (\<lambda>db1.
          bind_res (insert_addresses E 2 name namespace addresses db1) (\<lambda>db2.
            statement E (2 + length addresses) (Inr db2)))) of
          Inr db' \<Rightarrow> (Inr (), db')
        | Inl e \<Rightarrow> (Inl (NE_Sqlx e), db)))"

definition delete_name :: "names_env \<Rightarrow> string \<Rightarrow> names_db \<Rightarrow> (sqlx_error, names_db) result" where
  "delete_name E name db = statement E 0 (Inr \<lparr> nd_names = filter (\<lambda>r. nr_name r \<noteq> name) (nd_names db),
     nd_addresses = filter (\<lambda>r. ar_name r \<noteq> name) (nd_addresses db) \<rparr>)"

definition update_name_attributes ::
  "names_env \<Rightarrow> string \<Rightarrow> attributes \<Rightarrow> names_db \<Rightarrow> (names_error, attributes) result \<times> names_db" where
  "update_name_attributes E name attributes db =
    (case statement E 0 (
       case ne_hstore E (hashmap_to_hstore attributes) of
         None \<Rightarrow> Inl SX_InvalidText
       | Some attrs \<Rightarrow>
           if name \<in> nr_name ` set (nd_names db) then
             Inr (attrs, db \<lparr> nd_names := map (\<lambda>r. if nr_name r = name
               then r \<lparr> nr_attributes := Some attrs, nr_updated_at := ne_now E \<rparr> else r) (nd_names db) \<rparr>)
           else Inl SX_RowNotFound) of
       Inl e \<Rightarrow> (Inl (NE_Sqlx e), db)
     | Inr (attrs, db') \<Rightarrow> (Inr attrs, db'))"

definition delete_address ::
  "names_env \<Rightarrow> string \<Rightarrow> supported_namespaces \<Rightarrow> string \<Rightarrow> string \<Rightarrow> names_db
    \<Rightarrow> (names_error, names_db) result" where
  "delete_address E name namespace chain_id address db =
    bind_res (map_err NE_Sqlx (get_addresses_by_name E 0 name db)) (\<lambda>current.
      if length current = 1 then
        Inl (NE_AddressRequired ''At least one address is required to exist for the name'')
      else map_err NE_Sqlx (statement E 1 (Inr (db \<lparr> nd_addresses := filter (\<lambda>r. \<not> (ar_name r = name
        \<and> ar_namespace r = namespace \<and> ar_chain_id r = chain_id \<and> ar_address r = address))
        (nd_addresses db) \<rparr>))))"

section \<open>Invariant of the tables\<close>

definition addr_key :: "address_row \<Rightarrow> string \<times> supported_namespaces \<times> string \<times> string" where
  "addr_key r = (ar_name r, ar_namespace r, ar_chain_id r, ar_address r)"

text \<open>The constraints of the schema, and that every name has an address.\<close>

definition names_fk :: "names_db \<Rightarrow> bool" where
  "names_fk db = (distinct (map nr_name (nd_names db)) \<and> distinct (map addr_key (nd_addresses db))
     \<and> ar_name ` set (nd_addresses db) \<subseteq> nr_name ` set (nd_names db)
     \<and> (\<forall>r\<in>set (nd_names db). list_all is_domain_char (nr_name r)))"

definition names_wf :: "names_db \<Rightarrow> bool" where
  "names_wf db = (names_fk db \<and> nr_name ` set (nd_names db) = ar_name ` set (nd_addresses db))"

lemma statement_Inr [res_simps]: "statement E n r = Inr x \<longleftrightarrow> ne_fail E n = None \<and> r = Inr x"
  by (auto simp: statement_def split: option.splits)

lemma same_key_iff: "same_key r s \<longleftrightarrow> addr_key r = addr_key s"
  by (auto simp: same_key_def addr_key_def)

lemma varchar_no_blank:
  assumes "varchar n s = Some t" "CHR '' '' \<notin> set s"
  shows "t = s"
proof -
  have "\<forall>c\<in>set (drop n s). c = CHR '' ''" using assms(1) by (simp add: varchar_def list_all_iff split: if_splits)
  then have "drop n s = []" using assms(2) in_set_dropD [of "CHR '' ''" n s] by (cases "drop n s") auto
  then show ?thesis using assms(1) by (simp add: varchar_def split: if_splits)
qed

lemma domain_no_blank: "list_all is_domain_char s \<Longrightarrow> CHR '' '' \<notin> set s"
proof -
  have "\<not> is_domain_char (CHR '' '')"
    by (simp add: is_domain_char_def is_lower_def is_digit_def char_code_def)
  then show "list_all is_domain_char s \<Longrightarrow> CHR '' '' \<notin> set s" unfolding list_all_iff by blast
qed

lemma show_nat_no_blank: "CHR '' '' \<notin> set (show_nat n)"
  by (rule show_nat_no_char) (simp add: is_digit_def char_code_def)

text \<open>The effect of the address statement on the keys of the table.\<close>

lemma insert_or_update_address_ok:
  assumes "insert_or_update_address E n name ns chain a db = Inr (m, db')"
  obtains n' c a' where "varchar 255 name = Some n'" "varchar 255 chain = Some c" "varchar 255 a = Some a'"
    "nd_names db' = nd_names db" "addr_key ` set (nd_addresses db') = insert (n', ns, c, a') (addr_key ` set (nd_addresses db))"
    "distinct (map addr_key (nd_addresses db)) \<Longrightarrow> distinct (map addr_key (nd_addresses db'))"
    "(n', ns, c, a') \<in> addr_key ` set (nd_addresses db) \<or> n' \<in> nr_name ` set (nd_names db)"
    "m = [(coin_type_of c, \<lparr> ea_address = a', ea_created_at = Some (ne_now E) \<rparr>)]"
proof -
  obtain n' c a' where v: "varchar 255 name = Some n'" "varchar 255 chain = Some c" "varchar 255 a = Some a'"
    using assms by (auto simp: insert_or_update_address_def res_simps split: option.splits)
  define row where "row = \<lparr> ar_name = n', ar_namespace = ns, ar_chain_id = c, ar_address = a', ar_created_at = ne_now E \<rparr>"
  let ?f = "\<lambda>r. if same_key row r then r \<lparr> ar_address := a', ar_created_at := ne_now E \<rparr> else r"
  have key: "addr_key row = (n', ns, c, a')" by (simp add: row_def addr_key_def)
  have f: "addr_key \<circ> ?f = addr_key"
    by (rule ext) (auto simp: same_key_iff key, auto simp: addr_key_def)
  have m: "m = row_entry row []"
    and upd: "(list_ex (same_key row) (nd_addresses db) \<and> db' = db \<lparr> nd_addresses := map ?f (nd_addresses db) \<rparr>)
      \<or> (\<not> list_ex (same_key row) (nd_addresses db) \<and> n' \<in> nr_name ` set (nd_names db)
        \<and> db' = db \<lparr> nd_addresses := nd_addresses db @ [row] \<rparr>)"
    using assms by (auto simp: insert_or_update_address_def res_simps v Let_def row_def split: if_splits)
  have mem: "list_ex (same_key row) (nd_addresses db) \<longleftrightarrow> (n', ns, c, a') \<in> addr_key ` set (nd_addresses db)"
    unfolding key [symmetric] by (auto simp: list_ex_iff same_key_iff)
  have keys: "map addr_key (map ?f (nd_addresses db)) = map addr_key (nd_addresses db)"
    using f by (simp only: map_map)
  then have "set (map addr_key (map ?f (nd_addresses db))) = set (map addr_key (nd_addresses db))" by (rule arg_cong)
  then have set_keys: "addr_key ` set (map ?f (nd_addresses db)) = addr_key ` set (nd_addresses db)"
    by (simp only: set_map)
  have m': "m = [(coin_type_of c, \<lparr> ea_address = a', ea_created_at = Some (ne_now E) \<rparr>)]"
    by (simp add: m row_entry_def row_def)
  from upd show thesis
  proof
    assume u: "list_ex (same_key row) (nd_addresses db) \<and> db' = db \<lparr> nd_addresses := map ?f (nd_addresses db) \<rparr>"
    then have k: "(n', ns, c, a') \<in> addr_key ` set (nd_addresses db)" using mem by blast
    show thesis
    proof (rule that [OF v])
      show "addr_key ` set (nd_addresses db') = insert (n', ns, c, a') (addr_key ` set (nd_addresses db))"
        using u set_keys k by auto
      show "distinct (map addr_key (nd_addresses db'))" if "distinct (map addr_key (nd_addresses db))"
      proof -
        have rows: "nd_addresses db' = map ?f (nd_addresses db)" using u by simp
        show ?thesis using that unfolding rows keys .
      qed
    qed (use u k m' in auto)
  next
    assume u: "\<not> list_ex (same_key row) (nd_addresses db) \<and> n' \<in> nr_name ` set (nd_names db)
        \<and> db' = db \<lparr> nd_addresses := nd_addresses db @ [row] \<rparr>"
    show thesis
      by (rule that [OF v]) (use u mem key m' in auto)
  qed
qed

lemma insert_addresses_ok:
  assumes "insert_addresses E n name ns as db = Inr db'" "varchar 255 name = Some n'"
  shows "nd_names db' = nd_names db
    \<and> (distinct (map addr_key (nd_addresses db)) \<longrightarrow> distinct (map addr_key (nd_addresses db')))
    \<and> (\<exists>ks. addr_key ` set (nd_addresses db') = addr_key ` set (nd_addresses db) \<union> set ks
        \<and> list_all2 (\<lambda>(ct, a) k. \<exists>a'. varchar 255 (ea_address a) = Some a' \<and> k = (n', ns, show_nat (unat ct), a')) as ks)
    \<and> (as \<noteq> [] \<longrightarrow> n' \<in> ar_name ` set (nd_addresses db) \<or> n' \<in> nr_name ` set (nd_names db))"
  using assms
proof (induction as arbitrary: n db)
  case Nil
  then show ?case by (auto intro: exI [of _ "[]"])
next
  case (Cons x as)
  obtain ct a where x: "x = (ct, a)" by (cases x)
  obtain m db1 where 1: "insert_or_update_address E n name ns (show_nat (unat ct)) (ea_address a) db = Inr (m, db1)"
    "insert_addresses E (Suc n) name ns as db1 = Inr db'"
    using Cons.prems(1) x by (auto simp: res_simps)
  obtain c a' where o: "varchar 255 (show_nat (unat ct)) = Some c" "varchar 255 (ea_address a) = Some a'"
    "nd_names db1 = nd_names db" "addr_key ` set (nd_addresses db1) = insert (n', ns, c, a') (addr_key ` set (nd_addresses db))"
    "distinct (map addr_key (nd_addresses db)) \<Longrightarrow> distinct (map addr_key (nd_addresses db1))"
    "(n', ns, c, a') \<in> addr_key ` set (nd_addresses db) \<or> n' \<in> nr_name ` set (nd_names db)"
    by (rule insert_or_update_address_ok [OF 1(1)]) (use Cons.prems(2) in simp)
  have c: "c = show_nat (unat ct)" using varchar_no_blank [OF o(1) show_nat_no_blank] .
  obtain ks where ks: "addr_key ` set (nd_addresses db') = addr_key ` set (nd_addresses db1) \<union> set ks"
    "list_all2 (\<lambda>(ct, a) k. \<exists>a'. varchar 255 (ea_address a) = Some a' \<and> k = (n', ns, show_nat (unat ct), a')) as ks"
    using Cons.IH [OF 1(2) Cons.prems(2)] by blast
  have "n' \<in> ar_name ` set (nd_addresses db) \<or> n' \<in> nr_name ` set (nd_names db)"
    using o(6) by (auto simp: addr_key_def image_iff)
  moreover have "\<exists>ks. addr_key ` set (nd_addresses db') = addr_key ` set (nd_addresses db) \<union> set ks
        \<and> list_all2 (\<lambda>(ct, a) k. \<exists>a'. varchar 255 (ea_address a) = Some a' \<and> k = (n', ns, show_nat (unat ct), a'))
            (x # as) ks"
    using ks o(2,4) c x by (intro exI [of _ "(n', ns, c, a') # ks"]) auto
  ultimately show ?case using Cons.IH [OF 1(2) Cons.prems(2)] o(3,5) by auto
qed

text \<open>A registered name, its addresses as keys of the address table.\<close>

lemma insert_name_ok:
  assumes "insert_name E name attrs ns as db = (Inr (), db')"
  obtains n' attrs' ks where "as \<noteq> []" "varchar 255 name = Some n'" "list_all is_domain_char n'"
    "ne_hstore E (hashmap_to_hstore attrs) = Some attrs'" "n' \<notin> nr_name ` set (nd_names db)"
    "nd_names db' = nd_names db @ [\<lparr> nr_name = n', nr_registered_at = ne_now E, nr_updated_at = ne_now E,
        nr_attributes = Some attrs' \<rparr>]"
    "distinct (map addr_key (nd_addresses db)) \<Longrightarrow> distinct (map addr_key (nd_addresses db'))"
    "addr_key ` set (nd_addresses db') = addr_key ` set (nd_addresses db) \<union> set ks"
    "list_all2 (\<lambda>(ct, a) k. \<exists>a'. varchar 255 (ea_address a) = Some a' \<and> k = (n', ns, show_nat (unat ct), a')) as ks"
proof -
  obtain db1 where ne: "as \<noteq> []" and r: "insert_name_row E 1 name attrs db = Inr db1"
    and i: "insert_addresses E 2 name ns as db1 = Inr db'"
    using assms by (auto simp: insert_name_def res_simps split: if_splits sum.splits)
  obtain n' attrs' where n: "varchar 255 name = Some n'" "list_all is_domain_char n'"
    "ne_hstore E (hashmap_to_hstore attrs) = Some attrs'" "n' \<notin> nr_name ` set (nd_names db)"
    and db1: "db1 = db \<lparr> nd_names := nd_names db @ [\<lparr> nr_name = n', nr_registered_at = ne_now E,
        nr_updated_at = ne_now E, nr_attributes = Some attrs' \<rparr>] \<rparr>"
    using r by (auto simp: insert_name_row_def res_simps split: option.splits if_splits)
  from insert_addresses_ok [OF i n(1)] show thesis
    using ne n by (elim conjE exE) (rule that, auto simp: db1)
qed

lemma insert_name_error: "insert_name E name attrs ns as db = (Inl e, db') \<Longrightarrow> db' = db"
  by (auto simp: insert_name_def split: if_splits sum.splits)

lemma fst_addr_key: "ar_name ` set rows = fst ` addr_key ` set rows"
  by (force simp: addr_key_def image_image)

lemma insert_name_wf:
  assumes "insert_name E name attrs ns as db = (r, db')" "names_wf db"
  shows "names_wf db'"
proof (cases r)
  case (Inl e)
  then show ?thesis using assms insert_name_error by metis
next
  case (Inr u)
  then have i: "insert_name E name attrs ns as db = (Inr (), db')" using assms by simp
  from i show ?thesis
  proof (rule insert_name_ok)
    fix n' attrs' ks
    assume *: "as \<noteq> []" "list_all is_domain_char n'" "n' \<notin> nr_name ` set (nd_names db)"
      "nd_names db' = nd_names db @ [\<lparr> nr_name = n', nr_registered_at = ne_now E, nr_updated_at = ne_now E,
        nr_attributes = Some attrs' \<rparr>]"
      "distinct (map addr_key (nd_addresses db)) \<Longrightarrow> distinct (map addr_key (nd_addresses db'))"
      "addr_key ` set (nd_addresses db') = addr_key ` set (nd_addresses db) \<union> set ks"
      "list_all2 (\<lambda>(ct, a) k. \<exists>a'. varchar 255 (ea_address a) = Some a' \<and> k = (n', ns, show_nat (unat ct), a')) as ks"
    have "fst k = n'" if "k \<in> set ks" for k
      using *(7) that by (induction rule: list_all2_induct) auto
    moreover have "ks \<noteq> []" using *(1,7) by auto
    ultimately have "fst ` set ks = {n'}" by (cases ks) auto
    then have "ar_name ` set (nd_addresses db') = insert n' (ar_name ` set (nd_addresses db))"
      using *(6) by (simp add: fst_addr_key image_Un)
    then show ?thesis using assms(2) * by (auto simp: names_wf_def names_fk_def)
  qed
qed

lemma insert_or_update_address_wf:
  assumes "insert_or_update_address E n name ns chain a db = Inr (m, db')" "names_wf db"
  shows "names_wf db'"
  using assms(1)
proof (rule insert_or_update_address_ok)
  fix n' c a'
  assume *: "nd_names db' = nd_names db"
    "addr_key ` set (nd_addresses db') = insert (n', ns, c, a') (addr_key ` set (nd_addresses db))"
    "distinct (map addr_key (nd_addresses db)) \<Longrightarrow> distinct (map addr_key (nd_addresses db'))"
    "(n', ns, c, a') \<in> addr_key ` set (nd_addresses db) \<or> n' \<in> nr_name ` set (nd_names db)"
  have names: "ar_name ` set (nd_addresses db') = insert n' (ar_name ` set (nd_addresses db))"
    using *(2) by (simp add: fst_addr_key)
  have "n' \<in> ar_name ` set (nd_addresses db)"
    using *(4) assms(2) by (force simp: names_wf_def addr_key_def)
  then show ?thesis using names * assms(2) by (auto simp: names_wf_def names_fk_def)
qed

lemma update_name_attributes_ok:
  assumes "update_name_attributes E name attrs db = (Inr attrs', db')"
  shows "ne_hstore E (hashmap_to_hstore attrs) = Some attrs' \<and> name \<in> nr_name ` set (nd_names db)
    \<and> nd_addresses db' = nd_addresses db
    \<and> nd_names db' = map (\<lambda>r. if nr_name r = name
          then r \<lparr> nr_attributes := Some attrs', nr_updated_at := ne_now E \<rparr> else r) (nd_names db)"
  using assms by (auto simp: update_name_attributes_def res_simps statement_def split: option.splits if_splits sum.splits)

lemma update_name_attributes_error: "update_name_attributes E name attrs db = (Inl e, db') \<Longrightarrow> db' = db"
  by (auto simp: update_name_attributes_def split: sum.splits)

lemma update_name_attributes_wf:
  assumes "update_name_attributes E name attrs db = (r, db')" "names_wf db"
  shows "names_wf db'"
proof (cases r)
  case (Inl e)
  then show ?thesis using assms update_name_attributes_error by metis
next
  case (Inr attrs')
  let ?f = "\<lambda>r. if nr_name r = name then r \<lparr> nr_attributes := Some attrs', nr_updated_at := ne_now E \<rparr> else r"
  have u: "nd_addresses db' = nd_addresses db" "nd_names db' = map ?f (nd_names db)"
    using update_name_attributes_ok [OF assms(1) [unfolded Inr]] by blast+
  have "map nr_name (nd_names db') = map nr_name (nd_names db)" unfolding u by simp
  moreover from this have "set (map nr_name (nd_names db')) = set (map nr_name (nd_names db))" by (rule arg_cong)
  then have "nr_name ` set (nd_names db') = nr_name ` set (nd_names db)" by (simp only: set_map)
  moreover have "\<forall>r\<in>set (nd_names db'). list_all is_domain_char (nr_name r)"
    using assms(2) unfolding u names_wf_def names_fk_def by auto
  ultimately show ?thesis using assms(2) u(1) by (simp add: names_wf_def names_fk_def)
qed

subsection \<open>The address map of a name\<close>

lemma map_of_map_insert: "map_of (map_insert k v m) = (map_of m)(k \<mapsto> v)"
  by (induction m) auto

lemma coin_type_of_show: "coin_type_of (show_nat (unat ct)) = ct"
  by (simp add: coin_type_of_def parse_u32_show)

definition name_rows :: "string \<Rightarrow> names_db \<Rightarrow> address_row list" where
  "name_rows name db = filter (\<lambda>r. ar_name r = name) (nd_addresses db)"

lemma map_of_rows:
  "map_of (fold (\<lambda>row m. if ar_namespace row \<noteq> NS_Eip155 then m else row_entry row m) rows m0) ct = Some e \<Longrightarrow>
    map_of m0 ct = Some e \<or> (\<exists>row\<in>set rows. coin_type_of (ar_chain_id row) = ct
      \<and> e = \<lparr> ea_address = ar_address row, ea_created_at = Some (ar_created_at row) \<rparr>)"
proof (induction rows arbitrary: m0)
  case (Cons row rows)
  then show ?case
    by (cases "ar_namespace row")
      (fastforce simp: row_entry_def map_of_map_insert split: if_splits)
qed simp

lemma dom_rows:
  "dom (map_of (fold (\<lambda>row m. if ar_namespace row \<noteq> NS_Eip155 then m else row_entry row m) rows m0))
    = dom (map_of m0) \<union> (\<lambda>r. coin_type_of (ar_chain_id r)) ` set rows"
proof (induction rows arbitrary: m0)
  case (Cons row rows)
  then show ?case by (cases "ar_namespace row") (auto simp: row_entry_def map_of_map_insert)
qed simp

lemma get_addresses_ok:
  assumes "get_addresses_by_name E n name db = Inr as" "\<And>rows. mset (ne_order E rows) = mset rows"
  shows "dom (map_of as) = (\<lambda>r. coin_type_of (ar_chain_id r)) ` set (name_rows name db)
    \<and> (map_of as ct = Some e \<longrightarrow> (\<exists>row\<in>set (name_rows name db). coin_type_of (ar_chain_id row) = ct
      \<and> e = \<lparr> ea_address = ar_address row, ea_created_at = Some (ar_created_at row) \<rparr>))"
proof -
  have order: "set (ne_order E rows) = set rows" for rows using assms(2) by (metis set_mset_mset)
  from assms(1) show ?thesis
    unfolding get_addresses_by_name_def statement_Inr name_rows_def [symmetric]
    using map_of_rows [of "ne_order E (name_rows name db)" "[]"] dom_rows [of "ne_order E (name_rows name db)" "[]"]
    by (auto simp: order)
qed

text \<open>In a reverse lookup a name occurs once per row of the address.\<close>

lemma get_names_by_address_ok:
  assumes "get_names_by_address E n address db = Inr rows" "\<And>rows. mset (ne_order E rows) = mset rows" "names_fk db"
  shows "count (mset (map nr_name rows)) name
    = length (filter (\<lambda>a. ar_address a = address \<and> ar_name a = name) (nd_addresses db))"
proof -
  have one: "map nr_name (filter (\<lambda>r. nr_name r = k) rs) = [k]" if "k \<in> nr_name ` set rs" "distinct (map nr_name rs)"
    for k and rs :: "name_row list"
    using that
  proof (induction rs)
    case (Cons r rs)
    then show ?case by (cases "nr_name r = k") (auto simp: filter_empty_conv image_iff)
  qed simp
  have "map nr_name (concat (map (\<lambda>a. filter (\<lambda>r. nr_name r = ar_name a) (nd_names db)) as)) = map ar_name as"
    if "set as \<subseteq> set (nd_addresses db)" for as
    using that assms(3) by (induction as) (auto simp: one names_fk_def map_concat)
  moreover let ?as = "filter (\<lambda>a. ar_address a = address) (nd_addresses db)"
  have "set (ne_order E ?as) = set ?as" using assms(2) by (metis set_mset_mset)
  ultimately have "map nr_name rows = map ar_name (ne_order E ?as)"
    using assms(1) by (auto simp: get_names_by_address_def statement_Inr)
  then have m: "mset (map nr_name rows) = mset (map ar_name ?as)" using assms(2) by simp
  have "count (mset (map f as)) x = length (filter (\<lambda>a. f a = x) as)" for f x and as :: "address_row list"
    by (induction as) auto
  from this [of ar_name ?as name] show ?thesis unfolding m by (simp add: conj_commute)
qed

end
