(* ===== verification/Profile.thy ===== *)
theory Profile
  imports NamesDb Chains CryptoBytes
begin

text \<open>
  Account names (\<open>handlers/profile\<close>, \<open>names\<close>): the rules of a name, registration, the update of addresses and
  attributes by the owner, forward and reverse lookup and the suggestions.  JSON, the verification of a
  signature, the dictionary asset, the parsing of an address and the clock are parameters; analytics are
  left out.
\<close>

section \<open>Rules of a name\<close>

definition ATTRIBUTES_VALUE_MAX_LENGTH :: nat where "ATTRIBUTES_VALUE_MAX_LENGTH = 255"

definition is_bio_char :: "char \<Rightarrow> bool" where
  "is_bio_char c = (is_lower c \<or> is_upper c \<or> is_digit c \<or> c \<in> set ''@:/._-?&=+ '')"

definition SUPPORTED_ATTRIBUTES :: "(string \<times> (string \<Rightarrow> bool)) list" where
  "SUPPORTED_ATTRIBUTES = [(''bio'', \<lambda>s. s \<noteq> [] \<and> list_all is_bio_char s)]"

definition NAME_MIN_LENGTH :: nat where "NAME_MIN_LENGTH = 3"

definition NAME_MAX_LENGTH :: nat where "NAME_MAX_LENGTH = 64"

definition UNIXTIMESTAMP_SYNC_THRESHOLD :: u64 where "UNIXTIMESTAMP_SYNC_THRESHOLD = 10"

text \<open>Sums and differences wrap, as in a release build.\<close>

definition is_timestamp_within_interval :: "u64 \<Rightarrow> u64 \<Rightarrow> u64 \<Rightarrow> bool" where
  "is_timestamp_within_interval now unix_timestamp threshold_interval =
    (now - threshold_interval \<le> unix_timestamp \<and> unix_timestamp \<le> now + threshold_interval)"

definition check_attributes :: "attributes \<Rightarrow> (string \<times> (string \<Rightarrow> bool)) list \<Rightarrow> nat \<Rightarrow> bool" where
  "check_attributes attributes_map keys_allowed max_length =
    list_all (\<lambda>(key, value). case map_of keys_allowed key of
        None \<Rightarrow> False
      | Some regex \<Rightarrow> value \<noteq> [] \<and> length value \<le> max_length \<and> regex value) attributes_map"

definition is_name_in_allowed_zones :: "string \<Rightarrow> string list \<Rightarrow> bool" where
  "is_name_in_allowed_zones name allowed_zones =
    (let name_parts = split_on CHR ''.'' name in
     if length name_parts \<noteq> 3 then False
     else name_parts ! 1 @ ''.'' @ name_parts ! 2 \<in> set allowed_zones)"

definition is_name_format_correct :: "string \<Rightarrow> bool" where
  "is_name_format_correct name = (name \<noteq> [] \<and> list_all is_domain_char name)"

definition is_name_length_correct :: "string \<Rightarrow> bool" where
  "is_name_length_correct name =
    (let name_parts = split_on CHR ''.'' name in
     if length name_parts \<noteq> 3 then False
     else NAME_MIN_LENGTH \<le> length (name_parts ! 0) \<and> length (name_parts ! 0) \<le> NAME_MAX_LENGTH)"

section \<open>Requests\<close>

record register_payload =
  rp_name :: string
  rp_attributes :: "attributes option"
  rp_timestamp :: u64

record update_attributes_payload =
  ap_attributes :: attributes
  ap_timestamp :: u64

record update_address_payload =
  dp_coin_type :: u32
  dp_address :: string
  dp_timestamp :: u64

record register_request =
  rr_message :: string
  rr_signature :: string
  rr_coin_type :: u32
  rr_address :: string

text \<open>\<open>pf_db n\<close> is the database during the \<open>n\<close>-th call of a helper, \<open>pf_iter\<close> the iteration order of a hash
  map, \<open>pf_verify\<close> takes the message, the signature, the address, the chain and the project.\<close>

record profile_env =
  pf_zones :: "string list option"
  pf_testing_project :: "string option"
  pf_now :: u64
  pf_register_payload :: "string \<Rightarrow> (string, register_payload) result"
  pf_attributes_payload :: "string \<Rightarrow> (string, update_attributes_payload) result"
  pf_address_payload :: "string \<Rightarrow> (string, update_address_payload) result"
  pf_h160 :: "string \<Rightarrow> bytes option"
  pf_verify :: "string \<Rightarrow> string \<Rightarrow> string \<Rightarrow> string \<Rightarrow> string \<Rightarrow> (string, bool) result"
  pf_dictionary :: "string list"
  pf_iter :: "ensip_addresses \<Rightarrow> ensip_addresses"
  pf_db :: "nat \<Rightarrow> names_env"

datatype 'r reply = Json_reply 'r | Status_reply nat string

section \<open>Shared checks\<close>

definition check_name :: "string \<Rightarrow> string list \<Rightarrow> (rpc_error, unit) result" where
  "check_name name zones =
    bind_res (ensure (is_name_format_correct name) (RE_InvalidNameFormat name)) (\<lambda>_.
    bind_res (ensure (is_name_length_correct name) (RE_InvalidNameLength name)) (\<lambda>_.
      ensure (is_name_in_allowed_zones name zones) (RE_InvalidNameZone name)))"

definition check_signature ::
  "profile_env \<Rightarrow> register_request \<Rightarrow> u32 \<Rightarrow> (rpc_error, unit) result" where
  "check_signature P req coin_type =
    bind_res (ok_or (RE_InvalidConfiguration
        ''Missing testing project id in the configuration for eip1271 lookups'') (pf_testing_project P))
      (\<lambda>rpc_project_id.
    bind_res (map_err (\<lambda>_. RE_SignatureValidationError ''Invalid signature'')
        (pf_verify P (rr_message req) (rr_signature req) (rr_address req)
          (''eip155:'' @ show_nat (unat (convert_coin_type_to_evm_chain_id coin_type))) rpc_project_id))
      (\<lambda>valid. ensure valid (RE_SignatureValidationError ''Signature verification error'')))"

definition check_owner ::
  "profile_env \<Rightarrow> bytes \<Rightarrow> u32 \<Rightarrow> ensip_addresses \<Rightarrow> (rpc_error, unit) result" where
  "check_owner P payload_owner coin_type addresses = (case map_of addresses coin_type of
      None \<Rightarrow> Inl RE_NameOwnerValidationError
    | Some address \<Rightarrow>
        bind_res (ok_or RE_InvalidAddress (pf_h160 P (ea_address address))) (\<lambda>name_owner.
          ensure (constant_time_eq payload_owner name_owner) RE_NameOwnerValidationError))"

section \<open>Registration\<close>

definition check_registration ::
  "profile_env \<Rightarrow> register_request \<Rightarrow> names_db \<Rightarrow> (rpc_error, register_payload) result" where
  "check_registration P req db =
    bind_res (ok_or (RE_InvalidConfiguration ''Names allowed zones are not defined'') (pf_zones P)) (\<lambda>zones.
    bind_res (map_err RE_SerdeJson (pf_register_payload P (rr_message req))) (\<lambda>payload.
    bind_res (check_name (rp_name payload) zones) (\<lambda>_.
    bind_res (ensure (is_coin_type_supported (rr_coin_type req)) (RE_UnsupportedCoinType (rr_coin_type req))) (\<lambda>_.
    bind_res (ensure (\<not> is_ok (get_name_and_addresses_by_name (pf_db P 0) 0 (rp_name payload) db))
        (RE_NameAlreadyRegistered (rp_name payload))) (\<lambda>_.
    bind_res (ensure (is_timestamp_within_interval (pf_now P) (rp_timestamp payload) UNIXTIMESTAMP_SYNC_THRESHOLD)
        (RE_ExpiredTimestamp (rp_timestamp payload))) (\<lambda>_.
    bind_res (ensure (case rp_attributes payload of None \<Rightarrow> True
        | Some attributes \<Rightarrow> check_attributes attributes SUPPORTED_ATTRIBUTES ATTRIBUTES_VALUE_MAX_LENGTH)
        RE_UnsupportedNameAttribute) (\<lambda>_.
    bind_res (check_signature P req (rr_coin_type req)) (\<lambda>_. Inr payload))))))))"

definition registered_addresses :: "register_request \<Rightarrow> ensip_addresses" where
  "registered_addresses req =
    (let a = \<lparr> ea_address = rr_address req, ea_created_at = None \<rparr> in
     (rr_coin_type req, a) # (if rr_coin_type req = 60 then [] else [(60, a)]))"

definition profile_register ::
  "profile_env \<Rightarrow> register_request \<Rightarrow> names_db
    \<Rightarrow> (rpc_error, name_and_addresses reply) result \<times> names_db" where
  "profile_register P req db = (case check_registration P req db of
      Inl e \<Rightarrow> (Inl e, db)
    | Inr payload \<Rightarrow>
        (case insert_name (pf_db P 1) (rp_name payload)
            (case rp_attributes payload of Some attributes \<Rightarrow> attributes | None \<Rightarrow> []) NS_Eip155
            (pf_iter P (registered_addresses req)) db of
           (Inl e, db') \<Rightarrow> (Inr (Status_reply 500 ''''), db')
         | (Inr _, db') \<Rightarrow>
             (case get_name_and_addresses_by_name (pf_db P 2) 0 (rp_name payload) db' of
                Inr response \<Rightarrow> (Inr (Json_reply response), db')
              | Inl SX_RowNotFound \<Rightarrow> (Inl (RE_NameRegistrationError
                  ''Name was not found in the database after the registration''), db')
              | Inl _ \<Rightarrow> (Inr (Status_reply 500 ''''), db'))))"

section \<open>Updates by the owner\<close>

text \<open>The signature is verified for the coin type of the payload, the ownership for the coin type of the
  request.\<close>

definition check_address_update ::
  "profile_env \<Rightarrow> register_request \<Rightarrow> update_address_payload \<Rightarrow> name_and_addresses
    \<Rightarrow> (rpc_error, unit) result" where
  "check_address_update P req payload name_addresses =
    bind_res (ensure (is_timestamp_within_interval (pf_now P) (dp_timestamp payload) UNIXTIMESTAMP_SYNC_THRESHOLD)
        (RE_ExpiredTimestamp (dp_timestamp payload))) (\<lambda>_.
    bind_res (ok_or RE_InvalidAddress (pf_h160 P (rr_address req))) (\<lambda>payload_owner.
    bind_res (check_signature P req (dp_coin_type payload)) (\<lambda>_.
      check_owner P payload_owner (rr_coin_type req) (na_addresses name_addresses))))"

definition profile_address ::
  "profile_env \<Rightarrow> string \<Rightarrow> register_request \<Rightarrow> names_db
    \<Rightarrow> (rpc_error, ensip_addresses reply) result \<times> names_db" where
  "profile_address P name req db = (case
      bind_res (map_err RE_SerdeJson (pf_address_payload P (rr_message req))) (\<lambda>payload.
      bind_res (ensure (is_coin_type_supported (rr_coin_type req)) (RE_UnsupportedCoinType (rr_coin_type req))) (\<lambda>_.
      bind_res (ensure (is_coin_type_supported (dp_coin_type payload)) (RE_UnsupportedCoinType (dp_coin_type payload)))
        (\<lambda>_.
      bind_res (ensure (pf_h160 P (dp_address payload) \<noteq> None) RE_InvalidAddress) (\<lambda>_. Inr payload)))) of
      Inl e \<Rightarrow> (Inl e, db)
    | Inr payload \<Rightarrow>
       (case get_name_and_addresses_by_name (pf_db P 0) 0 name db of
          Inl SX_RowNotFound \<Rightarrow> (Inl (RE_NameNotRegistered name), db)
        | Inl _ \<Rightarrow> (Inr (Status_reply 500 ''Name lookup database error''), db)
        | Inr name_addresses \<Rightarrow>
           (case check_address_update P req payload name_addresses of
              Inl e \<Rightarrow> (Inl e, db)
            | Inr _ \<Rightarrow>
               (case insert_or_update_address (pf_db P 1) 0 name NS_Eip155
                   (show_nat (unat (dp_coin_type payload))) (dp_address payload) db of
                  Inr (response, db') \<Rightarrow> (Inr (Json_reply response), db')
                | Inl _ \<Rightarrow> (Inr (Status_reply 500 ''Failed to update address''), db)))))"

text \<open>\<open>show_error\<close> prints a database error.\<close>

definition profile_attributes ::
  "(names_error \<Rightarrow> string) \<Rightarrow> profile_env \<Rightarrow> string \<Rightarrow> register_request \<Rightarrow> names_db
    \<Rightarrow> (rpc_error, attributes reply) result \<times> names_db" where
  "profile_attributes show_error P name req db = (case
      bind_res (map_err RE_SerdeJson (pf_attributes_payload P (rr_message req))) (\<lambda>payload.
      bind_res (ensure (is_coin_type_supported (rr_coin_type req)) (RE_UnsupportedCoinType (rr_coin_type req))) (\<lambda>_.
      bind_res (map_err (\<lambda>_. RE_NameNotRegistered name) (get_name_and_addresses_by_name (pf_db P 0) 0 name db))
        (\<lambda>name_addresses.
      bind_res (ensure (is_timestamp_within_interval (pf_now P) (ap_timestamp payload) UNIXTIMESTAMP_SYNC_THRESHOLD)
          (RE_ExpiredTimestamp (ap_timestamp payload))) (\<lambda>_.
      bind_res (ok_or RE_InvalidAddress (pf_h160 P (rr_address req))) (\<lambda>payload_owner.
      bind_res (check_signature P req (rr_coin_type req)) (\<lambda>_.
      bind_res (check_owner P payload_owner (rr_coin_type req) (na_addresses name_addresses)) (\<lambda>_.
      bind_res (ensure (check_attributes (ap_attributes payload) SUPPORTED_ATTRIBUTES ATTRIBUTES_VALUE_MAX_LENGTH)
          RE_UnsupportedNameAttribute) (\<lambda>_. Inr payload)))))))) of
      Inl e \<Rightarrow> (Inl e, db)
    | Inr payload \<Rightarrow>
        (case update_name_attributes (pf_db P 1) name (ap_attributes payload) db of
           (Inl e, db') \<Rightarrow> (Inr (Status_reply 500 (''Failed to update attributes: '' @ show_error e)), db')
         | (Inr attributes, db') \<Rightarrow> (Inr (Json_reply attributes), db')))"

section \<open>Lookups\<close>

text \<open>An empty JSON array is the reply \<open>None\<close>.\<close>

definition profile_lookup ::
  "profile_env \<Rightarrow> string \<Rightarrow> nat option \<Rightarrow> names_db \<Rightarrow> (rpc_error, name_and_addresses option reply) result" where
  "profile_lookup P name api_version db =
    bind_res (ok_or (RE_InvalidConfiguration ''Names allowed zones are not defined'') (pf_zones P)) (\<lambda>zones.
    bind_res (check_name name zones) (\<lambda>_.
      (case get_name_and_addresses_by_name (pf_db P 0) 0 name db of
         Inr response \<Rightarrow> Inr (Json_reply (Some response))
       | Inl SX_RowNotFound \<Rightarrow> if api_version = Some 2 then Inr (Json_reply None) else Inl (RE_NameNotFound name)
       | Inl _ \<Rightarrow> Inr (Status_reply 500 ''''))))"

fun lookup_all ::
  "profile_env \<Rightarrow> nat \<Rightarrow> name_row list \<Rightarrow> names_db \<Rightarrow> (sqlx_error, name_and_addresses list) result" where
  "lookup_all P n [] db = Inr []"
| "lookup_all P n (row # rows) db =
    bind_res (get_name_and_addresses_by_name (pf_db P n) 0 (nr_name row) db) (\<lambda>response.
    bind_res (lookup_all P (Suc n) rows db) (\<lambda>responses. Inr (response # responses)))"

definition profile_reverse ::
  "profile_env \<Rightarrow> string \<Rightarrow> nat option \<Rightarrow> names_db \<Rightarrow> (rpc_error, name_and_addresses list reply) result" where
  "profile_reverse P address api_version db = (case get_names_by_address (pf_db P 0) 0 address db of
      Inl _ \<Rightarrow> Inr (Status_reply 500 '''')
    | Inr names \<Rightarrow>
        if names = [] then
          (if api_version = Some 2 then Inr (Json_reply []) else Inl RE_NameByAddressNotFound)
        else (case lookup_all P 1 names db of
            Inr result \<Rightarrow> Inr (Json_reply result)
          | Inl _ \<Rightarrow> Inr (Status_reply 500 '''')))"

section \<open>Suggestions\<close>

definition SUGGESTION_OPTIONS :: nat where "SUGGESTION_OPTIONS = 5"

definition MIN_NAME_LENGTH :: nat where "MIN_NAME_LENGTH = 3"

record name_suggestion =
  ns_name :: string
  ns_registered :: bool

definition dictionary_suggestions :: "string list \<Rightarrow> string \<Rightarrow> string list" where
  "dictionary_suggestions dictionary start_with =
    filter (\<lambda>suggested. starts_with start_with suggested \<and> suggested \<noteq> start_with) dictionary"

definition is_name_registered :: "names_env \<Rightarrow> string \<Rightarrow> names_db \<Rightarrow> bool" where
  "is_name_registered E name db = is_ok (get_name E 0 name db)"

fun suggest_loop ::
  "profile_env \<Rightarrow> string \<Rightarrow> names_db \<Rightarrow> nat \<Rightarrow> string list \<Rightarrow> name_suggestion list \<Rightarrow> name_suggestion list" where
  "suggest_loop P zone db n [] suggestions = suggestions"
| "suggest_loop P zone db n (suggested # candidates) suggestions =
    (let name_with_zone = suggested @ ''.'' @ zone;
         suggestions' = (if is_name_registered (pf_db P n) name_with_zone db then suggestions
           else suggestions @ [\<lparr> ns_name = name_with_zone, ns_registered = False \<rparr>])
     in if length suggestions' = SUGGESTION_OPTIONS then suggestions'
        else suggest_loop P zone db (Suc n) candidates suggestions')"

definition profile_suggestions ::
  "profile_env \<Rightarrow> string \<Rightarrow> string option \<Rightarrow> names_db \<Rightarrow> (rpc_error, name_suggestion list) result" where
  "profile_suggestions P name zone db =
    bind_res (ensure (MIN_NAME_LENGTH \<le> length name) (RE_InvalidNameLength name)) (\<lambda>_.
    bind_res (ensure (is_name_format_correct name) (RE_InvalidNameFormat name)) (\<lambda>_.
    bind_res (ok_or (RE_InvalidConfiguration ''Names allowed zones are not defined'') (pf_zones P)) (\<lambda>zones.
    bind_res (ok_or (RE_InvalidConfiguration ''Names allowed zones are empty'')
        (case zones of [] \<Rightarrow> None | z # _ \<Rightarrow> Some z)) (\<lambda>default_zone.
      let z = (case zone of Some z \<Rightarrow> z | None \<Rightarrow> default_zone);
          exact = name @ ''.'' @ z
      in Inr (suggest_loop P z db 1 (dictionary_suggestions (pf_dictionary P) name)
           [\<lparr> ns_name = exact, ns_registered = is_name_registered (pf_db P 0) exact db \<rparr>])))))"

section \<open>Facts about the checks\<close>

definition valid_name :: "string list \<Rightarrow> string \<Rightarrow> bool" where
  "valid_name zones name = (is_name_format_correct name \<and> is_name_length_correct name
     \<and> is_name_in_allowed_zones name zones)"

lemma check_name_ok [res_simps]: "check_name name zones = Inr u \<longleftrightarrow> valid_name zones name"
  by (auto simp: check_name_def valid_name_def res_simps)

text \<open>What the environment of a handler is: hash maps iterate over their entries, and the input function of
  \<open>hstore\<close> reads entries without quotes and backslashes back, at most leaving out repeated keys.\<close>

definition plain_text :: "string \<Rightarrow> bool" where
  "plain_text s = (CHR 0x22 \<notin> set s \<and> CHR 0x5C \<notin> set s)"

definition db_laws :: "names_env \<Rightarrow> bool" where
  "db_laws E = ((\<forall>rows. mset (ne_order E rows) = mset rows)
     \<and> (\<forall>attrs. (\<forall>(k, v)\<in>set attrs. plain_text k \<and> plain_text v) \<longrightarrow>
         (\<exists>stored. ne_hstore E (hashmap_to_hstore attrs) = Some stored \<and> set stored \<subseteq> set attrs)))"

definition env_laws :: "profile_env \<Rightarrow> bool" where
  "env_laws P = ((\<forall>n. db_laws (pf_db P n)) \<and> (\<forall>as. mset (pf_iter P as) = mset as))"

abbreviation attributes_ok :: "attributes \<Rightarrow> bool" where
  "attributes_ok attrs \<equiv> check_attributes attrs SUPPORTED_ATTRIBUTES ATTRIBUTES_VALUE_MAX_LENGTH"

lemma bio_char_plain: "is_bio_char c \<Longrightarrow> c \<noteq> CHR 0x22 \<and> c \<noteq> CHR 0x5C"
  by (auto simp: is_bio_char_def is_lower_def is_upper_def is_digit_def char_code_def)

lemma attributes_ok_iff:
  "attributes_ok attrs \<longleftrightarrow> (\<forall>(k, v)\<in>set attrs. k = ''bio'' \<and> v \<noteq> [] \<and> length v \<le> 255 \<and> list_all is_bio_char v)"
  by (auto simp: check_attributes_def list_all_iff SUPPORTED_ATTRIBUTES_def ATTRIBUTES_VALUE_MAX_LENGTH_def
      split: if_splits)

lemma attributes_ok_stored:
  assumes "db_laws E" "attributes_ok attrs" "ne_hstore E (hashmap_to_hstore attrs) = Some stored"
  shows "attributes_ok stored"
proof -
  have "\<forall>(k, v)\<in>set attrs. plain_text k \<and> plain_text v"
    using assms(2) bio_char_plain unfolding attributes_ok_iff plain_text_def list_all_iff by fastforce
  then have "set stored \<subseteq> set attrs" using assms(1,3) unfolding db_laws_def by fastforce
  then show ?thesis using assms(2) unfolding attributes_ok_iff by blast
qed

lemma check_signature_ok [res_simps]:
  "check_signature P req ct = Inr u \<longleftrightarrow> (\<exists>project. pf_testing_project P = Some project
    \<and> pf_verify P (rr_message req) (rr_signature req) (rr_address req)
        (''eip155:'' @ show_nat (unat (convert_coin_type_to_evm_chain_id ct))) project = Inr True)"
  by (auto simp: check_signature_def res_simps)

lemma check_owner_ok [res_simps]:
  "check_owner P owner ct addresses = Inr u \<longleftrightarrow>
    (\<exists>a. map_of addresses ct = Some a \<and> pf_h160 P (ea_address a) = Some owner)"
  by (auto simp: check_owner_def res_simps constant_time_eq_iff split: option.splits)

lemma check_registration_ok:
  assumes "check_registration P req db = Inr payload"
  shows "\<exists>zones. pf_zones P = Some zones \<and> pf_register_payload P (rr_message req) = Inr payload
    \<and> valid_name zones (rp_name payload) \<and> is_coin_type_supported (rr_coin_type req)
    \<and> is_timestamp_within_interval (pf_now P) (rp_timestamp payload) UNIXTIMESTAMP_SYNC_THRESHOLD
    \<and> attributes_ok (case rp_attributes payload of Some attributes \<Rightarrow> attributes | None \<Rightarrow> [])
    \<and> check_signature P req (rr_coin_type req) = Inr ()"
  using assms unfolding check_registration_def
  by (auto simp: bind_res_Inr_iff ok_or_Inr_iff map_err_Inr_iff ensure_Inr_iff check_name_ok attributes_ok_iff
      split: option.splits)

lemma mainnet_coin_type_supported: "is_coin_type_supported 60"
  by (simp add: is_coin_type_supported_def convert_coin_type_to_evm_chain_id_def ENSIP11_MAINNET_COIN_TYPE_def
      all_chains_def)

section \<open>The invariant of the names\<close>

definition address_keys :: "names_db \<Rightarrow> (string \<times> supported_namespaces \<times> string \<times> string) set" where
  "address_keys db = addr_key ` set (nd_addresses db)"

text \<open>Every stored name is valid and in a zone, has supported attributes and an address of the mainnet coin
  type, and every address row has a supported coin type.\<close>

definition profile_wf :: "string list \<Rightarrow> names_db \<Rightarrow> bool" where
  "profile_wf zones db = (names_wf db
     \<and> (\<forall>r\<in>set (nd_names db). valid_name zones (nr_name r)
         \<and> (\<exists>attrs. nr_attributes r = Some attrs \<and> attributes_ok attrs)
         \<and> (\<exists>a. (nr_name r, NS_Eip155, ''60'', a) \<in> address_keys db))
     \<and> (\<forall>(n, ns, c, a)\<in>address_keys db. \<exists>ct. is_coin_type_supported ct \<and> c = show_nat (unat ct)))"

definition empty_names :: names_db where "empty_names = \<lparr> nd_names = [], nd_addresses = [] \<rparr>"

inductive profile_step :: "string list \<Rightarrow> names_db \<Rightarrow> names_db \<Rightarrow> bool" for zones where
  Register: "pf_zones P = Some zones \<Longrightarrow> env_laws P \<Longrightarrow> profile_register P req db = (r, db') \<Longrightarrow>
    profile_step zones db db'"
| Address: "env_laws P \<Longrightarrow> profile_address P name req db = (s, db') \<Longrightarrow> profile_step zones db db'"
| Attributes: "env_laws P \<Longrightarrow> profile_attributes show_error P name req db = (t, db') \<Longrightarrow> profile_step zones db db'"

inductive_cases profile_stepE: "profile_step zones db db'"

lemma domain_name_stored:
  "valid_name zones name \<Longrightarrow> varchar 255 name = Some n' \<Longrightarrow> n' = name"
  using varchar_no_blank domain_no_blank unfolding valid_name_def is_name_format_correct_def by blast

text \<open>A successful insert of a registration, over the keys of the tables.\<close>

lemma registration_inserts:
  assumes "check_registration P req db = Inr payload" "env_laws P"
    and "insert_name (pf_db P 1) (rp_name payload)
      (case rp_attributes payload of Some attributes \<Rightarrow> attributes | None \<Rightarrow> []) NS_Eip155
      (pf_iter P (registered_addresses req)) db = (Inr (), db')"
  shows "\<exists>attrs a. rp_name payload \<notin> nr_name ` set (nd_names db) \<and> attributes_ok attrs
    \<and> varchar 255 (rr_address req) = Some a
    \<and> nd_names db' = nd_names db @ [\<lparr> nr_name = rp_name payload, nr_registered_at = ne_now (pf_db P 1),
        nr_updated_at = ne_now (pf_db P 1), nr_attributes = Some attrs \<rparr>]
    \<and> (distinct (map addr_key (nd_addresses db)) \<longrightarrow> distinct (map addr_key (nd_addresses db')))
    \<and> address_keys db' = address_keys db \<union>
        (\<lambda>ct. (rp_name payload, NS_Eip155, show_nat (unat ct), a)) ` {rr_coin_type req, 60}"
proof -
  obtain zones where z: "valid_name zones (rp_name payload)"
    "attributes_ok (case rp_attributes payload of Some attributes \<Rightarrow> attributes | None \<Rightarrow> [])"
    using check_registration_ok [OF assms(1)] by blast
  let ?as = "pf_iter P (registered_addresses req)"
  have "set ?as = set (registered_addresses req)"
    using assms(2) unfolding env_laws_def by (metis set_mset_mset)
  then have as: "set ?as = (\<lambda>ct. (ct, \<lparr> ea_address = rr_address req, ea_created_at = None \<rparr>)) ` {rr_coin_type req, 60}"
    by (auto simp: registered_addresses_def Let_def)
  from assms(3) show ?thesis
  proof (rule insert_name_ok)
    fix n' attrs' ks
    assume *: "varchar 255 (rp_name payload) = Some n'"
      "ne_hstore (pf_db P 1) (hashmap_to_hstore (case rp_attributes payload of Some attributes \<Rightarrow> attributes | None \<Rightarrow> []))
        = Some attrs'" "n' \<notin> nr_name ` set (nd_names db)"
      "nd_names db' = nd_names db @ [\<lparr> nr_name = n', nr_registered_at = ne_now (pf_db P 1),
        nr_updated_at = ne_now (pf_db P 1), nr_attributes = Some attrs' \<rparr>]"
      "distinct (map addr_key (nd_addresses db)) \<Longrightarrow> distinct (map addr_key (nd_addresses db'))"
      "addr_key ` set (nd_addresses db') = addr_key ` set (nd_addresses db) \<union> set ks"
      "list_all2 (\<lambda>(ct, a) k. \<exists>a'. varchar 255 (ea_address a) = Some a' \<and> k = (n', NS_Eip155, show_nat (unat ct), a'))
        ?as ks"
    have n': "n' = rp_name payload" using domain_name_stored z(1) *(1) by blast
    have ok: "attributes_ok attrs'" using attributes_ok_stored assms(2) z(2) *(2) unfolding env_laws_def by blast
    have "?as \<noteq> []" using as by auto
    then obtain x xs where x: "?as = x # xs" by (cases ?as) auto
    have "x \<in> set ?as" using x by simp
    then have e: "ea_address (snd x) = rr_address req" unfolding as by auto
    obtain a where a: "varchar 255 (rr_address req) = Some a"
      using *(7) e unfolding x by (cases ks) auto
    have ks: "set ks = (\<lambda>(ct, e). (rp_name payload, NS_Eip155, show_nat (unat ct), a)) ` set xs"
      if "list_all2 (\<lambda>(ct, a) k. \<exists>a'. varchar 255 (ea_address a) = Some a' \<and> k = (n', NS_Eip155, show_nat (unat ct), a'))
        xs ks" "\<forall>(ct, e)\<in>set xs. ea_address e = rr_address req" for xs ks
      using that by (induction rule: list_all2_induct) (auto simp: a n')
    have "set ks = (\<lambda>ct. (rp_name payload, NS_Eip155, show_nat (unat ct), a)) ` {rr_coin_type req, 60}"
      using ks [OF *(7)] unfolding as by auto
    then show ?thesis using * a ok n' unfolding address_keys_def
      by (intro exI [of _ attrs'] exI [of _ a]) simp
  qed
qed

lemma insert_name_cases:
  obtains "fst (insert_name E name attrs ns as db) = Inr ()"
  | e where "insert_name E name attrs ns as db = (Inl e, db)"
  by (cases "insert_name E name attrs ns as db"; cases "fst (insert_name E name attrs ns as db)")
    (auto dest: insert_name_error)

lemma profile_register_cases:
  assumes "profile_register P req db = (r, db')"
  obtains "db' = db" "\<forall>na. r \<noteq> Inr (Json_reply na)"
  | payload where "check_registration P req db = Inr payload"
    "insert_name (pf_db P 1) (rp_name payload)
      (case rp_attributes payload of Some attributes \<Rightarrow> attributes | None \<Rightarrow> []) NS_Eip155
      (pf_iter P (registered_addresses req)) db = (Inr (), db')"
    "r = (case get_name_and_addresses_by_name (pf_db P 2) 0 (rp_name payload) db' of
        Inr response \<Rightarrow> Inr (Json_reply response)
      | Inl SX_RowNotFound \<Rightarrow> Inl (RE_NameRegistrationError
          ''Name was not found in the database after the registration'')
      | Inl _ \<Rightarrow> Inr (Status_reply 500 ''''))"
proof (cases "check_registration P req db")
  case (Inl e)
  then show ?thesis using assms that(1) by (auto simp: profile_register_def)
next
  case (Inr payload)
  let ?i = "insert_name (pf_db P 1) (rp_name payload)
      (case rp_attributes payload of Some attributes \<Rightarrow> attributes | None \<Rightarrow> []) NS_Eip155
      (pf_iter P (registered_addresses req)) db"
  obtain q d where i: "?i = (q, d)" by (cases ?i)
  show ?thesis
  proof (cases q)
    case (Inl e)
    then show ?thesis
      using assms \<open>check_registration P req db = Inr payload\<close> i insert_name_error [of "pf_db P 1"] that(1)
      by (auto simp: profile_register_def)
  next
    case u: (Inr u)
    then have "d = db'" using assms Inr i
      by (auto simp: profile_register_def split: sum.splits sqlx_error.splits)
    then show ?thesis using assms Inr i u that(2) [OF Inr]
      by (auto simp: profile_register_def split: sum.splits sqlx_error.splits)
  qed
qed

lemma address_keys_append: "address_keys (db \<lparr> nd_names := ns \<rparr>) = address_keys db"
  by (simp add: address_keys_def)

lemma profile_register_wf:
  assumes "pf_zones P = Some zones" "env_laws P" "profile_register P req db = (r, db')" "profile_wf zones db"
  shows "profile_wf zones db'"
  using assms(3)
proof (rule profile_register_cases)
  assume "db' = db"
  then show ?thesis using assms(4) by simp
next
  fix payload
  assume c: "check_registration P req db = Inr payload"
    and i: "insert_name (pf_db P 1) (rp_name payload)
      (case rp_attributes payload of Some attributes \<Rightarrow> attributes | None \<Rightarrow> []) NS_Eip155
      (pf_iter P (registered_addresses req)) db = (Inr (), db')"
  have v: "valid_name zones (rp_name payload)" "is_coin_type_supported (rr_coin_type req)"
    using check_registration_ok [OF c] assms(1) by auto
  obtain attrs a where *: "attributes_ok attrs"
    "nd_names db' = nd_names db @ [\<lparr> nr_name = rp_name payload, nr_registered_at = ne_now (pf_db P 1),
        nr_updated_at = ne_now (pf_db P 1), nr_attributes = Some attrs \<rparr>]"
    "address_keys db' = address_keys db \<union>
        (\<lambda>ct. (rp_name payload, NS_Eip155, show_nat (unat ct), a)) ` {rr_coin_type req, 60}"
    using registration_inserts [OF c assms(2) i] by blast
  have sixty: "show_nat (unat (60 :: u32)) = ''60''" by code_simp
  have wf: "names_wf db'" using insert_name_wf [OF i] assms(4) by (simp add: profile_wf_def)
  have keys: "\<exists>ct. is_coin_type_supported ct \<and> c = show_nat (unat ct)" if "(n, ns, c, a') \<in> address_keys db'" for n ns c a'
    using that assms(4) v(2) mainnet_coin_type_supported unfolding *(3) profile_wf_def by auto
  have names: "valid_name zones (nr_name r) \<and> (\<exists>attrs. nr_attributes r = Some attrs \<and> attributes_ok attrs)
      \<and> (\<exists>a. (nr_name r, NS_Eip155, ''60'', a) \<in> address_keys db')" if "r \<in> set (nd_names db')" for r
  proof (cases "r \<in> set (nd_names db)")
    case True
    then show ?thesis using assms(4) unfolding *(3) profile_wf_def by blast
  next
    case False
    then show ?thesis using that v(1) *(1) unfolding *(2,3) sixty [symmetric] by auto
  qed
  show ?thesis unfolding profile_wf_def using wf keys names by blast
qed

lemma addr_keys_of_rows: "(n, ns, c, a) \<in> address_keys db \<longleftrightarrow>
    (\<exists>r\<in>set (nd_addresses db). ar_name r = n \<and> ar_namespace r = ns \<and> ar_chain_id r = c \<and> ar_address r = a)"
  by (auto simp: address_keys_def addr_key_def)

lemma profile_address_cases:
  assumes "profile_address P name req db = (r, db')"
  obtains "db' = db"
  | payload na owner m where "pf_address_payload P (rr_message req) = Inr payload"
    "is_coin_type_supported (dp_coin_type payload)"
    "get_name_and_addresses_by_name (pf_db P 0) 0 name db = Inr na"
    "pf_h160 P (rr_address req) = Some owner"
    "check_signature P req (dp_coin_type payload) = Inr ()"
    "check_owner P owner (rr_coin_type req) (na_addresses na) = Inr ()"
    "insert_or_update_address (pf_db P 1) 0 name NS_Eip155 (show_nat (unat (dp_coin_type payload)))
      (dp_address payload) db = Inr (m, db')"
  using assms unfolding profile_address_def check_address_update_def
  by (auto simp: bind_res_Inr_iff ok_or_Inr_iff map_err_Inr_iff ensure_Inr_iff
      split: sum.splits sqlx_error.splits)

lemma profile_attributes_cases:
  assumes "profile_attributes show_error P name req db = (r, db')"
  obtains "db' = db"
  | payload na owner attrs where "pf_attributes_payload P (rr_message req) = Inr payload"
    "get_name_and_addresses_by_name (pf_db P 0) 0 name db = Inr na"
    "pf_h160 P (rr_address req) = Some owner"
    "check_signature P req (rr_coin_type req) = Inr ()"
    "check_owner P owner (rr_coin_type req) (na_addresses na) = Inr ()"
    "attributes_ok (ap_attributes payload)"
    "update_name_attributes (pf_db P 1) name (ap_attributes payload) db = (Inr attrs, db')"
  using assms unfolding profile_attributes_def
  by (auto simp: bind_res_Inr_iff ok_or_Inr_iff map_err_Inr_iff ensure_Inr_iff
      split: sum.splits prod.splits dest: update_name_attributes_error)

lemma insert_or_update_address_keys:
  assumes "insert_or_update_address E n name ns (show_nat (unat ct)) a db = Inr (m, db')" "names_wf db"
    "varchar 255 name = Some name"
  shows "\<exists>a'. varchar 255 a = Some a' \<and> nd_names db' = nd_names db
    \<and> address_keys db' = insert (name, ns, show_nat (unat ct), a') (address_keys db)"
  using assms(1)
proof (rule insert_or_update_address_ok)
  fix n' c a'
  assume *: "varchar 255 name = Some n'" "varchar 255 (show_nat (unat ct)) = Some c" "varchar 255 a = Some a'"
    "nd_names db' = nd_names db"
    "addr_key ` set (nd_addresses db') = insert (n', ns, c, a') (addr_key ` set (nd_addresses db))"
  then show ?thesis
    using assms(3) varchar_no_blank [OF *(2) show_nat_no_blank] unfolding address_keys_def by auto
qed

lemma valid_name_stored:
  assumes "valid_name zones name" "varchar 255 name = Some n'"
  shows "varchar 255 name = Some name"
  using domain_name_stored [OF assms] assms(2) by simp

lemma found_name:
  assumes "get_name_and_addresses_by_name E n name db = Inr na"
  shows "name \<in> nr_name ` set (nd_names db)"
  using assms by (auto simp: get_name_and_addresses_by_name_def get_name_def res_simps dest!: find_SomeD)

lemma profile_address_wf:
  assumes "profile_address P name req db = (r, db')" "profile_wf zones db"
  shows "profile_wf zones db'"
  using assms(1)
proof (rule profile_address_cases)
  assume "db' = db"
  then show ?thesis using assms(2) by simp
next
  fix payload na owner m
  assume *: "is_coin_type_supported (dp_coin_type payload)"
    "get_name_and_addresses_by_name (pf_db P 0) 0 name db = Inr na"
    "insert_or_update_address (pf_db P 1) 0 name NS_Eip155 (show_nat (unat (dp_coin_type payload)))
      (dp_address payload) db = Inr (m, db')"
  have wf: "names_wf db" using assms(2) by (simp add: profile_wf_def)
  have "valid_name zones name" using found_name [OF *(2)] assms(2) by (auto simp: profile_wf_def)
  moreover obtain n' where "varchar 255 name = Some n'"
    using insert_or_update_address_ok [OF *(3)] by metis
  ultimately have "varchar 255 name = Some name" using valid_name_stored by blast
  from insert_or_update_address_keys [OF *(3) wf this] obtain a' where
    "nd_names db' = nd_names db"
    "address_keys db' = insert (name, NS_Eip155, show_nat (unat (dp_coin_type payload)), a') (address_keys db)"
    by blast
  then show ?thesis
    using assms(2) *(1) insert_or_update_address_wf [OF *(3) wf] unfolding profile_wf_def by auto
qed

lemma profile_attributes_wf:
  assumes "env_laws P" "profile_attributes show_error P name req db = (r, db')" "profile_wf zones db"
  shows "profile_wf zones db'"
  using assms(2)
proof (rule profile_attributes_cases)
  assume "db' = db"
  then show ?thesis using assms(3) by simp
next
  fix payload na owner attrs
  assume *: "attributes_ok (ap_attributes payload)"
    "update_name_attributes (pf_db P 1) name (ap_attributes payload) db = (Inr attrs, db')"
  note u = update_name_attributes_ok [OF *(2)]
  have ok: "attributes_ok attrs"
    using u *(1) attributes_ok_stored assms(1) unfolding env_laws_def by blast
  have keys: "address_keys db' = address_keys db" using u by (simp add: address_keys_def)
  have "names_wf db'" using update_name_attributes_wf [OF *(2)] assms(3) by (simp add: profile_wf_def)
  moreover have "valid_name zones (nr_name r) \<and> (\<exists>attrs. nr_attributes r = Some attrs \<and> attributes_ok attrs)
      \<and> (\<exists>a. (nr_name r, NS_Eip155, ''60'', a) \<in> address_keys db')" if "r \<in> set (nd_names db')" for r
  proof -
    from that u obtain r0 where r0: "r0 \<in> set (nd_names db)"
      "r = r0 \<or> r = r0 \<lparr> nr_attributes := Some attrs, nr_updated_at := ne_now (pf_db P 1) \<rparr>"
      by (auto split: if_splits)
    then show ?thesis using assms(3) ok unfolding profile_wf_def keys by auto
  qed
  ultimately show ?thesis using assms(3) unfolding profile_wf_def keys by blast
qed

lemma profile_step_keeps: "profile_step zones db db' \<Longrightarrow> profile_wf zones db \<Longrightarrow> profile_wf zones db'"
  by (erule profile_stepE) (blast intro: profile_register_wf profile_address_wf profile_attributes_wf)+

lemma profile_wf_empty: "profile_wf zones empty_names"
  by (simp add: profile_wf_def names_wf_def names_fk_def empty_names_def address_keys_def)

text \<open>Reverse lookups over the keys of the address table.\<close>

lemma count_address_rows:
  assumes "names_fk db"
  shows "length (filter (\<lambda>r. ar_address r = a \<and> ar_name r = n) (nd_addresses db))
    = card {k \<in> address_keys db. snd (snd (snd k)) = a \<and> fst k = n}"
proof -
  let ?rows = "filter (\<lambda>r. ar_address r = a \<and> ar_name r = n) (nd_addresses db)"
  have "distinct (map addr_key ?rows)"
    using assms unfolding names_fk_def by (simp add: distinct_map inj_on_def)
  then have "length ?rows = card (addr_key ` set ?rows)"
    using distinct_card [of "map addr_key ?rows"] by simp
  also have "addr_key ` set ?rows = {k \<in> address_keys db. snd (snd (snd k)) = a \<and> fst k = n}"
    by (auto simp: address_keys_def addr_key_def)
  finally show ?thesis .
qed

lemma reverse_count:
  assumes "names_wf db" "db_laws E" "get_names_by_address E i a db = Inr rows"
  shows "count (mset (map nr_name rows)) n = card {k \<in> address_keys db. snd (snd (snd k)) = a \<and> fst k = n}"
proof -
  have fk: "names_fk db" using assms(1) by (simp add: names_wf_def)
  have "mset (ne_order E rows) = mset rows" for rows using assms(2) by (simp add: db_laws_def)
  from get_names_by_address_ok [OF assms(3) this fk] show ?thesis by (simp add: count_address_rows [OF fk])
qed

lemma reverse_rows:
  assumes "names_wf db" "names_wf db'" "address_keys db' = address_keys db \<union> {(n, ns, c, a), (n, ns, d, a)}"
    "n \<notin> nr_name ` set (nd_names db)" "db_laws E" "get_names_by_address E i a db' = Inr rows"
  shows "count (mset (map nr_name rows)) n = (if c = d then 1 else 2)"
proof -
  have new: "fst k \<noteq> n" if "k \<in> address_keys db" for k
    using that assms(1,4) by (auto simp: names_wf_def address_keys_def addr_key_def)
  then have "{k \<in> address_keys db'. snd (snd (snd k)) = a \<and> fst k = n} = {(n, ns, c, a), (n, ns, d, a)}"
    unfolding assms(3) by auto
  then show ?thesis using reverse_count [OF assms(2,5,6), of n] by simp
qed

lemma reverse_lists:
  assumes "names_wf db" "(n, ns, c, a) \<in> address_keys db" "db_laws E" "get_names_by_address E i a db = Inr rows"
  shows "n \<in> nr_name ` set rows"
proof -
  have "finite {k \<in> address_keys db. snd (snd (snd k)) = a \<and> fst k = n}" by (simp add: address_keys_def)
  then have "0 < count (mset (map nr_name rows)) n"
    using assms(2) unfolding reverse_count [OF assms(1,3,4), of n] card_gt_0_iff by force
  then show ?thesis by (simp add: count_greater_zero_iff)
qed

section \<open>A small service\<close>

definition demo_db_env :: names_env where
  "demo_db_env = \<lparr> ne_now = 0, ne_fail = (\<lambda>_. None), ne_order = (\<lambda>rows. rows), ne_hstore = (\<lambda>_. Some []) \<rparr>"

definition demo_profile :: profile_env where
  "demo_profile = \<lparr> pf_zones = Some [''wc.ink''], pf_testing_project = Some ''t'', pf_now = 1000,
     pf_register_payload = (\<lambda>_. Inr \<lparr> rp_name = ''abc.wc.ink'', rp_attributes = None, rp_timestamp = 1003 \<rparr>),
     pf_attributes_payload = (\<lambda>_. Inl ''''),
     pf_address_payload = (\<lambda>_. Inr \<lparr> dp_coin_type = 60, dp_address = ''0x2'', dp_timestamp = 1003 \<rparr>),
     pf_h160 = (\<lambda>s. Some (string_bytes s)), pf_verify = (\<lambda>_ _ _ _ _. Inr True), pf_dictionary = [],
     pf_iter = (\<lambda>as. as), pf_db = (\<lambda>_. demo_db_env) \<rparr>"

definition demo_request :: register_request where
  "demo_request = \<lparr> rr_message = '''', rr_signature = '''', rr_coin_type = 137, rr_address = ''0x1'' \<rparr>"

lemma demo_env_laws: "env_laws demo_profile"
  by (simp add: env_laws_def db_laws_def demo_profile_def demo_db_env_def)

lemma demo_name_valid: "valid_name [''wc.ink''] ''abc.wc.ink''"
  by (simp add: valid_name_def is_name_format_correct_def is_domain_char_def is_lower_def is_digit_def
      char_code_def is_name_length_correct_def is_name_in_allowed_zones_def NAME_MIN_LENGTH_def NAME_MAX_LENGTH_def)

lemma demo_polygon: "is_coin_type_supported 137"
  by (simp add: is_coin_type_supported_def convert_coin_type_to_evm_chain_id_def ENSIP11_MAINNET_COIN_TYPE_def
      all_chains_def)

definition demo_names :: names_db where
  "demo_names = \<lparr> nd_names = [\<lparr> nr_name = ''abc.wc.ink'', nr_registered_at = 0, nr_updated_at = 0,
       nr_attributes = Some [] \<rparr>],
     nd_addresses = [\<lparr> ar_name = ''abc.wc.ink'', ar_namespace = NS_Eip155, ar_chain_id = ''137'',
         ar_address = ''0x1'', ar_created_at = 0 \<rparr>,
       \<lparr> ar_name = ''abc.wc.ink'', ar_namespace = NS_Eip155, ar_chain_id = ''60'',
         ar_address = ''0x1'', ar_created_at = 0 \<rparr>] \<rparr>"

lemma demo_show: "show_nat 60 = ''60''" "show_nat 137 = ''137''"
  by code_simp+

lemma show_coin_eq: "show_nat (unat ct) = ''60'' \<longleftrightarrow> ct = (60 :: u32)"
proof
  assume "show_nat (unat ct) = ''60''"
  then have "show_nat (unat ct) = show_nat (unat (60 :: u32))" using demo_show(1) by simp
  then show "ct = 60" by (auto dest!: show_nat_inj simp: word_unat_eq_iff)
qed (simp add: demo_show(1))

lemma demo_checked:
  "check_registration demo_profile demo_request empty_names
    = Inr \<lparr> rp_name = ''abc.wc.ink'', rp_attributes = None, rp_timestamp = 1003 \<rparr>"
  using demo_name_valid demo_polygon
  by (simp add: check_registration_def demo_profile_def demo_request_def check_name_def ensure_def valid_name_def
      get_name_and_addresses_by_name_def get_name_def statement_def demo_db_env_def empty_names_def
      is_timestamp_within_interval_def UNIXTIMESTAMP_SYNC_THRESHOLD_def check_signature_def)

lemma demo_inserted:
  "insert_name demo_db_env ''abc.wc.ink'' [] NS_Eip155 (registered_addresses demo_request) empty_names
    = (Inr (), demo_names)"
proof -
  have "list_all is_domain_char ''abc.wc.ink''"
    using demo_name_valid by (simp add: valid_name_def is_name_format_correct_def)
  then show ?thesis
    by (simp add: insert_name_def registered_addresses_def demo_request_def statement_def demo_db_env_def
        insert_name_row_def varchar_short empty_names_def insert_or_update_address_def Let_def same_key_def
        demo_show demo_names_def)
qed

lemma demo_registers:
  obtains na where "profile_register demo_profile demo_request empty_names = (Inr (Json_reply na), demo_names)"
proof -
  have db: "pf_db demo_profile n = demo_db_env" "pf_iter demo_profile as = as" for n as
    by (simp_all add: demo_profile_def)
  have "get_name_and_addresses_by_name demo_db_env 0 ''abc.wc.ink'' demo_names \<noteq> Inl e" for e
    by (simp add: get_name_and_addresses_by_name_def get_name_def statement_def demo_db_env_def demo_names_def
        get_addresses_by_name_def)
  then obtain na where "get_name_and_addresses_by_name demo_db_env 0 ''abc.wc.ink'' demo_names = Inr na"
    by (cases "get_name_and_addresses_by_name demo_db_env 0 ''abc.wc.ink'' demo_names") auto
  then show thesis
    using that demo_inserted by (simp add: profile_register_def demo_checked db)
qed

section \<open>Properties\<close>

text \<open>C2: in every state the profile handlers reach, from an empty database and whatever fails on the way,
  names are unique, well-formed, of the right length and in an allowed zone, their attributes are supported
  ones, every name has an address for the mainnet coin type, every address belongs to a name and has a
  supported coin type, and no address is stored twice.\<close>

theorem names_invariant:
  assumes "(profile_step zones)\<^sup>*\<^sup>* empty_names db"
  shows "profile_wf zones db"
  using assms by (induction rule: rtranclp_induct) (auto intro: profile_wf_empty profile_step_keeps)

lemma names_invariant_witness:
  "profile_wf [''wc.ink''] demo_names \<and> length (nd_names demo_names) = 1"
proof -
  obtain na where r: "profile_register demo_profile demo_request empty_names = (Inr (Json_reply na), demo_names)"
    by (rule demo_registers)
  have "pf_zones demo_profile = Some [''wc.ink'']" by (simp add: demo_profile_def)
  from Register [OF this demo_env_laws r] names_invariant [of "[''wc.ink'']" demo_names] show ?thesis
    by (simp add: demo_names_def r_into_rtranclp)
qed

text \<open>C29: a registration that is answered with the name has verified the signature of the address for the
  coin type, found the name free and in a zone, and added exactly one row for it and its address under the
  coin type and the mainnet coin type, keeping every other row; a refused one leaves the database as it was.
  A reverse lookup of the address then lists the name once per coin type, so twice unless it was mainnet.\<close>

theorem registration_effect:
  assumes "profile_register P req db = (r, db')" "env_laws P" "profile_wf zones db" "pf_zones P = Some zones"
  shows "(r = Inr (Json_reply na) \<longrightarrow> (\<exists>payload project attrs a.
      pf_register_payload P (rr_message req) = Inr payload \<and> valid_name zones (rp_name payload)
      \<and> rp_name payload \<notin> nr_name ` set (nd_names db)
      \<and> pf_verify P (rr_message req) (rr_signature req) (rr_address req)
          (''eip155:'' @ show_nat (unat (convert_coin_type_to_evm_chain_id (rr_coin_type req)))) project = Inr True
      \<and> nd_names db' = nd_names db @ [\<lparr> nr_name = rp_name payload, nr_registered_at = ne_now (pf_db P 1),
          nr_updated_at = ne_now (pf_db P 1), nr_attributes = Some attrs \<rparr>]
      \<and> varchar 255 (rr_address req) = Some a
      \<and> address_keys db' = address_keys db \<union>
          {(rp_name payload, NS_Eip155, show_nat (unat (rr_coin_type req)), a),
           (rp_name payload, NS_Eip155, ''60'', a)}
      \<and> (\<forall>E n rows. db_laws E \<longrightarrow> get_names_by_address E n a db' = Inr rows \<longrightarrow>
          count (mset (map nr_name rows)) (rp_name payload) = (if rr_coin_type req = 60 then 1 else 2))))
    \<and> (r = Inl e \<longrightarrow> db' = db \<or> (\<exists>m. e = RE_NameRegistrationError m))"
  using assms(1)
proof (rule profile_register_cases)
  assume "db' = db" "\<forall>na. r \<noteq> Inr (Json_reply na)"
  then show ?thesis by blast
next
  fix payload
  assume c: "check_registration P req db = Inr payload"
    and i: "insert_name (pf_db P 1) (rp_name payload)
      (case rp_attributes payload of Some attributes \<Rightarrow> attributes | None \<Rightarrow> []) NS_Eip155
      (pf_iter P (registered_addresses req)) db = (Inr (), db')"
    and r: "r = (case get_name_and_addresses_by_name (pf_db P 2) 0 (rp_name payload) db' of
        Inr response \<Rightarrow> Inr (Json_reply response)
      | Inl SX_RowNotFound \<Rightarrow> Inl (RE_NameRegistrationError
          ''Name was not found in the database after the registration'')
      | Inl _ \<Rightarrow> Inr (Status_reply 500 ''''))"
  let ?n = "rp_name payload"
  obtain project where p: "pf_register_payload P (rr_message req) = Inr payload" "valid_name zones ?n"
    "pf_verify P (rr_message req) (rr_signature req) (rr_address req)
      (''eip155:'' @ show_nat (unat (convert_coin_type_to_evm_chain_id (rr_coin_type req)))) project = Inr True"
    using check_registration_ok [OF c] assms(4) by (auto simp: check_signature_ok)
  obtain attrs a where *: "?n \<notin> nr_name ` set (nd_names db)" "varchar 255 (rr_address req) = Some a"
    "nd_names db' = nd_names db @ [\<lparr> nr_name = ?n, nr_registered_at = ne_now (pf_db P 1),
        nr_updated_at = ne_now (pf_db P 1), nr_attributes = Some attrs \<rparr>]"
    "address_keys db' = address_keys db \<union> (\<lambda>ct. (?n, NS_Eip155, show_nat (unat ct), a)) ` {rr_coin_type req, 60}"
    using registration_inserts [OF c assms(2) i] by blast
  have keys: "address_keys db' = address_keys db \<union>
      {(?n, NS_Eip155, show_nat (unat (rr_coin_type req)), a), (?n, NS_Eip155, ''60'', a)}"
    using *(4) demo_show(1) by simp
  have wf: "names_wf db" "names_wf db'"
    using assms(3) insert_name_wf [OF i] by (simp_all add: profile_wf_def)
  have "count (mset (map nr_name rows)) ?n = (if rr_coin_type req = 60 then 1 else 2)"
    if "db_laws E" "get_names_by_address E n a db' = Inr rows" for E n rows
    using reverse_rows [OF wf keys *(1) that] by (simp add: show_coin_eq)
  moreover have "r = Inl e \<Longrightarrow> \<exists>m. e = RE_NameRegistrationError m"
    using r by (auto split: sum.splits sqlx_error.splits)
  ultimately show ?thesis using p *(1-3) keys by blast
qed

lemma registration_effect_witness:
  "\<exists>rows. get_names_by_address demo_db_env 0 ''0x1'' demo_names = Inr rows
    \<and> count (mset (map nr_name rows)) ''abc.wc.ink'' = 2"
proof -
  obtain na where r: "profile_register demo_profile demo_request empty_names = (Inr (Json_reply na), demo_names)"
    by (rule demo_registers)
  have z: "pf_zones demo_profile = Some [''wc.ink'']"
    and payload: "pf_register_payload demo_profile m = Inr \<lparr> rp_name = ''abc.wc.ink'', rp_attributes = None, rp_timestamp = 1003 \<rparr>" for m
    by (simp_all add: demo_profile_def)
  have laws: "db_laws demo_db_env" by (simp add: db_laws_def demo_db_env_def)
  have a: "varchar 255 (rr_address demo_request) = Some ''0x1''" "rr_coin_type demo_request \<noteq> 60"
    by (simp_all add: demo_request_def varchar_short)
  obtain rows where rows: "get_names_by_address demo_db_env 0 ''0x1'' demo_names = Inr rows"
    by (simp add: get_names_by_address_def statement_def demo_db_env_def)
  show ?thesis
    using registration_effect [OF r demo_env_laws profile_wf_empty z, of na] laws a payload rows by auto
qed

text \<open>C30: an address update changes the database only if the signature of the message was verified for the
  coin type of the payload and the signer is the address stored for the coin type of the request (a different
  one, if the owner says so); it then adds one row and removes none.  So an address that is replaced stays in
  the table: a reverse lookup of any former address of the name still lists the name.\<close>

theorem address_update_by_owner:
  assumes "profile_address P name req db = (r, db')" "db' \<noteq> db" "profile_wf zones db"
  shows "\<exists>payload na stored owner project a.
      pf_address_payload P (rr_message req) = Inr payload
      \<and> pf_verify P (rr_message req) (rr_signature req) (rr_address req)
          (''eip155:'' @ show_nat (unat (convert_coin_type_to_evm_chain_id (dp_coin_type payload)))) project = Inr True
      \<and> get_name_and_addresses_by_name (pf_db P 0) 0 name db = Inr na
      \<and> map_of (na_addresses na) (rr_coin_type req) = Some stored
      \<and> pf_h160 P (ea_address stored) = Some owner \<and> pf_h160 P (rr_address req) = Some owner
      \<and> varchar 255 (dp_address payload) = Some a
      \<and> nd_names db' = nd_names db
      \<and> address_keys db' = insert (name, NS_Eip155, show_nat (unat (dp_coin_type payload)), a) (address_keys db)
      \<and> (\<forall>old c E n rows. (name, NS_Eip155, c, old) \<in> address_keys db \<longrightarrow> db_laws E \<longrightarrow>
          get_names_by_address E n old db' = Inr rows \<longrightarrow> name \<in> nr_name ` set rows)"
  using assms(1)
proof (rule profile_address_cases)
  assume "db' = db"
  then show ?thesis using assms(2) by simp
next
  fix payload na owner m
  assume *: "pf_address_payload P (rr_message req) = Inr payload"
    "get_name_and_addresses_by_name (pf_db P 0) 0 name db = Inr na" "pf_h160 P (rr_address req) = Some owner"
    "check_signature P req (dp_coin_type payload) = Inr ()"
    "check_owner P owner (rr_coin_type req) (na_addresses na) = Inr ()"
    and i: "insert_or_update_address (pf_db P 1) 0 name NS_Eip155 (show_nat (unat (dp_coin_type payload)))
      (dp_address payload) db = Inr (m, db')"
  have wf: "names_wf db" using assms(3) by (simp add: profile_wf_def)
  have "valid_name zones name" using found_name [OF *(2)] assms(3) by (auto simp: profile_wf_def)
  moreover obtain n' where "varchar 255 name = Some n'" using insert_or_update_address_ok [OF i] by metis
  ultimately have "varchar 255 name = Some name" using valid_name_stored by blast
  from insert_or_update_address_keys [OF i wf this] obtain a where a: "varchar 255 (dp_address payload) = Some a"
    "nd_names db' = nd_names db"
    "address_keys db' = insert (name, NS_Eip155, show_nat (unat (dp_coin_type payload)), a) (address_keys db)"
    by blast
  have "name \<in> nr_name ` set rows" if "(name, NS_Eip155, c, old) \<in> address_keys db" "db_laws E"
    "get_names_by_address E n old db' = Inr rows" for old c E n rows
    using reverse_lists [OF insert_or_update_address_wf [OF i wf], of name _ c old] that a(3) by blast
  then show ?thesis using * a unfolding check_signature_ok check_owner_ok by blast
qed

lemma address_update_by_owner_witness:
  "\<exists>db'. profile_address demo_profile ''abc.wc.ink'' demo_request demo_names
      = (Inr (Json_reply [(60, \<lparr> ea_address = ''0x2'', ea_created_at = Some 0 \<rparr>)]), db')
    \<and> nd_names db' = nd_names demo_names \<and> demo_names \<noteq> db'"
proof -
  obtain na where r: "profile_register demo_profile demo_request empty_names = (Inr (Json_reply na), demo_names)"
    by (rule demo_registers)
  have "pf_zones demo_profile = Some [''wc.ink'']" by (simp add: demo_profile_def)
  then have wf: "profile_wf [''wc.ink''] demo_names"
    using profile_register_wf [OF _ demo_env_laws r profile_wf_empty] by blast
  have coin: "coin_type_of ''60'' = 60" "coin_type_of ''137'' = 137"
    using coin_type_of_show [of 60] coin_type_of_show [of 137] demo_show by simp_all
  define db' where "db' = demo_names \<lparr> nd_addresses := nd_addresses demo_names @
    [\<lparr> ar_name = ''abc.wc.ink'', ar_namespace = NS_Eip155, ar_chain_id = ''60'', ar_address = ''0x2'',
       ar_created_at = 0 \<rparr>] \<rparr>"
  have names: "get_name_and_addresses_by_name demo_db_env 0 ''abc.wc.ink'' demo_names
      = Inr \<lparr> na_name = ''abc.wc.ink'', na_registered_at = 0, na_updated_at = 0, na_attributes = Some [],
          na_addresses = [(137, \<lparr> ea_address = ''0x1'', ea_created_at = Some 0 \<rparr>),
            (60, \<lparr> ea_address = ''0x1'', ea_created_at = Some 0 \<rparr>)] \<rparr>"
    by (simp add: get_name_and_addresses_by_name_def get_name_def statement_def demo_db_env_def demo_names_def
        get_addresses_by_name_def row_entry_def coin)
  have insert: "insert_or_update_address demo_db_env 0 ''abc.wc.ink'' NS_Eip155 ''60'' ''0x2'' demo_names
      = Inr ([(60, \<lparr> ea_address = ''0x2'', ea_created_at = Some 0 \<rparr>)], db')"
    by (simp add: insert_or_update_address_def statement_def demo_db_env_def varchar_short Let_def same_key_def
        demo_names_def row_entry_def coin db'_def)
  have update: "profile_address demo_profile ''abc.wc.ink'' demo_request demo_names
      = (Inr (Json_reply [(60, \<lparr> ea_address = ''0x2'', ea_created_at = Some 0 \<rparr>)]), db')"
    using names insert demo_polygon mainnet_coin_type_supported demo_show
    by (simp add: profile_address_def demo_profile_def demo_request_def ensure_def check_address_update_def
        is_timestamp_within_interval_def UNIXTIMESTAMP_SYNC_THRESHOLD_def check_signature_def check_owner_def
        constant_time_eq_iff)
  have "db' \<noteq> demo_names" by (simp add: db'_def demo_names_def)
  with address_update_by_owner [OF update this wf] update show ?thesis by (intro exI [of _ db']) auto
qed

text \<open>The suggestions: at most five, the exact name first, then free names of the dictionary only.\<close>

lemma suggest_loop_result:
  "length acc \<le> 4 \<Longrightarrow> \<exists>more. suggest_loop P zone db n cs acc = acc @ more \<and> length (acc @ more) \<le> 5
    \<and> (\<forall>s\<in>set more. \<not> ns_registered s \<and> (\<exists>c\<in>set cs. ns_name s = c @ ''.'' @ zone))"
proof (induction cs arbitrary: n acc)
  case (Cons c cs)
  let ?s = "\<lparr> ns_name = c @ ''.'' @ zone, ns_registered = False \<rparr>"
  show ?case
  proof (cases "is_name_registered (pf_db P n) (c @ ''.'' @ zone) db")
    case True
    then show ?thesis using Cons.IH [OF Cons.prems, of "Suc n"] Cons.prems by (auto simp: SUGGESTION_OPTIONS_def)
  next
    case False
    show ?thesis
    proof (cases "length acc = 4")
      case True
      then show ?thesis using False by (intro exI [of _ "[?s]"]) (simp add: SUGGESTION_OPTIONS_def)
    next
      case not4: False
      then have "length (acc @ [?s]) \<le> 4" using Cons.prems by simp
      from Cons.IH [OF this, of "Suc n"] obtain more where
        "suggest_loop P zone db (Suc n) cs (acc @ [?s]) = (acc @ [?s]) @ more \<and> length ((acc @ [?s]) @ more) \<le> 5
          \<and> (\<forall>s\<in>set more. \<not> ns_registered s \<and> (\<exists>c\<in>set cs. ns_name s = c @ ''.'' @ zone))" by blast
      then show ?thesis using False not4 by (intro exI [of _ "?s # more"]) (auto simp: SUGGESTION_OPTIONS_def)
    qed
  qed
qed simp

lemma suggestions_result:
  assumes "profile_suggestions P name zone db = Inr ss"
  shows "\<exists>z more. ss = \<lparr> ns_name = name @ ''.'' @ z,
        ns_registered = is_name_registered (pf_db P 0) (name @ ''.'' @ z) db \<rparr> # more
    \<and> length more \<le> 4 \<and> (\<forall>s\<in>set more. \<not> ns_registered s \<and>
        (\<exists>w\<in>set (pf_dictionary P). starts_with name w \<and> w \<noteq> name \<and> ns_name s = w @ ''.'' @ z))"
proof -
  obtain z where "ss = suggest_loop P z db 1 (dictionary_suggestions (pf_dictionary P) name)
      [\<lparr> ns_name = name @ ''.'' @ z, ns_registered = is_name_registered (pf_db P 0) (name @ ''.'' @ z) db \<rparr>]"
    using assms by (auto simp: profile_suggestions_def res_simps Let_def)
  moreover from suggest_loop_result [of "[\<lparr> ns_name = name @ ''.'' @ z,
      ns_registered = is_name_registered (pf_db P 0) (name @ ''.'' @ z) db \<rparr>]" P z db 1
      "dictionary_suggestions (pf_dictionary P) name"]
  obtain more where "suggest_loop P z db 1 (dictionary_suggestions (pf_dictionary P) name)
      [\<lparr> ns_name = name @ ''.'' @ z, ns_registered = is_name_registered (pf_db P 0) (name @ ''.'' @ z) db \<rparr>]
    = \<lparr> ns_name = name @ ''.'' @ z, ns_registered = is_name_registered (pf_db P 0) (name @ ''.'' @ z) db \<rparr> # more"
    "length more \<le> 4" "\<forall>s\<in>set more. \<not> ns_registered s
      \<and> (\<exists>c\<in>set (dictionary_suggestions (pf_dictionary P) name). ns_name s = c @ ''.'' @ z)"
    by (auto simp: is_name_registered_def)
  ultimately show ?thesis
    by (intro exI [of _ z] exI [of _ more]) (auto simp: dictionary_suggestions_def)
qed

end
