(* ===== verification/Pos.thy ===== *)
theory Pos
  imports HttpErrors CryptoBytes
begin

text \<open>
  Point-of-sale payments (\<open>handlers/json_rpc/pos/mod.rs\<close>, \<open>errors.rs\<close>): the errors with their JSON-RPC codes,
  the transaction identifier and the validation of a payment intent.  Base64 and UTF-8 are parameters.
\<close>

section \<open>Errors\<close>

datatype internal_error = IE_InvalidProviderUrl string | IE_RpcError string | IE_Internal string

datatype pos_rpc_error = PR_InvalidResponse string | PR_Internal string

datatype validation_error =
    VE_InvalidAsset string | VE_InvalidRecipient string | VE_InvalidSender string | VE_InvalidAmount string
  | VE_InvalidAddress string | VE_InvalidWalletResponse string | VE_InvalidTransactionId string
  | VE_InvalidRequest string

datatype execution_error = XE_GasEstimation string

datatype build_pos_txs_error =
    BP_Validation validation_error | BP_Execution execution_error | BP_Rpc pos_rpc_error | BP_Internal internal_error

datatype check_pos_tx_error =
    CP_Validation validation_error | CP_Rpc pos_rpc_error | CP_Internal internal_error

datatype supported_networks_error = SN_Internal internal_error

datatype transaction_id_error = TI_InvalidFormat string | TI_InvalidChainId crypto_utils_error

fun internal_error_code :: "internal_error \<Rightarrow> int" where
  "internal_error_code (IE_InvalidProviderUrl _) = -18940"
| "internal_error_code (IE_RpcError _) = -18941"
| "internal_error_code (IE_Internal _) = -18942"

fun pos_rpc_error_code :: "pos_rpc_error \<Rightarrow> int" where
  "pos_rpc_error_code (PR_InvalidResponse _) = -18943"
| "pos_rpc_error_code (PR_Internal _) = -18944"

fun validation_error_code :: "validation_error \<Rightarrow> int" where
  "validation_error_code (VE_InvalidAsset _) = -18901"
| "validation_error_code (VE_InvalidRecipient _) = -18902"
| "validation_error_code (VE_InvalidSender _) = -18903"
| "validation_error_code (VE_InvalidAmount _) = -18904"
| "validation_error_code (VE_InvalidAddress _) = -18905"
| "validation_error_code (VE_InvalidWalletResponse _) = -18906"
| "validation_error_code (VE_InvalidTransactionId _) = -18907"
| "validation_error_code (VE_InvalidRequest _) = -18908"

fun execution_error_code :: "execution_error \<Rightarrow> int" where
  "execution_error_code (XE_GasEstimation _) = -18920"

fun build_pos_txs_error_code :: "build_pos_txs_error \<Rightarrow> int" where
  "build_pos_txs_error_code (BP_Validation v) = validation_error_code v"
| "build_pos_txs_error_code (BP_Execution e) = execution_error_code e"
| "build_pos_txs_error_code (BP_Rpc r) = pos_rpc_error_code r"
| "build_pos_txs_error_code (BP_Internal i) = internal_error_code i"

fun build_is_internal :: "build_pos_txs_error \<Rightarrow> bool" where
  "build_is_internal (BP_Internal _) = True"
| "build_is_internal (BP_Rpc (PR_Internal _)) = True"
| "build_is_internal _ = False"

fun check_pos_tx_error_code :: "check_pos_tx_error \<Rightarrow> int" where
  "check_pos_tx_error_code (CP_Validation v) = validation_error_code v"
| "check_pos_tx_error_code (CP_Rpc r) = pos_rpc_error_code r"
| "check_pos_tx_error_code (CP_Internal i) = internal_error_code i"

fun check_is_internal :: "check_pos_tx_error \<Rightarrow> bool" where
  "check_is_internal (CP_Internal _) = True"
| "check_is_internal (CP_Rpc (PR_Internal _)) = True"
| "check_is_internal _ = False"

fun supported_networks_error_code :: "supported_networks_error \<Rightarrow> int" where
  "supported_networks_error_code (SN_Internal i) = internal_error_code i"

fun transaction_id_error_code :: "transaction_id_error \<Rightarrow> int" where
  "transaction_id_error_code (TI_InvalidFormat _) = -18970"
| "transaction_id_error_code (TI_InvalidChainId _) = -18971"

fun validation_error_display :: "validation_error \<Rightarrow> string" where
  "validation_error_display (VE_InvalidAsset e) = ''Invalid Asset: '' @ e"
| "validation_error_display (VE_InvalidRecipient e) = ''Invalid Recipient: '' @ e"
| "validation_error_display (VE_InvalidSender e) = ''Invalid Sender: '' @ e"
| "validation_error_display (VE_InvalidAmount e) = ''Invalid Amount: '' @ e"
| "validation_error_display (VE_InvalidAddress e) = ''Invalid Address: '' @ e"
| "validation_error_display (VE_InvalidWalletResponse e) = ''Invalid Wallet Response: '' @ e"
| "validation_error_display (VE_InvalidTransactionId e) = ''Invalid Transaction ID: '' @ e"
| "validation_error_display (VE_InvalidRequest e) = ''Invalid Request: '' @ e"

fun transaction_id_error_display :: "transaction_id_error \<Rightarrow> string" where
  "transaction_id_error_display (TI_InvalidFormat s) =
     ''Invalid transaction format: '' @ [CHR 0x27] @ s @ [CHR 0x27]"
| "transaction_id_error_display (TI_InvalidChainId e) = ''Invalid chain ID: '' @ crypto_utils_error_display e"

section \<open>Namespaces\<close>

datatype pos_namespace = PN_Eip155 | PN_Solana | PN_Tron

fun pos_namespace_name :: "pos_namespace \<Rightarrow> string" where
  "pos_namespace_name PN_Eip155 = ''eip155''"
| "pos_namespace_name PN_Solana = ''solana''"
| "pos_namespace_name PN_Tron = ''tron''"

definition pos_namespace_from_str :: "string \<Rightarrow> pos_namespace option" where
  "pos_namespace_from_str s =
    (if s = ''eip155'' then Some PN_Eip155
     else if s = ''solana'' then Some PN_Solana
     else if s = ''tron'' then Some PN_Tron else None)"

definition pos_validate_address ::
  "(string \<Rightarrow> 'h option) \<Rightarrow> (string \<Rightarrow> bytes option) \<Rightarrow> pos_namespace \<Rightarrow> string \<Rightarrow> bool" where
  "pos_validate_address h160 b58 namespace address = (case namespace of
      PN_Eip155 \<Rightarrow> is_address_valid_impl h160 b58 address Eip155
    | PN_Solana \<Rightarrow> is_address_valid_impl h160 b58 address Solana
    | PN_Tron \<Rightarrow> True)"

text \<open>The text of strum's parse error.\<close>

definition strum_error :: string where "strum_error = ''Matching variant not found''"

section \<open>Transaction identifiers\<close>

definition TRANSACTION_ID_DELIMITER :: char where "TRANSACTION_ID_DELIMITER = CHR ''|''"

definition TRANSACTION_ID_VERSION :: string where "TRANSACTION_ID_VERSION = ''v1''"

record transaction_id =
  ti_id :: string
  ti_chain_id :: caip2_chain_id
  ti_version :: string

definition transaction_id_from :: "string \<Rightarrow> caip2_chain_id \<Rightarrow> transaction_id" where
  "transaction_id_from i chain_id = \<lparr> ti_id = i, ti_chain_id = chain_id, ti_version = TRANSACTION_ID_VERSION \<rparr>"

text \<open>\<open>uuid\<close> is the random identifier.\<close>

definition transaction_id_new :: "string \<Rightarrow> caip2_chain_id \<Rightarrow> transaction_id" where
  "transaction_id_new uuid chain_id = \<lparr> ti_id = uuid, ti_chain_id = chain_id, ti_version = TRANSACTION_ID_VERSION \<rparr>"

text \<open>\<open>b64_enc\<close> and \<open>b64_dec\<close> are unpadded base64, \<open>utf8\<close> reads UTF-8.\<close>

definition transaction_id_display :: "(bytes \<Rightarrow> string) \<Rightarrow> transaction_id \<Rightarrow> string" where
  "transaction_id_display b64_enc t = b64_enc (string_bytes
     (ti_version t @ [TRANSACTION_ID_DELIMITER] @ caip2_display (ti_chain_id t)
        @ [TRANSACTION_ID_DELIMITER] @ ti_id t))"

definition transaction_id_try_from ::
  "(string \<Rightarrow> bytes option) \<Rightarrow> (bytes \<Rightarrow> string option) \<Rightarrow> string
    \<Rightarrow> (transaction_id_error, transaction_id) result" where
  "transaction_id_try_from b64_dec utf8 value =
    bind_res (ok_or (TI_InvalidFormat value) (b64_dec value)) (\<lambda>decoded.
    bind_res (ok_or (TI_InvalidFormat value) (utf8 decoded)) (\<lambda>decoded_str.
      (case splitn 3 TRANSACTION_ID_DELIMITER decoded_str of
         [] \<Rightarrow> Inl (TI_InvalidFormat decoded_str)
       | version # parts \<Rightarrow>
           if version \<noteq> TRANSACTION_ID_VERSION then Inl (TI_InvalidFormat decoded_str)
           else (case parts of
               [] \<Rightarrow> Inl (TI_InvalidFormat decoded_str)
             | chain_id_str # rest \<Rightarrow>
                 bind_res (map_err TI_InvalidChainId (caip2_parse chain_id_str)) (\<lambda>chain_id.
                   (case rest of
                      [] \<Rightarrow> Inl (TI_InvalidFormat decoded_str)
                    | i # _ \<Rightarrow> Inr (transaction_id_from i chain_id)))))))"

section \<open>Payment intents\<close>

record payment_intent =
  pi_asset :: string
  pi_amount :: string
  pi_recipient :: string
  pi_sender :: string

record 'n validated_payment_intent =
  vp_asset :: caip19_asset
  vp_amount :: string
  vp_recipient_address :: string
  vp_sender_address :: string
  vp_namespace :: 'n

record 'v transaction_rpc =
  tr_id :: string
  tr_chain_id :: string
  tr_method :: string
  tr_params :: 'v

datatype transaction_status = TS_Pending | TS_Confirmed | TS_Failed

record check_transaction_result =
  ct_status :: transaction_status
  ct_check_in :: "nat option"
  ct_txid :: "string option"

text \<open>The address functions: \<open>ethers\<close> addresses with their checksummed form, and base58.\<close>

record 'h address_env =
  ad_h160 :: "string \<Rightarrow> 'h option"
  ad_checksum :: "'h \<Rightarrow> string"
  ad_b58 :: "string \<Rightarrow> bytes option"

definition disassemble_pos_account ::
  "'h address_env \<Rightarrow> string \<Rightarrow> (crypto_utils_error, pos_namespace \<times> string \<times> string) result" where
  "disassemble_pos_account A = disassemble_caip10_with_namespace pos_namespace_from_str
     (pos_validate_address (ad_h160 A) (ad_b58 A))"

definition validate_params ::
  "'h address_env \<Rightarrow> (string \<Rightarrow> 'n option) \<Rightarrow> payment_intent
    \<Rightarrow> (build_pos_txs_error, 'n validated_payment_intent) result" where
  "validate_params A from_str params =
    bind_res (map_err (\<lambda>e. BP_Validation (VE_InvalidAsset (crypto_utils_error_display e)))
        (caip19_parse (ad_h160 A) (ad_checksum A) (pi_asset params))) (\<lambda>asset.
    bind_res (map_err (\<lambda>e. BP_Validation (VE_InvalidRecipient (crypto_utils_error_display e)))
        (disassemble_pos_account A (pi_recipient params)))
      (\<lambda>(recipient_namespace, recipient_chain_id, recipient_address).
    bind_res (map_err (\<lambda>e. BP_Validation (VE_InvalidSender (crypto_utils_error_display e)))
        (disassemble_pos_account A (pi_sender params)))
      (\<lambda>(sender_namespace, sender_chain_id, sender_address).
    let asset_chain_id = c2_reference (a_chain_id asset) in
    bind_res (ok_or (BP_Validation (VE_InvalidAsset strum_error))
        (pos_namespace_from_str (c2_namespace (a_chain_id asset)))) (\<lambda>asset_namespace.
      if asset_namespace \<noteq> recipient_namespace \<or> asset_namespace \<noteq> sender_namespace then
        Inl (BP_Validation (VE_InvalidAsset ''Asset namespace must match recipient and sender namespaces''))
      else if asset_chain_id \<noteq> recipient_chain_id \<or> asset_chain_id \<noteq> sender_chain_id then
        Inl (BP_Validation (VE_InvalidAsset ''Asset chain ID must match recipient and sender chain IDs''))
      else bind_res (ok_or (BP_Validation (VE_InvalidAsset (a_namespace asset))) (from_str (a_namespace asset)))
        (\<lambda>namespace. Inr \<lparr> vp_asset = asset, vp_amount = pi_amount params,
           vp_recipient_address = recipient_address, vp_sender_address = sender_address,
           vp_namespace = namespace \<rparr>)))))"

section \<open>Facts\<close>

lemma pos_namespace_from_str_iff: "pos_namespace_from_str s = Some n \<longleftrightarrow> pos_namespace_name n = s"
  by (cases n) (auto simp: pos_namespace_from_str_def)

lemma pos_namespace_no_colon: "CHR '':'' \<notin> set (pos_namespace_name n)"
  by (cases n) auto

interpretation pos_namespaces: namespace_validator pos_namespace_from_str pos_namespace_name
    "pos_validate_address h160 b58"
  for h160 :: "string \<Rightarrow> 'h option" and b58 :: "string \<Rightarrow> bytes option"
  by unfold_locales (rule pos_namespace_from_str_iff, rule pos_namespace_no_colon)

lemma disassemble_pos_account_iff:
  "disassemble_pos_account A s = Inr (n, c, a) \<longleftrightarrow>
    s = pos_namespace_name n @ '':'' @ c @ '':'' @ a \<and> CHR '':'' \<notin> set c \<and> CHR '':'' \<notin> set a
    \<and> CAIP_CHAIN_ID_REGEX c \<and> pos_validate_address (ad_h160 A) (ad_b58 A) n a"
  unfolding disassemble_pos_account_def by (rule pos_namespaces.disassemble_iff)

lemma caip2_display_no_bar:
  assumes "caip2_wf c"
  shows "CHR ''|'' \<notin> set (caip2_display c)"
proof -
  have "\<not> namespace_char CHR ''|''" "\<not> reference_char CHR ''|''" by (simp_all add: char_class_defs)
  then have "CHR ''|'' \<notin> set (c2_namespace c)" "CHR ''|'' \<notin> set (c2_reference c)"
    using assms matches_class_no_sep unfolding caip2_wf_def CAIP2_NAMESPACE_REGEX_def CAIP2_REFERENCE_REGEX_def
    by blast+
  then show ?thesis by (simp add: caip2_display_def)
qed

lemma splitn_three:
  "splitn 3 c s = (case break_at c s of (p, None) \<Rightarrow> [p]
    | (p, Some r) \<Rightarrow> p # (case break_at c r of (q, None) \<Rightarrow> [q] | (q, Some t) \<Rightarrow> [q, t]))"
  by (simp add: numeral_3_eq_3 split: prod.splits option.splits)

definition is_ascii :: "string \<Rightarrow> bool" where "is_ascii s = list_all (\<lambda>c. char_code c < 128) s"

text \<open>What the base64 and UTF-8 decoders document.\<close>

definition text_codec :: "(bytes \<Rightarrow> string) \<Rightarrow> (string \<Rightarrow> bytes option) \<Rightarrow> (bytes \<Rightarrow> string option) \<Rightarrow> bool" where
  "text_codec b64_enc b64_dec utf8 = ((\<forall>bs. b64_dec (b64_enc bs) = Some bs)
     \<and> (\<forall>s. is_ascii s \<longrightarrow> utf8 (string_bytes s) = Some s))"

lemma caip2_ascii: "caip2_wf c \<Longrightarrow> is_ascii (caip2_display c)"
proof -
  have "namespace_char x \<Longrightarrow> char_code x < 128" "reference_char x \<Longrightarrow> char_code x < 128" for x
    by (auto simp: char_class_defs is_lower_def is_upper_def is_digit_def char_code_def)
  then show "caip2_wf c \<Longrightarrow> is_ascii (caip2_display c)"
    unfolding caip2_wf_def CAIP2_NAMESPACE_REGEX_def CAIP2_REFERENCE_REGEX_def matches_class_def
      caip2_display_def is_ascii_def list_all_append
    by (auto simp: list_all_iff char_code_def)
qed

lemma transaction_id_parses:
  assumes "text_codec b64_enc b64_dec utf8" "caip2_wf (ti_chain_id t)" "ti_version t = TRANSACTION_ID_VERSION"
    "is_ascii (ti_id t)"
  shows "transaction_id_try_from b64_dec utf8 (transaction_id_display b64_enc t) = Inr t"
proof -
  let ?s = "ti_version t @ [TRANSACTION_ID_DELIMITER] @ caip2_display (ti_chain_id t)
        @ [TRANSACTION_ID_DELIMITER] @ ti_id t"
  have "is_ascii ?s"
    using assms(3,4) caip2_ascii [OF assms(2)]
    by (simp add: is_ascii_def TRANSACTION_ID_VERSION_def TRANSACTION_ID_DELIMITER_def char_code_def)
  then have u: "utf8 (string_bytes ?s) = Some ?s" using assms(1) unfolding text_codec_def by blast
  have b: "b64_dec (b64_enc bs) = Some bs" for bs using assms(1) by (simp add: text_codec_def)
  have "splitn 3 TRANSACTION_ID_DELIMITER ?s = [TRANSACTION_ID_VERSION, caip2_display (ti_chain_id t), ti_id t]"
    unfolding splitn_three assms(3)
    using break_at_sep [of TRANSACTION_ID_DELIMITER TRANSACTION_ID_VERSION]
      break_at_sep [OF caip2_display_no_bar [OF assms(2)]]
    by (simp add: TRANSACTION_ID_VERSION_def TRANSACTION_ID_DELIMITER_def)
  moreover have "caip2_parse (caip2_display (ti_chain_id t)) = Inr (ti_chain_id t)"
    using assms(2) by (simp add: caip2_parse_iff)
  ultimately show ?thesis
    using u b assms(3) by (simp add: transaction_id_try_from_def transaction_id_display_def transaction_id_from_def)
qed

lemma transaction_id_try_from_result:
  assumes "transaction_id_try_from b64_dec utf8 value = Inr t"
  shows "\<exists>bs. b64_dec value = Some bs
    \<and> utf8 bs = Some (TRANSACTION_ID_VERSION @ ''|'' @ caip2_display (ti_chain_id t) @ ''|'' @ ti_id t)
    \<and> caip2_wf (ti_chain_id t) \<and> ti_version t = TRANSACTION_ID_VERSION"
proof -
  obtain bs s where b: "b64_dec value = Some bs" and u: "utf8 bs = Some s"
    and r: "(case splitn 3 TRANSACTION_ID_DELIMITER s of
         [] \<Rightarrow> Inl (TI_InvalidFormat s)
       | version # parts \<Rightarrow>
           if version \<noteq> TRANSACTION_ID_VERSION then Inl (TI_InvalidFormat s)
           else (case parts of
               [] \<Rightarrow> Inl (TI_InvalidFormat s)
             | chain_id_str # rest \<Rightarrow>
                 bind_res (map_err TI_InvalidChainId (caip2_parse chain_id_str)) (\<lambda>chain_id.
                   (case rest of
                      [] \<Rightarrow> Inl (TI_InvalidFormat s)
                    | i # _ \<Rightarrow> Inr (transaction_id_from i chain_id))))) = Inr t"
    using assms unfolding transaction_id_try_from_def bind_res_Inr_iff ok_or_Inr_iff by blast
  obtain c more where n0: "splitn 3 TRANSACTION_ID_DELIMITER s = TRANSACTION_ID_VERSION # c # more"
    using r by (cases "splitn 3 TRANSACTION_ID_DELIMITER s"; cases "tl (splitn 3 TRANSACTION_ID_DELIMITER s)")
      (auto split: if_splits)
  obtain chain where c: "caip2_parse c = Inr chain"
    and m: "(case more of [] \<Rightarrow> Inl (TI_InvalidFormat s) | i # _ \<Rightarrow> Inr (transaction_id_from i chain)) = Inr t"
    using r unfolding n0 list.case by (auto simp: bind_res_Inr_iff map_err_Inr_iff)
  from m n0 obtain i rest where n: "splitn 3 TRANSACTION_ID_DELIMITER s = TRANSACTION_ID_VERSION # c # i # rest"
    and t: "t = transaction_id_from i chain"
    by (cases more) auto
  from n have "s = TRANSACTION_ID_VERSION @ ''|'' @ c @ ''|'' @ i"
    unfolding splitn_three TRANSACTION_ID_DELIMITER_def
    by (auto split: prod.splits option.splits dest!: break_at_Some break_at_None)
  then show ?thesis using b u c t by (auto simp: caip2_parse_iff transaction_id_from_def)
qed

lemma validate_params_ok:
  assumes "validate_params A from_str p = Inr v"
  shows "\<exists>n. caip19_parse (ad_h160 A) (ad_checksum A) (pi_asset p) = Inr (vp_asset v)
    \<and> pos_namespace_name n = c2_namespace (a_chain_id (vp_asset v))
    \<and> pi_recipient p = caip2_display (a_chain_id (vp_asset v)) @ '':'' @ vp_recipient_address v
    \<and> pi_sender p = caip2_display (a_chain_id (vp_asset v)) @ '':'' @ vp_sender_address v
    \<and> pos_validate_address (ad_h160 A) (ad_b58 A) n (vp_recipient_address v)
    \<and> pos_validate_address (ad_h160 A) (ad_b58 A) n (vp_sender_address v)
    \<and> vp_amount v = pi_amount p \<and> from_str (a_namespace (vp_asset v)) = Some (vp_namespace v)"
  using assms unfolding validate_params_def
  by (auto simp: res_simps Let_def disassemble_pos_account_iff pos_namespace_from_str_iff caip2_display_def
      split: if_splits)

end
