(* ===== verification/PosChains.thy ===== *)
theory PosChains
  imports Pos
begin

text \<open>
  Point-of-sale payments on the chains (\<open>handlers/json_rpc/pos/evm.rs\<close>, \<open>solana.rs\<close>, \<open>tron.rs\<close>,
  \<open>build_transactions.rs\<close>, \<open>check_transaction.rs\<close>, \<open>supported_networks.rs\<close>): building a transaction for an
  intent, the amounts and fee limits, and the status of a sent transaction.  The answers of the chain nodes,
  the decimal parser of amounts, the encoders and the random identifiers are parameters.
\<close>

section \<open>EVM\<close>

datatype evm_asset = Erc20 | Evm_Slip44

fun evm_asset_from_str :: "string \<Rightarrow> evm_asset option" where
  "evm_asset_from_str s = (if s = ''erc20'' then Some Erc20 else if s = ''slip44'' then Some Evm_Slip44 else None)"

record evm_tx_request =
  et_to :: "bytes option"
  et_from :: "bytes option"
  et_val :: "u256 option"
  et_input :: "bytes option"
  et_data :: "bytes option"
  et_max_fee :: "u128 option"
  et_max_priority_fee :: "u128 option"
  et_gas :: "u64 option"

definition empty_evm_tx :: evm_tx_request where
  "empty_evm_tx = \<lparr> et_to = None, et_from = None, et_val = None, et_input = None, et_data = None,
     et_max_fee = None, et_max_priority_fee = None, et_gas = None \<rparr>"

text \<open>\<open>ev_parse_units\<close> reads a decimal amount with a number of decimals; \<open>ev_url_ok\<close> tells whether the provider
  URL parses; the receipt of a transaction tells whether it succeeded.\<close>

record evm_env =
  ev_address :: "string \<Rightarrow> (string, bytes) result"
  ev_parse_units :: "string \<Rightarrow> nat \<Rightarrow> (string, u256) result"
  ev_url_ok :: "caip2_chain_id \<Rightarrow> string \<Rightarrow> bool"
  ev_decimals :: "bytes \<Rightarrow> (string, u8) result"
  ev_transfer_calldata :: "bytes \<Rightarrow> u256 \<Rightarrow> bytes"
  ev_fees :: "(string, u128 \<times> u128) result"
  ev_estimate_gas :: "evm_tx_request \<Rightarrow> (string, u64) result"
  ev_tx_hash :: "string \<Rightarrow> (string, bytes) result"
  ev_receipt :: "bytes \<Rightarrow> (string, bool option) result"

definition NATIVE_GAS_LIMIT :: u64 where "NATIVE_GAS_LIMIT = 21000"

definition ETH_SEND_TRANSACTION_METHOD :: string where "ETH_SEND_TRANSACTION_METHOD = ''eth_sendTransaction''"

definition evm_provider :: "evm_env \<Rightarrow> caip2_chain_id \<Rightarrow> string \<Rightarrow> (internal_error, unit) result" where
  "evm_provider V chain_id project_id =
    ensure (ev_url_ok V chain_id project_id) (IE_InvalidProviderUrl ''Invalid provider URL'')"

definition parse_ether_amount :: "evm_env \<Rightarrow> string \<Rightarrow> (build_pos_txs_error, u256) result" where
  "parse_ether_amount V amount =
    map_err (\<lambda>e. BP_Validation (VE_InvalidAmount (''Unable to parse amount in ether: '' @ e)))
      (ev_parse_units V amount 18)"

definition get_erc20_transfer_amount :: "evm_env \<Rightarrow> bytes \<Rightarrow> string \<Rightarrow> (build_pos_txs_error, u256) result" where
  "get_erc20_transfer_amount V token amount =
    bind_res (map_err (\<lambda>e. BP_Validation (VE_InvalidAmount (''Failed to get decimals: '' @ e)))
        (ev_decimals V token)) (\<lambda>decimals.
      map_err (\<lambda>e. BP_Validation (VE_InvalidAmount (''Unable to parse amount with '' @ show_nat (unat decimals)
          @ '' decimals: '' @ e)))
        (ev_parse_units V amount (unat decimals)))"

definition has_transaction_data :: "evm_tx_request \<Rightarrow> bool" where
  "has_transaction_data tx = (et_data tx \<noteq> None \<or> et_input tx \<noteq> None)"

text \<open>The addresses of recipient and sender.\<close>

definition evm_builder_new :: "evm_env \<Rightarrow> string \<Rightarrow> string \<Rightarrow> (build_pos_txs_error, bytes \<times> bytes) result" where
  "evm_builder_new V recipient sender =
    bind_res (map_err (\<lambda>e. BP_Validation (VE_InvalidRecipient e)) (ev_address V recipient)) (\<lambda>to.
    bind_res (map_err (\<lambda>e. BP_Validation (VE_InvalidSender e)) (ev_address V sender)) (\<lambda>from. Inr (to, from)))"

definition with_native_transfer ::
  "evm_env \<Rightarrow> bytes \<times> bytes \<Rightarrow> string \<Rightarrow> (build_pos_txs_error, evm_tx_request) result" where
  "with_native_transfer V b amount =
    bind_res (parse_ether_amount V amount) (\<lambda>wei_value.
      Inr (empty_evm_tx \<lparr> et_to := Some (fst b), et_val := Some wei_value, et_from := Some (snd b) \<rparr>))"

definition with_erc20_transfer ::
  "evm_env \<Rightarrow> caip2_chain_id \<Rightarrow> string \<Rightarrow> bytes \<times> bytes \<Rightarrow> string \<Rightarrow> string
    \<Rightarrow> (build_pos_txs_error, evm_tx_request) result" where
  "with_erc20_transfer V chain_id project_id b asset_address amount =
    bind_res (map_err (\<lambda>e. BP_Validation (VE_InvalidAsset e)) (ev_address V asset_address)) (\<lambda>token.
    bind_res (map_err BP_Internal (evm_provider V chain_id project_id)) (\<lambda>_.
    bind_res (get_erc20_transfer_amount V token amount) (\<lambda>token_amount.
      let calldata = ev_transfer_calldata V (fst b) token_amount
      in Inr (empty_evm_tx \<lparr> et_to := Some token, et_val := Some 0, et_input := Some calldata,
           et_from := Some (snd b), et_data := Some calldata \<rparr>))))"

record signed_transaction =
  st_raw_data :: string
  st_raw_data_hex :: string
  st_tx_id :: string
  st_visible :: "bool option"
  st_signature :: "string list option"

datatype pos_params =
    Evm_params evm_tx_request
  | Solana_params string string
  | Tron_params string signed_transaction

definition evm_finalize ::
  "evm_env \<Rightarrow> (bytes \<Rightarrow> string) \<Rightarrow> string \<Rightarrow> caip2_chain_id \<Rightarrow> string \<Rightarrow> evm_tx_request
    \<Rightarrow> (build_pos_txs_error, pos_params transaction_rpc) result" where
  "evm_finalize V b64_enc uuid chain_id project_id tx =
    bind_res (map_err BP_Internal (evm_provider V chain_id project_id)) (\<lambda>_.
    bind_res (map_err (\<lambda>e. BP_Execution (XE_GasEstimation e)) (ev_fees V)) (\<lambda>(max_fee, max_priority).
    let tx1 = tx \<lparr> et_max_fee := Some max_fee, et_max_priority_fee := Some max_priority \<rparr> in
    bind_res (if has_transaction_data tx1
        then map_err (\<lambda>e. BP_Execution (XE_GasEstimation e)) (ev_estimate_gas V tx1)
        else Inr NATIVE_GAS_LIMIT) (\<lambda>gas_limit.
      Inr \<lparr> tr_id = transaction_id_display b64_enc (transaction_id_new uuid chain_id),
        tr_chain_id = caip2_display chain_id, tr_method = ETH_SEND_TRANSACTION_METHOD,
        tr_params = Evm_params (tx1 \<lparr> et_gas := Some gas_limit \<rparr>) \<rparr>)))"

definition evm_build ::
  "evm_env \<Rightarrow> (bytes \<Rightarrow> string) \<Rightarrow> string \<Rightarrow> string \<Rightarrow> evm_asset validated_payment_intent
    \<Rightarrow> (build_pos_txs_error, pos_params transaction_rpc) result" where
  "evm_build V b64_enc uuid project_id params =
    (let chain_id = a_chain_id (vp_asset params) in
     bind_res (evm_builder_new V (vp_recipient_address params) (vp_sender_address params)) (\<lambda>b.
     bind_res (case vp_namespace params of
         Evm_Slip44 \<Rightarrow> with_native_transfer V b (vp_amount params)
       | Erc20 \<Rightarrow> with_erc20_transfer V chain_id project_id b (a_reference (vp_asset params)) (vp_amount params))
       (evm_finalize V b64_enc uuid chain_id project_id)))"

definition DEFAULT_CHECK_IN_EVM :: nat where "DEFAULT_CHECK_IN_EVM = 1000"

definition check_result :: "nat \<Rightarrow> string \<Rightarrow> transaction_status \<Rightarrow> check_transaction_result" where
  "check_result default_check_in txid status = (case status of
      TS_Pending \<Rightarrow> \<lparr> ct_status = status, ct_check_in = Some default_check_in, ct_txid = Some txid \<rparr>
    | TS_Confirmed \<Rightarrow> \<lparr> ct_status = status, ct_check_in = None, ct_txid = Some txid \<rparr>
    | TS_Failed \<Rightarrow> \<lparr> ct_status = status, ct_check_in = None, ct_txid = None \<rparr>)"

definition evm_transaction_status ::
  "evm_env \<Rightarrow> string \<Rightarrow> string \<Rightarrow> caip2_chain_id \<Rightarrow> (check_pos_tx_error, transaction_status) result" where
  "evm_transaction_status V project_id txid chain_id =
    bind_res (map_err CP_Internal (evm_provider V chain_id project_id)) (\<lambda>_.
    bind_res (map_err (\<lambda>e. CP_Validation (VE_InvalidWalletResponse (''Invalid transaction hash: '' @ e)))
        (ev_tx_hash V txid)) (\<lambda>txhash.
    bind_res (map_err (\<lambda>e. CP_Validation (VE_InvalidWalletResponse (''Failed to get transaction receipt: '' @ e)))
        (ev_receipt V txhash)) (\<lambda>receipt. Inr (case receipt of
          Some success \<Rightarrow> if success then TS_Confirmed else TS_Failed
        | None \<Rightarrow> TS_Pending))))"

definition evm_check_transaction ::
  "evm_env \<Rightarrow> string \<Rightarrow> string \<Rightarrow> caip2_chain_id \<Rightarrow> (check_pos_tx_error, check_transaction_result) result" where
  "evm_check_transaction V project_id txid chain_id =
    bind_res (evm_transaction_status V project_id txid chain_id)
      (\<lambda>status. Inr (check_result DEFAULT_CHECK_IN_EVM txid status))"

section \<open>Solana\<close>

datatype solana_asset = Token | Solana_Slip44

fun solana_asset_from_str :: "string \<Rightarrow> solana_asset option" where
  "solana_asset_from_str s = (if s = ''token'' then Some Token else if s = ''slip44'' then Some Solana_Slip44 else None)"

text \<open>Accounts have an owner and data.  The status of a signature is absent or tells whether there is an
  error; \<open>so_transaction\<close> is the fallback query.\<close>

record ('k, 'i) solana_env =
  so_pubkey :: "string \<Rightarrow> (string, 'k) result"
  so_account :: "'k \<Rightarrow> (string, ('k \<times> bytes) option) result"
  so_show_key :: "'k \<Rightarrow> string"
  so_spl_token_id :: 'k
  so_mint_decimals :: "bytes \<Rightarrow> (string, u8) result"
  so_parse_units :: "string \<Rightarrow> nat \<Rightarrow> (string, u256) result"
  so_ata :: "'k \<Rightarrow> 'k \<Rightarrow> 'k"
  so_transfer_checked :: "'k \<Rightarrow> 'k \<Rightarrow> 'k \<Rightarrow> 'k \<Rightarrow> 'k \<Rightarrow> u64 \<Rightarrow> u8 \<Rightarrow> (string, 'i) result"
  so_blockhash :: "(string, bytes) result"
  so_compile :: "'k \<Rightarrow> 'i \<Rightarrow> bytes \<Rightarrow> (string, bytes) result"
  so_encode :: "bytes \<Rightarrow> (string, string) result"
  so_signature :: "string \<Rightarrow> (string, bytes) result"
  so_statuses :: "bytes \<Rightarrow> (string, bool option list) result"
  so_transaction :: "bytes \<Rightarrow> (string, bool option) result"

definition SOLANA_RPC_METHOD :: string where "SOLANA_RPC_METHOD = ''solana_signAndSendTransaction''"

definition SPL_TOKEN_2022_ID :: string where
  "SPL_TOKEN_2022_ID = ''TokenzQdBNbLqP5VEhdkAS6EPFLC1PHnBqCXEpPxuEb''"

definition DEFAULT_CHECK_IN :: nat where "DEFAULT_CHECK_IN = 400"

text \<open>The size of a mint account in the token program.\<close>

definition MINT_LEN :: nat where "MINT_LEN = 82"

definition invalid_asset :: "string \<Rightarrow> build_pos_txs_error" where
  "invalid_asset e = BP_Validation (VE_InvalidAsset e)"

definition get_token_decimals ::
  "('k, 'i) solana_env \<Rightarrow> 'k \<Rightarrow> (build_pos_txs_error, u8 \<times> 'k) result" where
  "get_token_decimals S mint =
    bind_res (map_err (\<lambda>e. invalid_asset (''Failed to fetch mint account: '' @ e)) (so_account S mint)) (\<lambda>found.
    bind_res (ok_or (invalid_asset ''Mint account not found'') found) (\<lambda>(owner, data).
    bind_res (map_err (\<lambda>_. invalid_asset ''Invalid SPL Token-2022 program ID'') (so_pubkey S SPL_TOKEN_2022_ID))
      (\<lambda>spl_token_2022_id.
      if (owner \<noteq> so_spl_token_id S \<and> owner \<noteq> spl_token_2022_id) \<or> length data < MINT_LEN then
        Inl (invalid_asset (''Invalid mint account owner: '' @ so_show_key S owner @ ''. Expected SPL Token program.''))
      else map_err (\<lambda>e. invalid_asset (''Failed to parse as SPL Token mint: '' @ e))
        (bind_res (so_mint_decimals S (take MINT_LEN data)) (\<lambda>d. Inr (d, owner))))))"

definition parse_token_amount_u64 ::
  "(string \<Rightarrow> nat \<Rightarrow> (string, u256) result) \<Rightarrow> string \<Rightarrow> u8 \<Rightarrow> (build_pos_txs_error, u64) result" where
  "parse_token_amount_u64 parse_units amount decimals =
    bind_res (map_err (\<lambda>e. BP_Validation (VE_InvalidAmount (''Unable to parse amount with ''
        @ show_nat (unat decimals) @ '' decimals: '' @ e))) (parse_units amount (unat decimals))) (\<lambda>value.
      if ucast (- 1 :: u64) < value then Inl (BP_Validation (VE_InvalidAmount ''Amount too large for u64''))
      else Inr (ucast value))"

text \<open>The associated accounts of both wallets are derived from the mint alone.\<close>

definition build_spl_transfer ::
  "('k, 'i) solana_env \<Rightarrow> (bytes \<Rightarrow> string) \<Rightarrow> string \<Rightarrow> solana_asset validated_payment_intent
    \<Rightarrow> (build_pos_txs_error, pos_params transaction_rpc) result" where
  "build_spl_transfer S b64_enc uuid params =
    bind_res (map_err (\<lambda>e. BP_Validation (VE_InvalidSender e)) (so_pubkey S (vp_sender_address params))) (\<lambda>sender.
    bind_res (map_err (\<lambda>e. BP_Validation (VE_InvalidRecipient e)) (so_pubkey S (vp_recipient_address params)))
      (\<lambda>recipient.
    bind_res (map_err (\<lambda>e. BP_Validation (VE_InvalidAsset e)) (so_pubkey S (a_reference (vp_asset params)))) (\<lambda>mint.
    bind_res (get_token_decimals S mint) (\<lambda>(decimals, token_program).
    bind_res (parse_token_amount_u64 (so_parse_units S) (vp_amount params) decimals) (\<lambda>amount.
    bind_res (map_err (\<lambda>e. BP_Internal (IE_Internal (''Failed to create transfer instruction: '' @ e)))
        (so_transfer_checked S token_program (so_ata S sender mint) mint (so_ata S recipient mint) sender
          amount decimals)) (\<lambda>instruction.
    bind_res (map_err (\<lambda>e. BP_Internal (IE_Internal (''Failed to fetch recent blockhash: '' @ e)))
        (so_blockhash S)) (\<lambda>blockhash.
    bind_res (map_err (\<lambda>e. BP_Internal (IE_Internal (''Failed to compile v0 message: '' @ e)))
        (so_compile S sender instruction blockhash)) (\<lambda>message.
    bind_res (map_err (\<lambda>e. BP_Internal (IE_Internal (''Failed to serialize transaction: '' @ e)))
        (so_encode S message)) (\<lambda>encoded.
      Inr \<lparr> tr_id = transaction_id_display b64_enc (transaction_id_new uuid (a_chain_id (vp_asset params))),
        tr_chain_id = caip2_display (a_chain_id (vp_asset params)), tr_method = SOLANA_RPC_METHOD,
        tr_params = Solana_params encoded (vp_sender_address params) \<rparr>)))))))))"

definition unsupported_asset_namespace :: build_pos_txs_error where
  "unsupported_asset_namespace = BP_Validation (VE_InvalidAsset ''Unsupported asset namespace'')"

definition solana_build ::
  "('k, 'i) solana_env \<Rightarrow> (bytes \<Rightarrow> string) \<Rightarrow> string \<Rightarrow> solana_asset validated_payment_intent
    \<Rightarrow> (build_pos_txs_error, pos_params transaction_rpc) result" where
  "solana_build S b64_enc uuid params = (case vp_namespace params of
      Token \<Rightarrow> build_spl_transfer S b64_enc uuid params
    | Solana_Slip44 \<Rightarrow> Inl unsupported_asset_namespace)"

definition status_via_get_transaction :: "('k, 'i) solana_env \<Rightarrow> bytes \<Rightarrow> transaction_status option" where
  "status_via_get_transaction S signature = (case so_transaction S signature of
      Inl _ \<Rightarrow> None
    | Inr (Some True) \<Rightarrow> Some TS_Failed
    | Inr _ \<Rightarrow> Some TS_Confirmed)"

definition solana_transaction_status ::
  "('k, 'i) solana_env \<Rightarrow> string \<Rightarrow> (check_pos_tx_error, transaction_status) result" where
  "solana_transaction_status S signature =
    bind_res (map_err (\<lambda>e. CP_Validation (VE_InvalidWalletResponse (''Invalid signature: '' @ e)))
        (so_signature S signature)) (\<lambda>parsed.
    bind_res (map_err (\<lambda>e. CP_Internal (IE_RpcError e)) (so_statuses S parsed)) (\<lambda>statuses.
      Inr (case statuses of
          Some err # _ \<Rightarrow> if err then TS_Failed else TS_Confirmed
        | _ \<Rightarrow> (case status_via_get_transaction S parsed of Some status \<Rightarrow> status | None \<Rightarrow> TS_Pending))))"

text \<open>\<open>parse_json\<close> reads the signature of a JSON object, \<open>trim\<close> removes white space at both ends.\<close>

definition solana_check_transaction ::
  "('k, 'i) solana_env \<Rightarrow> (string \<Rightarrow> string option) \<Rightarrow> (string \<Rightarrow> string) \<Rightarrow> string
    \<Rightarrow> (check_pos_tx_error, check_transaction_result) result" where
  "solana_check_transaction S parse_json trim send_result =
    (let signature = (case parse_json send_result of Some s \<Rightarrow> s | None \<Rightarrow> trim send_result)
     in bind_res (solana_transaction_status S signature)
          (\<lambda>status. Inr (check_result DEFAULT_CHECK_IN signature status)))"

section \<open>TRON\<close>

datatype tron_asset = Trc20 | Tron_Slip44

fun tron_asset_from_str :: "string \<Rightarrow> tron_asset option" where
  "tron_asset_from_str s = (if s = ''trc20'' then Some Trc20 else if s = ''slip44'' then Some Tron_Slip44 else None)"

record tron_build_params =
  tb_from :: string
  tb_to :: string
  tb_data :: string
  tb_gas :: "string option"
  tb_value :: string
  tb_token_id :: u64
  tb_token_value :: u64

record broadcast_result =
  br_result :: "bool option"
  br_message :: "string option"
  br_code :: "string option"

text \<open>What a call of the node returns: a transport error, an HTTP status that is not a success with its body,
  a body that is not a JSON object of a response, or such an object.  Of the object matters its field \<open>result\<close>,
  absent, not decodable or decoded, and its field \<open>error\<close> with code and message, if that decodes.\<close>

datatype 'r node_answer =
    Send_failed string
  | Http_failed nat string
  | Unparsed string
  | Rpc_object "'r option option" "(int \<times> string) option"

datatype 'r json_rpc_payload = Payload_success 'r | Payload_error int string

text \<open>The untagged payload: the variant \<open>Success\<close> is tried first.  A field that is absent decodes to \<open>missing\<close>,
  which is the empty option if the result is an option and nothing otherwise.\<close>

definition decode_payload ::
  "'r option \<Rightarrow> 'r option option \<Rightarrow> (int \<times> string) option \<Rightarrow> 'r json_rpc_payload option" where
  "decode_payload missing result_field error_field =
    (case (case result_field of None \<Rightarrow> missing | Some r \<Rightarrow> r) of
       Some r \<Rightarrow> Some (Payload_success r)
     | None \<Rightarrow> map_option (\<lambda>(code, message). Payload_error code message) error_field)"

text \<open>\<open>show_status\<close> prints an HTTP status, \<open>show_int\<close> a code; \<open>no_variant\<close> is the error of a payload that is
  neither variant.\<close>

definition call_json_rpc ::
  "(nat \<Rightarrow> string) \<Rightarrow> (int \<Rightarrow> string) \<Rightarrow> string \<Rightarrow> 'r option \<Rightarrow> 'r node_answer \<Rightarrow> (pos_rpc_error, 'r) result" where
  "call_json_rpc show_status show_int no_variant missing answer = (case answer of
      Send_failed e \<Rightarrow> Inl (PR_Internal (''Failed to send request: '' @ e))
    | Http_failed status body \<Rightarrow>
        (let text = ''HTTP '' @ show_status status @ '' error: '' @ body in
         if 400 \<le> status \<and> status < 500 then Inl (PR_InvalidResponse text) else Inl (PR_Internal text))
    | Unparsed e \<Rightarrow> Inl (PR_InvalidResponse (''Failed to parse response: '' @ e))
    | Rpc_object result_field error_field \<Rightarrow>
        (case decode_payload missing result_field error_field of
           None \<Rightarrow> Inl (PR_InvalidResponse (''Failed to parse response: '' @ no_variant))
         | Some (Payload_success result) \<Rightarrow> Inr result
         | Some (Payload_error code message) \<Rightarrow>
             if code = -32600 then Inl (PR_InvalidResponse (''Invalid Request: '' @ message))
             else if code = -32602 then Inl (PR_InvalidResponse (''Invalid params: '' @ message))
             else Inl (PR_Internal (''RPC error '' @ show_int code @ '': '' @ message))))"

text \<open>The methods of the node, the base58check decoder, the encoder of \<open>transfer\<close>, and \<open>raw_json\<close>, the text of
  the raw data.\<close>

record tron_env =
  tn_show_status :: "nat \<Rightarrow> string"
  tn_show_int :: "int \<Rightarrow> string"
  tn_no_variant :: string
  tn_b58check :: "string \<Rightarrow> (string, bytes) result"
  tn_parse_units :: "string \<Rightarrow> nat \<Rightarrow> (string, u256) result"
  tn_radix_error :: "string \<Rightarrow> string"
  tn_hex_error :: "string \<Rightarrow> string"
  tn_transfer_calldata :: "bytes \<Rightarrow> u256 \<Rightarrow> bytes"
  tn_eth_call :: "string \<Rightarrow> string \<Rightarrow> string \<Rightarrow> string node_answer"
  tn_estimate_gas :: "string \<Rightarrow> string \<Rightarrow> string \<Rightarrow> string \<Rightarrow> string node_answer"
  tn_gas_price :: "string node_answer"
  tn_build :: "tron_build_params \<Rightarrow> signed_transaction node_answer"
  tn_tx_by_hash :: "string \<Rightarrow> string option node_answer"
  tn_broadcast :: "signed_transaction \<Rightarrow> broadcast_result node_answer"
  tn_receipt :: "string \<Rightarrow> string option option node_answer"

text \<open>A call whose result is not an option, and one whose result is.\<close>

definition node_call :: "tron_env \<Rightarrow> 'r node_answer \<Rightarrow> (pos_rpc_error, 'r) result" where
  "node_call T = call_json_rpc (tn_show_status T) (tn_show_int T) (tn_no_variant T) None"

definition node_query :: "tron_env \<Rightarrow> 'r option node_answer \<Rightarrow> (pos_rpc_error, 'r option) result" where
  "node_query T = call_json_rpc (tn_show_status T) (tn_show_int T) (tn_no_variant T) (Some None)"

definition get_transaction_by_hash :: "tron_env \<Rightarrow> string \<Rightarrow> (pos_rpc_error, string option) result" where
  "get_transaction_by_hash T txid = node_query T (tn_tx_by_hash T txid)"

definition get_transaction_receipt :: "tron_env \<Rightarrow> string \<Rightarrow> (pos_rpc_error, string option option) result" where
  "get_transaction_receipt T txid = node_query T (tn_receipt T txid)"

definition ensure_hex_prefix :: "string \<Rightarrow> string" where
  "ensure_hex_prefix hex_str = (if starts_with ''0x'' hex_str then hex_str else ''0x'' @ hex_str)"

definition tron_payload :: "tron_env \<Rightarrow> string \<Rightarrow> string \<Rightarrow> (validation_error, bytes) result" where
  "tron_payload T message b58 =
    bind_res (map_err (\<lambda>e. VE_InvalidAddress (''Failed to decode TRON address: '' @ e)) (tn_b58check T b58)) (\<lambda>bytes.
      if length bytes \<noteq> 21 \<or> hd bytes \<noteq> 0x41 then Inl (VE_InvalidAddress message) else Inr bytes)"

definition tron_base58_to_eth_address :: "tron_env \<Rightarrow> string \<Rightarrow> (validation_error, bytes) result" where
  "tron_base58_to_eth_address T b58 =
    bind_res (tron_payload T ''invalid TRON address payload'' b58) (\<lambda>bytes. Inr (take 20 (drop 1 bytes)))"

definition tron_b58_to_hex41 :: "tron_env \<Rightarrow> string \<Rightarrow> (validation_error, string) result" where
  "tron_b58_to_hex41 T b58 =
    bind_res (tron_payload T ''invalid TRON address'' b58) (\<lambda>bytes. Inr (hex_encode bytes))"

definition tron_b58_to_eth_hex :: "tron_env \<Rightarrow> string \<Rightarrow> (validation_error, string) result" where
  "tron_b58_to_eth_hex T b58 =
    bind_res (tron_payload T ''invalid TRON address'' b58) (\<lambda>bytes. Inr (''0x'' @ hex_encode bytes))"

definition FEE_MARGIN_BPS :: u16 where "FEE_MARGIN_BPS = 2000"

definition BPS_DEN :: u128 where "BPS_DEN = 10000"

definition compute_fee_limit :: "u128 \<Rightarrow> u128 \<Rightarrow> (internal_error, u128) result" where
  "compute_fee_limit gas_estimate gas_price =
    ok_or (IE_Internal ''fee_limit overflow'')
      (case checked_mul gas_estimate gas_price of
         None \<Rightarrow> None
       | Some base \<Rightarrow>
          (case checked_mul base (BPS_DEN + ucast FEE_MARGIN_BPS) of
             None \<Rightarrow> None
           | Some v \<Rightarrow> if BPS_DEN = 0 then None else Some (v div BPS_DEN)))"

text \<open>\<open>format!("{:x}")\<close> of a number.\<close>

fun show_hex :: "nat \<Rightarrow> string" where
  "show_hex n = (let d = (if n mod 16 < 10 then digit_char (n mod 16) else char_of (87 + n mod 16))
     in if n < 16 then [d] else show_hex (n div 16) @ [d])"

definition estimate_trc20_fee_limit :: "tron_env \<Rightarrow> tron_build_params \<Rightarrow> (build_pos_txs_error, string) result" where
  "estimate_trc20_fee_limit T params =
    bind_res (map_err BP_Rpc (node_call T (tn_estimate_gas T (ensure_hex_prefix (tb_from params))
        (ensure_hex_prefix (tb_to params)) (tb_data params) (tb_value params)))) (\<lambda>gas_estimate.
    bind_res (map_err BP_Rpc (node_call T (tn_gas_price T))) (\<lambda>gas_price.
    bind_res (ok_or (BP_Execution (XE_GasEstimation (''Failed to parse gas estimate: ''
        @ tn_radix_error T gas_estimate))) (parse_radix_uint 16 (2 ^ 128) (trim_start_0x gas_estimate))) (\<lambda>gas_value.
    bind_res (ok_or (BP_Execution (XE_GasEstimation (''Failed to parse gas price: ''
        @ tn_radix_error T gas_price))) (parse_radix_uint 16 (2 ^ 128) (trim_start_0x gas_price))) (\<lambda>price_value.
    bind_res (map_err BP_Internal (compute_fee_limit (word_of_nat gas_value) (word_of_nat price_value)))
      (\<lambda>fee_limit. Inr (''0x'' @ show_hex (unat fee_limit)))))))"

definition tron_parse_token_amount :: "tron_env \<Rightarrow> string \<Rightarrow> u8 \<Rightarrow> (build_pos_txs_error, u256) result" where
  "tron_parse_token_amount T amount decimals =
    map_err (\<lambda>e. BP_Validation (VE_InvalidAmount (''Unable to parse amount with ''
        @ show_nat (unat decimals) @ '' decimals: '' @ e))) (tn_parse_units T amount (unat decimals))"

definition fetch_trc20_decimals :: "tron_env \<Rightarrow> string \<Rightarrow> string \<Rightarrow> (build_pos_txs_error, u8) result" where
  "fetch_trc20_decimals T owner_b58 contract_b58 =
    bind_res (map_err (\<lambda>e. BP_Validation (VE_InvalidAsset (validation_error_display e)))
        (tron_b58_to_eth_hex T owner_b58)) (\<lambda>from_address.
    bind_res (map_err (\<lambda>e. BP_Validation (VE_InvalidAsset (validation_error_display e)))
        (tron_b58_to_eth_hex T contract_b58)) (\<lambda>to_address.
    bind_res (map_err BP_Rpc (node_call T (tn_eth_call T from_address to_address ''0x313ce567''))) (\<lambda>result.
    bind_res (ok_or (BP_Internal (IE_Internal (''Failed to decode decimals result: '' @ tn_hex_error T result)))
        (hex_decode (trim_start_0x result))) (\<lambda>bytes.
      if length bytes < 32 then Inl (BP_Internal (IE_Internal
        (''Invalid decimals result length: expected 32 bytes, got '' @ show_nat (length bytes))))
      else Inr (bytes ! 31)))))"

definition TRON_SIGN_TRANSACTION_METHOD :: string where
  "TRON_SIGN_TRANSACTION_METHOD = ''tron_signTransaction''"

definition build_trc20_transfer ::
  "tron_env \<Rightarrow> (bytes \<Rightarrow> string) \<Rightarrow> string \<Rightarrow> tron_asset validated_payment_intent
    \<Rightarrow> (build_pos_txs_error, pos_params transaction_rpc) result" where
  "build_trc20_transfer T b64_enc uuid params =
    bind_res (map_err (\<lambda>e. BP_Validation (VE_InvalidRecipient (validation_error_display e)))
        (tron_base58_to_eth_address T (vp_recipient_address params))) (\<lambda>to_eth.
    bind_res (fetch_trc20_decimals T (vp_sender_address params) (a_reference (vp_asset params))) (\<lambda>decimals.
    bind_res (tron_parse_token_amount T (vp_amount params) decimals) (\<lambda>token_amount.
    let data_hex = ''0x'' @ hex_encode (tn_transfer_calldata T to_eth token_amount) in
    bind_res (map_err (\<lambda>e. BP_Validation (VE_InvalidSender (validation_error_display e)))
        (tron_b58_to_hex41 T (vp_sender_address params))) (\<lambda>from_address.
    bind_res (map_err (\<lambda>e. BP_Validation (VE_InvalidAsset (validation_error_display e)))
        (tron_b58_to_hex41 T (a_reference (vp_asset params)))) (\<lambda>to_address.
    let build_params = \<lparr> tb_from = from_address, tb_to = to_address, tb_data = data_hex, tb_gas = None,
          tb_value = ''0x0'', tb_token_id = 0, tb_token_value = 0 \<rparr> in
    bind_res (estimate_trc20_fee_limit T build_params) (\<lambda>fee_limit.
    bind_res (map_err BP_Rpc (node_call T (tn_build T (build_params \<lparr> tb_gas := Some fee_limit \<rparr>)))) (\<lambda>transaction.
      Inr \<lparr> tr_id = transaction_id_display b64_enc (transaction_id_new uuid (a_chain_id (vp_asset params))),
        tr_chain_id = caip2_display (a_chain_id (vp_asset params)), tr_method = TRON_SIGN_TRANSACTION_METHOD,
        tr_params = Tron_params (vp_sender_address params) (transaction \<lparr> st_visible := Some False \<rparr>) \<rparr>)))))))"

definition tron_build ::
  "tron_env \<Rightarrow> (bytes \<Rightarrow> string) \<Rightarrow> string \<Rightarrow> tron_asset validated_payment_intent
    \<Rightarrow> (build_pos_txs_error, pos_params transaction_rpc) result" where
  "tron_build T b64_enc uuid params = (case vp_namespace params of
      Trc20 \<Rightarrow> build_trc20_transfer T b64_enc uuid params
    | Tron_Slip44 \<Rightarrow> Inl unsupported_asset_namespace)"

text \<open>The second component lists the transactions sent to the node.\<close>

definition tron_transaction_status ::
  "tron_env \<Rightarrow> signed_transaction
    \<Rightarrow> (check_pos_tx_error, transaction_status) result \<times> signed_transaction list" where
  "tron_transaction_status T signed_tx = (case get_transaction_by_hash T (st_tx_id signed_tx) of
      Inl e \<Rightarrow> (Inl (CP_Rpc e), [])
    | Inr None \<Rightarrow>
       ((case node_call T (tn_broadcast T signed_tx) of
           Inl e \<Rightarrow> Inl (CP_Rpc e)
         | Inr resp \<Rightarrow>
             if br_result resp = None \<or> br_result resp = Some False then
               Inl (CP_Rpc (PR_Internal (''Broadcast failed: '' @ (case br_code resp of Some c \<Rightarrow> c | None \<Rightarrow> '''')
                 @ '' '' @ (case br_message resp of Some m \<Rightarrow> m | None \<Rightarrow> ''''))))
             else Inr TS_Pending), [signed_tx])
    | Inr (Some _) \<Rightarrow>
       ((case get_transaction_receipt T (st_tx_id signed_tx) of
           Inl e \<Rightarrow> Inl (CP_Rpc e)
         | Inr (Some (Some status)) \<Rightarrow>
             (case parse_radix_uint 16 (2 ^ 64) (trim_start_0x status) of
                Some value \<Rightarrow> Inr (if value = 1 then TS_Confirmed else TS_Failed)
              | None \<Rightarrow> Inr TS_Pending)
         | Inr _ \<Rightarrow> Inr TS_Pending), []))"

definition tron_check_transaction ::
  "tron_env \<Rightarrow> (string \<Rightarrow> (string, signed_transaction) result) \<Rightarrow> string
    \<Rightarrow> (check_pos_tx_error, check_transaction_result) result \<times> signed_transaction list" where
  "tron_check_transaction T parse_json response = (case parse_json response of
      Inl e \<Rightarrow> (Inl (CP_Validation (VE_InvalidWalletResponse (''Invalid wallet response: '' @ e))), [])
    | Inr signed_tx \<Rightarrow>
        (let (status, sent) = tron_transaction_status T signed_tx
         in (bind_res status (\<lambda>s. Inr (check_result DEFAULT_CHECK_IN (st_tx_id signed_tx) s)), sent)))"

section \<open>Handlers\<close>

record ('h, 'k, 'i) pos_env =
  po_address :: "'h address_env"
  po_b64_enc :: "bytes \<Rightarrow> string"
  po_b64_dec :: "string \<Rightarrow> bytes option"
  po_utf8 :: "bytes \<Rightarrow> string option"
  po_project :: string
  po_evm :: "caip2_chain_id \<Rightarrow> evm_env"
  po_solana :: "caip2_chain_id \<Rightarrow> ('k, 'i) solana_env"
  po_tron :: "caip2_chain_id \<Rightarrow> tron_env"
  po_trim :: "string \<Rightarrow> string"
  po_signature_json :: "string \<Rightarrow> string option"
  po_signed_json :: "string \<Rightarrow> (string, signed_transaction) result"

definition build_transaction_for_intent ::
  "('h, 'k, 'i) pos_env \<Rightarrow> string \<Rightarrow> payment_intent \<Rightarrow> (build_pos_txs_error, pos_params transaction_rpc) result" where
  "build_transaction_for_intent Q uuid intent =
    (let A = po_address Q in
     bind_res (map_err (\<lambda>e. BP_Validation (VE_InvalidAsset (crypto_utils_error_display e)))
         (caip19_parse (ad_h160 A) (ad_checksum A) (pi_asset intent))) (\<lambda>asset.
     bind_res (ok_or (BP_Validation (VE_InvalidAsset strum_error))
         (pos_namespace_from_str (c2_namespace (a_chain_id asset)))) (\<lambda>namespace. case namespace of
         PN_Eip155 \<Rightarrow> bind_res (validate_params A evm_asset_from_str intent)
           (evm_build (po_evm Q (a_chain_id asset)) (po_b64_enc Q) uuid (po_project Q))
       | PN_Solana \<Rightarrow> bind_res (validate_params A solana_asset_from_str intent)
           (solana_build (po_solana Q (a_chain_id asset)) (po_b64_enc Q) uuid)
       | PN_Tron \<Rightarrow> bind_res (validate_params A tron_asset_from_str intent)
           (tron_build (po_tron Q (a_chain_id asset)) (po_b64_enc Q) uuid))))"

fun build_all ::
  "('h, 'k, 'i) pos_env \<Rightarrow> (string \<times> payment_intent) list
    \<Rightarrow> (build_pos_txs_error, pos_params transaction_rpc) result list" where
  "build_all Q [] = []"
| "build_all Q ((uuid, intent) # rest) = build_transaction_for_intent Q uuid intent # build_all Q rest"

text \<open>\<open>try_join_all\<close>: the values in order, or the error of the future that fails first; \<open>first\<close> chooses it.\<close>

definition try_join_all :: "('e list \<Rightarrow> 'e) \<Rightarrow> ('e, 'a) result list \<Rightarrow> ('e, 'a list) result" where
  "try_join_all first rs =
    (let errors = List.map_filter (\<lambda>r. case r of Inl e \<Rightarrow> Some e | Inr _ \<Rightarrow> None) rs in
     if errors = [] then Inr (List.map_filter (\<lambda>r. case r of Inl _ \<Rightarrow> None | Inr x \<Rightarrow> Some x) rs)
     else Inl (first errors))"

definition pos_build ::
  "(build_pos_txs_error list \<Rightarrow> build_pos_txs_error) \<Rightarrow> ('h, 'k, 'i) pos_env \<Rightarrow> (string \<times> payment_intent) list
    \<Rightarrow> (build_pos_txs_error, pos_params transaction_rpc list) result" where
  "pos_build first Q intents =
    (if intents = [] then Inl (BP_Validation (VE_InvalidRequest ''No payment intents found''))
     else try_join_all first (build_all Q intents))"

definition pos_check ::
  "('h, 'k, 'i) pos_env \<Rightarrow> string \<Rightarrow> string
    \<Rightarrow> (check_pos_tx_error, check_transaction_result) result \<times> signed_transaction list" where
  "pos_check Q i send_result = (case
      bind_res (map_err (\<lambda>e. CP_Validation (VE_InvalidTransactionId (transaction_id_error_display e)))
          (transaction_id_try_from (po_b64_dec Q) (po_utf8 Q) i)) (\<lambda>transaction_id.
        bind_res (ok_or (CP_Validation (VE_InvalidTransactionId strum_error))
            (pos_namespace_from_str (c2_namespace (ti_chain_id transaction_id))))
          (\<lambda>namespace. Inr (namespace, ti_chain_id transaction_id))) of
      Inl e \<Rightarrow> (Inl e, [])
    | Inr (PN_Eip155, chain_id) \<Rightarrow>
        (evm_check_transaction (po_evm Q chain_id) (po_project Q) send_result chain_id, [])
    | Inr (PN_Solana, chain_id) \<Rightarrow>
        (solana_check_transaction (po_solana Q chain_id) (po_signature_json Q) (po_trim Q) send_result, [])
    | Inr (PN_Tron, chain_id) \<Rightarrow> tron_check_transaction (po_tron Q chain_id) (po_signed_json Q) send_result)"

record supported_namespace =
  sn_name :: string
  sn_methods :: "string list"
  sn_events :: "string list"
  sn_asset_namespaces :: "string list"

definition supported_networks :: "supported_namespace list" where
  "supported_networks =
    [\<lparr> sn_name = ''eip155'', sn_methods = [ETH_SEND_TRANSACTION_METHOD], sn_events = [],
       sn_asset_namespaces = [''erc20'', ''slip44''] \<rparr>,
     \<lparr> sn_name = ''solana'', sn_methods = [SOLANA_RPC_METHOD], sn_events = [],
       sn_asset_namespaces = [''token'', ''slip44''] \<rparr>,
     \<lparr> sn_name = ''tron'', sn_methods = [TRON_SIGN_TRANSACTION_METHOD], sn_events = [],
       sn_asset_namespaces = [''trc20'', ''slip44''] \<rparr>]"

end
