(* ===== verification/Payments.thy ===== *)
theory Payments
  imports PosChains
begin

text \<open>
  What the point-of-sale handlers guarantee: transaction identifiers, the transactions built for payment
  intents, the amounts and fee limits they carry, and the status of a sent transaction.
\<close>

section \<open>Built transactions\<close>

fun pos_method :: "pos_namespace \<Rightarrow> string" where
  "pos_method PN_Eip155 = ETH_SEND_TRANSACTION_METHOD"
| "pos_method PN_Solana = SOLANA_RPC_METHOD"
| "pos_method PN_Tron = TRON_SIGN_TRANSACTION_METHOD"

fun params_of :: "pos_namespace \<Rightarrow> string \<Rightarrow> pos_params \<Rightarrow> bool" where
  "params_of PN_Eip155 sender (Evm_params tx) = True"
| "params_of PN_Solana sender (Solana_params encoded pubkey) = (pubkey = sender)"
| "params_of PN_Tron sender (Tron_params address tx) = (address = sender)"
| "params_of _ sender _ = False"

lemma finalize_ok:
  assumes "evm_finalize V b64_enc uuid chain project tx = Inr r"
  shows "\<exists>fee tip gas. ev_fees V = Inr (fee, tip)
    \<and> tr_id r = transaction_id_display b64_enc (transaction_id_new uuid chain)
    \<and> tr_chain_id r = caip2_display chain \<and> tr_method r = ETH_SEND_TRANSACTION_METHOD
    \<and> tr_params r = Evm_params (tx \<lparr> et_max_fee := Some fee, et_max_priority_fee := Some tip, et_gas := Some gas \<rparr>)
    \<and> (if has_transaction_data tx
        then ev_estimate_gas V (tx \<lparr> et_max_fee := Some fee, et_max_priority_fee := Some tip \<rparr>) = Inr gas
        else gas = NATIVE_GAS_LIMIT)"
proof -
  have "has_transaction_data (tx \<lparr> et_max_fee := a, et_max_priority_fee := b \<rparr>) = has_transaction_data tx" for a b
    by (simp add: has_transaction_data_def)
  then show ?thesis
    using assms unfolding evm_finalize_def by (fastforce simp: res_simps Let_def split: if_splits)
qed

lemma evm_build_shape:
  "evm_build V b64_enc uuid project v = Inr r \<Longrightarrow>
    tr_id r = transaction_id_display b64_enc (transaction_id_new uuid (a_chain_id (vp_asset v)))
    \<and> tr_chain_id r = caip2_display (a_chain_id (vp_asset v)) \<and> tr_method r = pos_method PN_Eip155
    \<and> params_of PN_Eip155 s (tr_params r)"
  unfolding evm_build_def by (auto simp: res_simps Let_def dest!: finalize_ok)

lemma solana_build_shape:
  "solana_build S b64_enc uuid v = Inr r \<Longrightarrow>
    tr_id r = transaction_id_display b64_enc (transaction_id_new uuid (a_chain_id (vp_asset v)))
    \<and> tr_chain_id r = caip2_display (a_chain_id (vp_asset v)) \<and> tr_method r = pos_method PN_Solana
    \<and> params_of PN_Solana (vp_sender_address v) (tr_params r)"
  unfolding solana_build_def build_spl_transfer_def
  by (auto simp: res_simps split: solana_asset.splits prod.splits)

lemma tron_build_shape:
  "tron_build T b64_enc uuid v = Inr r \<Longrightarrow>
    tr_id r = transaction_id_display b64_enc (transaction_id_new uuid (a_chain_id (vp_asset v)))
    \<and> tr_chain_id r = caip2_display (a_chain_id (vp_asset v)) \<and> tr_method r = pos_method PN_Tron
    \<and> params_of PN_Tron (vp_sender_address v) (tr_params r)"
  unfolding tron_build_def build_trc20_transfer_def
  by (auto simp: res_simps Let_def split: tron_asset.splits)

text \<open>What a built transaction has to do with its intent.\<close>

definition matches_intent ::
  "('h, 'k, 'i) pos_env \<Rightarrow> string \<times> payment_intent \<Rightarrow> pos_params transaction_rpc \<Rightarrow> bool" where
  "matches_intent Q ui tx = (\<exists>asset n sender recipient.
     caip19_parse (ad_h160 (po_address Q)) (ad_checksum (po_address Q)) (pi_asset (snd ui)) = Inr asset
     \<and> c2_namespace (a_chain_id asset) = pos_namespace_name n
     \<and> pi_sender (snd ui) = caip2_display (a_chain_id asset) @ '':'' @ sender
     \<and> pi_recipient (snd ui) = caip2_display (a_chain_id asset) @ '':'' @ recipient
     \<and> tr_chain_id tx = caip2_display (a_chain_id asset)
     \<and> tr_id tx = transaction_id_display (po_b64_enc Q) (transaction_id_new (fst ui) (a_chain_id asset))
     \<and> tr_method tx = pos_method n \<and> params_of n sender (tr_params tx))"

lemma matches_intentI:
  assumes "caip19_parse (ad_h160 (po_address Q)) (ad_checksum (po_address Q)) (pi_asset intent) = Inr asset"
    and "pos_namespace_from_str (c2_namespace (a_chain_id asset)) = Some n"
    and "validate_params (po_address Q) from_str intent = Inr v"
    and "tr_id tx = transaction_id_display (po_b64_enc Q) (transaction_id_new uuid (a_chain_id (vp_asset v)))
      \<and> tr_chain_id tx = caip2_display (a_chain_id (vp_asset v)) \<and> tr_method tx = pos_method n
      \<and> params_of n (vp_sender_address v) (tr_params tx)"
  shows "matches_intent Q (uuid, intent) tx"
proof -
  have "vp_asset v = asset" "pos_namespace_name n = c2_namespace (a_chain_id asset)"
    using validate_params_ok [OF assms(3)] assms(1,2) by (auto simp: pos_namespace_from_str_iff)
  then have "caip19_parse (ad_h160 (po_address Q)) (ad_checksum (po_address Q)) (pi_asset (snd (uuid, intent))) = Inr asset
     \<and> c2_namespace (a_chain_id asset) = pos_namespace_name n
     \<and> pi_sender (snd (uuid, intent)) = caip2_display (a_chain_id asset) @ '':'' @ vp_sender_address v
     \<and> pi_recipient (snd (uuid, intent)) = caip2_display (a_chain_id asset) @ '':'' @ vp_recipient_address v
     \<and> tr_chain_id tx = caip2_display (a_chain_id asset)
     \<and> tr_id tx = transaction_id_display (po_b64_enc Q) (transaction_id_new (fst (uuid, intent)) (a_chain_id asset))
     \<and> tr_method tx = pos_method n \<and> params_of n (vp_sender_address v) (tr_params tx)"
    using validate_params_ok [OF assms(3)] assms(1,4) by auto
  then show ?thesis unfolding matches_intent_def by (intro exI)
qed

lemma build_transaction_matches:
  assumes "build_transaction_for_intent Q uuid intent = Inr tx"
  shows "matches_intent Q (uuid, intent) tx"
proof -
  let ?A = "po_address Q"
  obtain asset n where a: "caip19_parse (ad_h160 ?A) (ad_checksum ?A) (pi_asset intent) = Inr asset"
    and n: "pos_namespace_from_str (c2_namespace (a_chain_id asset)) = Some n"
    using assms unfolding build_transaction_for_intent_def Let_def by (auto simp: res_simps)
  note simps = build_transaction_for_intent_def Let_def bind_res_Inr_iff map_err_Inr_iff ok_or_Inr_iff
  show ?thesis
    using assms a n
    by (cases n) (auto simp: simps intro!: matches_intentI [OF a n] dest: evm_build_shape solana_build_shape
      tron_build_shape)
qed

lemma map_filter_errors_Nil:
  "List.map_filter (\<lambda>r. case r of Inl e \<Rightarrow> Some e | Inr _ \<Rightarrow> None) rs = [] \<Longrightarrow> rs = map Inr
     (List.map_filter (\<lambda>r. case r of Inl _ \<Rightarrow> None | Inr x \<Rightarrow> Some x) rs)"
  by (induction rs) (auto simp: List.map_filter_def split: sum.splits if_splits)

lemma try_join_all_ok: "try_join_all first rs = Inr xs \<Longrightarrow> rs = map Inr xs"
  unfolding try_join_all_def Let_def by (auto split: if_splits dest: map_filter_errors_Nil)

lemma build_all_matches: "build_all Q intents = map Inr txs \<Longrightarrow> list_all2 (matches_intent Q) intents txs"
proof (induction intents arbitrary: txs)
  case (Cons ui rest)
  obtain u i where ui: "ui = (u, i)" by (cases ui)
  then obtain t ts where t: "txs = t # ts" "build_transaction_for_intent Q u i = Inr t" "build_all Q rest = map Inr ts"
    using Cons.prems by auto
  show ?case using Cons.IH [OF t(3)] build_transaction_matches [OF t(2)] t(1) ui by simp
qed simp

section \<open>Checking\<close>

text \<open>The check of one chain.\<close>

definition chain_check ::
  "('h, 'k, 'i) pos_env \<Rightarrow> pos_namespace \<Rightarrow> caip2_chain_id \<Rightarrow> string
    \<Rightarrow> (check_pos_tx_error, check_transaction_result) result \<times> signed_transaction list" where
  "chain_check Q n chain_id send_result = (case n of
      PN_Eip155 \<Rightarrow> (evm_check_transaction (po_evm Q chain_id) (po_project Q) send_result chain_id, [])
    | PN_Solana \<Rightarrow>
        (solana_check_transaction (po_solana Q chain_id) (po_signature_json Q) (po_trim Q) send_result, [])
    | PN_Tron \<Rightarrow> tron_check_transaction (po_tron Q chain_id) (po_signed_json Q) send_result)"

lemma caip19_parse_chain_wf:
  assumes "caip19_parse f t s = Inr a"
  shows "caip2_wf (a_chain_id a)"
proof -
  obtain c n r tok where s: "s = caip19_string c n r tok"
    and sep: "CHR ''/'' \<notin> set c" "CHR '':'' \<notin> set n" "CHR ''/'' \<notin> set n" "CHR ''/'' \<notin> set r"
    using assms by (rule caip19_parse_shape)
  show ?thesis
    using assms unfolding s caip19_parse_string [OF sep] by (auto simp: res_simps caip19_new_iff caip2_parse_iff)
qed

lemma pos_check_dispatch:
  assumes "text_codec (po_b64_enc Q) (po_b64_dec Q) (po_utf8 Q)" "caip2_wf c" "is_ascii uuid"
    "c2_namespace c = pos_namespace_name n"
  shows "pos_check Q (transaction_id_display (po_b64_enc Q) (transaction_id_new uuid c)) send_result
    = chain_check Q n c send_result"
proof -
  have "transaction_id_try_from (po_b64_dec Q) (po_utf8 Q)
      (transaction_id_display (po_b64_enc Q) (transaction_id_new uuid c)) = Inr (transaction_id_new uuid c)"
    using assms by (intro transaction_id_parses) (simp_all add: transaction_id_new_def)
  moreover have "pos_namespace_from_str (c2_namespace c) = Some n"
    by (simp add: pos_namespace_from_str_iff assms(4))
  ultimately show ?thesis
    by (simp add: pos_check_def chain_check_def transaction_id_new_def split: pos_namespace.splits)
qed

text \<open>What the chain has to have answered when a check confirms a transaction.\<close>

definition confirmed_by_chain ::
  "('h, 'k, 'i) pos_env \<Rightarrow> pos_namespace \<Rightarrow> caip2_chain_id \<Rightarrow> string \<Rightarrow> bool" where
  "confirmed_by_chain Q n chain_id send_result = (case n of
      PN_Eip155 \<Rightarrow> (\<exists>h. ev_tx_hash (po_evm Q chain_id) send_result = Inr h
        \<and> ev_receipt (po_evm Q chain_id) h = Inr (Some True))
    | PN_Solana \<Rightarrow> (\<exists>h statuses. so_signature (po_solana Q chain_id)
          (case po_signature_json Q send_result of Some s \<Rightarrow> s | None \<Rightarrow> po_trim Q send_result) = Inr h
        \<and> so_statuses (po_solana Q chain_id) h = Inr statuses
        \<and> (if statuses = [] \<or> hd statuses = None
           then so_transaction (po_solana Q chain_id) h \<in> {Inr None, Inr (Some False)} else hd statuses = Some False))
    | PN_Tron \<Rightarrow> (\<exists>tx known status. po_signed_json Q send_result = Inr tx
        \<and> get_transaction_by_hash (po_tron Q chain_id) (st_tx_id tx) = Inr (Some known)
        \<and> get_transaction_receipt (po_tron Q chain_id) (st_tx_id tx) = Inr (Some (Some status))
        \<and> parse_radix_uint 16 (2 ^ 64) (trim_start_0x status) = Some 1))"

lemma check_result_fields:
  "ct_check_in (check_result d t s) = None \<longleftrightarrow> s \<noteq> TS_Pending"
  "ct_txid (check_result d t s) = None \<longleftrightarrow> s = TS_Failed"
  "ct_status (check_result d t s) = s"
  by (cases s; simp add: check_result_def)+

lemma chain_check_result:
  assumes "chain_check Q n c send_result = (Inr res, sent)"
  shows "(ct_check_in res = None \<longleftrightarrow> ct_status res \<noteq> TS_Pending) \<and> (ct_txid res = None \<longleftrightarrow> ct_status res = TS_Failed)"
  using assms unfolding chain_check_def evm_check_transaction_def solana_check_transaction_def tron_check_transaction_def
  by (auto simp: res_simps check_result_fields Let_def split: pos_namespace.splits sum.splits prod.splits)

lemma solana_confirmed:
  assumes "solana_transaction_status S text = Inr TS_Confirmed"
  shows "\<exists>h statuses. so_signature S text = Inr h \<and> so_statuses S h = Inr statuses
    \<and> (if statuses = [] \<or> hd statuses = None
       then so_transaction S h \<in> {Inr None, Inr (Some False)} else hd statuses = Some False)"
proof -
  obtain h statuses where h: "so_signature S text = Inr h" "so_statuses S h = Inr statuses"
    and c: "(case statuses of Some err # _ \<Rightarrow> if err then TS_Failed else TS_Confirmed
        | _ \<Rightarrow> (case status_via_get_transaction S h of Some status \<Rightarrow> status | None \<Rightarrow> TS_Pending)) = TS_Confirmed"
    using assms unfolding solana_transaction_status_def by (auto simp: bind_res_Inr_iff map_err_Inr_iff)
  have "so_transaction S h \<in> {Inr None, Inr (Some False)}"
    if "(case status_via_get_transaction S h of Some status \<Rightarrow> status | None \<Rightarrow> TS_Pending) = TS_Confirmed"
    using that unfolding status_via_get_transaction_def by (auto split: sum.splits option.splits bool.splits)
  then have "if statuses = [] \<or> hd statuses = None
    then so_transaction S h \<in> {Inr None, Inr (Some False)} else hd statuses = Some False"
    using c by (cases statuses; cases "hd statuses") (auto split: if_splits)
  then show ?thesis using h by blast
qed

lemma tron_confirmed:
  assumes "tron_transaction_status T tx = (Inr TS_Confirmed, sent)"
  shows "sent = [] \<and> (\<exists>known status. get_transaction_by_hash T (st_tx_id tx) = Inr (Some known)
    \<and> get_transaction_receipt T (st_tx_id tx) = Inr (Some (Some status))
    \<and> parse_radix_uint 16 (2 ^ 64) (trim_start_0x status) = Some 1)"
  using assms unfolding tron_transaction_status_def
  by (auto split: sum.splits option.splits if_splits)

lemma chain_check_confirmed:
  assumes "chain_check Q n c send_result = (Inr res, sent)" and "ct_status res = TS_Confirmed"
  shows "sent = [] \<and> confirmed_by_chain Q n c send_result"
proof (cases n)
  case PN_Eip155
  then have "evm_transaction_status (po_evm Q c) (po_project Q) send_result c = Inr TS_Confirmed" "sent = []"
    using assms by (auto simp: chain_check_def evm_check_transaction_def bind_res_Inr_iff check_result_fields)
  then show ?thesis using PN_Eip155
    by (auto simp: evm_transaction_status_def confirmed_by_chain_def bind_res_Inr_iff map_err_Inr_iff
        split: option.splits if_splits)
next
  case PN_Solana
  then have "solana_transaction_status (po_solana Q c)
      (case po_signature_json Q send_result of Some s \<Rightarrow> s | None \<Rightarrow> po_trim Q send_result) = Inr TS_Confirmed"
    "sent = []"
    using assms by (auto simp: chain_check_def solana_check_transaction_def Let_def bind_res_Inr_iff check_result_fields)
  then show ?thesis using solana_confirmed [of "po_solana Q c"] PN_Solana
    by (simp add: confirmed_by_chain_def)
next
  case PN_Tron
  then obtain tx where "po_signed_json Q send_result = Inr tx"
    "tron_transaction_status (po_tron Q c) tx = (Inr TS_Confirmed, sent)"
    using assms by (auto simp: chain_check_def tron_check_transaction_def Let_def bind_res_Inr_iff check_result_fields
        split: sum.splits prod.splits)
  then show ?thesis using tron_confirmed [of "po_tron Q c" tx sent] PN_Tron
    by (simp add: confirmed_by_chain_def)
qed

text \<open>The answers that count as not knowing a transaction: an object without a result, as a node reports an error,
  or with the result \<open>null\<close>.\<close>

definition no_transaction_answered :: "'r option node_answer \<Rightarrow> bool" where
  "no_transaction_answered answer = (\<exists>err. answer = Rpc_object None err \<or> answer = Rpc_object (Some (Some None)) err)"

lemma node_query_None: "node_query T answer = Inr None \<longleftrightarrow> no_transaction_answered answer"
  by (cases answer) (auto simp: node_query_def call_json_rpc_def decode_payload_def no_transaction_answered_def Let_def
      split: option.splits json_rpc_payload.splits if_splits)

text \<open>An error of the node is read as an unknown transaction, and the transaction is sent.\<close>

lemma tron_error_sends:
  assumes "tn_tx_by_hash T (st_tx_id tx) = Rpc_object None (Some (code, message))"
  shows "snd (tron_transaction_status T tx) = [tx]"
proof -
  have "get_transaction_by_hash T (st_tx_id tx) = Inr None"
    using assms by (simp add: get_transaction_by_hash_def node_query_None no_transaction_answered_def)
  then show ?thesis by (simp add: tron_transaction_status_def)
qed

lemma chain_check_sent:
  assumes "chain_check Q n c send_result = (r, sent)" and "sent \<noteq> []"
  shows "n = PN_Tron \<and> (\<exists>tx. po_signed_json Q send_result = Inr tx \<and> sent = [tx]
    \<and> no_transaction_answered (tn_tx_by_hash (po_tron Q c) (st_tx_id tx)))"
  using assms unfolding chain_check_def tron_check_transaction_def tron_transaction_status_def Let_def
  by (auto simp: get_transaction_by_hash_def node_query_None
      split: pos_namespace.splits sum.splits option.splits prod.splits)

lemma pos_check_cases:
  assumes "pos_check Q i send_result = (r, sent)"
  obtains e where "r = Inl e" "sent = []"
  | t n where "transaction_id_try_from (po_b64_dec Q) (po_utf8 Q) i = Inr t"
      "c2_namespace (ti_chain_id t) = pos_namespace_name n"
      "chain_check Q n (ti_chain_id t) send_result = (r, sent)"
proof (cases "transaction_id_try_from (po_b64_dec Q) (po_utf8 Q) i")
  case (Inl e)
  then show thesis using assms that(1) by (auto simp: pos_check_def)
next
  case (Inr t)
  show thesis
  proof (cases "pos_namespace_from_str (c2_namespace (ti_chain_id t))")
    case None
    then show thesis using assms Inr that(1) by (auto simp: pos_check_def)
  next
    case (Some n)
    then have name: "c2_namespace (ti_chain_id t) = pos_namespace_name n" by (simp add: pos_namespace_from_str_iff)
    have "chain_check Q n (ti_chain_id t) send_result = pos_check Q i send_result"
      using Inr Some by (cases n) (simp_all add: pos_check_def chain_check_def)
    then show thesis using assms that(2) [OF Inr name] by simp
  qed
qed

section \<open>Amounts and fees\<close>

lemma parse_token_amount_iff:
  "parse_token_amount_u64 pu amount d = Inr a \<longleftrightarrow>
    (\<exists>v. pu amount (unat d) = Inr v \<and> unat v < 2 ^ 64 \<and> unat a = unat v)"
proof -
  have le: "\<not> (ucast (- 1 :: u64) < v) \<longleftrightarrow> unat v < 2 ^ 64" for v :: u256
  proof -
    have "unat (ucast (- 1 :: u64) :: u256) = 2 ^ 64 - 1"
      by (simp add: unsigned_ucast_eq unsigned_minus_1_eq_mask mask_eq_exp_minus_1)
    then show ?thesis by (simp add: word_less_nat_alt not_less) linarith
  qed
  have u: "unat (ucast v :: u64) = unat v" if "unat v < 2 ^ 64" for v :: u256
    using that by (simp add: unsigned_ucast_eq take_bit_nat_eq_self)
  have "parse_token_amount_u64 pu amount d = Inr a \<longleftrightarrow>
    (\<exists>v. pu amount (unat d) = Inr v \<and> unat v < 2 ^ 64 \<and> a = ucast v)"
    unfolding parse_token_amount_u64_def by (simp add: bind_res_Inr_iff map_err_Inr_iff le) blast
  then show ?thesis using u by (metis word_unat_eq_iff)
qed

lemma compute_fee_limit_exact:
  "compute_fee_limit gas price =
    (if unat gas * unat price * 12000 < 2 ^ 128 then Inr (word_of_nat (unat gas * unat price * 12000 div 10000))
     else Inl (IE_Internal ''fee_limit overflow''))"
proof (cases "checked_mul gas price")
  case None
  then show ?thesis using checked_mul_NoneD [OF None] by (simp add: compute_fee_limit_def)
next
  case (Some base)
  have b: "unat base = unat gas * unat price" by (rule checked_mul_SomeD [OF Some])
  have f: "unat (BPS_DEN + ucast FEE_MARGIN_BPS) = 12000" "BPS_DEN \<noteq> 0" "unat BPS_DEN = 10000"
    by (simp_all add: BPS_DEN_def FEE_MARGIN_BPS_def)
  show ?thesis
  proof (cases "checked_mul base (BPS_DEN + ucast FEE_MARGIN_BPS)")
    case None
    then show ?thesis using checked_mul_NoneD [OF None] Some b f by (simp add: compute_fee_limit_def)
  next
    case (Some v)
    have v: "unat v = unat gas * unat price * 12000" using checked_mul_SomeD [OF Some] b f by simp
    have "unat (v div BPS_DEN) = unat gas * unat price * 12000 div 10000" by (simp add: unat_div v f)
    then have "v div BPS_DEN = word_of_nat (unat gas * unat price * 12000 div 10000)"
      by (metis of_nat_unat ucast_id)
    then show ?thesis using Some \<open>checked_mul gas price = Some base\<close> v f unsigned_less [of v, where ?'a = nat]
      by (simp add: compute_fee_limit_def)
  qed
qed

section \<open>Hexadecimal numbers\<close>

definition hex_digit_char :: "nat \<Rightarrow> char" where
  "hex_digit_char d = (if d < 10 then digit_char d else char_of (87 + d))"

lemma show_hex_unfold:
  "show_hex n = (if n < 16 then [hex_digit_char n] else show_hex (n div 16) @ [hex_digit_char (n mod 16)])"
  by (subst show_hex.simps) (simp add: Let_def hex_digit_char_def)

declare show_hex.simps [simp del]

lemma radix_val_hex_digit: "d < 16 \<Longrightarrow> radix_val 16 (hex_digit_char d) = Some d"
proof -
  assume "d < 16"
  then have "d \<in> {0..<16}" by simp
  then show ?thesis
    by (auto simp: radix_val_def hex_digit_char_def is_digit_def is_lower_def is_upper_def char_code_def digit_char_def
        Let_def)
qed

lemma parse_radix_append:
  "parse_radix_acc r b acc (xs @ ys) = Option.bind (parse_radix_acc r b acc xs) (\<lambda>a. parse_radix_acc r b a ys)"
  by (induction xs arbitrary: acc) (auto split: option.splits)

lemma parse_radix_show_hex: "n < b \<Longrightarrow> parse_radix_acc 16 b 0 (show_hex n) = Some n"
proof (induction n rule: show_hex.induct)
  case (1 n)
  show ?case
  proof (cases "n < 16")
    case True
    with 1(2) show ?thesis by (subst show_hex_unfold) (simp add: radix_val_hex_digit)
  next
    case False
    have "n div 16 < b" using 1(2) by simp
    with False 1 have "parse_radix_acc 16 b 0 (show_hex (n div 16)) = Some (n div 16)" by simp
    moreover have "n div 16 * 16 + n mod 16 = n" by simp
    ultimately show ?thesis using False 1(2)
      by (subst show_hex_unfold) (simp add: parse_radix_append radix_val_hex_digit)
  qed
qed

section \<open>Properties\<close>

text \<open>C31: transaction identifiers.  The identifier given to a wallet encodes the version, the chain and a random
  part between bars.  Reading the encoding of an ASCII text succeeds exactly if the text is the version, the
  printed form of a well-formed chain and a rest, separated by bars, and gives the chain and the rest; printing
  what was read gives the encoding back, so two identifiers never print the same.\<close>

theorem transaction_id_roundtrip:
  assumes "text_codec b64_enc b64_dec utf8" and "is_ascii s"
  shows "transaction_id_try_from b64_dec utf8 (b64_enc (string_bytes s)) = Inr t \<longleftrightarrow>
    caip2_wf (ti_chain_id t) \<and> ti_version t = TRANSACTION_ID_VERSION \<and> is_ascii (ti_id t)
    \<and> transaction_id_display b64_enc t = b64_enc (string_bytes s)"
    (is "?read \<longleftrightarrow> ?good")
proof
  assume r: ?read
  have codec: "b64_dec (b64_enc (string_bytes s)) = Some (string_bytes s)" "utf8 (string_bytes s) = Some s"
    using assms by (auto simp: text_codec_def)
  then have "s = TRANSACTION_ID_VERSION @ ''|'' @ caip2_display (ti_chain_id t) @ ''|'' @ ti_id t"
    "caip2_wf (ti_chain_id t)" "ti_version t = TRANSACTION_ID_VERSION"
    using transaction_id_try_from_result [OF r] by auto
  then show ?good using assms(2)
    by (simp add: transaction_id_display_def TRANSACTION_ID_DELIMITER_def is_ascii_def)
next
  assume ?good
  then show ?read using transaction_id_parses [OF assms(1), of t] by simp
qed

text \<open>C12: payments that are built can be checked.  If building a list of payment intents succeeds, the list is not
  empty and there is one transaction per intent, in order: its chain is the chain of the intent's asset, sender
  and recipient are accounts on that chain, and method, identifier and parameters are those of the chain's
  namespace.  Given its identifier back, the check asks the status handler of that namespace for that chain.\<close>

theorem built_payments_match_and_check:
  assumes "pos_build first Q intents = Inr txs"
    and "text_codec (po_b64_enc Q) (po_b64_dec Q) (po_utf8 Q)"
    and "list_all (\<lambda>(uuid, _). is_ascii uuid) intents"
  shows "intents \<noteq> [] \<and> list_all2 (matches_intent Q) intents txs
    \<and> list_all (\<lambda>tx. \<exists>n c. tr_chain_id tx = caip2_display c \<and> tr_method tx = pos_method n
        \<and> c2_namespace c = pos_namespace_name n
        \<and> pos_check Q (tr_id tx) send_result = chain_check Q n c send_result) txs"
proof -
  have ne: "intents \<noteq> []" and all: "list_all2 (matches_intent Q) intents txs"
    using assms(1) by (auto simp: pos_build_def split: if_splits dest!: try_join_all_ok intro: build_all_matches)
  have "\<exists>n c. tr_chain_id tx = caip2_display c \<and> tr_method tx = pos_method n \<and> c2_namespace c = pos_namespace_name n
      \<and> pos_check Q (tr_id tx) send_result = chain_check Q n c send_result"
    if m: "matches_intent Q ui tx" and asc: "is_ascii (fst ui)" for ui tx
  proof -
    obtain asset n where a: "caip19_parse (ad_h160 (po_address Q)) (ad_checksum (po_address Q)) (pi_asset (snd ui)) = Inr asset"
      and n: "c2_namespace (a_chain_id asset) = pos_namespace_name n" "tr_chain_id tx = caip2_display (a_chain_id asset)"
        "tr_id tx = transaction_id_display (po_b64_enc Q) (transaction_id_new (fst ui) (a_chain_id asset))"
        "tr_method tx = pos_method n"
      using m unfolding matches_intent_def by blast
    have "caip2_wf (a_chain_id asset)" using a by (rule caip19_parse_chain_wf)
    then show ?thesis using pos_check_dispatch [OF assms(2) _ asc n(1)] n by metis
  qed
  note checked = this
  have "list_all (\<lambda>tx. \<exists>n c. tr_chain_id tx = caip2_display c \<and> tr_method tx = pos_method n
        \<and> c2_namespace c = pos_namespace_name n
        \<and> pos_check Q (tr_id tx) send_result = chain_check Q n c send_result) txs"
    using all assms(3) by (induction rule: list_all2_induct) (auto intro: checked)
  then show ?thesis using ne all by blast
qed

text \<open>C32: EVM transfers carry what the intent asks for.  A native transfer goes to the recipient with the amount
  read with 18 decimals and needs 21000 gas; an ERC-20 transfer goes to the token contract with no value, and
  its input and data are the transfer of the amount, read with the decimals of the token, to the recipient.
  Both are sent by the sender, with the fees of the node, and gas is estimated on the request as it is sent.\<close>

theorem evm_transfers_requested_amount:
  assumes "evm_build V b64_enc uuid project v = Inr r"
  shows "\<exists>tx recipient fee tip. tr_params r = Evm_params tx
    \<and> ev_address V (vp_recipient_address v) = Inr recipient
    \<and> ev_fees V = Inr (fee, tip) \<and> et_max_fee tx = Some fee \<and> et_max_priority_fee tx = Some tip
    \<and> map_option Inr (et_from tx) = Some (ev_address V (vp_sender_address v))
    \<and> (case vp_namespace v of
         Evm_Slip44 \<Rightarrow> et_to tx = Some recipient \<and> \<not> has_transaction_data tx \<and> et_gas tx = Some 21000
           \<and> map_option Inr (et_val tx) = Some (ev_parse_units V (vp_amount v) 18)
       | Erc20 \<Rightarrow> (\<exists>token decimals amount. ev_address V (a_reference (vp_asset v)) = Inr token
           \<and> ev_decimals V token = Inr decimals \<and> ev_parse_units V (vp_amount v) (unat decimals) = Inr amount
           \<and> et_to tx = Some token \<and> et_val tx = Some 0
           \<and> et_data tx = Some (ev_transfer_calldata V recipient amount) \<and> et_input tx = et_data tx
           \<and> map_option Inr (et_gas tx) = Some (ev_estimate_gas V (tx \<lparr> et_gas := None \<rparr>))))"
proof (cases "vp_namespace v")
  case Erc20
  then obtain dst src token decimals amount where
    b: "ev_address V (vp_recipient_address v) = Inr dst" "ev_address V (vp_sender_address v) = Inr src"
      "ev_address V (a_reference (vp_asset v)) = Inr token" "ev_decimals V token = Inr decimals"
      "ev_parse_units V (vp_amount v) (unat decimals) = Inr amount"
    and f: "evm_finalize V b64_enc uuid (a_chain_id (vp_asset v)) project (empty_evm_tx \<lparr> et_to := Some token,
        et_val := Some 0, et_input := Some (ev_transfer_calldata V dst amount), et_from := Some src,
        et_data := Some (ev_transfer_calldata V dst amount) \<rparr>) = Inr r"
    using assms unfolding evm_build_def evm_builder_new_def with_erc20_transfer_def get_erc20_transfer_amount_def Let_def
    by (auto simp: res_simps)
  then show ?thesis using finalize_ok [OF f] Erc20 by (auto simp: has_transaction_data_def empty_evm_tx_def)
next
  case Evm_Slip44
  then obtain dst src wei where
    b: "ev_address V (vp_recipient_address v) = Inr dst" "ev_address V (vp_sender_address v) = Inr src"
      "ev_parse_units V (vp_amount v) 18 = Inr wei"
    and f: "evm_finalize V b64_enc uuid (a_chain_id (vp_asset v)) project (empty_evm_tx \<lparr> et_to := Some dst,
        et_val := Some wei, et_from := Some src \<rparr>) = Inr r"
    using assms unfolding evm_build_def evm_builder_new_def with_native_transfer_def parse_ether_amount_def Let_def
    by (auto simp: res_simps)
  then show ?thesis using finalize_ok [OF f] Evm_Slip44
    by (auto simp: has_transaction_data_def empty_evm_tx_def NATIVE_GAS_LIMIT_def)
qed

lemma parse_radix_acc_bound: "parse_radix_acc r b acc s = Some n \<Longrightarrow> acc < b \<Longrightarrow> n < b"
  by (induction s arbitrary: acc) (auto split: option.splits if_splits)

lemma parse_radix_uint_bound: "parse_radix_uint r b s = Some n \<Longrightarrow> 0 < b \<Longrightarrow> n < b"
  by (cases s) (auto simp: parse_radix_uint_def simp del: parse_radix_acc.simps split: if_splits
      dest: parse_radix_acc_bound)

lemma hex_digit_not_plus: "d < 16 \<Longrightarrow> hex_digit_char d \<noteq> CHR ''+''"
proof
  assume "d < 16" "hex_digit_char d = CHR ''+''"
  then have "radix_val 16 (CHR ''+'') = Some d" using radix_val_hex_digit by metis
  then show False by (simp add: radix_val_def is_digit_def is_lower_def is_upper_def char_code_def)
qed

lemma show_hex_chars: "c \<in> set (show_hex n) \<Longrightarrow> \<exists>d<16. c = hex_digit_char d"
proof (induction n rule: show_hex.induct)
  case (1 n)
  have "set (show_hex n) = (if n < 16 then {hex_digit_char n}
      else set (show_hex (n div 16)) \<union> {hex_digit_char (n mod 16)})"
    by (subst show_hex_unfold) simp
  moreover have "\<exists>d<16. hex_digit_char (n mod 16) = hex_digit_char d"
    by (rule exI [of _ "n mod 16"]) simp
  ultimately show ?case using 1 by (cases "n < 16") auto
qed

lemma show_hex_not_Nil [simp]: "show_hex n \<noteq> []"
  by (subst show_hex_unfold) simp

lemma parse_radix_uint_show_hex:
  assumes "n < b"
  shows "parse_radix_uint 16 b (show_hex n) = Some n"
proof -
  obtain c cs where eq: "show_hex n = c # cs" by (cases "show_hex n") auto
  then have "c \<noteq> CHR ''+''" using show_hex_chars [of c n] hex_digit_not_plus by auto
  then show ?thesis using parse_radix_show_hex [OF assms] eq by (simp add: parse_radix_uint_def)
qed

text \<open>C33: a transfer of an SPL token carries exactly the requested amount.  It is built only if the amount, read with
  the decimals of the mint, fits 64 bits; the checked transfer instruction has this amount and these decimals,
  is signed by the sender and goes between the associated accounts of sender and recipient.\<close>

theorem solana_transfer_amount:
  assumes "solana_build S b64_enc uuid v = Inr r"
  shows "vp_namespace v = Token \<and> (\<exists>sender recipient mint decimals program units amount instruction blockhash message encoded.
    so_pubkey S (vp_sender_address v) = Inr sender \<and> so_pubkey S (vp_recipient_address v) = Inr recipient
    \<and> so_pubkey S (a_reference (vp_asset v)) = Inr mint \<and> get_token_decimals S mint = Inr (decimals, program)
    \<and> so_parse_units S (vp_amount v) (unat decimals) = Inr units \<and> unat units < 2 ^ 64 \<and> unat amount = unat units
    \<and> so_transfer_checked S program (so_ata S sender mint) mint (so_ata S recipient mint) sender amount decimals
        = Inr instruction
    \<and> so_compile S sender instruction blockhash = Inr message \<and> so_encode S message = Inr encoded
    \<and> tr_params r = Solana_params encoded (vp_sender_address v))"
proof -
  have "vp_namespace v = Token" "build_spl_transfer S b64_enc uuid v = Inr r"
    using assms unfolding solana_build_def by (auto split: solana_asset.splits)
  then show ?thesis
    unfolding build_spl_transfer_def by (fastforce simp: res_simps parse_token_amount_iff split: prod.splits)
qed

text \<open>The fee limit of a TRC-20 transfer.  With the gas and the gas price of the node it is their product plus a
  fifth, rounded down, written in hexadecimal so that it reads back as this number, and it covers the
  product; if the computation leaves 128 bits the build fails with an overflow error instead of wrapping.\<close>

theorem tron_fee_limit_exact:
  assumes "node_call T (tn_estimate_gas T (ensure_hex_prefix (tb_from p)) (ensure_hex_prefix (tb_to p))
      (tb_data p) (tb_value p)) = Inr gas_hex"
    and "node_call T (tn_gas_price T) = Inr price_hex"
    and "parse_radix_uint 16 (2 ^ 128) (trim_start_0x gas_hex) = Some gas"
    and "parse_radix_uint 16 (2 ^ 128) (trim_start_0x price_hex) = Some price"
  shows "estimate_trc20_fee_limit T p =
      (if gas * price * 12000 < 2 ^ 128 then Inr (''0x'' @ show_hex (gas * price * 12000 div 10000))
       else Inl (BP_Internal (IE_Internal ''fee_limit overflow'')))
    \<and> (gas * price * 12000 < 2 ^ 128 \<longrightarrow> gas * price \<le> gas * price * 12000 div 10000
      \<and> parse_radix_uint 16 (2 ^ 128) (show_hex (gas * price * 12000 div 10000)) = Some (gas * price * 12000 div 10000))"
proof -
  have lt: "gas < 2 ^ 128" "price < 2 ^ 128"
    using assms(3,4) by (auto dest: parse_radix_uint_bound)
  then have u: "unat (word_of_nat gas :: u128) = gas" "unat (word_of_nat price :: u128) = price"
    by (simp_all add: unsigned_of_nat take_bit_nat_eq_self)
  have q: "n * 12000 div 10000 < 2 ^ 128" if "n * 12000 < (2 :: nat) ^ 128" for n
    using that div_le_dividend le_less_trans by blast
  have w: "unat (word_of_nat (gas * price * 12000 div 10000) :: u128) = gas * price * 12000 div 10000"
    if "gas * price * 12000 < 2 ^ 128"
    using q [OF that] by (simp add: unsigned_of_nat take_bit_nat_eq_self)
  have fee: "compute_fee_limit (word_of_nat gas) (word_of_nat price) =
    (if gas * price * 12000 < 2 ^ 128 then Inr (word_of_nat (gas * price * 12000 div 10000))
     else Inl (IE_Internal ''fee_limit overflow''))"
    using compute_fee_limit_exact [of "word_of_nat gas" "word_of_nat price"] unfolding u .
  have est: "estimate_trc20_fee_limit T p =
    bind_res (map_err BP_Internal (compute_fee_limit (word_of_nat gas) (word_of_nat price)))
      (\<lambda>fee_limit. Inr (''0x'' @ show_hex (unat fee_limit)))"
    by (simp only: estimate_trc20_fee_limit_def assms map_err.simps bind_res.simps ok_or.simps)
  show ?thesis
  proof (cases "gas * price * 12000 < 2 ^ 128")
    case True
    then show ?thesis
      using w [OF True] parse_radix_uint_show_hex [OF q [OF True]] unfolding est fee
      by (simp only: if_True map_err.simps bind_res.simps) simp
  next
    case False
    then show ?thesis unfolding est fee by (simp only: if_False map_err.simps bind_res.simps) simp
  qed
qed

text \<open>C13: checking a payment.  A check sends at most one transaction to a chain, and only the transaction signed by
  the wallet, on TRON, when the answer of the node to its hash is an object whose result is null or absent; an
  error object of the node has no result, so after an error, too, the transaction is sent.  A result asks to be checked again exactly while
  it is pending, and names a transaction unless it failed.  It is confirmed only if the chain named by the
  identifier answered so for the wallet's transaction, and then nothing was sent.\<close>

theorem pos_check_outcomes:
  assumes "pos_check Q i send_result = (r, sent)"
  shows "(sent = [] \<or> (\<exists>t tx. transaction_id_try_from (po_b64_dec Q) (po_utf8 Q) i = Inr t
        \<and> c2_namespace (ti_chain_id t) = ''tron'' \<and> po_signed_json Q send_result = Inr tx \<and> sent = [tx]
        \<and> no_transaction_answered (tn_tx_by_hash (po_tron Q (ti_chain_id t)) (st_tx_id tx))))
    \<and> (\<forall>res. r = Inr res \<longrightarrow> (ct_check_in res = None \<longleftrightarrow> ct_status res \<noteq> TS_Pending)
        \<and> (ct_txid res = None \<longleftrightarrow> ct_status res = TS_Failed)
        \<and> (ct_status res = TS_Confirmed \<longrightarrow> sent = []
            \<and> (\<exists>t n. transaction_id_try_from (po_b64_dec Q) (po_utf8 Q) i = Inr t
                \<and> c2_namespace (ti_chain_id t) = pos_namespace_name n
                \<and> confirmed_by_chain Q n (ti_chain_id t) send_result)))"
  using assms
proof (cases rule: pos_check_cases)
  case (2 t n)
  have "sent = [] \<or> (c2_namespace (ti_chain_id t) = ''tron'' \<and> (\<exists>tx. po_signed_json Q send_result = Inr tx
      \<and> sent = [tx] \<and> no_transaction_answered (tn_tx_by_hash (po_tron Q (ti_chain_id t)) (st_tx_id tx))))"
    using chain_check_sent [OF 2(3)] 2(2) by auto
  then show ?thesis using 2(1,2) chain_check_result chain_check_confirmed 2(3) by blast
qed simp

section \<open>Concrete runs\<close>

text \<open>A codec that leaves the bytes as they are, and nodes that answer every call.\<close>

definition bytes_text :: "bytes \<Rightarrow> string" where
  "bytes_text bs = map (\<lambda>b. char_of (unat b)) bs"

lemma bytes_text_codec: "text_codec bytes_text (\<lambda>s. Some (string_bytes s)) (\<lambda>bs. Some (bytes_text bs))"
proof -
  have "string_bytes (bytes_text bs) = bs" for bs
    proof (induction bs)
    case (Cons b bs)
    have "unat b < 256" using unsigned_less [of b, where ?'a = nat] by simp
    then have "(word_of_nat (unat b mod 256) :: u8) = b" by simp
    then show ?case using Cons by (simp add: string_bytes_def bytes_text_def char_code_def)
  qed (simp add: string_bytes_def bytes_text_def)
  moreover have "bytes_text (string_bytes s) = s" if "is_ascii s" for s
    using that by (induction s) (simp_all add: string_bytes_def bytes_text_def is_ascii_def char_code_def unsigned_of_nat take_bit_nat_eq_self)
  ultimately show ?thesis by (simp add: text_codec_def)
qed

definition example_evm :: evm_env where
  "example_evm = \<lparr> ev_address = (\<lambda>s. if starts_with ''0x'' s then Inr [word_of_nat (length s)] else Inl ''no prefix''),
     ev_parse_units = (\<lambda>s d. Inr (word_of_nat (length s + d))), ev_url_ok = (\<lambda>_ _. True),
     ev_decimals = (\<lambda>_. Inr 6), ev_transfer_calldata = (\<lambda>to amount. 0xa9 # to @ [ucast amount]),
     ev_fees = Inr (30, 2), ev_estimate_gas = (\<lambda>tx. Inr (if has_transaction_data tx then 65000 else 0)),
     ev_tx_hash = (\<lambda>s. Inr (string_bytes s)), ev_receipt = (\<lambda>_. Inr (Some True)) \<rparr>"

definition example_solana :: "(string, string) solana_env" where
  "example_solana = \<lparr> so_pubkey = Inr, so_account = (\<lambda>_. Inr (Some (''token program'', replicate 82 0))),
     so_show_key = id, so_spl_token_id = ''token program'', so_mint_decimals = (\<lambda>_. Inr 6),
     so_parse_units = (\<lambda>s d. Inr (word_of_nat (length s + d))), so_ata = (@),
     so_transfer_checked = (\<lambda>program source mint destination owner amount decimals. Inr (source @ destination)),
     so_blockhash = Inr [], so_compile = (\<lambda>payer instruction hash. Inr (string_bytes instruction)),
     so_encode = (\<lambda>message. Inr (bytes_text message)), so_signature = (\<lambda>s. Inr (string_bytes s)),
     so_statuses = (\<lambda>_. Inr [None]), so_transaction = (\<lambda>_. Inr (Some False)) \<rparr>"

definition example_tron :: tron_env where
  "example_tron = \<lparr> tn_show_status = show_nat, tn_show_int = (\<lambda>_. []), tn_no_variant = [], tn_b58check = (\<lambda>_. Inr (0x41 # replicate 20 1)),
     tn_parse_units = (\<lambda>s d. Inr (word_of_nat (length s + d))), tn_radix_error = id, tn_hex_error = id,
     tn_transfer_calldata = (\<lambda>to amount. 0xa9 # to), tn_eth_call = (\<lambda>_ _ _. Rpc_object (Some (Some (''0x'' @ replicate 63 CHR ''0'' @ ''6''))) None),
     tn_estimate_gas = (\<lambda>_ _ _ _. Rpc_object (Some (Some ''0xfde8'')) None), tn_gas_price = Rpc_object (Some (Some ''0x1a4'')) None,
     tn_build = (\<lambda>p. Rpc_object (Some (Some \<lparr> st_raw_data = tb_data p, st_raw_data_hex = [], st_tx_id = ''h1'', st_visible = None,
       st_signature = None \<rparr>)) None),
     tn_tx_by_hash = (\<lambda>_. Rpc_object (Some (Some None)) None), tn_broadcast = (\<lambda>_. Rpc_object (Some (Some \<lparr> br_result = Some True, br_message = None, br_code = None \<rparr>)) None),
     tn_receipt = (\<lambda>_. Rpc_object (Some (Some (Some (Some ''0x1'')))) None) \<rparr>"

definition example_pos :: "(string, string, string) pos_env" where
  "example_pos = \<lparr> po_address = \<lparr> ad_h160 = Some, ad_checksum = id, ad_b58 = (\<lambda>s. Some (string_bytes s)) \<rparr>,
     po_b64_enc = bytes_text, po_b64_dec = (\<lambda>s. Some (string_bytes s)), po_utf8 = (\<lambda>bs. Some (bytes_text bs)),
     po_project = ''p'', po_evm = (\<lambda>_. example_evm), po_solana = (\<lambda>_. example_solana), po_tron = (\<lambda>_. example_tron),
     po_trim = id, po_signature_json = (\<lambda>_. None),
     po_signed_json = (\<lambda>s. Inr \<lparr> st_raw_data = s, st_raw_data_hex = [], st_tx_id = ''h1'', st_visible = None,
       st_signature = Some [''s''] \<rparr>) \<rparr>"

definition example_account :: "string \<Rightarrow> char \<Rightarrow> string" where
  "example_account chain c = chain @ '':0x'' @ replicate 40 c"

definition example_intents :: "(string \<times> payment_intent) list" where
  "example_intents = [(''u1'', \<lparr> pi_asset = ''eip155:1/slip44:60'', pi_amount = ''2'',
       pi_recipient = example_account ''eip155:1'' CHR ''a'', pi_sender = example_account ''eip155:1'' CHR ''b'' \<rparr>),
     (''u|2'', \<lparr> pi_asset = ''eip155:10/erc20:0x'' @ replicate 40 CHR ''c'', pi_amount = ''3'',
       pi_recipient = example_account ''eip155:10'' CHR ''a'', pi_sender = example_account ''eip155:10'' CHR ''b'' \<rparr>)]"

lemma transaction_id_roundtrip_witness:
  "transaction_id_try_from (\<lambda>s. Some (string_bytes s)) (\<lambda>bs. Some (bytes_text bs))
     (bytes_text (string_bytes ''v1|eip155:1|a|b'')) =
   Inr \<lparr> ti_id = ''a|b'', ti_chain_id = \<lparr> c2_namespace = ''eip155'', c2_reference = ''1'' \<rparr>, ti_version = ''v1'' \<rparr>"
proof -
  have "is_ascii ''v1|eip155:1|a|b''" by code_simp
  note rt = transaction_id_roundtrip [OF bytes_text_codec this]
  show ?thesis unfolding rt by code_simp
qed

lemma built_payments_match_and_check_witness:
  "\<exists>tx1 tx2. pos_build hd example_pos example_intents = Inr [tx1, tx2]
     \<and> matches_intent example_pos (example_intents ! 1) tx2
     \<and> (\<exists>n c. c2_namespace c = pos_namespace_name n
          \<and> pos_check example_pos (tr_id tx1) ''0xh'' = chain_check example_pos n c ''0xh'')"
proof -
  have "is_ok (pos_build hd example_pos example_intents)" by code_simp
  then obtain txs where b: "pos_build hd example_pos example_intents = Inr txs" by (auto simp: is_ok_iff)
  have c: "text_codec (po_b64_enc example_pos) (po_b64_dec example_pos) (po_utf8 example_pos)"
    using bytes_text_codec by (simp add: example_pos_def)
  have "list_all (\<lambda>(uuid, _). is_ascii uuid) example_intents" by code_simp
  note built = built_payments_match_and_check [OF b c this, of "''0xh''"]
  have two: "length example_intents = 2" by (simp add: example_intents_def)
  then have "length txs = 2" using built list_all2_lengthD by fastforce
  then obtain tx1 tx2 where "txs = [tx1, tx2]" by (auto simp: length_two_iff)
  then have "list_all2 (matches_intent example_pos) example_intents [tx1, tx2]"
    "list_all (\<lambda>tx. \<exists>n c. tr_chain_id tx = caip2_display c \<and> tr_method tx = pos_method n
        \<and> c2_namespace c = pos_namespace_name n
        \<and> pos_check example_pos (tr_id tx) ''0xh'' = chain_check example_pos n c ''0xh'') [tx1, tx2]"
    using built by simp_all
  moreover from this have "matches_intent example_pos (example_intents ! 1) tx2"
    using list_all2_nthD [of "matches_intent example_pos" example_intents "[tx1, tx2]" 1] two
    by simp
  ultimately show ?thesis using b \<open>txs = [tx1, tx2]\<close> by auto
qed

lemma evm_transfers_requested_amount_witness:
  "\<exists>r tx v. evm_build example_evm bytes_text ''u'' ''p'' v = Inr r \<and> vp_namespace v = Erc20
     \<and> tr_params r = Evm_params tx \<and> et_val tx = Some 0 \<and> et_to tx = Some [9] \<and> et_data tx = Some [0xa9, 4, 7]"
proof -
  define v where "v = \<lparr> vp_asset = \<lparr> a_chain_id = \<lparr> c2_namespace = ''eip155'', c2_reference = ''1'' \<rparr>,
       a_namespace = ''erc20'', a_reference = ''0xtoken99'', a_token_id = None \<rparr>, vp_amount = ''5'',
     vp_recipient_address = ''0xab'', vp_sender_address = ''0xcd'', vp_namespace = Erc20 \<rparr>"
  have "is_ok (evm_build example_evm bytes_text ''u'' ''p'' v)" unfolding v_def by code_simp
  then obtain r where b: "evm_build example_evm bytes_text ''u'' ''p'' v = Inr r" by (auto simp: is_ok_iff)
  have "\<exists>tx. tr_params r = Evm_params tx \<and> et_val tx = Some 0 \<and> et_to tx = Some [9] \<and> et_data tx = Some [0xa9, 4, 7]"
    using evm_transfers_requested_amount [OF b] by (auto simp: v_def example_evm_def starts_with_def)
  moreover have "vp_namespace v = Erc20" by (simp add: v_def)
  ultimately show ?thesis using b by blast
qed

lemma solana_transfer_amount_witness:
  "\<exists>r v encoded. solana_build example_solana bytes_text ''u'' v = Inr r \<and> vp_amount v = ''5''
     \<and> tr_params r = Solana_params encoded ''S''"
proof -
  define v where "v = \<lparr> vp_asset = \<lparr> a_chain_id = \<lparr> c2_namespace = ''solana'', c2_reference = ''1'' \<rparr>,
       a_namespace = ''token'', a_reference = ''M'', a_token_id = None \<rparr>, vp_amount = ''5'',
     vp_recipient_address = ''R'', vp_sender_address = ''S'', vp_namespace = Token \<rparr>"
  have "is_ok (solana_build example_solana bytes_text ''u'' v)" unfolding v_def by code_simp
  then obtain r where b: "solana_build example_solana bytes_text ''u'' v = Inr r" by (auto simp: is_ok_iff)
  have "\<exists>encoded. tr_params r = Solana_params encoded ''S''"
    using solana_transfer_amount [OF b] by (auto simp: v_def)
  moreover have "vp_amount v = ''5''" by (simp add: v_def)
  ultimately show ?thesis using b by blast
qed

lemma tron_fee_limit_exact_witness:
  "\<exists>p. estimate_trc20_fee_limit example_tron p = Inr (''0x'' @ show_hex 32760000)"
proof -
  have "parse_radix_uint 16 (2 ^ 128) (trim_start_0x ''0xfde8'') = Some 65000"
    "parse_radix_uint 16 (2 ^ 128) (trim_start_0x ''0x1a4'') = Some 420"
    by (simp_all add: parse_radix_uint_def radix_val_def Let_def is_digit_def is_lower_def char_code_def)
  note fee = tron_fee_limit_exact [OF _ _ this, of example_tron]
  have "estimate_trc20_fee_limit example_tron p = Inr (''0x'' @ show_hex 32760000)" for p
    using fee [of p] by (simp add: example_tron_def node_call_def call_json_rpc_def decode_payload_def)
  then show ?thesis by blast
qed

lemma pos_check_outcomes_witness:
  "\<exists>res. pos_check example_pos (bytes_text (string_bytes ''v1|eip155:1|a'')) ''x'' = (Inr res, [])
     \<and> ct_status res = TS_Confirmed \<and> ct_check_in res = None"
proof -
  have p: "pos_check example_pos (bytes_text (string_bytes ''v1|eip155:1|a'')) ''x'' =
    (Inr \<lparr> ct_status = TS_Confirmed, ct_check_in = None, ct_txid = Some ''x'' \<rparr>, [])" by code_simp
  show ?thesis using pos_check_outcomes [OF p] p by simp
qed

end
