(* ===== verification/Bridging.thy ===== *)
theory Bridging
  imports HttpErrors CryptoBytes TokenAmount
begin

text \<open>
  Chain abstraction, the core (\<open>handlers/chain_agnostic/assets.rs\<close>, \<open>mod.rs\<close>, \<open>nonce_manager.rs\<close>, \<open>lifi.rs\<close>): the
  table of bridging assets, the choice of the asset to bridge, the overrides for a simulation, the
  conversion between decimals and the nonces.  The static maps are lists with their entries in the order of
  the source; the order in which a hash map is walked is a parameter.  Balances are answers of the chains.
\<close>

type_synonym address = bytes

section \<open>Assets\<close>

text \<open>\<open>address!\<close>, and the zero address.\<close>

definition address_lit :: "string \<Rightarrow> address" where
  "address_lit s = (case hex_decode s of Some bs \<Rightarrow> bs | None \<Rightarrow> [])"

definition address_zero :: address where "address_zero = replicate 20 0"

definition NATIVE_TOKEN_ADDRESS :: address where
  "NATIVE_TOKEN_ADDRESS = address_lit ''eeeeeeeeeeeeeeeeeeeeeeeeeeeeeeeeeeeeeeee''"

text \<open>An address of an EVM chain or a key of Solana.\<close>

datatype 'k chain_address = Eip155_address address | Solana_address 'k

fun as_eip155 :: "'k chain_address \<Rightarrow> address option" where
  "as_eip155 (Eip155_address a) = Some a"
| "as_eip155 (Solana_address _) = None"

record simulation_params =
  sp_balance_storage_slots :: "(string \<times> u64) list"
  sp_balance :: u128

record 'k asset_entry =
  ae_decimals :: u8
  ae_simulation :: simulation_params
  ae_contracts :: "(string \<times> 'k chain_address) list"

text \<open>\<open>usdc\<close> is the key of USDC on Solana, a constant of the wallet library.\<close>

definition USDC_CONTRACTS :: "'k \<Rightarrow> (string \<times> 'k chain_address) list" where
  "USDC_CONTRACTS usdc =
    [(''eip155:10'', Eip155_address (address_lit ''0b2c639c533813f4aa9d7837caf62653d097ff85'')),
     (''eip155:8453'', Eip155_address (address_lit ''833589fCD6eDb6E08f4c7C32D4f71b54bdA02913'')),
     (''eip155:42161'', Eip155_address (address_lit ''af88d065e77c8cC2239327C5EDb3A432268e5831'')),
     (''solana:5eykt4UsFv8P8NJdTREpY1vzqKqZKvdp'', Solana_address usdc)]"

definition USDT_CONTRACTS :: "(string \<times> 'k chain_address) list" where
  "USDT_CONTRACTS =
    [(''eip155:10'', Eip155_address (address_lit ''94b008aA00579c1307B0EF2c499aD98a8ce58e58'')),
     (''eip155:42161'', Eip155_address (address_lit ''Fd086bC7CD5C481DCC9C85ebE478A1C0b69FCbb9''))]"

definition USDS_CONTRACTS :: "(string \<times> 'k chain_address) list" where
  "USDS_CONTRACTS = [(''eip155:8453'', Eip155_address (address_lit ''820c137fa70c8691f0e44dc420a5e53c168921dc''))]"

definition ETH_CONTRACTS :: "(string \<times> 'k chain_address) list" where
  "ETH_CONTRACTS =
    [(''eip155:10'', Eip155_address NATIVE_TOKEN_ADDRESS), (''eip155:8453'', Eip155_address NATIVE_TOKEN_ADDRESS),
     (''eip155:42161'', Eip155_address NATIVE_TOKEN_ADDRESS)]"

definition BRIDGING_ASSETS :: "'k \<Rightarrow> (string \<times> 'k asset_entry) list" where
  "BRIDGING_ASSETS usdc =
    [(''USDC'', \<lparr> ae_decimals = 6, ae_simulation = \<lparr> sp_balance_storage_slots =
         [(''eip155:10'', 9), (''eip155:8453'', 9), (''eip155:42161'', 9)], sp_balance = 99000000000 \<rparr>,
       ae_contracts = USDC_CONTRACTS usdc \<rparr>),
     (''USDT'', \<lparr> ae_decimals = 6, ae_simulation = \<lparr> sp_balance_storage_slots =
         [(''eip155:10'', 0), (''eip155:42161'', 51)], sp_balance = 99000000000 \<rparr>,
       ae_contracts = USDT_CONTRACTS \<rparr>),
     (''USDS'', \<lparr> ae_decimals = 18, ae_simulation = \<lparr> sp_balance_storage_slots =
         [(''eip155:8453'', 2)], sp_balance = 99000000000000000000000 \<rparr>,
       ae_contracts = USDS_CONTRACTS \<rparr>),
     (''ETH'', \<lparr> ae_decimals = 18, ae_simulation = \<lparr> sp_balance_storage_slots =
         [(''eip155:10'', 0), (''eip155:8453'', 0), (''eip155:42161'', 0)], sp_balance = 99000000000000000000000 \<rparr>,
       ae_contracts = ETH_CONTRACTS \<rparr>)]"

definition get_bridging_assets_contracts_for_chain :: "'k \<Rightarrow> string \<Rightarrow> (string \<times> 'k chain_address) list" where
  "get_bridging_assets_contracts_for_chain usdc chain_id =
    List.map_filter (\<lambda>(token_symbol, asset_entry).
      map_option (\<lambda>(_, contract_address). (token_symbol, contract_address))
        (find (\<lambda>(chain, _). chain = chain_id) (ae_contracts asset_entry))) (BRIDGING_ASSETS usdc)"

definition get_simulation_params_for_asset :: "'k \<Rightarrow> string \<Rightarrow> simulation_params option" where
  "get_simulation_params_for_asset usdc asset_name =
    map_option (\<lambda>(_, asset_entry). ae_simulation asset_entry)
      (find (\<lambda>(name, _). name = asset_name) (BRIDGING_ASSETS usdc))"

fun find_supported_in :: "(string \<times> 'k asset_entry) list \<Rightarrow> string \<Rightarrow> 'k chain_address \<Rightarrow> (string \<times> u8) option" where
  "find_supported_in [] chain_id contract = None"
| "find_supported_in ((symbol, asset_entry) # rest) chain_id contract =
    (if (chain_id, contract) \<in> set (ae_contracts asset_entry) then Some (symbol, ae_decimals asset_entry)
     else find_supported_in rest chain_id contract)"

definition find_supported_bridging_asset :: "'k \<Rightarrow> string \<Rightarrow> 'k chain_address \<Rightarrow> (string \<times> u8) option" where
  "find_supported_bridging_asset usdc = find_supported_in (BRIDGING_ASSETS usdc)"

section \<open>Balances\<close>

text \<open>Native balances and balances of contracts on EVM chains; on Solana the text of the amount in the
  associated account of a wallet for a mint.\<close>

record 'k balance_env =
  be_native :: "string \<Rightarrow> address \<Rightarrow> (crypto_utils_error, u256) result"
  be_contract :: "string \<Rightarrow> address \<Rightarrow> address \<Rightarrow> (crypto_utils_error, u256) result"
  be_ata :: "'k \<Rightarrow> 'k \<Rightarrow> 'k"
  be_token_account :: "'k \<Rightarrow> (string, string) result"
  be_parse_u256 :: "string \<Rightarrow> (string, u256) result"

definition get_erc20_balance ::
  "'k balance_env \<Rightarrow> string \<Rightarrow> address \<Rightarrow> address \<Rightarrow> (crypto_utils_error, u256) result" where
  "get_erc20_balance B chain_id contract wallet =
    (if contract = replicate 20 0xee then be_native B chain_id wallet else be_contract B chain_id contract wallet)"

text \<open>The balance of an account for a contract; an account of another kind of chain is passed over.\<close>

definition source_balance ::
  "'k balance_env \<Rightarrow> string \<Rightarrow> 'k chain_address \<Rightarrow> 'k chain_address \<Rightarrow> (rpc_error, u256 option) result" where
  "source_balance B chain_id account contract = (case (account, contract) of
      (Eip155_address address, Eip155_address token) \<Rightarrow>
        map_err RE_CryptoUtilsError (map_sum id Some (get_erc20_balance B chain_id token address))
    | (Solana_address address, Solana_address mint) \<Rightarrow>
        bind_res (map_err (\<lambda>e. RE_CryptoUtilsError (CU_ProviderError
            (''Failed to get solana token account balance: '' @ e))) (be_token_account B (be_ata B address mint)))
          (\<lambda>amount. map_err (\<lambda>e. RE_CryptoUtilsError (CU_ProviderError
            (''Failed to parse solana token account balance: '' @ e))) (map_sum id Some (be_parse_u256 B amount)))
    | _ \<Rightarrow> Inr None)"

fun account_balances ::
  "'k balance_env \<Rightarrow> string \<Rightarrow> 'k chain_address \<Rightarrow> 'k chain_address list
    \<Rightarrow> (rpc_error, ('k chain_address \<times> 'k chain_address \<times> u256) list) result" where
  "account_balances B chain_id account [] = Inr []"
| "account_balances B chain_id account (contract # rest) =
    bind_res (source_balance B chain_id account contract) (\<lambda>found.
    bind_res (account_balances B chain_id account rest) (\<lambda>more.
      Inr ((case found of None \<Rightarrow> [] | Some balance \<Rightarrow> [(account, contract, balance)]) @ more)))"

fun get_balances_of_all_source_tokens ::
  "'k balance_env \<Rightarrow> 'k chain_address list \<Rightarrow> string \<Rightarrow> 'k chain_address list
    \<Rightarrow> (rpc_error, ('k chain_address \<times> 'k chain_address \<times> u256) list) result" where
  "get_balances_of_all_source_tokens B [] chain_id token_addresses = Inr []"
| "get_balances_of_all_source_tokens B (account # accounts) chain_id token_addresses =
    bind_res (account_balances B chain_id account token_addresses) (\<lambda>balances.
    bind_res (get_balances_of_all_source_tokens B accounts chain_id token_addresses) (\<lambda>more.
      Inr (balances @ more)))"

section \<open>The asset to bridge\<close>

record 'k bridging_asset =
  ba_chain_id :: string
  ba_account :: "'k chain_address"
  ba_token_symbol :: string
  ba_contract_address :: "'k chain_address"
  ba_decimals :: u8
  ba_current_balance :: u256

text \<open>What is asked for: the value with its decimals, the accounts (with a chain, or for every chain), the asset to
  leave out, the preferred symbol, and the symbols to keep or to leave out.\<close>

record 'k bridging_query =
  bq_value :: u256
  bq_accounts :: "(string option \<times> 'k chain_address) list"
  bq_exclude_chain_id :: string
  bq_exclude_contract_address :: "'k chain_address"
  bq_token_symbol_priority :: string
  bq_amount_token_decimals :: u8
  bq_only_token_symbol :: "string option"
  bq_exclude_token_symbol :: "string option"

type_synonym 'k contract_group = "(string \<times> string \<times> u8) \<times> 'k chain_address list"

text \<open>\<open>entry(key).or_default().push(contract)\<close>.\<close>

fun push_contract :: "(string \<times> string \<times> u8) \<Rightarrow> 'k chain_address \<Rightarrow> 'k contract_group list \<Rightarrow> 'k contract_group list" where
  "push_contract key contract [] = [(key, [contract])]"
| "push_contract key contract ((key', contracts) # rest) =
    (if key' = key then (key', contracts @ [contract]) # rest
     else (key', contracts) # push_contract key contract rest)"

definition is_excluded :: "'k bridging_query \<Rightarrow> string \<Rightarrow> string \<Rightarrow> 'k chain_address \<Rightarrow> bool" where
  "is_excluded q token_symbol chain_id contract_address =
    ((chain_id = bq_exclude_chain_id q \<and> contract_address = bq_exclude_contract_address q)
     \<or> (case bq_only_token_symbol q of Some only \<Rightarrow> token_symbol \<noteq> only | None \<Rightarrow> False)
     \<or> (case bq_exclude_token_symbol q of Some exclude \<Rightarrow> token_symbol = exclude | None \<Rightarrow> False))"

fun group_entry ::
  "'k bridging_query \<Rightarrow> string \<Rightarrow> u8 \<Rightarrow> (string \<times> 'k chain_address) list \<Rightarrow> 'k contract_group list \<Rightarrow> 'k contract_group list" where
  "group_entry q token_symbol decimals [] groups = groups"
| "group_entry q token_symbol decimals ((chain_id, contract_address) # rest) groups =
    group_entry q token_symbol decimals rest
      (if is_excluded q token_symbol chain_id contract_address then groups
       else push_contract (token_symbol, chain_id, decimals) contract_address groups)"

fun contracts_per_chain ::
  "'k bridging_query \<Rightarrow> (string \<times> 'k asset_entry) list \<Rightarrow> 'k contract_group list \<Rightarrow> 'k contract_group list" where
  "contracts_per_chain q [] groups = groups"
| "contracts_per_chain q ((token_symbol, asset_entry) # rest) groups =
    contracts_per_chain q rest (group_entry q token_symbol (ae_decimals asset_entry) (ae_contracts asset_entry) groups)"

definition accounts_on :: "'k bridging_query \<Rightarrow> string \<Rightarrow> 'k chain_address list" where
  "accounts_on q chain_id = List.map_filter (\<lambda>(cid, address). case cid of
      Some c \<Rightarrow> if c = chain_id then Some address else None
    | None \<Rightarrow> Some address) (bq_accounts q)"

text \<open>One balance: return the asset of the preferred symbol, or keep the highest balance.  The comparison of token
  amounts panics on decimals above 77, which is a failure here.\<close>

datatype 'k scan = Found "'k bridging_asset" | Best "'k bridging_asset option" | Scan_panic

definition token_ge :: "token_amount \<Rightarrow> token_amount \<Rightarrow> bool option" where
  "token_ge x y = map_option (\<lambda>r. r = Greater \<or> r = Equal) (token_partial_cmp x y)"

definition token_le :: "token_amount \<Rightarrow> token_amount \<Rightarrow> bool option" where
  "token_le x y = map_option (\<lambda>r. r = Less \<or> r = Equal) (token_partial_cmp x y)"

definition consider_balance ::
  "'k bridging_query \<Rightarrow> string \<times> string \<times> u8 \<Rightarrow> 'k bridging_asset option
    \<Rightarrow> 'k chain_address \<times> 'k chain_address \<times> u256 \<Rightarrow> 'k scan" where
  "consider_balance q key best entry =
    (case (key, entry) of ((token_symbol, chain_id, decimals), (account, contract_address, current_balance)) \<Rightarrow>
      let asset = \<lparr> ba_chain_id = chain_id, ba_account = account, ba_token_symbol = token_symbol,
            ba_contract_address = contract_address, ba_decimals = decimals, ba_current_balance = current_balance \<rparr> in
      (case token_ge (token_amount_new current_balance decimals)
          (token_amount_new (bq_value q) (bq_amount_token_decimals q)) of
         None \<Rightarrow> Scan_panic
       | Some False \<Rightarrow> Best best
       | Some True \<Rightarrow>
           if token_symbol = bq_token_symbol_priority q then Found asset
           else (case best of
               None \<Rightarrow> Best (Some asset)
             | Some existing \<Rightarrow>
                 (case token_le (token_amount_new current_balance decimals)
                     (token_amount_new (ba_current_balance existing) (ba_decimals existing)) of
                    None \<Rightarrow> Scan_panic
                  | Some True \<Rightarrow> Best (Some existing)
                  | Some False \<Rightarrow> Best (Some asset)))))"

fun scan_balances ::
  "'k bridging_query \<Rightarrow> string \<times> string \<times> u8 \<Rightarrow> 'k bridging_asset option
    \<Rightarrow> ('k chain_address \<times> 'k chain_address \<times> u256) list \<Rightarrow> 'k scan" where
  "scan_balances q key best [] = Best best"
| "scan_balances q key best (entry # rest) = (case consider_balance q key best entry of
      Best best' \<Rightarrow> scan_balances q key best' rest
    | s \<Rightarrow> s)"

text \<open>Failures of the handlers: an error, or a panic.\<close>

datatype (plugins only: size) failure = Failure rpc_error | Panicked

fun scan_groups ::
  "'k balance_env \<Rightarrow> 'k bridging_query \<Rightarrow> 'k bridging_asset option \<Rightarrow> 'k contract_group list
    \<Rightarrow> (failure, 'k bridging_asset option) result" where
  "scan_groups B q best [] = Inr best"
| "scan_groups B q best ((key, contracts) # rest) =
    bind_res (map_err Failure (get_balances_of_all_source_tokens B (accounts_on q (fst (snd key)))
        (fst (snd key)) contracts)) (\<lambda>balances. case scan_balances q key best balances of
      Found asset \<Rightarrow> Inr (Some asset)
    | Best best' \<Rightarrow> scan_groups B q best' rest
    | Scan_panic \<Rightarrow> Inl Panicked)"

text \<open>\<open>order\<close> is the order in which the hash map of the groups is walked.\<close>

definition check_bridging_for_erc20_transfer ::
  "'k \<Rightarrow> ('k contract_group list \<Rightarrow> 'k contract_group list) \<Rightarrow> 'k balance_env \<Rightarrow> 'k bridging_query
    \<Rightarrow> (failure, 'k bridging_asset option) result" where
  "check_bridging_for_erc20_transfer usdc order B q =
    scan_groups B q None (order (contracts_per_chain q (BRIDGING_ASSETS usdc) []))"

section \<open>Simulation\<close>

definition compute_simulation_balance :: "u128 \<Rightarrow> bytes" where
  "compute_simulation_balance balance = replicate 16 0 @ to_be_bytes 16 balance"

text \<open>The slot of a mapping from addresses: the hash of the padded address and the slot number.\<close>

definition compute_simulation_storage_slot :: "(bytes \<Rightarrow> bytes) \<Rightarrow> address \<Rightarrow> u64 \<Rightarrow> bytes" where
  "compute_simulation_storage_slot keccak256 address slot_number =
    keccak256 (replicate 12 0 @ address @ replicate 24 0 @ to_be_bytes 8 slot_number)"

type_synonym account_state = "bytes \<Rightarrow> bytes option"

text \<open>The overrides for every asset on the chain.  The state of the accounts is not reset between the assets.\<close>

fun fill_overrides ::
  "'k \<Rightarrow> (bytes \<Rightarrow> bytes) \<Rightarrow> string \<Rightarrow> address \<Rightarrow> account_state \<Rightarrow> (address \<Rightarrow> account_state option)
    \<Rightarrow> (string \<times> 'k chain_address) list \<Rightarrow> (rpc_error, address \<Rightarrow> account_state option) result" where
  "fill_overrides usdc keccak chain_id sender state overrides [] = Inr overrides"
| "fill_overrides usdc keccak chain_id sender state overrides ((asset_name, asset_contract) # rest) =
    (case asset_contract of
       Solana_address _ \<Rightarrow> fill_overrides usdc keccak chain_id sender state overrides rest
     | Eip155_address contract \<Rightarrow>
         (case get_simulation_params_for_asset usdc asset_name of
            None \<Rightarrow> fill_overrides usdc keccak chain_id sender state overrides rest
          | Some params \<Rightarrow>
              (case map_of (sp_balance_storage_slots params) chain_id of
                 None \<Rightarrow> Inl (RE_InvalidConfiguration
                   (''Contract balance storage slot for simulation is not present for '' @ asset_name @ '' on '' @ chain_id))
               | Some slot \<Rightarrow>
                   (let state' = state(compute_simulation_storage_slot keccak sender slot
                          \<mapsto> compute_simulation_balance (sp_balance params))
                    in fill_overrides usdc keccak chain_id sender state' (overrides(contract \<mapsto> state')) rest))))"

datatype asset_change_type = Transfer_change | Mint_change | Burn_change

datatype token_standard = Std_Erc20 | Std_Erc721 | Std_NativeCurrency

record asset_change =
  ac_asset_type :: asset_change_type
  ac_from :: "address option"
  ac_to :: "address option"
  ac_raw_amount :: u256
  ac_standard :: token_standard
  ac_contract_address :: "address option"
  ac_decimals :: "u8 option"

record response_transaction =
  rt_hash :: string
  rt_gas :: u64
  rt_asset_changes :: "asset_change list option"
  rt_status :: bool
  rt_input :: bytes

record erc20_asset_change =
  ec_chain_id :: string
  ec_asset_contract :: address
  ec_amount :: u256
  ec_receiver :: address

definition erc20_change :: "string \<Rightarrow> asset_change \<Rightarrow> erc20_asset_change option" where
  "erc20_change chain_id c =
    (if ac_asset_type c = Transfer_change \<and> ac_standard c = Std_Erc20 \<and> ac_to c \<noteq> None \<and> ac_contract_address c \<noteq> None
     then Some \<lparr> ec_chain_id = chain_id,
       ec_asset_contract = (case ac_contract_address c of Some a \<Rightarrow> a | None \<Rightarrow> address_zero),
       ec_amount = ac_raw_amount c, ec_receiver = (case ac_to c of Some a \<Rightarrow> a | None \<Rightarrow> address_zero) \<rparr>
     else None)"

text \<open>\<open>assets\<close> orders the assets of a chain as the static map does.\<close>

definition get_assets_changes_from_simulation ::
  "'k \<Rightarrow> (bytes \<Rightarrow> bytes)
    \<Rightarrow> ((string \<times> 'k chain_address) list \<Rightarrow> (string \<times> 'k chain_address) list)
    \<Rightarrow> (string \<Rightarrow> address \<Rightarrow> address \<Rightarrow> bytes \<Rightarrow> (address \<Rightarrow> account_state option) \<Rightarrow> (rpc_error, response_transaction) result)
    \<Rightarrow> string \<Rightarrow> address \<Rightarrow> address \<Rightarrow> bytes \<Rightarrow> (rpc_error, erc20_asset_change list \<times> u64) result" where
  "get_assets_changes_from_simulation usdc keccak assets simulate chain_id sender recipient input =
    bind_res (fill_overrides usdc keccak chain_id sender (\<lambda>_. None) (\<lambda>_. None)
        (assets (get_bridging_assets_contracts_for_chain usdc chain_id))) (\<lambda>overrides.
    bind_res (simulate chain_id sender recipient input overrides) (\<lambda>transaction.
      Inr (case rt_asset_changes transaction of
          None \<Rightarrow> ([], rt_gas transaction)
        | Some changes \<Rightarrow> (List.map_filter (erc20_change chain_id) changes, rt_gas transaction))))"

section \<open>Decimals\<close>

text \<open>The arithmetic of the 256-bit integers wraps around.\<close>

definition convert_amount :: "u256 \<Rightarrow> u8 \<Rightarrow> u8 \<Rightarrow> u256" where
  "convert_amount amount from_decimals to_decimals =
    (case cmp_ord from_decimals to_decimals of
       Equal \<Rightarrow> amount
     | Greater \<Rightarrow> amount div (10 ^ unat (from_decimals - to_decimals))
     | Less \<Rightarrow> amount * (10 ^ unat (to_decimals - from_decimals)))"

section \<open>Nonces\<close>

text \<open>A pending nonce is a running task with the result it will have; awaiting it a second time after an error
  panics.\<close>

datatype nonce_state = Pending_nonce "(string, (crypto_utils_error, u64) result) result" | Ready_nonce u64 | Finished_task

type_synonym nonce_manager = "string \<times> address \<Rightarrow> nonce_state option"

definition initialize_nonce ::
  "(string \<Rightarrow> address \<Rightarrow> (string, (crypto_utils_error, u64) result) result)
    \<Rightarrow> string \<Rightarrow> address \<Rightarrow> nonce_manager \<Rightarrow> nonce_manager" where
  "initialize_nonce fetch chain_id address m =
    (if m (chain_id, address) = None then m((chain_id, address) \<mapsto> Pending_nonce (fetch chain_id address)) else m)"

definition get_nonce :: "string \<Rightarrow> address \<Rightarrow> nonce_manager \<Rightarrow> (failure, u64) result \<times> nonce_manager" where
  "get_nonce chain_id address m = (case m (chain_id, address) of
      None \<Rightarrow> (Inl Panicked, m)
    | Some Finished_task \<Rightarrow> (Inl Panicked, m)
    | Some (Pending_nonce (Inr (Inr nonce))) \<Rightarrow> (Inr nonce, m((chain_id, address) \<mapsto> Ready_nonce (nonce + 1)))
    | Some (Pending_nonce (Inr (Inl e))) \<Rightarrow>
        (Inl (Failure (RE_CryptoUtilsError e)), m((chain_id, address) \<mapsto> Finished_task))
    | Some (Pending_nonce (Inl e)) \<Rightarrow> (Inl (Failure (RE_JoinError e)), m((chain_id, address) \<mapsto> Finished_task))
    | Some (Ready_nonce nonce) \<Rightarrow> (Inr nonce, m((chain_id, address) \<mapsto> Ready_nonce (nonce + 1))))"

section \<open>LI.FI chain names\<close>

text \<open>\<open>trim_start_matches\<close> removes the prefix as often as it occurs.\<close>

function trim_prefix :: "string \<Rightarrow> string \<Rightarrow> string" where
  "trim_prefix p s = (if p \<noteq> [] \<and> starts_with p s then trim_prefix p (drop (length p) s) else s)"
  by pat_completeness auto
termination
  by (relation "measure (length \<circ> snd)") (auto simp: starts_with_iff)

declare trim_prefix.simps [simp del]

text \<open>\<open>solana_mainnet\<close> is the identifier of Solana in the wallet library.\<close>

definition caip2_to_lifi_chain_id :: "string \<Rightarrow> string \<Rightarrow> (rpc_error, string) result" where
  "caip2_to_lifi_chain_id solana_mainnet caip2 =
    (if caip2 = solana_mainnet then Inr ''SOL''
     else if starts_with ''eip155:'' caip2 then Inr (trim_prefix ''eip155:'' caip2)
     else Inl (RE_InvalidValue caip2))"

end
