(* ===== verification/BridgeProviders.thy ===== *)
theory BridgeProviders
  imports Bridging Storage
begin

text \<open>
  The providers behind chain abstraction (\<open>providers/tenderly.rs\<close>, \<open>providers/bungee.rs\<close>): the requests for
  simulations, quotes and transactions, what becomes of the answers, and the cache of gas estimations.
  Sending a request and reading the body of an answer are parameters; metrics and headers are left out.
\<close>

section \<open>HTTP answers\<close>

text \<open>A request fails with an error of the client, or is answered with a status and a body.\<close>

datatype 'b http_answer = Transport_failed string | Answered nat 'b

definition http_success :: "nat \<Rightarrow> bool" where "http_success status = (200 \<le> status \<and> status < 300)"

definition read_answer ::
  "rpc_error \<Rightarrow> ('b \<Rightarrow> (string, 'r) result) \<Rightarrow> 'b http_answer \<Rightarrow> (rpc_error, 'r) result" where
  "read_answer unavailable json answer = (case answer of
      Transport_failed e \<Rightarrow> Inl (RE_Reqwest e)
    | Answered status body \<Rightarrow>
        if \<not> http_success status then Inl unavailable else map_err RE_Reqwest (json body))"

section \<open>Tenderly\<close>

definition GAS_ESTIMATE_CACHE_TTL :: nat where "GAS_ESTIMATE_CACHE_TTL = 60 * 30"

datatype state_override = Storage_override account_state | Balance_override u256

record simulation_request =
  sr_network_id :: string
  sr_from :: address
  sr_to :: address
  sr_input :: bytes
  sr_estimate_gas :: bool
  sr_state_objects :: "address \<Rightarrow> state_override option"
  sr_save :: bool

text \<open>\<open>td_url_ok\<close> tells whether a URL parses; the two posts and readers are of \<open>simulate\<close> and \<open>simulate-bundle\<close>.\<close>

record 'b tenderly =
  td_base_api_url :: string
  td_url_ok :: "string \<Rightarrow> bool"
  td_post :: "simulation_request \<Rightarrow> 'b http_answer"
  td_post_bundle :: "simulation_request list \<Rightarrow> 'b http_answer"
  td_json :: "'b \<Rightarrow> (string, response_transaction) result"
  td_json_bundle :: "'b \<Rightarrow> (string, response_transaction list) result"

definition tenderly_base_api_url :: "string \<Rightarrow> string \<Rightarrow> string" where
  "tenderly_base_api_url account_slug project_slug =
    ''https://api.tenderly.co/api/v1/account/'' @ account_slug @ ''/project/'' @ project_slug"

text \<open>The storage of the overridden contracts, and one ether for the sender.\<close>

definition state_objects ::
  "(address \<Rightarrow> account_state option) \<Rightarrow> address \<Rightarrow> address \<Rightarrow> state_override option" where
  "state_objects overrides sender =
    (\<lambda>a. map_option Storage_override (overrides a))(sender \<mapsto> Balance_override 1000000000000000000)"

definition simulate_transaction ::
  "'b tenderly \<Rightarrow> string \<Rightarrow> address \<Rightarrow> address \<Rightarrow> bytes \<Rightarrow> (address \<Rightarrow> account_state option)
    \<Rightarrow> (rpc_error, response_transaction) result" where
  "simulate_transaction P chain_id sender recipient input overrides =
    bind_res (ensure (td_url_ok P (td_base_api_url P @ ''/simulate'')) RE_ConversionParseURLError) (\<lambda>_.
    bind_res (map_err RE_CryptoUtilsError (disassemble_caip2 chain_id)) (\<lambda>(_, evm_chain_id).
    bind_res (read_answer RE_SimulationProviderUnavailable (td_json P) (td_post P
        \<lparr> sr_network_id = evm_chain_id, sr_from = sender, sr_to = recipient, sr_input = input,
          sr_estimate_gas = True, sr_state_objects = state_objects overrides sender, sr_save = True \<rparr>)) (\<lambda>transaction.
      if \<not> rt_status transaction then Inl (RE_SimulationFailed
        (''Failed to simulate the transaction with Tenderly. Transaction hash: '' @ rt_hash transaction))
      else Inr transaction)))"

record ca_transaction =
  tx_from :: address
  tx_to :: address
  tx_value :: u256
  tx_gas_limit :: u64
  tx_input :: bytes
  tx_nonce :: u64
  tx_chain_id :: string

definition bundle_request ::
  "(address \<Rightarrow> account_state option) \<Rightarrow> ca_transaction \<Rightarrow> (rpc_error, simulation_request) result" where
  "bundle_request overrides tx =
    bind_res (map_err RE_CryptoUtilsError (disassemble_caip2 (tx_chain_id tx))) (\<lambda>(_, evm_chain_id).
      Inr \<lparr> sr_network_id = evm_chain_id, sr_from = tx_from tx, sr_to = tx_to tx, sr_input = tx_input tx,
        sr_estimate_gas = True, sr_state_objects = state_objects overrides (tx_from tx), sr_save = True \<rparr>)"

definition simulate_bundled_transactions ::
  "'b tenderly \<Rightarrow> ca_transaction list \<Rightarrow> (address \<Rightarrow> account_state option)
    \<Rightarrow> (rpc_error, response_transaction list) result" where
  "simulate_bundled_transactions P transactions overrides =
    bind_res (ensure (td_url_ok P (td_base_api_url P @ ''/simulate-bundle'')) RE_ConversionParseURLError) (\<lambda>_.
    bind_res (collect_res (bundle_request overrides) transactions) (\<lambda>simulations.
    bind_res (read_answer RE_SimulationProviderUnavailable (td_json_bundle P) (td_post_bundle P simulations))
      (\<lambda>results. case find (\<lambda>t. \<not> rt_status t) results of
        Some t \<Rightarrow> Inl (RE_SimulationFailed
          (''Failed to simulate bundled transactions with Tenderly. Failed transaction hash: '' @ rt_hash t))
      | None \<Rightarrow> Inr results)))"

section \<open>The cache of gas estimations\<close>

text \<open>A pool of Redis connections; \<open>gp_show_address\<close> prints an address.\<close>

record 's gas_pool =
  gp_connect :: "'s \<Rightarrow> (string, unit) result"
  gp_get :: "'s \<Rightarrow> string \<Rightarrow> (string, string option) result"
  gp_set_ex :: "'s \<Rightarrow> string \<Rightarrow> string \<Rightarrow> nat \<Rightarrow> (string, 's) result"

fun show_function_type :: "erc20_function_type \<Rightarrow> string" where
  "show_function_type BalanceOf = ''BalanceOf''"
| "show_function_type Transfer = ''Transfer''"
| "show_function_type Approve = ''Approve''"
| "show_function_type TransferFrom = ''TransferFrom''"
| "show_function_type Allowance = ''Allowance''"

definition format_cached_gas_key ::
  "(address \<Rightarrow> string) \<Rightarrow> string \<Rightarrow> address \<Rightarrow> erc20_function_type option \<Rightarrow> string" where
  "format_cached_gas_key show_address chain_id contract_address function_type = (case function_type of
      Some t \<Rightarrow> ''tenderly/gas/'' @ chain_id @ ''/'' @ show_address contract_address @ ''/'' @ show_function_type t
    | None \<Rightarrow> ''tenderly/gas/'' @ chain_id @ ''/'' @ show_address contract_address)"

definition tenderly_set_cache ::
  "'s gas_pool option \<Rightarrow> 's \<Rightarrow> string \<Rightarrow> string \<Rightarrow> nat \<Rightarrow> (storage_error, 's) result" where
  "tenderly_set_cache pool st key v ttl = (case pool of
      None \<Rightarrow> Inr st
    | Some R \<Rightarrow>
        bind_res (map_err (\<lambda>e. SE_Connection (''Error when getting the Redis pool instance '' @ e)) (gp_connect R st))
          (\<lambda>_. map_err (\<lambda>e. SE_Connection (''Error when seting cache: '' @ e)) (gp_set_ex R st key v ttl)))"

definition tenderly_get_cache :: "'s gas_pool option \<Rightarrow> 's \<Rightarrow> string \<Rightarrow> (storage_error, string option) result" where
  "tenderly_get_cache pool st key = (case pool of
      None \<Rightarrow> Inr None
    | Some R \<Rightarrow>
        bind_res (map_err (\<lambda>e. SE_Connection (''Error when getting the Redis pool instance '' @ e)) (gp_connect R st))
          (\<lambda>_. map_err (\<lambda>e. SE_Connection (''Error when getting cache: '' @ e)) (gp_get R st key)))"

text \<open>The cached text is parsed as a 64-bit number; a text that is none panics.\<close>

definition get_cached_gas_estimation ::
  "(address \<Rightarrow> string) \<Rightarrow> 's gas_pool option \<Rightarrow> 's \<Rightarrow> string \<Rightarrow> address \<Rightarrow> erc20_function_type option
    \<Rightarrow> (failure, u64 option) result" where
  "get_cached_gas_estimation show_address pool st chain_id contract function_type =
    bind_res (map_err (\<lambda>e. Failure (RE_StorageError e))
        (tenderly_get_cache pool st (format_cached_gas_key show_address chain_id contract function_type))) (\<lambda>cached.
      case cached of
        None \<Rightarrow> Inr None
      | Some v \<Rightarrow> (case parse_u64 v of Some gas \<Rightarrow> Inr (Some gas) | None \<Rightarrow> Inl Panicked))"

definition set_cached_gas_estimation ::
  "(address \<Rightarrow> string) \<Rightarrow> 's gas_pool option \<Rightarrow> 's \<Rightarrow> string \<Rightarrow> address \<Rightarrow> erc20_function_type option \<Rightarrow> u64
    \<Rightarrow> (rpc_error, 's) result" where
  "set_cached_gas_estimation show_address pool st chain_id contract function_type gas =
    map_err RE_StorageError (tenderly_set_cache pool st (format_cached_gas_key show_address chain_id contract function_type)
      (show_nat (unat gas)) GAS_ESTIMATE_CACHE_TTL)"

section \<open>Bungee\<close>

definition BRIDGING_SLIPPAGE :: nat where "BRIDGING_SLIPPAGE = 3"

type_synonym query_pairs = "(string \<times> string) list"

record bungee_approval_data =
  ap_allowance_target :: address
  ap_token_address :: address
  ap_minimum_amount :: u256
  ap_owner :: address

record bungee_build_tx =
  bt_chain_id :: nat
  bt_tx_data :: bytes
  bt_tx_target :: address
  bt_value :: u256
  bt_approval_data :: "bungee_approval_data option"

record bungee_approval_tx =
  at_from :: address
  at_to :: address
  at_data :: bytes

text \<open>\<open>bg_get\<close> gets a path with query pairs, \<open>bg_build\<close> posts a route.\<close>

record ('q, 'b) bungee =
  bg_show_address :: "address \<Rightarrow> string"
  bg_get :: "string \<Rightarrow> query_pairs \<Rightarrow> 'b http_answer"
  bg_build :: "'q \<Rightarrow> 'b http_answer"
  bg_quotes_json :: "'b \<Rightarrow> (string, 'q list) result"
  bg_build_json :: "'b \<Rightarrow> (string, bungee_build_tx) result"
  bg_allowance_json :: "'b \<Rightarrow> (string, u256) result"
  bg_approval_json :: "'b \<Rightarrow> (string, bungee_approval_tx) result"

definition show_u256 :: "u256 \<Rightarrow> string" where "show_u256 w = show_nat (unat w)"

definition get_bridging_quotes ::
  "('q, 'b) bungee \<Rightarrow> string \<Rightarrow> address \<Rightarrow> string \<Rightarrow> address \<Rightarrow> u256 \<Rightarrow> address \<Rightarrow> (rpc_error, 'q list) result" where
  "get_bridging_quotes G from_chain_id from_token_address to_chain_id to_token_address amount user_address =
    bind_res (map_err RE_CryptoUtilsError (disassemble_caip2 from_chain_id)) (\<lambda>(_, evm_from_chain_id).
    bind_res (map_err RE_CryptoUtilsError (disassemble_caip2 to_chain_id)) (\<lambda>(_, evm_to_chain_id).
      read_answer RE_ConversionProviderError (bg_quotes_json G) (bg_get G ''https://api.socket.tech/v2/quote''
        [(''fromChainId'', evm_from_chain_id), (''fromTokenAddress'', bg_show_address G from_token_address),
         (''toChainId'', evm_to_chain_id), (''toTokenAddress'', bg_show_address G to_token_address),
         (''fromAmount'', show_u256 amount), (''userAddress'', bg_show_address G user_address),
         (''uniqueRoutesPerBridge'', ''true''), (''sort'', ''output''), (''singleTxOnly'', ''true''),
         (''defaultBridgeSlippage'', show_nat BRIDGING_SLIPPAGE), (''includeBridges'', ''across''),
         (''includeBridges'', ''cctp''), (''includeBridges'', ''hop''), (''includeBridges'', ''stargate'')])))"

definition build_bridging_tx :: "('q, 'b) bungee \<Rightarrow> 'q \<Rightarrow> (rpc_error, bungee_build_tx) result" where
  "build_bridging_tx G route = read_answer RE_ConversionProviderError (bg_build_json G) (bg_build G route)"

definition check_allowance ::
  "('q, 'b) bungee \<Rightarrow> string \<Rightarrow> address \<Rightarrow> address \<Rightarrow> address \<Rightarrow> (rpc_error, u256) result" where
  "check_allowance G chain_id owner target token_address =
    bind_res (map_err RE_CryptoUtilsError (disassemble_caip2 chain_id)) (\<lambda>(_, evm_chain_id).
      read_answer RE_ConversionProviderError (bg_allowance_json G)
        (bg_get G ''https://api.socket.tech/v2/approval/check-allowance''
          [(''chainID'', evm_chain_id), (''owner'', bg_show_address G owner),
           (''allowanceTarget'', bg_show_address G target), (''tokenAddress'', bg_show_address G token_address)]))"

definition build_approval_tx ::
  "('q, 'b) bungee \<Rightarrow> string \<Rightarrow> address \<Rightarrow> address \<Rightarrow> address \<Rightarrow> u256 \<Rightarrow> (rpc_error, bungee_approval_tx) result" where
  "build_approval_tx G chain_id owner target token_address amount =
    bind_res (map_err RE_CryptoUtilsError (disassemble_caip2 chain_id)) (\<lambda>(_, evm_chain_id).
      read_answer RE_ConversionProviderError (bg_approval_json G)
        (bg_get G ''https://api.socket.tech/v2/approval/build-tx''
          [(''chainID'', evm_chain_id), (''owner'', bg_show_address G owner),
           (''allowanceTarget'', bg_show_address G target), (''tokenAddress'', bg_show_address G token_address),
           (''amount'', show_u256 amount)]))"

end
