(* ===== verification/Route.thy ===== *)
theory Route
  imports BridgeProviders
begin

text \<open>
  Preparing a transaction (\<open>handlers/chain_agnostic/route.rs\<close>) and the status of a bridging (\<open>status.rs\<close>).  A run
  ends early with a reply or a failure; the states of the IRN store and of the gas cache are passed along.
  The chains, the price and route services, JSON, the clock and the random identifier are parameters.
\<close>

section \<open>Requests and responses\<close>

definition BRIDGING_FEE_SLIPPAGE :: u16 where "BRIDGING_FEE_SLIPPAGE = 250"

definition BRIDGING_TIMEOUT :: u64 where "BRIDGING_TIMEOUT = 1800"

definition STATUS_POLLING_INTERVAL :: u64 where "STATUS_POLLING_INTERVAL = 3000"

definition ESTIMATED_GAS_SLIPPAGE :: u64 where "ESTIMATED_GAS_SLIPPAGE = 500"

datatype bridging_status = BS_Pending | BS_Completed | BS_Error

record storage_bridging_item =
  sb_created_at :: u64
  sb_chain_id :: string
  sb_wallet :: address
  sb_contract :: address
  sb_amount_current :: u256
  sb_amount_expected :: u256
  sb_status :: bridging_status
  sb_error_reason :: "string option"

record call =
  ca_to :: address
  ca_value :: u256
  ca_input :: bytes

record prepare_request =
  pr_chain_id :: string
  pr_from :: address
  pr_calls :: "call list"
  pr_accounts :: "string list"
  pr_use_lifi :: bool

datatype bridging_error = NoRoutesAvailable | InsufficientFunds | AssetNotSupported | TransactionSimulationFailed

record ('k, 'v) solana_transaction =
  sx_from :: 'k
  sx_chain_id :: string
  sx_transaction :: 'v

datatype ('k, 'v) transactions = Eip155_transactions "ca_transaction list" | Solana_transactions "('k, 'v) solana_transaction list"

record 'k funding_metadata =
  fm_chain_id :: string
  fm_token_contract :: "'k chain_address"
  fm_symbol :: string
  fm_amount :: u256
  fm_bridging_fee :: u256
  fm_decimals :: u8

record initial_transaction_metadata =
  im_transfer_to :: address
  im_amount :: u256
  im_token_contract :: address
  im_symbol :: string
  im_decimals :: u8

record ('k, 'v) prepare_available =
  av_orchestration_id :: string
  av_initial_transaction :: ca_transaction
  av_transactions :: "('k, 'v) transactions list"
  av_funding_from :: "'k funding_metadata list"
  av_initial_metadata :: initial_transaction_metadata
  av_check_in :: u64

datatype ('k, 'v) prepare_response =
    Not_required ca_transaction
  | Available "('k, 'v) prepare_available"
  | Prepare_error bridging_error string

text \<open>Leaving the handler early: with a reply, or with a failure.\<close>

datatype (plugins only: size) ('k, 'v) exit = Reply "('k, 'v) prepare_response" | Stop failure

abbreviation fail :: "rpc_error \<Rightarrow> ('k, 'v) exit" where "fail e \<equiv> Stop (Failure e)"

section \<open>The first version of the response\<close>

record funding_metadata_v1 =
  f1_chain_id :: string
  f1_token_contract :: string
  f1_symbol :: string
  f1_amount :: u256
  f1_bridging_fee :: u256
  f1_decimals :: u8

record prepare_available_v1 =
  a1_orchestration_id :: string
  a1_initial_transaction :: ca_transaction
  a1_transactions :: "ca_transaction list"
  a1_funding_from :: "funding_metadata_v1 list"
  a1_initial_metadata :: initial_transaction_metadata
  a1_check_in :: u64

datatype prepare_response_v1 =
    Not_required_v1 ca_transaction
  | Available_v1 prepare_available_v1
  | Prepare_error_v1 bridging_error string

text \<open>\<open>show_lower\<close> prints an address in lower case; a funding token of Solana panics.\<close>

definition funding_v1 :: "(address \<Rightarrow> string) \<Rightarrow> 'k funding_metadata \<Rightarrow> funding_metadata_v1 option" where
  "funding_v1 show_lower f = map_option (\<lambda>token. \<lparr> f1_chain_id = fm_chain_id f, f1_token_contract = show_lower token,
     f1_symbol = fm_symbol f, f1_amount = fm_amount f, f1_bridging_fee = fm_bridging_fee f,
     f1_decimals = fm_decimals f \<rparr>) (as_eip155 (fm_token_contract f))"

fun collect_opt :: "('a \<Rightarrow> 'b option) \<Rightarrow> 'a list \<Rightarrow> 'b list option" where
  "collect_opt f [] = Some []"
| "collect_opt f (x # xs) = (case f x of None \<Rightarrow> None | Some y \<Rightarrow> map_option ((#) y) (collect_opt f xs))"

fun flat_transactions :: "('k, 'v) transactions list \<Rightarrow> ca_transaction list" where
  "flat_transactions [] = []"
| "flat_transactions (Eip155_transactions txs # rest) = txs @ flat_transactions rest"
| "flat_transactions (Solana_transactions _ # rest) = flat_transactions rest"

definition available_v1 ::
  "(address \<Rightarrow> string) \<Rightarrow> ('k, 'v) prepare_available \<Rightarrow> prepare_available_v1 option" where
  "available_v1 show_lower a = map_option (\<lambda>funding. \<lparr> a1_orchestration_id = av_orchestration_id a,
     a1_initial_transaction = av_initial_transaction a, a1_transactions = flat_transactions (av_transactions a),
     a1_funding_from = funding, a1_initial_metadata = av_initial_metadata a, a1_check_in = av_check_in a \<rparr>)
     (collect_opt (funding_v1 show_lower) (av_funding_from a))"

definition response_v1 :: "(address \<Rightarrow> string) \<Rightarrow> ('k, 'v) prepare_response \<Rightarrow> prepare_response_v1 option" where
  "response_v1 show_lower r = (case r of
      Not_required tx \<Rightarrow> Some (Not_required_v1 tx)
    | Available a \<Rightarrow> map_option Available_v1 (available_v1 show_lower a)
    | Prepare_error e reason \<Rightarrow> Some (Prepare_error_v1 e reason))"

section \<open>The environment\<close>

record lifi_eip155_quote =
  lq_from_amount :: u256
  lq_from_token :: address
  lq_approval_address :: address
  lq_chain_id :: u64
  lq_data :: bytes
  lq_from :: address
  lq_to :: address
  lq_value :: u256
  lq_gas_limit :: u256

text \<open>\<open>re_order\<close> and \<open>re_assets\<close> are the orders of the hash maps; \<open>re_bungee\<close> is the route service at the
  first and at the second call for quotes.\<close>

record ('k, 'q, 'b, 'l, 'v, 's, 'n, 'i, 'c) route_env =
  re_usdc :: 'k
  re_solana_mainnet :: string
  re_order :: "'k contract_group list \<Rightarrow> 'k contract_group list"
  re_assets :: "(string \<times> 'k chain_address) list \<Rightarrow> (string \<times> 'k chain_address) list"
  re_keccak :: "bytes \<Rightarrow> bytes"
  re_selectors :: erc20_selectors
  re_abi_transfer :: "bytes \<Rightarrow> (string, address \<times> u256) result"
  re_tenderly :: "'b tenderly"
  re_gas_pool :: "'c gas_pool option"
  re_show_error :: "rpc_error \<Rightarrow> string"
  re_show_address :: "address \<Rightarrow> string"
  re_show_key :: "'k \<Rightarrow> string"
  re_balances :: "'k balance_env"
  re_bungee :: "nat \<Rightarrow> ('q, 'b) bungee"
  re_to_amount :: "'q \<Rightarrow> (string, string) result"
  re_fetch_nonce :: "string \<Rightarrow> address \<Rightarrow> (string, (crypto_utils_error, u64) result) result"
  re_gas_estimate :: "string \<Rightarrow> address \<Rightarrow> address \<Rightarrow> u256 \<Rightarrow> bytes \<Rightarrow> (crypto_utils_error, u64) result"
  re_address :: "string \<Rightarrow> address option"
  re_pubkey :: "string \<Rightarrow> 'k option"
  re_lifi :: "(string \<times> string) list \<Rightarrow> (route_solana_internal_error, 'l) result"
  re_lifi_solana :: "'l \<Rightarrow> (string, u256 \<times> string) result"
  re_lifi_eip155 :: "'l \<Rightarrow> (string, lifi_eip155_quote) result"
  re_b64 :: "string \<Rightarrow> (string, bytes) result"
  re_bincode :: "bytes \<Rightarrow> (string, 'v) result"
  re_allowance :: "string \<Rightarrow> address \<Rightarrow> address \<Rightarrow> address \<Rightarrow> (string, u256) result"
  re_approve_calldata :: "address \<Rightarrow> u256 \<Rightarrow> bytes"
  re_uuid :: string
  re_now :: u64
  re_irn :: "('s, 'n, 'i) irn_client option"
  re_item_json :: "storage_bridging_item \<Rightarrow> (string, 'i) result"

section \<open>The transfer of the first call\<close>

record transfer =
  tf_native :: bool
  tf_value :: u256
  tf_contract :: address
  tf_receiver :: address
  tf_gas_used :: u64

definition simulate_call ::
  "('k, 'q, 'b, 'l, 'v, 's, 'n, 'i, 'c) route_env \<Rightarrow> prepare_request \<Rightarrow> call
    \<Rightarrow> (rpc_error, erc20_asset_change list \<times> u64) result" where
  "simulate_call E req first_call = get_assets_changes_from_simulation (re_usdc E) (re_keccak E) (re_assets E)
     (simulate_transaction (re_tenderly E)) (pr_chain_id req) (pr_from req) (ca_to first_call) (ca_input first_call)"

definition simulation_failed ::
  "('k, 'q, 'b, 'l, 'v, 's, 'n, 'i, 'c) route_env \<Rightarrow> string \<Rightarrow> rpc_error \<Rightarrow> ('k, 'v) exit" where
  "simulation_failed E text e = Reply (Prepare_error TransactionSimulationFailed (text @ re_show_error E e))"

definition native_transfer ::
  "('k, 'q, 'b, 'l, 'v, 's, 'n, 'i, 'c) route_env \<Rightarrow> prepare_request \<Rightarrow> call \<Rightarrow> (('k, 'v) exit, transfer) result" where
  "native_transfer E req first_call =
    bind_res (map_err (simulation_failed E
        ''The initial transaction (native token transfer) simulation failed due to an error: '')
        (simulate_call E req first_call)) (\<lambda>(_, gas).
      Inr \<lparr> tf_native = True, tf_value = ca_value first_call, tf_contract = NATIVE_TOKEN_ADDRESS,
        tf_receiver = ca_to first_call, tf_gas_used = gas \<rparr>)"

text \<open>The gas of a transfer of a supported token is cached; the write to the cache is not waited for and its
  failure is only logged.\<close>

definition erc20_transfer ::
  "('k, 'q, 'b, 'l, 'v, 's, 'n, 'i, 'c) route_env \<Rightarrow> 'c \<Rightarrow> prepare_request \<Rightarrow> call \<Rightarrow> address \<Rightarrow> u256
    \<Rightarrow> (('k, 'v) exit, transfer) result \<times> 'c" where
  "erc20_transfer E st req first_call receiver amount =
    (let chain = pr_chain_id req; token = ca_to first_call;
         transfer = (\<lambda>gas. \<lparr> tf_native = False, tf_value = amount, tf_contract = token, tf_receiver = receiver,
           tf_gas_used = gas \<rparr>) in
     if find_supported_bridging_asset (re_usdc E) chain (Eip155_address token) = None then
       (Inl (Reply (Prepare_error AssetNotSupported (''The initial transaction asset '' @ chain @ '':''
          @ re_show_address E token @ '' is not supported for the bridging''))), st)
     else (case get_cached_gas_estimation (re_show_address E) (re_gas_pool E) st chain token (Some Transfer) of
         Inl e \<Rightarrow> (Inl (Stop e), st)
       | Inr (Some gas) \<Rightarrow> (Inr (transfer gas), st)
       | Inr None \<Rightarrow>
           (case simulate_call E req first_call of
              Inl e \<Rightarrow> (Inl (simulation_failed E ''The initial transaction simulation failed due to an error: '' e), st)
            | Inr (_, gas) \<Rightarrow> (Inr (transfer gas),
                (case set_cached_gas_estimation (re_show_address E) (re_gas_pool E) st chain token (Some Transfer) gas of
                   Inl _ \<Rightarrow> st | Inr st' \<Rightarrow> st')))))"

definition supported_change :: "'k \<Rightarrow> erc20_asset_change \<Rightarrow> bool" where
  "supported_change usdc c =
    (find_supported_bridging_asset usdc (ec_chain_id c) (Eip155_address (ec_asset_contract c)) \<noteq> None)"

definition simulated_transfer ::
  "('k, 'q, 'b, 'l, 'v, 's, 'n, 'i, 'c) route_env \<Rightarrow> prepare_request \<Rightarrow> call \<Rightarrow> (('k, 'v) exit, transfer) result" where
  "simulated_transfer E req first_call =
    bind_res (map_err (simulation_failed E ''The initial transaction simulation failed due to an error: '')
        (simulate_call E req first_call)) (\<lambda>(changes, gas).
      let (contract, amount, receiver) = (case find (supported_change (re_usdc E)) changes of
            Some c \<Rightarrow> (ec_asset_contract c, ec_amount c, ec_receiver c)
          | None \<Rightarrow> (address_zero, 0, address_zero)) in
      if amount = 0 then Inl (Reply (Prepare_error AssetNotSupported
        ''The transaction does not change any supported bridging assets''))
      else Inr \<lparr> tf_native = False, tf_value = amount, tf_contract = contract, tf_receiver = receiver,
        tf_gas_used = gas \<rparr>)"

definition initial_transfer ::
  "('k, 'q, 'b, 'l, 'v, 's, 'n, 'i, 'c) route_env \<Rightarrow> 'c \<Rightarrow> prepare_request \<Rightarrow> call
    \<Rightarrow> (('k, 'v) exit, transfer) result \<times> 'c" where
  "initial_transfer E st req first_call =
    (if 0 < ca_value first_call then (native_transfer E req first_call, st)
     else (case decode_erc20_transfer_data (re_selectors E) (re_abi_transfer E) (ca_input first_call) of
         Inr (receiver, amount) \<Rightarrow> erc20_transfer E st req first_call receiver amount
       | Inl _ \<Rightarrow> (simulated_transfer E req first_call, st)))"

definition with_gas_slippage :: "u64 \<Rightarrow> u64" where
  "with_gas_slippage gas = (gas * (100 + ESTIMATED_GAS_SLIPPAGE)) div 100"

section \<open>Accounts\<close>

definition bad_account :: "string \<Rightarrow> ('k, 'v) exit" where
  "bad_account e = fail (RE_InvalidParameter (''The account is not a valid CAIP-10 address: '' @ e))"

definition account_parts :: "string \<Rightarrow> (('k, 'v) exit, string \<times> string \<times> string) result" where
  "account_parts a = (case splitn 3 CHR '':'' a of
      [] \<Rightarrow> Inl (bad_account ''missing namespace'')
    | [_] \<Rightarrow> Inl (bad_account ''missing reference'')
    | [_, _] \<Rightarrow> Inl (bad_account ''missing address'')
    | namespace # reference # address # _ \<Rightarrow> Inr (namespace, reference, address))"

definition read_account ::
  "('k, 'q, 'b, 'l, 'v, 's, 'n, 'i, 'c) route_env \<Rightarrow> string \<times> string \<times> string
    \<Rightarrow> (('k, 'v) exit, string option \<times> 'k chain_address) result" where
  "read_account E parts = (case parts of (namespace, reference, address) \<Rightarrow>
     bind_res (if namespace = ''eip155'' then
         map_sum id Eip155_address (ok_or (bad_account ''invalid eip155 address'') (re_address E address))
       else if namespace = ''solana'' then
         map_sum id Solana_address (ok_or (bad_account ''invalid solana address'') (re_pubkey E address))
       else Inl (bad_account (''invalid namespace: '' @ namespace)))
       (\<lambda>a. Inr (Some (namespace @ '':'' @ reference), a)))"

text \<open>The accounts of the request, and the sender on every chain.\<close>

definition request_accounts ::
  "('k, 'q, 'b, 'l, 'v, 's, 'n, 'i, 'c) route_env \<Rightarrow> prepare_request
    \<Rightarrow> (('k, 'v) exit, (string option \<times> 'k chain_address) list) result" where
  "request_accounts E req =
    bind_res (collect_res account_parts (pr_accounts req)) (\<lambda>results.
    bind_res (collect_res (read_account E) results) (\<lambda>accounts.
      Inr (accounts @ [(None, Eip155_address (pr_from req))])))"

section \<open>Routes by quotes\<close>

text \<open>What the route is computed from: the chosen asset, the asset of the transfer and the top-up value in the
  decimals of the chosen asset.\<close>

record 'k bridging_plan =
  bp_asset :: "'k bridging_asset"
  bp_contract :: address
  bp_symbol :: string
  bp_decimals :: u8
  bp_topup :: u256

definition quoted_amount ::
  "('k, 'q, 'b, 'l, 'v, 's, 'n, 'i, 'c) route_env \<Rightarrow> 'k bridging_plan \<Rightarrow> 'q \<Rightarrow> (('k, 'v) exit, u256) result" where
  "quoted_amount E plan route =
    bind_res (map_err (\<lambda>e. fail (RE_SerdeJson e)) (re_to_amount E route)) (\<lambda>text.
    bind_res (map_err (\<lambda>_. fail (RE_InvalidValue text)) (be_parse_u256 (re_balances E) text)) (\<lambda>amount.
      Inr (convert_amount amount (bp_decimals plan) (ba_decimals (bp_asset plan)))))"

definition required_topup :: "u256 \<Rightarrow> u256 \<Rightarrow> u256" where
  "required_topup topup fee = fee * ucast BRIDGING_FEE_SLIPPAGE div 100 + (topup + fee)"

definition next_nonce ::
  "string \<Rightarrow> address \<Rightarrow> nonce_manager \<Rightarrow> (('k, 'v) exit, u64 \<times> nonce_manager) result" where
  "next_nonce chain_id address m = (case get_nonce chain_id address m of
      (Inl e, _) \<Rightarrow> Inl (Stop e)
    | (Inr nonce, m') \<Rightarrow> Inr (nonce, m'))"

text \<open>The first route of the quotes for an amount; \<open>call\<close> counts the calls of the service.\<close>

definition best_quote ::
  "('k, 'q, 'b, 'l, 'v, 's, 'n, 'i, 'c) route_env \<Rightarrow> nat \<Rightarrow> string \<Rightarrow> prepare_request \<Rightarrow> 'k bridging_plan
    \<Rightarrow> address \<Rightarrow> u256 \<Rightarrow> (('k, 'v) exit, 'q) result" where
  "best_quote E n kind req plan bridge_contract amount =
    bind_res (map_err fail (get_bridging_quotes (re_bungee E n) (ba_chain_id (bp_asset plan)) bridge_contract
        (pr_chain_id req) (bp_contract plan) amount (pr_from req))) (\<lambda>quotes. case quotes of
      best_route # _ \<Rightarrow> Inr best_route
    | [] \<Rightarrow> Inl (Reply (Prepare_error NoRoutesAvailable (''No routes were found from '' @ ba_chain_id (bp_asset plan)
        @ '':'' @ re_show_address E bridge_contract @ '' to '' @ pr_chain_id req @ '':''
        @ re_show_address E (bp_contract plan) @ kind @ show_u256 amount))))"

definition approval_transactions ::
  "('k, 'q, 'b, 'l, 'v, 's, 'n, 'i, 'c) route_env \<Rightarrow> prepare_request \<Rightarrow> string \<Rightarrow> bungee_build_tx \<Rightarrow> u256
    \<Rightarrow> nonce_manager \<Rightarrow> (('k, 'v) exit, ca_transaction list \<times> nonce_manager) result" where
  "approval_transactions E req bridge_chain bridge_tx amount m = (case bt_approval_data bridge_tx of
      None \<Rightarrow> Inr ([], m)
    | Some approval \<Rightarrow>
        (let chain = ''eip155:'' @ show_nat (bt_chain_id bridge_tx) in
         bind_res (map_err fail (check_allowance (re_bungee E 1) chain (ap_owner approval)
             (ap_allowance_target approval) (ap_token_address approval))) (\<lambda>allowance.
         if allowance \<le> ap_minimum_amount approval then
           bind_res (map_err fail (build_approval_tx (re_bungee E 1) chain (ap_owner approval)
               (ap_allowance_target approval) (ap_token_address approval) amount)) (\<lambda>approval_tx.
           bind_res (next_nonce bridge_chain (pr_from req) m) (\<lambda>(nonce, m').
             Inr ([\<lparr> tx_from = at_from approval_tx, tx_to = at_to approval_tx, tx_value = 0, tx_gas_limit = 0,
                tx_input = at_data approval_tx, tx_nonce = nonce, tx_chain_id = chain \<rparr>], m')))
         else Inr ([], m))))"

fun apply_simulation ::
  "ca_transaction list \<Rightarrow> response_transaction list \<Rightarrow> (rpc_error, ca_transaction list) result" where
  "apply_simulation routes [] = Inr routes"
| "apply_simulation [] (r # rs) = Inl (RE_SimulationFailed ''The route index is out of bounds'')"
| "apply_simulation (t # ts) (r # rs) =
    (if rt_input r \<noteq> tx_input t then Inl (RE_SimulationFailed
       ''The input for the simulation result does not match the input for the transaction'')
     else bind_res (apply_simulation ts rs) (\<lambda>ts'. Inr (t \<lparr> tx_gas_limit := with_gas_slippage (rt_gas r) \<rparr> # ts')))"

text \<open>A transfer of native tokens has its gas estimated by the chain, the others by a simulation.\<close>

definition estimate_native ::
  "('k, 'q, 'b, 'l, 'v, 's, 'n, 'i, 'c) route_env \<Rightarrow> ca_transaction \<Rightarrow> (('k, 'v) exit, ca_transaction) result" where
  "estimate_native E bridging =
    (if tx_value bridging = 0 then Inr bridging
     else bind_res (map_err (\<lambda>e. fail (RE_CryptoUtilsError e)) (re_gas_estimate E (tx_chain_id bridging)
         (tx_from bridging) (tx_to bridging) (tx_value bridging) (tx_input bridging)))
       (\<lambda>gas. Inr (bridging \<lparr> tx_gas_limit := with_gas_slippage gas \<rparr>)))"

definition simulate_routes ::
  "('k, 'q, 'b, 'l, 'v, 's, 'n, 'i, 'c) route_env \<Rightarrow> ca_transaction list \<Rightarrow> ca_transaction
    \<Rightarrow> (('k, 'v) exit, ca_transaction list) result" where
  "simulate_routes E approvals bridging =
    (let routes = approvals @ [bridging] in
     if length routes \<noteq> 1 \<or> tx_gas_limit bridging = 0 then
       bind_res (map_err fail (simulate_bundled_transactions (re_tenderly E) routes (\<lambda>_. None))) (\<lambda>results.
         map_err fail (apply_simulation routes results))
     else Inr routes)"

definition route_transactions ::
  "('k, 'q, 'b, 'l, 'v, 's, 'n, 'i, 'c) route_env \<Rightarrow> prepare_request \<Rightarrow> string \<Rightarrow> bungee_build_tx \<Rightarrow> u256
    \<Rightarrow> nonce_manager \<Rightarrow> (('k, 'v) exit, ca_transaction list \<times> nonce_manager) result" where
  "route_transactions E req bridge_chain bridge_tx amount m =
    bind_res (approval_transactions E req bridge_chain bridge_tx amount m) (\<lambda>(approvals, m1).
    bind_res (next_nonce bridge_chain (pr_from req) m1) (\<lambda>(nonce, m2).
    bind_res (estimate_native E \<lparr> tx_from = pr_from req, tx_to = bt_tx_target bridge_tx, tx_value = bt_value bridge_tx,
        tx_gas_limit = 0, tx_input = bt_tx_data bridge_tx, tx_nonce = nonce,
        tx_chain_id = ''eip155:'' @ show_nat (bt_chain_id bridge_tx) \<rparr>) (\<lambda>bridging.
    bind_res (simulate_routes E approvals bridging) (\<lambda>routes. Inr (routes, m2)))))"

text \<open>The transactions, the bridged amount and the fee.\<close>

definition quoted_route ::
  "('k, 'q, 'b, 'l, 'v, 's, 'n, 'i, 'c) route_env \<Rightarrow> prepare_request \<Rightarrow> 'k bridging_plan \<Rightarrow> address \<Rightarrow> nonce_manager
    \<Rightarrow> (('k, 'v) exit, (('k, 'v) transactions list \<times> u256 \<times> u256) \<times> nonce_manager) result" where
  "quoted_route E req plan bridge_contract m =
    (let topup = bp_topup plan; balance = ba_current_balance (bp_asset plan) in
     bind_res (best_quote E 0 '' for an initial amount '' req plan bridge_contract topup) (\<lambda>first_route.
     bind_res (quoted_amount E plan first_route) (\<lambda>first_amount.
     let fee = (if topup < first_amount then 0 else topup - first_amount); required = required_topup topup fee in
     if balance < required then Inl (Reply (Prepare_error InsufficientFunds
       (''The current bridging asset balance on '' @ re_show_address E (pr_from req) @ '' is '' @ show_u256 balance
        @ '' less than the required topup amount:'' @ show_u256 required)))
     else
     bind_res (best_quote E 1 '' for updated (fee included) amount: '' req plan bridge_contract required) (\<lambda>route.
     bind_res (quoted_amount E plan route) (\<lambda>bridged_amount.
     if bridged_amount < topup then Inl (fail RE_BridgingFinalAmountLess)
     else
     bind_res (map_err fail (build_bridging_tx (re_bungee E 1) route)) (\<lambda>bridge_tx.
     bind_res (route_transactions E req (ba_chain_id (bp_asset plan)) bridge_tx required m) (\<lambda>(routes, m').
       Inr (([Eip155_transactions routes], bridged_amount, bridged_amount - topup), m'))))))))"

section \<open>Routes by LI.FI\<close>

fun show_chain_address ::
  "('k, 'q, 'b, 'l, 'v, 's, 'n, 'i, 'c) route_env \<Rightarrow> 'k chain_address \<Rightarrow> string" where
  "show_chain_address E (Eip155_address a) = re_show_address E a"
| "show_chain_address E (Solana_address k) = re_show_key E k"

definition lifi_internal :: "route_solana_internal_error \<Rightarrow> ('k, 'v) exit" where
  "lifi_internal e = fail (RE_RouteSolana (RS_Internal e))"

definition lifi_query ::
  "('k, 'q, 'b, 'l, 'v, 's, 'n, 'i, 'c) route_env \<Rightarrow> prepare_request \<Rightarrow> 'k bridging_plan
    \<Rightarrow> (('k, 'v) exit, (string \<times> string) list) result" where
  "lifi_query E req plan =
    bind_res (map_err fail (caip2_to_lifi_chain_id (re_solana_mainnet E) (ba_chain_id (bp_asset plan)))) (\<lambda>from_chain.
    bind_res (map_err fail (caip2_to_lifi_chain_id (re_solana_mainnet E) (pr_chain_id req))) (\<lambda>to_chain.
      Inr [(''fromChain'', from_chain), (''toChain'', to_chain),
        (''fromToken'', show_chain_address E (ba_contract_address (bp_asset plan))),
        (''toToken'', re_show_address E (bp_contract plan)), (''toAmount'', show_u256 (bp_topup plan)),
        (''fromAddress'', show_chain_address E (ba_account (bp_asset plan))),
        (''toAddress'', re_show_address E (pr_from req))]))"

text \<open>The assertions and the \<open>unwrap\<close> of the account are panics.  The subtraction wraps around.\<close>

definition lifi_solana_route ::
  "('k, 'q, 'b, 'l, 'v, 's, 'n, 'i, 'c) route_env \<Rightarrow> 'k bridging_plan \<Rightarrow> 'l
    \<Rightarrow> (('k, 'v) exit, ('k, 'v) transactions list \<times> u256 \<times> u256) result" where
  "lifi_solana_route E plan json = (case ba_contract_address (bp_asset plan) of
      Eip155_address _ \<Rightarrow> Inl (Stop Panicked)
    | Solana_address _ \<Rightarrow>
        bind_res (map_err (\<lambda>e. lifi_internal (RS_LiFiQuoteDeserializationSolana e)) (re_lifi_solana E json))
          (\<lambda>(from_amount, encoded).
        bind_res (map_err (\<lambda>e. lifi_internal (RS_TransactionRequestDecode e)) (re_b64 E encoded)) (\<lambda>data.
        bind_res (map_err (\<lambda>e. lifi_internal (RS_TransactionRequestDeserialization e)) (re_bincode E data)) (\<lambda>tx.
        case ba_account (bp_asset plan) of
          Eip155_address _ \<Rightarrow> Inl (Stop Panicked)
        | Solana_address account \<Rightarrow> Inr ([Solana_transactions [\<lparr> sx_from = account,
            sx_chain_id = ba_chain_id (bp_asset plan), sx_transaction = tx \<rparr>]],
            from_amount, from_amount - bp_topup plan)))))"

definition APPROVE_MULTIPLIER :: u256 where "APPROVE_MULTIPLIER = 4"

definition lifi_approval ::
  "('k, 'q, 'b, 'l, 'v, 's, 'n, 'i, 'c) route_env \<Rightarrow> prepare_request \<Rightarrow> string \<Rightarrow> lifi_eip155_quote \<Rightarrow> nonce_manager
    \<Rightarrow> (('k, 'v) exit, ca_transaction list \<times> nonce_manager) result" where
  "lifi_approval E req chain quote m =
    bind_res (map_err (\<lambda>e. lifi_internal (RS_AllowanceCall e)) (re_allowance E chain (lq_from_token quote)
        (pr_from req) (lq_approval_address quote))) (\<lambda>allowance.
      if allowance < lq_from_amount quote then
        bind_res (next_nonce chain (lq_from quote) m) (\<lambda>(nonce, m').
          Inr ([\<lparr> tx_from = lq_from quote, tx_to = lq_from_token quote, tx_value = 0, tx_gas_limit = 100000,
             tx_input = re_approve_calldata E (lq_approval_address quote) (lq_from_amount quote * APPROVE_MULTIPLIER),
             tx_nonce = nonce, tx_chain_id = chain \<rparr>], m'))
      else Inr ([], m))"

definition lifi_eip155_route ::
  "('k, 'q, 'b, 'l, 'v, 's, 'n, 'i, 'c) route_env \<Rightarrow> prepare_request \<Rightarrow> 'k bridging_plan \<Rightarrow> 'l \<Rightarrow> nonce_manager
    \<Rightarrow> (('k, 'v) exit, (('k, 'v) transactions list \<times> u256 \<times> u256) \<times> nonce_manager) result" where
  "lifi_eip155_route E req plan json m = (case ba_contract_address (bp_asset plan) of
      Solana_address _ \<Rightarrow> Inl (Stop Panicked)
    | Eip155_address bridge_contract \<Rightarrow>
        bind_res (map_err (\<lambda>e. lifi_internal (RS_LiFiQuoteDeserializationEip155 e)) (re_lifi_eip155 E json)) (\<lambda>quote.
        let chain = ''eip155:'' @ show_nat (unat (lq_chain_id quote)) in
        if chain \<noteq> ba_chain_id (bp_asset plan) \<or> lq_from quote \<noteq> pr_from req
           \<or> bridge_contract \<noteq> lq_from_token quote \<or> bridge_contract = lq_approval_address quote
        then Inl (Stop Panicked)
        else bind_res (lifi_approval E req chain quote m) (\<lambda>(approvals, m1).
          bind_res (next_nonce chain (lq_from quote) m1) (\<lambda>(nonce, m2).
          if 2 ^ 64 \<le> unat (lq_gas_limit quote) then Inl (Stop Panicked)
          else Inr (([Eip155_transactions (approvals @ [\<lparr> tx_from = lq_from quote, tx_to = lq_to quote,
             tx_value = lq_value quote, tx_gas_limit = ucast (lq_gas_limit quote), tx_input = lq_data quote,
             tx_nonce = nonce, tx_chain_id = chain \<rparr>])],
             lq_from_amount quote, lq_from_amount quote - bp_topup plan), m2)))))"

definition lifi_route ::
  "('k, 'q, 'b, 'l, 'v, 's, 'n, 'i, 'c) route_env \<Rightarrow> prepare_request \<Rightarrow> 'k bridging_plan \<Rightarrow> nonce_manager
    \<Rightarrow> (('k, 'v) exit, (('k, 'v) transactions list \<times> u256 \<times> u256) \<times> nonce_manager) result" where
  "lifi_route E req plan m =
    bind_res (lifi_query E req plan) (\<lambda>query.
    bind_res (map_err lifi_internal (re_lifi E query)) (\<lambda>json.
      if starts_with ''solana:'' (ba_chain_id (bp_asset plan)) then
        bind_res (lifi_solana_route E plan json) (\<lambda>r. Inr (r, m))
      else if starts_with ''eip155:'' (ba_chain_id (bp_asset plan)) then lifi_eip155_route E req plan json m
      else Inl (Stop Panicked)))"

section \<open>The handler\<close>

definition bridging_route ::
  "('k, 'q, 'b, 'l, 'v, 's, 'n, 'i, 'c) route_env \<Rightarrow> prepare_request \<Rightarrow> 'k bridging_plan \<Rightarrow> nonce_manager
    \<Rightarrow> (('k, 'v) exit, (('k, 'v) transactions list \<times> u256 \<times> u256) \<times> nonce_manager) result" where
  "bridging_route E req plan m = (case ba_contract_address (bp_asset plan) of
      Eip155_address bridge_contract \<Rightarrow>
        if \<not> pr_use_lifi req then quoted_route E req plan bridge_contract m else lifi_route E req plan m
    | Solana_address _ \<Rightarrow> lifi_route E req plan m)"

definition initial_tx :: "prepare_request \<Rightarrow> call \<Rightarrow> u64 \<Rightarrow> u64 \<Rightarrow> ca_transaction" where
  "initial_tx req first_call gas_limit nonce =
    \<lparr> tx_from = pr_from req, tx_to = ca_to first_call, tx_value = ca_value first_call, tx_gas_limit = gas_limit,
      tx_input = ca_input first_call, tx_nonce = nonce, tx_chain_id = pr_chain_id req \<rparr>"

text \<open>The plan of a bridging, or the reply that none is needed or possible.\<close>

definition plan_bridging ::
  "('k, 'q, 'b, 'l, 'v, 's, 'n, 'i, 'c) route_env \<Rightarrow> prepare_request \<Rightarrow> call \<Rightarrow> transfer \<Rightarrow> nonce_manager
    \<Rightarrow> (('k, 'v) exit, 'k bridging_plan \<times> u256) result" where
  "plan_bridging E req first_call t m =
    bind_res (map_err (\<lambda>e. fail (RE_CryptoUtilsError e))
        (get_erc20_balance (re_balances E) (pr_chain_id req) (tf_contract t) (pr_from req))) (\<lambda>balance.
    if tf_value t \<le> balance then
      bind_res (next_nonce (pr_chain_id req) (pr_from req) m) (\<lambda>(nonce, _).
        Inl (Reply (Not_required (initial_tx req first_call (with_gas_slippage (tf_gas_used t)) nonce))))
    else
    let topup = tf_value t - balance in
    bind_res (ok_or (Reply (Prepare_error AssetNotSupported (''The initial transaction asset '' @ pr_chain_id req @ '':''
        @ re_show_address E (tf_contract t) @ '' is not supported for the bridging'')))
        (find_supported_bridging_asset (re_usdc E) (pr_chain_id req) (Eip155_address (tf_contract t))))
      (\<lambda>(symbol, decimals).
    bind_res (request_accounts E req) (\<lambda>accounts.
    bind_res (map_err Stop (check_bridging_for_erc20_transfer (re_usdc E) (re_order E) (re_balances E)
        \<lparr> bq_value = topup, bq_accounts = accounts, bq_exclude_chain_id = pr_chain_id req,
          bq_exclude_contract_address = Eip155_address (tf_contract t), bq_token_symbol_priority = symbol,
          bq_amount_token_decimals = decimals,
          bq_only_token_symbol = (if tf_native t then Some ''ETH'' else None),
          bq_exclude_token_symbol = (if \<not> tf_native t then Some ''ETH'' else None) \<rparr>)) (\<lambda>found.
    bind_res (ok_or (Reply (Prepare_error InsufficientFunds (''No supported assets with at least '' @ show_u256 topup
        @ '' amount were found in the address '' @ re_show_address E (pr_from req)))) found) (\<lambda>asset.
      Inr (\<lparr> bp_asset = asset, bp_contract = tf_contract t, bp_symbol = symbol, bp_decimals = decimals,
         bp_topup = convert_amount topup decimals (ba_decimals asset) \<rparr>, balance))))))"

definition store_item ::
  "('k, 'q, 'b, 'l, 'v, 's, 'n, 'i, 'c) route_env \<Rightarrow> 's \<Rightarrow> prepare_request \<Rightarrow> transfer \<Rightarrow> u256 \<Rightarrow> (rpc_error, 's) result" where
  "store_item E st req t balance =
    bind_res (ok_or RE_IrnNotConfigured (re_irn E)) (\<lambda>irn.
    bind_res (map_err RE_SerdeJson (re_item_json E \<lparr> sb_created_at = re_now E, sb_chain_id = pr_chain_id req,
        sb_wallet = pr_from req, sb_contract = tf_contract t, sb_amount_current = balance,
        sb_amount_expected = tf_value t, sb_status = BS_Pending, sb_error_reason = None \<rparr>)) (\<lambda>json.
      map_err RE_StorageError (irn_set irn st (re_uuid E) json)))"

definition finish_route ::
  "('k, 'q, 'b, 'l, 'v, 's, 'n, 'i, 'c) route_env \<Rightarrow> prepare_request \<Rightarrow> call \<Rightarrow> transfer \<Rightarrow> 'k bridging_plan
    \<Rightarrow> ('k, 'v) transactions list \<times> u256 \<times> u256 \<Rightarrow> u64 \<Rightarrow> ('k, 'v) prepare_available" where
  "finish_route E req first_call t plan route nonce = (case route of (routes, bridged_amount, fee) \<Rightarrow>
     \<lparr> av_orchestration_id = re_uuid E,
       av_initial_transaction = initial_tx req first_call (with_gas_slippage (tf_gas_used t)) nonce,
       av_transactions = routes,
       av_funding_from = [\<lparr> fm_chain_id = ba_chain_id (bp_asset plan),
         fm_token_contract = ba_contract_address (bp_asset plan), fm_symbol = ba_token_symbol (bp_asset plan),
         fm_amount = bridged_amount, fm_bridging_fee = fee, fm_decimals = ba_decimals (bp_asset plan) \<rparr>],
       av_initial_metadata = \<lparr> im_transfer_to = tf_receiver t, im_amount = tf_value t, im_token_contract = tf_contract t,
         im_symbol = bp_symbol plan, im_decimals = bp_decimals plan \<rparr>,
       av_check_in = STATUS_POLLING_INTERVAL \<rparr>)"

text \<open>From the transfer on.  The item is stored before the last nonce is awaited.\<close>

definition prepare_bridging ::
  "('k, 'q, 'b, 'l, 'v, 's, 'n, 'i, 'c) route_env \<Rightarrow> 's \<Rightarrow> prepare_request \<Rightarrow> call \<Rightarrow> transfer
    \<Rightarrow> (('k, 'v) exit, ('k, 'v) prepare_available) result \<times> 's" where
  "prepare_bridging E st req first_call t =
    (let m0 = initialize_nonce (re_fetch_nonce E) (pr_chain_id req) (pr_from req) (\<lambda>_. None) in
     case bind_res (plan_bridging E req first_call t m0) (\<lambda>(plan, balance).
         let m1 = (if starts_with ''eip155:'' (ba_chain_id (bp_asset plan))
               then initialize_nonce (re_fetch_nonce E) (ba_chain_id (bp_asset plan)) (pr_from req) m0 else m0) in
         bind_res (bridging_route E req plan m1) (\<lambda>(route, m2). Inr (plan, balance, route, m2))) of
       Inl e \<Rightarrow> (Inl e, st)
     | Inr (plan, balance, route, m2) \<Rightarrow>
         (case store_item E st req t balance of
            Inl e \<Rightarrow> (Inl (fail e), st)
          | Inr st' \<Rightarrow> (bind_res (next_nonce (pr_chain_id req) (pr_from req) m2)
              (\<lambda>(nonce, _). Inr (finish_route E req first_call t plan route nonce)), st')))"

fun exit_result :: "(('k, 'v) exit, ('k, 'v) prepare_available) result \<Rightarrow> (failure, ('k, 'v) prepare_response) result" where
  "exit_result (Inr a) = Inr (Available a)"
| "exit_result (Inl (Reply r)) = Inr r"
| "exit_result (Inl (Stop e)) = Inl e"

text \<open>\<open>access\<close> is the outcome of the project's access and quota check.\<close>

definition route_handler ::
  "(rpc_error, unit) result \<Rightarrow> ('k, 'q, 'b, 'l, 'v, 's, 'n, 'i, 'c) route_env \<Rightarrow> 's \<times> 'c \<Rightarrow> prepare_request
    \<Rightarrow> (failure, ('k, 'v) prepare_response) result \<times> 's \<times> 'c" where
  "route_handler access E st req = (case access of
      Inl e \<Rightarrow> (Inl (Failure e), st)
    | Inr _ \<Rightarrow>
        (case pr_calls req of
           [] \<Rightarrow> (Inl (Failure (RE_InvalidParameter ''The transaction calls are empty'')), st)
         | first_call # _ \<Rightarrow>
             (case initial_transfer E (snd st) req first_call of
                (Inl e, cache) \<Rightarrow> (exit_result (Inl e), (fst st, cache))
              | (Inr t, cache) \<Rightarrow>
                  (case prepare_bridging E (fst st) req first_call t of
                     (r, st') \<Rightarrow> (exit_result r, (st', cache))))))"

definition route_handler_v1 ::
  "(address \<Rightarrow> string) \<Rightarrow> (rpc_error, unit) result \<Rightarrow> ('k, 'q, 'b, 'l, 'v, 's, 'n, 'i, 'c) route_env \<Rightarrow> 's \<times> 'c
    \<Rightarrow> prepare_request \<Rightarrow> (failure, prepare_response_v1) result \<times> 's \<times> 'c" where
  "route_handler_v1 show_lower access E st req = (case route_handler access E st req of
      (r, st') \<Rightarrow> (bind_res r (\<lambda>response. ok_or Panicked (response_v1 show_lower response)), st'))"

section \<open>The status\<close>

datatype status_response =
    Status_completed u64
  | Status_error u64 string
  | Status_pending u64 u64

definition status_set ::
  "('s, 'n, 'i) irn_client \<Rightarrow> (storage_bridging_item \<Rightarrow> (string, 'i) result) \<Rightarrow> 's \<Rightarrow> string \<Rightarrow> storage_bridging_item
    \<Rightarrow> status_response \<Rightarrow> (rpc_error, status_response) result \<times> 's" where
  "status_set irn to_json st orchestration_id item response =
    (case bind_res (map_err RE_SerdeJson (to_json item)) (\<lambda>json.
        map_err RE_StorageError (irn_set irn st orchestration_id json)) of
       Inl e \<Rightarrow> (Inl e, st)
     | Inr st' \<Rightarrow> (Inr response, st'))"

text \<open>A pending item: \<open>balance\<close> is the balance of its wallet and \<open>now\<close> the time in seconds.\<close>

definition check_pending ::
  "('s, 'n, 'i) irn_client \<Rightarrow> (storage_bridging_item \<Rightarrow> (string, 'i) result) \<Rightarrow> 's \<Rightarrow> u64 \<Rightarrow> string
    \<Rightarrow> storage_bridging_item \<Rightarrow> u256 \<Rightarrow> (rpc_error, status_response) result \<times> 's" where
  "check_pending irn to_json st now orchestration_id item balance =
    (if sb_amount_expected item \<le> balance then
       status_set irn to_json st orchestration_id (item \<lparr> sb_status := BS_Completed \<rparr>)
         (Status_completed (sb_created_at item))
     else if sb_created_at item + BRIDGING_TIMEOUT < now then
       status_set irn to_json st orchestration_id
         (item \<lparr> sb_status := BS_Error, sb_error_reason := Some ''Bridging timeout'' \<rparr>)
         (Status_error (sb_created_at item) ''Bridging timeout'')
     else (Inr (Status_pending (sb_created_at item) STATUS_POLLING_INTERVAL), st))"

definition status_handler ::
  "(rpc_error, unit) result \<Rightarrow> ('s, 'n, 'i) irn_client option \<Rightarrow> ('i \<Rightarrow> (string, storage_bridging_item) result)
    \<Rightarrow> (storage_bridging_item \<Rightarrow> (string, 'i) result) \<Rightarrow> 'k balance_env \<Rightarrow> 's \<Rightarrow> u64 \<Rightarrow> string
    \<Rightarrow> (rpc_error, status_response) result \<times> 's" where
  "status_handler access irn_opt of_json to_json B st now orchestration_id =
    (case bind_res access (\<lambda>_.
        bind_res (ok_or RE_IrnNotConfigured irn_opt) (\<lambda>irn.
        bind_res (map_err RE_StorageError (irn_get irn st orchestration_id)) (\<lambda>stored.
        bind_res (ok_or (RE_OrchestrationIdNotFound orchestration_id) stored) (\<lambda>json.
        bind_res (map_err RE_SerdeJson (of_json json)) (\<lambda>item. Inr (irn, item)))))) of
       Inl e \<Rightarrow> (Inl e, st)
     | Inr (irn, item) \<Rightarrow>
         (case sb_status item of
            BS_Completed \<Rightarrow> (Inr (Status_completed (sb_created_at item)), st)
          | BS_Error \<Rightarrow> (Inr (Status_error (sb_created_at item)
              (case sb_error_reason item of Some r \<Rightarrow> r | None \<Rightarrow> '''')), st)
          | BS_Pending \<Rightarrow>
              (case get_erc20_balance B (sb_chain_id item) (sb_contract item) (sb_wallet item) of
                 Inl e \<Rightarrow> (Inl (RE_CryptoUtilsError e), st)
               | Inr balance \<Rightarrow> check_pending irn to_json st now orchestration_id item balance)))"

end
