(* ===== verification/BridgingFacts.thy ===== *)
theory BridgingFacts
  imports Bridging
begin

text \<open>
  Facts about the core of chain abstraction: the table of assets, the choice of the asset to bridge, the
  conversion between decimals and the nonces.
\<close>

section \<open>The table of assets\<close>

lemmas asset_table_defs = BRIDGING_ASSETS_def USDC_CONTRACTS_def USDT_CONTRACTS_def USDS_CONTRACTS_def ETH_CONTRACTS_def

lemma bridging_decimals: "(symbol, entry) \<in> set (BRIDGING_ASSETS usdc) \<Longrightarrow> ae_decimals entry \<le> 77"
  by (auto simp: BRIDGING_ASSETS_def)

lemma bridging_decimals_values:
  "(symbol, entry) \<in> set (BRIDGING_ASSETS usdc) \<Longrightarrow> unat (ae_decimals entry) \<in> {6, 18}"
  by (auto simp: BRIDGING_ASSETS_def)

interpretation bridging_symbols: keyed_table "BRIDGING_ASSETS usdc" fst for usdc :: 'k
  by unfold_locales (simp add: BRIDGING_ASSETS_def)

text \<open>All contracts with their chain and symbol.\<close>

definition contract_rows :: "'k \<Rightarrow> ((string \<times> 'k chain_address) \<times> string \<times> 'k asset_entry) list" where
  "contract_rows usdc = concat (map (\<lambda>(symbol, entry). map (\<lambda>c. (c, symbol, entry)) (ae_contracts entry)) (BRIDGING_ASSETS usdc))"

lemma contract_rows_iff:
  "(c, symbol, entry) \<in> set (contract_rows usdc) \<longleftrightarrow> (symbol, entry) \<in> set (BRIDGING_ASSETS usdc) \<and> c \<in> set (ae_contracts entry)"
  by (auto simp: contract_rows_def)

lemma literal_addresses:
  "address_lit ''0b2c639c533813f4aa9d7837caf62653d097ff85'' = [0x0b, 0x2c, 0x63, 0x9c, 0x53, 0x38, 0x13, 0xf4, 0xaa, 0x9d, 0x78, 0x37, 0xca, 0xf6, 0x26, 0x53, 0xd0, 0x97, 0xff, 0x85]"
  "address_lit ''833589fCD6eDb6E08f4c7C32D4f71b54bdA02913'' = [0x83, 0x35, 0x89, 0xfc, 0xd6, 0xed, 0xb6, 0xe0, 0x8f, 0x4c, 0x7c, 0x32, 0xd4, 0xf7, 0x1b, 0x54, 0xbd, 0xa0, 0x29, 0x13]"
  "address_lit ''af88d065e77c8cC2239327C5EDb3A432268e5831'' = [0xaf, 0x88, 0xd0, 0x65, 0xe7, 0x7c, 0x8c, 0xc2, 0x23, 0x93, 0x27, 0xc5, 0xed, 0xb3, 0xa4, 0x32, 0x26, 0x8e, 0x58, 0x31]"
  "address_lit ''94b008aA00579c1307B0EF2c499aD98a8ce58e58'' = [0x94, 0xb0, 0x08, 0xaa, 0x00, 0x57, 0x9c, 0x13, 0x07, 0xb0, 0xef, 0x2c, 0x49, 0x9a, 0xd9, 0x8a, 0x8c, 0xe5, 0x8e, 0x58]"
  "address_lit ''Fd086bC7CD5C481DCC9C85ebE478A1C0b69FCbb9'' = [0xfd, 0x08, 0x6b, 0xc7, 0xcd, 0x5c, 0x48, 0x1d, 0xcc, 0x9c, 0x85, 0xeb, 0xe4, 0x78, 0xa1, 0xc0, 0xb6, 0x9f, 0xcb, 0xb9]"
  "address_lit ''820c137fa70c8691f0e44dc420a5e53c168921dc'' = [0x82, 0x0c, 0x13, 0x7f, 0xa7, 0x0c, 0x86, 0x91, 0xf0, 0xe4, 0x4d, 0xc4, 0x20, 0xa5, 0xe5, 0x3c, 0x16, 0x89, 0x21, 0xdc]"
  "address_lit ''eeeeeeeeeeeeeeeeeeeeeeeeeeeeeeeeeeeeeeee'' = [0xee, 0xee, 0xee, 0xee, 0xee, 0xee, 0xee, 0xee, 0xee, 0xee, 0xee, 0xee, 0xee, 0xee, 0xee, 0xee, 0xee, 0xee, 0xee, 0xee]"
  by code_simp+

lemma contract_rows_distinct: "distinct (map fst (contract_rows usdc))"
  unfolding contract_rows_def asset_table_defs NATIVE_TOKEN_ADDRESS_def literal_addresses
  by simp

lemma find_supported_in_iff:
  "distinct (map fst (concat (map (\<lambda>(symbol, entry). map (\<lambda>c. (c, symbol, entry)) (ae_contracts entry)) rows))) \<Longrightarrow>
    find_supported_in rows chain contract = Some (s, d) \<longleftrightarrow>
      (\<exists>entry. (s, entry) \<in> set rows \<and> (chain, contract) \<in> set (ae_contracts entry) \<and> d = ae_decimals entry)"
proof (induction rows)
  case (Cons row rows)
  obtain s' e' where row: "row = (s', e')" by (cases row)
  show ?case
    using Cons by (auto simp: row image_iff) force+
qed simp

lemma find_supported_iff:
  "find_supported_bridging_asset usdc chain contract = Some (s, d) \<longleftrightarrow>
    (\<exists>entry. (s, entry) \<in> set (BRIDGING_ASSETS usdc) \<and> (chain, contract) \<in> set (ae_contracts entry)
      \<and> d = ae_decimals entry)"
  unfolding find_supported_bridging_asset_def
  by (rule find_supported_in_iff [OF contract_rows_distinct [unfolded contract_rows_def]])

lemma slots_for_contracts:
  assumes "(name, Eip155_address c) \<in> set (get_bridging_assets_contracts_for_chain usdc chain)"
  shows "\<exists>params slot. get_simulation_params_for_asset usdc name = Some params
    \<and> map_of (sp_balance_storage_slots params) chain = Some slot"
proof -
  obtain entry ch where e: "(name, entry) \<in> set (BRIDGING_ASSETS usdc)"
    and f: "find (\<lambda>(ch, _). ch = chain) (ae_contracts entry) = Some (ch, Eip155_address c)"
    using assms by (auto simp: get_bridging_assets_contracts_for_chain_def List.map_filter_def)
  have "(chain, Eip155_address c) \<in> set (ae_contracts entry)" using find_SomeD [OF f] by auto
  then have "map_of (sp_balance_storage_slots (ae_simulation entry)) chain \<noteq> None"
    using e by (auto simp: asset_table_defs)
  moreover have "find (\<lambda>(n, _). n = name) (BRIDGING_ASSETS usdc) = Some (name, entry)"
    using bridging_symbols.find_key [OF e] by (simp add: case_prod_unfold)
  ultimately show ?thesis by (auto simp: get_simulation_params_for_asset_def)
qed

text \<open>The override of a contract gives the sender the simulated balance of the asset in its slot.\<close>

definition holds_balance ::
  "'k \<Rightarrow> (bytes \<Rightarrow> bytes) \<Rightarrow> string \<Rightarrow> address \<Rightarrow> string \<Rightarrow> account_state option \<Rightarrow> bool" where
  "holds_balance usdc keccak chain sender name state = (\<exists>params slot st.
     get_simulation_params_for_asset usdc name = Some params \<and> map_of (sp_balance_storage_slots params) chain = Some slot
     \<and> state = Some st
     \<and> st (compute_simulation_storage_slot keccak sender slot) = Some (compute_simulation_balance (sp_balance params)))"

lemma fill_overrides_total:
  assumes "\<forall>name c. (name, Eip155_address c) \<in> set assets \<longrightarrow> (\<exists>params slot.
        get_simulation_params_for_asset usdc name = Some params \<and> map_of (sp_balance_storage_slots params) chain = Some slot)"
    and "\<forall>name name' c. (name, Eip155_address c) \<in> set assets \<longrightarrow> (name', Eip155_address c) \<in> set assets \<longrightarrow> name' = name"
  shows "\<exists>ov'. fill_overrides usdc keccak chain sender state ov assets = Inr ov'
      \<and> (\<forall>a. (\<nexists>name. (name, Eip155_address a) \<in> set assets) \<longrightarrow> ov' a = ov a)
      \<and> (\<forall>name a. (name, Eip155_address a) \<in> set assets \<longrightarrow> holds_balance usdc keccak chain sender name (ov' a))"
  using assms
proof (induction assets arbitrary: state ov)
  case (Cons row rest)
  obtain name contract where row: "row = (name, contract)" by (cases row)
  have prems: "\<forall>name c. (name, Eip155_address c) \<in> set rest \<longrightarrow> (\<exists>params slot.
        get_simulation_params_for_asset usdc name = Some params \<and> map_of (sp_balance_storage_slots params) chain = Some slot)"
    "\<forall>name name' c. (name, Eip155_address c) \<in> set rest \<longrightarrow> (name', Eip155_address c) \<in> set rest \<longrightarrow> name' = name"
    using Cons.prems by (meson list.set_intros(2))+
  note IH = Cons.IH [OF prems]
  show ?case
  proof (cases contract)
    case (Solana_address k)
    show ?thesis using IH [where state = state and ov = ov] by (simp add: row Solana_address)
  next
    case (Eip155_address a)
    obtain params slot where p: "get_simulation_params_for_asset usdc name = Some params"
      "map_of (sp_balance_storage_slots params) chain = Some slot"
      using Cons.prems(1) unfolding row Eip155_address by (meson list.set_intros(1))
    define state' where "state' = state(compute_simulation_storage_slot keccak sender slot
      \<mapsto> compute_simulation_balance (sp_balance params))"
    obtain ov' where ov: "fill_overrides usdc keccak chain sender state' (ov(a \<mapsto> state')) rest = Inr ov'"
      "\<forall>x. (\<nexists>name. (name, Eip155_address x) \<in> set rest) \<longrightarrow> ov' x = (ov(a \<mapsto> state')) x"
      "\<forall>name x. (name, Eip155_address x) \<in> set rest \<longrightarrow> holds_balance usdc keccak chain sender name (ov' x)"
      using IH [where state = state' and ov = "ov(a \<mapsto> state')"] by blast
    have "holds_balance usdc keccak chain sender name (ov' a)"
    proof (cases "\<exists>n. (n, Eip155_address a) \<in> set rest")
      case True
      then obtain n where n: "(n, Eip155_address a) \<in> set rest" by blast
      then have "n = name" using Cons.prems(2) by (auto simp: row Eip155_address)
      then show ?thesis using ov(3) n by blast
    next
      case False
      then have "ov' a = Some state'" using ov(2) by simp
      then show ?thesis using p by (simp add: holds_balance_def state'_def)
    qed
    then show ?thesis using ov p by (auto simp: row Eip155_address Let_def state'_def)
  qed
qed simp

lemma find_map_of: "map_of xs k = Some v \<Longrightarrow> find (\<lambda>(a, _). a = k) xs = Some (k, v)"
  by (induction xs) (auto split: if_splits)

lemma contracts_for_chain_iff:
  "(name, c) \<in> set (get_bridging_assets_contracts_for_chain usdc chain) \<longleftrightarrow>
    (\<exists>d. find_supported_bridging_asset usdc chain c = Some (name, d))"
proof -
  have unique: "\<forall>(symbol, entry)\<in>set (BRIDGING_ASSETS usdc). distinct (map fst (ae_contracts entry))"
    by (simp add: asset_table_defs)
  have "find (\<lambda>(ch, _). ch = chain) (ae_contracts entry) = Some (chain, c) \<longleftrightarrow> (chain, c) \<in> set (ae_contracts entry)"
    if "(symbol, entry) \<in> set (BRIDGING_ASSETS usdc)" for symbol entry
  proof
    assume "(chain, c) \<in> set (ae_contracts entry)"
    moreover have "distinct (map fst (ae_contracts entry))" using unique that by auto
    ultimately have "map_of (ae_contracts entry) chain = Some c" by simp
    then show "find (\<lambda>(ch, _). ch = chain) (ae_contracts entry) = Some (chain, c)"
      by (rule find_map_of)
  qed (auto dest: find_SomeD)
  then show ?thesis
    unfolding find_supported_iff get_bridging_assets_contracts_for_chain_def List.map_filter_def
    by (auto dest: find_SomeD simp: image_iff) (force dest: find_SomeD)+
qed

section \<open>The groups of contracts\<close>

definition group_pairs :: "'k contract_group list \<Rightarrow> ((string \<times> string \<times> u8) \<times> 'k chain_address) set" where
  "group_pairs groups = {(key, c). \<exists>cs. (key, cs) \<in> set groups \<and> c \<in> set cs}"

lemma group_pairs_Nil [simp]: "group_pairs [] = {}"
  by (simp add: group_pairs_def)

lemma group_pairs_Cons [simp]: "group_pairs ((key, cs) # groups) = Pair key ` set cs \<union> group_pairs groups"
  by (auto simp: group_pairs_def)

lemma group_pairs_push: "group_pairs (push_contract key c groups) = insert (key, c) (group_pairs groups)"
  by (induction key c groups rule: push_contract.induct) auto

lemma group_pairs_entry:
  "group_pairs (group_entry q s d contracts groups) = group_pairs groups
    \<union> {((s, chain, d), c) | chain c. (chain, c) \<in> set contracts \<and> \<not> is_excluded q s chain c}"
proof (induction q s d contracts groups rule: group_entry.induct)
  case (2 q s d chain c rest groups)
  then show ?case by (auto simp: group_pairs_push)
qed simp

lemma group_pairs_contracts:
  "group_pairs (contracts_per_chain q rows groups) = group_pairs groups
    \<union> {((s, chain, ae_decimals e), c) | s chain e c. (s, e) \<in> set rows \<and> (chain, c) \<in> set (ae_contracts e)
        \<and> \<not> is_excluded q s chain c}"
proof (induction q rows groups rule: contracts_per_chain.induct)
  case (2 q s e rest groups)
  then show ?case by (auto simp: group_pairs_entry)
qed simp

lemma group_pairs_order: "set xs = set ys \<Longrightarrow> group_pairs xs = group_pairs ys"
  by (simp add: group_pairs_def)

section \<open>Balances\<close>

lemma account_balances_ok:
  "account_balances B chain account contracts = Inr bs \<Longrightarrow>
    set bs = {(account, c, b) | c b. c \<in> set contracts \<and> source_balance B chain account c = Inr (Some b)}"
  by (induction contracts arbitrary: bs) (auto simp: res_simps split: option.splits)

lemma account_balances_error:
  "account_balances B chain account contracts = Inl e \<Longrightarrow> \<exists>c\<in>set contracts. source_balance B chain account c = Inl e"
  by (induction contracts) (auto simp: res_simps)

lemma get_balances_ok:
  "get_balances_of_all_source_tokens B accounts chain contracts = Inr bs \<Longrightarrow>
    set bs = {(a, c, b) | a c b. a \<in> set accounts \<and> c \<in> set contracts \<and> source_balance B chain a c = Inr (Some b)}"
  by (induction accounts arbitrary: bs) (auto simp: res_simps dest!: account_balances_ok)

lemma get_balances_error:
  "get_balances_of_all_source_tokens B accounts chain contracts = Inl e \<Longrightarrow>
    \<exists>a\<in>set accounts. \<exists>c\<in>set contracts. source_balance B chain a c = Inl e"
  by (induction accounts) (auto simp: res_simps dest!: account_balances_error)

section \<open>The chosen asset\<close>

definition asset_amount :: "'k bridging_asset \<Rightarrow> token_amount" where
  "asset_amount a = token_amount_new (ba_current_balance a) (ba_decimals a)"

definition asked_amount :: "'k bridging_query \<Rightarrow> token_amount" where
  "asked_amount q = token_amount_new (bq_value q) (bq_amount_token_decimals q)"

text \<open>An asset that may be chosen: a contract of the table that is not excluded, with a balance of an account on its
  chain; and whether it is enough, compared as rational numbers.\<close>

definition candidate :: "'k \<Rightarrow> 'k balance_env \<Rightarrow> 'k bridging_query \<Rightarrow> 'k bridging_asset \<Rightarrow> bool" where
  "candidate usdc B q a = (\<exists>entry. (ba_token_symbol a, entry) \<in> set (BRIDGING_ASSETS usdc)
     \<and> ba_decimals a = ae_decimals entry \<and> (ba_chain_id a, ba_contract_address a) \<in> set (ae_contracts entry)
     \<and> \<not> is_excluded q (ba_token_symbol a) (ba_chain_id a) (ba_contract_address a)
     \<and> ba_account a \<in> set (accounts_on q (ba_chain_id a))
     \<and> source_balance B (ba_chain_id a) (ba_account a) (ba_contract_address a) = Inr (Some (ba_current_balance a)))"

definition enough :: "'k bridging_query \<Rightarrow> 'k bridging_asset \<Rightarrow> bool" where
  "enough q a = (unat (bq_value q) * 10 ^ unat (ba_decimals a)
     \<le> unat (ba_current_balance a) * 10 ^ unat (bq_amount_token_decimals q))"

definition at_most :: "'k bridging_asset \<Rightarrow> 'k bridging_asset \<Rightarrow> bool" where
  "at_most a b = (unat (ba_current_balance a) * 10 ^ unat (ba_decimals b)
     \<le> unat (ba_current_balance b) * 10 ^ unat (ba_decimals a))"

definition asset_of ::
  "string \<times> string \<times> u8 \<Rightarrow> 'k chain_address \<times> 'k chain_address \<times> u256 \<Rightarrow> 'k bridging_asset" where
  "asset_of key entry = (case (key, entry) of ((symbol, chain, decimals), (account, contract, balance)) \<Rightarrow>
     \<lparr> ba_chain_id = chain, ba_account = account, ba_token_symbol = symbol, ba_contract_address = contract,
       ba_decimals = decimals, ba_current_balance = balance \<rparr>)"

lemma at_most_exact: "at_most a b \<longleftrightarrow> exact_cmp (asset_amount a) (asset_amount b) \<noteq> Greater"
  by (simp add: at_most_def exact_cmp_le asset_amount_def token_amount_new_def)

lemma enough_exact: "enough q a \<longleftrightarrow> exact_cmp (asked_amount q) (asset_amount a) \<noteq> Greater"
  by (simp add: enough_def exact_cmp_le asset_amount_def asked_amount_def token_amount_new_def)

lemma at_most_refl [simp]: "at_most a a" by (simp add: at_most_def)

lemma at_most_trans: "at_most a b \<Longrightarrow> at_most b c \<Longrightarrow> at_most a c"
  unfolding at_most_exact by (rule exact_cmp_trans)

lemma at_most_linear: "at_most a b \<or> at_most b a"
  by (auto simp: at_most_def)

lemma token_ge_exact:
  "valid_decimals x \<Longrightarrow> valid_decimals y \<Longrightarrow> token_ge x y = Some (exact_cmp y x \<noteq> Greater)"
  using exact_cmp_flip [of x y] exact_cmp_flip [of y x]
  by (cases "exact_cmp x y"; cases "exact_cmp y x") (auto simp: token_ge_def token_partial_cmp_valid)

lemma token_le_exact:
  "valid_decimals x \<Longrightarrow> valid_decimals y \<Longrightarrow> token_le x y = Some (exact_cmp x y \<noteq> Greater)"
  by (cases "exact_cmp x y") (auto simp: token_le_def token_partial_cmp_valid)

text \<open>What holds after a set of assets has been looked at.\<close>

definition best_of :: "'k bridging_query \<Rightarrow> 'k bridging_asset set \<Rightarrow> 'k bridging_asset option \<Rightarrow> bool" where
  "best_of q X best = ((\<forall>x\<in>X. enough q x \<longrightarrow> ba_token_symbol x \<noteq> bq_token_symbol_priority q)
     \<and> (case best of None \<Rightarrow> \<forall>x\<in>X. \<not> enough q x
        | Some a \<Rightarrow> a \<in> X \<and> enough q a \<and> (\<forall>x\<in>X. enough q x \<longrightarrow> at_most x a)))"

definition valid_asset :: "'k bridging_asset \<Rightarrow> bool" where "valid_asset a = (ba_decimals a \<le> 77)"

lemma best_of_valid: "best_of q X (Some a) \<Longrightarrow> \<forall>x\<in>X. valid_asset x \<Longrightarrow> valid_asset a"
  by (simp add: best_of_def)

lemma consider_balance_step:
  assumes best: "best_of q X best" and valid: "\<forall>x\<in>X. valid_asset x" "valid_asset (asset_of key entry)"
    and dec: "bq_amount_token_decimals q \<le> 77"
  shows "case consider_balance q key best entry of
      Found a \<Rightarrow> a = asset_of key entry \<and> enough q a \<and> ba_token_symbol a = bq_token_symbol_priority q
    | Best best' \<Rightarrow> best_of q (insert (asset_of key entry) X) best'
    | Scan_panic \<Rightarrow> False"
proof -
  obtain symbol chain d where key: "key = (symbol, chain, d)" by (cases key)
  obtain account contract balance where entry: "entry = (account, contract, balance)" by (cases entry)
  let ?a = "asset_of key entry"
  have a: "?a = \<lparr> ba_chain_id = chain, ba_account = account, ba_token_symbol = symbol, ba_contract_address = contract,
       ba_decimals = d, ba_current_balance = balance \<rparr>" by (simp add: asset_of_def key entry)
  have ge: "token_ge (token_amount_new balance d) (asked_amount q) = Some (enough q ?a)"
    using valid(2) dec
    by (subst token_ge_exact) (simp_all add: a valid_asset_def valid_decimals_def asked_amount_def token_amount_new_def
      enough_exact asset_amount_def)
  show ?thesis
  proof (cases "enough q ?a")
    case False
    then show ?thesis using best ge
      by (auto simp: consider_balance_def key entry asked_amount_def [symmetric] best_of_def split: option.splits)
  next
    case enough: True
    show ?thesis
    proof (cases "symbol = bq_token_symbol_priority q")
      case True
      then show ?thesis using enough ge
        by (simp add: consider_balance_def key entry asked_amount_def [symmetric] asset_of_def)
    next
      case other: False
      show ?thesis
      proof (cases best)
        case None
        then show ?thesis using enough ge other best
          by (auto simp: consider_balance_def key entry asked_amount_def [symmetric] asset_of_def best_of_def)
      next
        case (Some b)
        have vb: "valid_asset b" using best_of_valid best Some valid(1) by blast
        have le: "token_le (token_amount_new balance d) (token_amount_new (ba_current_balance b) (ba_decimals b))
            = Some (at_most ?a b)"
          using valid(2) vb
          by (subst token_le_exact) (simp_all add: a valid_asset_def valid_decimals_def token_amount_new_def
            at_most_exact asset_amount_def)
        have step: "consider_balance q key best entry = Best (Some (if at_most ?a b then b else ?a))"
          using enough ge other Some le
          by (simp add: consider_balance_def key entry asked_amount_def [symmetric] asset_of_def)
        have "\<forall>x\<in>X. enough q x \<longrightarrow> at_most x ?a" if "\<not> at_most ?a b"
          using that best Some at_most_linear [of b ?a] at_most_trans unfolding best_of_def by auto blast
        then show ?thesis using best Some enough other unfolding step by (auto simp: best_of_def a)
      qed
    qed
  qed
qed

lemma scan_balances_spec:
  assumes "best_of q X best" "\<forall>x\<in>X. valid_asset x" "\<forall>e\<in>set entries. valid_asset (asset_of key e)"
    and "bq_amount_token_decimals q \<le> 77"
  shows "case scan_balances q key best entries of
      Found a \<Rightarrow> a \<in> asset_of key ` set entries \<and> enough q a \<and> ba_token_symbol a = bq_token_symbol_priority q
    | Best best' \<Rightarrow> best_of q (X \<union> asset_of key ` set entries) best'
    | Scan_panic \<Rightarrow> False"
  using assms(1-3)
proof (induction entries arbitrary: X best)
  case (Cons e rest)
  note step = consider_balance_step [OF Cons.prems(1,2) _ assms(4), of key e]
  have v: "valid_asset (asset_of key e)" using Cons.prems(3) by simp
  show ?case
  proof (cases "consider_balance q key best e")
    case (Best best')
    then have "best_of q (insert (asset_of key e) X) best'" using step [OF v] by simp
    then have "case scan_balances q key best' rest of
        Found a \<Rightarrow> a \<in> asset_of key ` set rest \<and> enough q a \<and> ba_token_symbol a = bq_token_symbol_priority q
      | Best b \<Rightarrow> best_of q (insert (asset_of key e) X \<union> asset_of key ` set rest) b
      | Scan_panic \<Rightarrow> False"
      using Cons.prems by (intro Cons.IH) auto
    then show ?thesis using Best by (auto split: scan.splits)
  qed (use step [OF v] in auto)
qed simp

text \<open>The assets of a group.\<close>

definition pair_assets ::
  "'k balance_env \<Rightarrow> 'k bridging_query \<Rightarrow> (string \<times> string \<times> u8) \<times> 'k chain_address \<Rightarrow> 'k bridging_asset set" where
  "pair_assets B q p = {asset_of (fst p) (a, snd p, b) | a b. a \<in> set (accounts_on q (fst (snd (fst p))))
     \<and> source_balance B (fst (snd (fst p))) a (snd p) = Inr (Some b)}"

definition group_assets :: "'k balance_env \<Rightarrow> 'k bridging_query \<Rightarrow> 'k contract_group list \<Rightarrow> 'k bridging_asset set" where
  "group_assets B q groups = (\<Union>p\<in>group_pairs groups. pair_assets B q p)"

lemma group_assets_Nil [simp]: "group_assets B q [] = {}"
  by (simp add: group_assets_def)

lemma group_assets_Cons:
  assumes "get_balances_of_all_source_tokens B (accounts_on q (fst (snd key))) (fst (snd key)) contracts = Inr bs"
  shows "group_assets B q ((key, contracts) # rest) = asset_of key ` set bs \<union> group_assets B q rest"
proof -
  have "(\<Union>p\<in>Pair key ` set contracts. pair_assets B q p) = asset_of key ` set bs"
    unfolding get_balances_ok [OF assms] pair_assets_def by auto
  then show ?thesis by (simp add: group_assets_def)
qed

definition valid_groups :: "'k contract_group list \<Rightarrow> bool" where
  "valid_groups groups = (\<forall>(key, contracts)\<in>set groups. snd (snd key) \<le> 77)"

lemma asset_of_fields [simp]:
  "ba_decimals (asset_of key e) = snd (snd key)" "ba_chain_id (asset_of key e) = fst (snd key)"
  "ba_token_symbol (asset_of key e) = fst key" "ba_account (asset_of key e) = fst e"
  "ba_contract_address (asset_of key e) = fst (snd e)" "ba_current_balance (asset_of key e) = snd (snd e)"
  by (simp_all add: asset_of_def split: prod.splits)

definition query_failed :: "'k balance_env \<Rightarrow> 'k contract_group list \<Rightarrow> rpc_error \<Rightarrow> bool" where
  "query_failed B groups f = (\<exists>p\<in>group_pairs groups. \<exists>a. source_balance B (fst (snd (fst p))) a (snd p) = Inl f)"

lemma query_failed_Cons: "query_failed B rest f \<Longrightarrow> query_failed B ((key, contracts) # rest) f"
  unfolding query_failed_def group_pairs_Cons by blast

lemma scan_groups_spec:
  assumes "best_of q X best" "\<forall>x\<in>X. valid_asset x" "valid_groups groups" "bq_amount_token_decimals q \<le> 77"
  shows "case scan_groups B q best groups of
      Inl e \<Rightarrow> \<exists>f. e = Failure f \<and> query_failed B groups f
    | Inr r \<Rightarrow> (\<exists>a. r = Some a \<and> a \<in> group_assets B q groups \<and> enough q a
          \<and> ba_token_symbol a = bq_token_symbol_priority q)
        \<or> best_of q (X \<union> group_assets B q groups) r"
  using assms(1-3)
proof (induction groups arbitrary: X best)
  case (Cons g rest)
  obtain key contracts where g: "g = (key, contracts)" by (cases g)
  let ?bal = "get_balances_of_all_source_tokens B (accounts_on q (fst (snd key))) (fst (snd key)) contracts"
  have k: "snd (snd key) \<le> 77" and vr: "valid_groups rest" using Cons.prems(3) by (auto simp: g valid_groups_def)
  show ?case
  proof (cases ?bal)
    case (Inl f)
    obtain a c where "c \<in> set contracts" "source_balance B (fst (snd key)) a c = Inl f"
      using get_balances_error [OF Inl] by blast
    then have "query_failed B (g # rest) f"
      unfolding query_failed_def g by (intro bexI [of _ "(key, c)"] exI [of _ a]) simp_all
    moreover have "scan_groups B q best (g # rest) = Inl (Failure f)" using Inl by (simp add: g)
    ultimately show ?thesis by simp
  next
    case (Inr bs)
    have vbs: "\<forall>e\<in>set bs. valid_asset (asset_of key e)" using k by (simp add: valid_asset_def)
    note scan = scan_balances_spec [OF Cons.prems(1,2) vbs assms(4)]
    note assets = group_assets_Cons [OF Inr, of rest]
    show ?thesis
    proof (cases "scan_balances q key best bs")
      case (Found a)
      then show ?thesis using scan Inr by (auto simp: g assets)
    next
      case (Best best')
      have "\<forall>x\<in>X \<union> asset_of key ` set bs. valid_asset x" using Cons.prems(2) vbs by auto
      moreover have "best_of q (X \<union> asset_of key ` set bs) best'" using scan Best by simp
      ultimately have "case scan_groups B q best' rest of
          Inl e \<Rightarrow> \<exists>f. e = Failure f \<and> query_failed B rest f
        | Inr r \<Rightarrow> (\<exists>a. r = Some a \<and> a \<in> group_assets B q rest \<and> enough q a
              \<and> ba_token_symbol a = bq_token_symbol_priority q)
            \<or> best_of q ((X \<union> asset_of key ` set bs) \<union> group_assets B q rest) r"
        using vr by (intro Cons.IH)
      then show ?thesis using Inr Best
        by (cases "scan_groups B q best' rest") (auto simp: g assets Un_assoc query_failed_Cons)
    next
      case Scan_panic
      then show ?thesis using scan by simp
    qed
  qed
qed simp

lemma group_assets_candidates:
  assumes "set groups = set (contracts_per_chain q (BRIDGING_ASSETS usdc) [])"
  shows "a \<in> group_assets B q groups \<longleftrightarrow> candidate usdc B q a"
proof -
  have pairs: "group_pairs groups = {((s, chain, ae_decimals e), c) | s chain e c. (s, e) \<in> set (BRIDGING_ASSETS usdc)
      \<and> (chain, c) \<in> set (ae_contracts e) \<and> \<not> is_excluded q s chain c}"
    using group_pairs_order [OF assms] by (simp add: group_pairs_contracts)
  show ?thesis
  proof
    assume "a \<in> group_assets B q groups"
    then show "candidate usdc B q a"
      unfolding group_assets_def pairs pair_assets_def candidate_def by auto
  next
    assume "candidate usdc B q a"
    then obtain e where e: "(ba_token_symbol a, e) \<in> set (BRIDGING_ASSETS usdc)" "ba_decimals a = ae_decimals e"
      "(ba_chain_id a, ba_contract_address a) \<in> set (ae_contracts e)"
      "\<not> is_excluded q (ba_token_symbol a) (ba_chain_id a) (ba_contract_address a)"
      "ba_account a \<in> set (accounts_on q (ba_chain_id a))"
      "source_balance B (ba_chain_id a) (ba_account a) (ba_contract_address a) = Inr (Some (ba_current_balance a))"
      unfolding candidate_def by blast
    let ?p = "((ba_token_symbol a, ba_chain_id a, ae_decimals e), ba_contract_address a)"
    have "?p \<in> group_pairs groups" using e unfolding pairs by blast
    moreover have "a = asset_of (fst ?p) (ba_account a, snd ?p, ba_current_balance a)"
      using e(2) by (cases a) (simp add: asset_of_def)
    then have "a \<in> pair_assets B q ?p" using e unfolding pair_assets_def by fastforce
    ultimately show "a \<in> group_assets B q groups" unfolding group_assets_def by blast
  qed
qed

lemma push_valid: "valid_groups groups \<Longrightarrow> snd (snd key) \<le> 77 \<Longrightarrow> valid_groups (push_contract key c groups)"
  by (induction key c groups rule: push_contract.induct) (auto simp: valid_groups_def)

lemma entry_valid: "valid_groups groups \<Longrightarrow> d \<le> 77 \<Longrightarrow> valid_groups (group_entry q s d contracts groups)"
  by (induction contracts arbitrary: groups) (auto simp: push_valid)

lemma contracts_valid:
  "valid_groups groups \<Longrightarrow> \<forall>(s, e)\<in>set rows. ae_decimals e \<le> 77 \<Longrightarrow> valid_groups (contracts_per_chain q rows groups)"
  by (induction rows arbitrary: groups) (auto simp: entry_valid)

lemma valid_groups_contracts:
  assumes "set groups = set (contracts_per_chain q (BRIDGING_ASSETS usdc) [])"
  shows "valid_groups groups"
proof -
  have "valid_groups (contracts_per_chain q (BRIDGING_ASSETS usdc) [])"
    by (rule contracts_valid) (auto simp: valid_groups_def dest: bridging_decimals)
  then show ?thesis using assms by (simp add: valid_groups_def)
qed

lemma check_bridging_result:
  assumes "\<And>xs. set (order xs) = set xs" "bq_amount_token_decimals q \<le> 77"
  shows "case check_bridging_for_erc20_transfer usdc order B q of
      Inl e \<Rightarrow> \<exists>f chain a c. e = Failure f \<and> source_balance B chain a c = Inl f
    | Inr None \<Rightarrow> \<forall>a. candidate usdc B q a \<longrightarrow> \<not> enough q a
    | Inr (Some a) \<Rightarrow> candidate usdc B q a \<and> enough q a
        \<and> (ba_token_symbol a = bq_token_symbol_priority q
           \<or> (\<forall>b. candidate usdc B q b \<and> enough q b \<longrightarrow> ba_token_symbol b \<noteq> bq_token_symbol_priority q \<and> at_most b a))"
proof -
  let ?groups = "order (contracts_per_chain q (BRIDGING_ASSETS usdc) [])"
  have set: "set ?groups = set (contracts_per_chain q (BRIDGING_ASSETS usdc) [])" by (rule assms(1))
  note cand = group_assets_candidates [OF set]
  have "best_of q {} None" by (simp add: best_of_def)
  note spec = scan_groups_spec [OF this _ valid_groups_contracts [OF set] assms(2), of B, simplified]
  show ?thesis
  proof (cases "scan_groups B q None ?groups")
    case (Inl e)
    then show ?thesis using spec by (auto simp: check_bridging_for_erc20_transfer_def query_failed_def)
  next
    case (Inr r)
    then show ?thesis using spec
      by (cases r) (auto simp: check_bridging_for_erc20_transfer_def best_of_def cand)
  qed
qed

section \<open>Decimals\<close>

text \<open>Between the decimals of the table the conversion is exact up to truncation; raising the decimals may wrap.\<close>

lemma unat_convert_down:
  assumes "to \<le> from_d" "unat from_d - unat to \<le> 77"
  shows "unat (convert_amount a from_d to) = unat a div 10 ^ (unat from_d - unat to)"
proof (cases "from_d = to")
  case False
  then have lt: "to < from_d" "\<not> from_d < to" using assms(1) by auto
  have "unat (from_d - to) = unat from_d - unat to" using assms(1) by (simp add: unat_sub)
  then show ?thesis
    using lt assms(2) by (simp add: convert_amount_def cmp_ord_def unat_div unat_pow10)
qed (simp add: convert_amount_def cmp_ord_def)

lemma unat_convert_up:
  assumes "from_d \<le> to" "unat a * 10 ^ (unat to - unat from_d) < 2 ^ 256" "unat to - unat from_d \<le> 77"
  shows "unat (convert_amount a from_d to) = unat a * 10 ^ (unat to - unat from_d)"
proof (cases "from_d = to")
  case False
  then have lt: "from_d < to" using assms(1) by simp
  have s: "unat (to - from_d) = unat to - unat from_d" using assms(1) by (simp add: unat_sub)
  have p: "unat (10 ^ unat (to - from_d) :: u256) = 10 ^ (unat to - unat from_d)"
    using assms(3) unfolding s by (rule unat_pow10)
  have "unat a * unat (10 ^ unat (to - from_d) :: u256) < 2 ^ LENGTH(256)" using assms(2) unfolding p by simp
  then have "unat (a * 10 ^ unat (to - from_d)) = unat a * 10 ^ (unat to - unat from_d)"
    using unat_mult_exact [of a "10 ^ unat (to - from_d)"] unfolding p by simp
  then show ?thesis using lt by (auto simp: convert_amount_def cmp_ord_def)
qed (simp add: convert_amount_def cmp_ord_def)

lemma unat_convert_wraps:
  assumes "from_d < to" "unat to - unat from_d \<le> 77"
  shows "unat (convert_amount a from_d to) = unat a * 10 ^ (unat to - unat from_d) mod 2 ^ 256"
proof -
  have s: "unat (to - from_d) = unat to - unat from_d" using assms(1) by (simp add: unat_sub word_less_nat_alt word_le_nat_alt)
  have "unat (10 ^ unat (to - from_d) :: u256) = 10 ^ (unat to - unat from_d)"
    using assms(2) unfolding s by (rule unat_pow10)
  then have "unat (a * 10 ^ unat (to - from_d)) = unat a * 10 ^ (unat to - unat from_d) mod 2 ^ 256"
    by (simp add: unat_word_ariths(2))
  then show ?thesis using assms(1) by (auto simp: convert_amount_def cmp_ord_def)
qed

section \<open>Nonces\<close>

text \<open>A use of the nonce manager, and its outcome: the nonces handed out, in order.\<close>

datatype nonce_op = Init_nonce string address | Take_nonce string address

fun run_nonce_ops ::
  "(string \<Rightarrow> address \<Rightarrow> (string, (crypto_utils_error, u64) result) result) \<Rightarrow> nonce_op list \<Rightarrow> nonce_manager
    \<Rightarrow> (failure, u64 list) result" where
  "run_nonce_ops fetch [] m = Inr []"
| "run_nonce_ops fetch (Init_nonce chain_id address # ops) m =
    run_nonce_ops fetch ops (initialize_nonce fetch chain_id address m)"
| "run_nonce_ops fetch (Take_nonce chain_id address # ops) m = (case get_nonce chain_id address m of
     (Inl e, _) \<Rightarrow> Inl e
   | (Inr nonce, m') \<Rightarrow> bind_res (run_nonce_ops fetch ops m') (\<lambda>nonces. Inr (nonce # nonces)))"

text \<open>The specification: a counter per account, and accounts that were made known before their nonces are taken.\<close>

fun counted_nonces :: "(string \<times> address \<Rightarrow> u64) \<Rightarrow> nonce_op list \<Rightarrow> u64 list" where
  "counted_nonces next [] = []"
| "counted_nonces next (Init_nonce c a # ops) = counted_nonces next ops"
| "counted_nonces next (Take_nonce c a # ops) = next (c, a) # counted_nonces (next((c, a) := next (c, a) + 1)) ops"

fun known_before :: "(string \<times> address) set \<Rightarrow> nonce_op list \<Rightarrow> bool" where
  "known_before known [] = True"
| "known_before known (Init_nonce c a # ops) = known_before (insert (c, a) known) ops"
| "known_before known (Take_nonce c a # ops) = ((c, a) \<in> known \<and> known_before known ops)"

text \<open>The next nonce of an account, if it is known or will be.\<close>

fun nonce_of :: "nonce_state option \<Rightarrow> u64 option" where
  "nonce_of (Some (Pending_nonce (Inr (Inr n)))) = Some n"
| "nonce_of (Some (Ready_nonce n)) = Some n"
| "nonce_of _ = None"

lemma get_nonce_known:
  "nonce_of (m (c, a)) = Some n \<Longrightarrow> get_nonce c a m = (Inr n, m((c, a) \<mapsto> Ready_nonce (n + 1)))"
  by (cases "m (c, a)" rule: nonce_of.cases) (auto simp: get_nonce_def)

lemma nonce_of_initialize:
  "nonce_of (initialize_nonce fetch c a m (c', a')) =
    (if (c', a') = (c, a) \<and> m (c, a) = None then nonce_of (Some (Pending_nonce (fetch c a))) else nonce_of (m (c', a')))"
  by (auto simp: initialize_nonce_def)

lemma run_nonce_ops_counts:
  assumes "known_before known ops" "\<forall>k\<in>known. nonce_of (m k) = Some (next k)" "\<forall>k. k \<notin> known \<longrightarrow> m k = None"
    "\<forall>c a. (c, a) \<notin> known \<longrightarrow> fetch c a = Inr (Inr (next (c, a)))"
  shows "run_nonce_ops fetch ops m = Inr (counted_nonces next ops)"
  using assms
proof (induction ops arbitrary: known "next" m)
  case (Cons x ops)
  show ?case
  proof (cases x)
    case (Init_nonce c a)
    let ?m = "initialize_nonce fetch c a m"
    have "\<forall>k\<in>insert (c, a) known. nonce_of (?m k) = Some (next k)"
      using Cons.prems(2-4) by (cases "(c, a) \<in> known") (auto simp: nonce_of_initialize)
    moreover have "\<forall>k. k \<notin> insert (c, a) known \<longrightarrow> ?m k = None"
      using Cons.prems(3) by (simp add: initialize_nonce_def)
    ultimately show ?thesis
      using Cons.IH [of "insert (c, a) known" ?m "next"] Cons.prems(1,4) by (simp add: Init_nonce)
  next
    case (Take_nonce c a)
    have k: "(c, a) \<in> known" and rest: "known_before known ops" using Cons.prems(1) by (simp_all add: Take_nonce)
    then have n: "nonce_of (m (c, a)) = Some (next (c, a))" using Cons.prems(2) by blast
    note step = get_nonce_known [where m = m and c = c and a = a, OF n]
    have "run_nonce_ops fetch ops (m((c, a) \<mapsto> Ready_nonce (next (c, a) + 1)))
        = Inr (counted_nonces (next((c, a) := next (c, a) + 1)) ops)"
      using Cons.prems(2-4) k by (intro Cons.IH [OF rest]) auto
    then show ?thesis by (simp add: Take_nonce step)
  qed
qed simp

end
