(* ===== verification/ChainAbstraction.thy ===== *)
theory ChainAbstraction
  imports Route BridgingFacts
begin

text \<open>
  What chain abstraction guarantees: the simulation overrides, the choice of the asset, the nonces, the amounts
  of a prepared route, the stored item and the status it leads to.
\<close>

section \<open>Early exits\<close>

lemma next_nonce_ok:
  "next_nonce c a m = Inr (n, m') \<longleftrightarrow> get_nonce c a m = (Inr n, m')"
  by (auto simp: next_nonce_def split: prod.splits sum.splits)

lemma get_nonce_ok:
  "get_nonce c a m = (Inr n, m') \<Longrightarrow> nonce_of (m (c, a)) = Some n \<and> m' = m((c, a) \<mapsto> Ready_nonce (n + 1))"
  by (auto simp: get_nonce_def split: option.splits nonce_state.splits sum.splits)

lemma exit_result_available: "exit_result r = Inr (Available a) \<longleftrightarrow> r = Inr a \<or> r = Inl (Reply (Available a))"
  by (cases r rule: exit_result.cases) auto

section \<open>Routes\<close>

lemma best_quote_ok:
  "best_quote E n kind req plan c amount = Inr route \<Longrightarrow>
    \<exists>more. get_bridging_quotes (re_bungee E n) (ba_chain_id (bp_asset plan)) c (pr_chain_id req) (bp_contract plan)
      amount (pr_from req) = Inr (route # more)"
  unfolding best_quote_def bind_res_Inr_iff map_err_Inr_iff by (fastforce split: list.splits)

definition quoted :: "('k, 'q, 'b, 'l, 'v, 's, 'n, 'i, 'c) route_env \<Rightarrow> 'q \<Rightarrow> u256 \<Rightarrow> bool" where
  "quoted E route raw = (\<exists>text. re_to_amount E route = Inr text \<and> be_parse_u256 (re_balances E) text = Inr raw)"

lemma quoted_amount_ok:
  "quoted_amount E plan route = Inr x \<longleftrightarrow>
    (\<exists>raw. quoted E route raw \<and> x = convert_amount raw (bp_decimals plan) (ba_decimals (bp_asset plan)))"
  by (auto simp: quoted_amount_def quoted_def res_simps)

lemma approval_transactions_ok:
  "approval_transactions E req chain tx amount m = Inr (txs, m') \<Longrightarrow>
    (txs = [] \<and> m' = m) \<or> (\<exists>t n. txs = [t] \<and> tx_nonce t = n \<and> tx_value t = 0
      \<and> nonce_of (m (chain, pr_from req)) = Some n \<and> m' = m((chain, pr_from req) \<mapsto> Ready_nonce (n + 1)))"
  by (auto simp: approval_transactions_def res_simps next_nonce_ok Let_def split: option.splits if_splits
      dest!: get_nonce_ok)

lemma apply_simulation_ok:
  "apply_simulation ts rs = Inr ts' \<Longrightarrow> length rs \<le> length ts
    \<and> map (\<lambda>t. t \<lparr> tx_gas_limit := 0 \<rparr>) ts' = map (\<lambda>t. t \<lparr> tx_gas_limit := 0 \<rparr>) ts"
  by (induction ts rs arbitrary: ts' rule: apply_simulation.induct) (auto simp: res_simps split: if_splits)

lemma apply_simulation_nonces:
  assumes "apply_simulation ts rs = Inr ts'"
  shows "map tx_nonce ts' = map tx_nonce ts \<and> map tx_from ts' = map tx_from ts \<and> map tx_value ts' = map tx_value ts
    \<and> map tx_chain_id ts' = map tx_chain_id ts"
  using assms
  by (induction ts rs arbitrary: ts' rule: apply_simulation.induct) (auto simp: res_simps split: if_splits)

lemma estimate_native_ok:
  "estimate_native E t = Inr t' \<Longrightarrow> tx_nonce t' = tx_nonce t \<and> tx_from t' = tx_from t \<and> tx_value t' = tx_value t
    \<and> tx_chain_id t' = tx_chain_id t"
  by (auto simp: estimate_native_def res_simps split: if_splits)

lemma simulate_routes_ok:
  "simulate_routes E approvals t = Inr ts \<Longrightarrow> map tx_nonce ts = map tx_nonce (approvals @ [t])
    \<and> map tx_from ts = map tx_from (approvals @ [t]) \<and> map tx_value ts = map tx_value (approvals @ [t])
    \<and> map tx_chain_id ts = map tx_chain_id (approvals @ [t])"
  by (auto simp: simulate_routes_def Let_def res_simps simp del: map_append split: if_splits dest: apply_simulation_nonces)

lemma last_map_eq: "map f xs = map f ys \<Longrightarrow> xs \<noteq> [] \<Longrightarrow> f (last xs) = f (last ys)"
  by (metis last_map map_is_Nil_conv)

text \<open>The transactions of a route take consecutive nonces of the sender on the bridge chain, and the last one is
  the bridging transaction.\<close>

lemma route_transactions_ok:
  assumes "route_transactions E req chain tx amount m = Inr (txs, m')"
  shows "\<exists>n. nonce_of (m (chain, pr_from req)) = Some n \<and> length txs \<in> {1, 2}
    \<and> map tx_nonce txs = map (\<lambda>i. n + word_of_nat i) [0..<length txs]
    \<and> tx_from (last txs) = pr_from req \<and> tx_value (last txs) = bt_value tx
    \<and> m' = m((chain, pr_from req) \<mapsto> Ready_nonce (n + word_of_nat (length txs)))"
proof -
  obtain approvals m1 nonce bridging where
    a: "approval_transactions E req chain tx amount m = Inr (approvals, m1)"
    and n: "get_nonce chain (pr_from req) m1 = (Inr nonce, m')"
    and e: "estimate_native E \<lparr> tx_from = pr_from req, tx_to = bt_tx_target tx, tx_value = bt_value tx,
        tx_gas_limit = 0, tx_input = bt_tx_data tx, tx_nonce = nonce,
        tx_chain_id = ''eip155:'' @ show_nat (bt_chain_id tx) \<rparr> = Inr bridging"
    and s: "simulate_routes E approvals bridging = Inr txs"
    using assms unfolding route_transactions_def bind_res_Inr_iff
    by (clarsimp simp: next_nonce_ok bind_res_Inr_iff)
  note t = simulate_routes_ok [OF s]
  note b = estimate_native_ok [OF e, simplified]
  have len: "length txs = Suc (length approvals)" using t map_eq_imp_length_eq by fastforce
  then have "txs \<noteq> []" by auto
  then have l: "tx_from (last txs) = pr_from req" "tx_value (last txs) = bt_value tx"
    using t b last_map_eq [of tx_from txs "approvals @ [bridging]"] last_map_eq [of tx_value txs "approvals @ [bridging]"]
    by auto
  from approval_transactions_ok [OF a] show ?thesis
  proof
    assume "approvals = [] \<and> m1 = m"
    then show ?thesis using get_nonce_ok [OF n] t b l len by auto
  next
    assume "\<exists>t n. approvals = [t] \<and> tx_nonce t = n \<and> tx_value t = 0
      \<and> nonce_of (m (chain, pr_from req)) = Some n \<and> m1 = m((chain, pr_from req) \<mapsto> Ready_nonce (n + 1))"
    then obtain t k where "approvals = [t]" "tx_nonce t = k" "nonce_of (m (chain, pr_from req)) = Some k"
      "m1 = m((chain, pr_from req) \<mapsto> Ready_nonce (k + 1))" by blast
    then show ?thesis using get_nonce_ok [OF n] simulate_routes_ok [OF s] b l len
      by (auto simp: numeral_2_eq_2)
  qed
qed

section \<open>Properties of the core\<close>

lemma holds_balance_Some: "holds_balance usdc keccak chain sender name state \<Longrightarrow> state \<noteq> None"
  by (auto simp: holds_balance_def)

text \<open>C36: the simulation of a transaction is never stopped by the configuration.  Every contract of the bridging
  assets on a chain has its storage slot, so an override is computed for exactly the supported contracts of the
  chain, in which the sender holds the simulated balance of the asset, whatever the order of the static table;
  and the outcome is the provider's: its error, or the ERC-20 transfers it reports, in their order.\<close>

theorem simulation_overrides_supported:
  assumes "\<And>xs. set (assets xs) = set xs"
  shows "\<exists>overrides.
    (\<forall>a. overrides a = None \<longleftrightarrow> find_supported_bridging_asset usdc chain (Eip155_address a) = None)
    \<and> (\<forall>a name d. find_supported_bridging_asset usdc chain (Eip155_address a) = Some (name, d)
        \<longrightarrow> holds_balance usdc keccak chain sender name (overrides a))
    \<and> get_assets_changes_from_simulation usdc keccak assets simulate chain sender recipient input
      = (case simulate chain sender recipient input overrides of
           Inl e \<Rightarrow> Inl e
         | Inr t \<Rightarrow> Inr (List.map_filter (erc20_change chain) (case rt_asset_changes t of Some cs \<Rightarrow> cs | None \<Rightarrow> []),
             rt_gas t))"
proof -
  let ?assets = "assets (get_bridging_assets_contracts_for_chain usdc chain)"
  have rows: "(name, c) \<in> set ?assets \<longleftrightarrow> (\<exists>d. find_supported_bridging_asset usdc chain c = Some (name, d))" for name c
    using contracts_for_chain_iff [of name c usdc chain] assms by simp
  have slots: "\<forall>name c. (name, Eip155_address c) \<in> set ?assets \<longrightarrow> (\<exists>params slot.
      get_simulation_params_for_asset usdc name = Some params \<and> map_of (sp_balance_storage_slots params) chain = Some slot)"
    using slots_for_contracts assms by fastforce
  have names: "\<forall>name name' c. (name, Eip155_address c) \<in> set ?assets \<longrightarrow> (name', Eip155_address c) \<in> set ?assets
      \<longrightarrow> name' = name"
    unfolding rows by auto
  obtain ov where ov: "fill_overrides usdc keccak chain sender (\<lambda>_. None) (\<lambda>_. None) ?assets = Inr ov"
    "\<forall>a. (\<nexists>name. (name, Eip155_address a) \<in> set ?assets) \<longrightarrow> ov a = None"
    "\<forall>name a. (name, Eip155_address a) \<in> set ?assets \<longrightarrow> holds_balance usdc keccak chain sender name (ov a)"
    using fill_overrides_total [OF slots names] by blast
  have "ov a = None \<longleftrightarrow> find_supported_bridging_asset usdc chain (Eip155_address a) = None" for a
  proof (cases "find_supported_bridging_asset usdc chain (Eip155_address a)")
    case None
    then show ?thesis using ov(2) unfolding rows by simp
  next
    case (Some p)
    then have "holds_balance usdc keccak chain sender (fst p) (ov a)" using ov(3) unfolding rows by (cases p) auto
    then show ?thesis using Some holds_balance_Some by fastforce
  qed
  moreover have "get_assets_changes_from_simulation usdc keccak assets simulate chain sender recipient input
      = (case simulate chain sender recipient input ov of
           Inl e \<Rightarrow> Inl e
         | Inr t \<Rightarrow> Inr (List.map_filter (erc20_change chain) (case rt_asset_changes t of Some cs \<Rightarrow> cs | None \<Rightarrow> []),
             rt_gas t))"
    unfolding get_assets_changes_from_simulation_def ov(1)
    by (auto simp: List.map_filter_def split: sum.splits option.splits)
  ultimately show ?thesis using ov(3) unfolding rows by blast
qed

lemma simulation_overrides_supported_witness:
  "\<exists>overrides. overrides (address_lit ''0b2c639c533813f4aa9d7837caf62653d097ff85'') \<noteq> None
    \<and> get_assets_changes_from_simulation () id rev
       (\<lambda>_ _ _ _ _. Inr \<lparr> rt_hash = [], rt_gas = 7, rt_asset_changes = None, rt_status = True, rt_input = [] \<rparr>)
       ''eip155:10'' [] [] [] = Inr ([], 7)"
proof -
  have "(''eip155:10'', Eip155_address (address_lit ''0b2c639c533813f4aa9d7837caf62653d097ff85''))
      \<in> set (ae_contracts (snd (hd (BRIDGING_ASSETS ()))))"
    by (simp add: BRIDGING_ASSETS_def USDC_CONTRACTS_def)
  then have "find_supported_bridging_asset () ''eip155:10''
      (Eip155_address (address_lit ''0b2c639c533813f4aa9d7837caf62653d097ff85'')) \<noteq> None"
    by (simp add: find_supported_bridging_asset_def BRIDGING_ASSETS_def)
  then show ?thesis
    using simulation_overrides_supported [of rev "()" "''eip155:10''" id "[]"
        "\<lambda>_ _ _ _ _. Inr \<lparr> rt_hash = [], rt_gas = 7, rt_asset_changes = None, rt_status = True, rt_input = [] \<rparr>" "[]" "[]"]
    by (fastforce simp: List.map_filter_def)
qed

text \<open>C35: the nonce manager hands out, for each account on each chain, the nonce of the chain first and then one more
  each time, whatever the order in which accounts are made known and nonces are taken; making an account known
  again changes nothing.\<close>

theorem nonces_consecutive:
  assumes "known_before {} ops" and "\<And>c a. fetch c a = Inr (Inr (first (c, a)))"
  shows "run_nonce_ops fetch ops (\<lambda>_. None) = Inr (counted_nonces first ops)"
  by (rule run_nonce_ops_counts [OF assms(1)]) (simp_all add: assms(2))

lemma nonces_consecutive_witness:
  "run_nonce_ops (\<lambda>_ _. Inr (Inr 5)) [Init_nonce ''a'' [], Take_nonce ''a'' [], Init_nonce ''a'' [],
     Init_nonce ''b'' [], Take_nonce ''a'' [], Take_nonce ''b'' []] (\<lambda>_. None) = Inr [5, 6, 5]"
  using nonces_consecutive [of "[Init_nonce ''a'' [], Take_nonce ''a'' [], Init_nonce ''a'' [],
     Init_nonce ''b'' [], Take_nonce ''a'' [], Take_nonce ''b'' []]" "\<lambda>_ _. Inr (Inr 5)" "\<lambda>_. 5"] by simp

text \<open>C17: the choice of the asset to bridge.  A chosen asset is a contract of the table that is not excluded, held by
  one of the accounts on its chain, whose balance is at least the asked amount as rational numbers.  It has the
  preferred symbol, or no asset that is enough has it and the chosen one is the highest of them.  Nothing is
  chosen only if nothing is enough, the comparison never panics, and an error is one of a balance; all this for
  every order in which the hash map is walked.\<close>

theorem bridging_asset_choice:
  assumes "\<And>xs. set (order xs) = set xs" "bq_amount_token_decimals q \<le> 77"
  shows "case check_bridging_for_erc20_transfer usdc order B q of
      Inl e \<Rightarrow> \<exists>f chain a c. e = Failure f \<and> source_balance B chain a c = Inl f
    | Inr None \<Rightarrow> \<forall>a. candidate usdc B q a \<longrightarrow> \<not> enough q a
    | Inr (Some a) \<Rightarrow> candidate usdc B q a \<and> enough q a
        \<and> (ba_token_symbol a = bq_token_symbol_priority q
           \<or> (\<forall>b. candidate usdc B q b \<and> enough q b \<longrightarrow> ba_token_symbol b \<noteq> bq_token_symbol_priority q \<and> at_most b a))"
  using assms by (rule check_bridging_result)


definition demo_balances :: "unit balance_env" where
  "demo_balances = \<lparr> be_native = (\<lambda>_ _. Inr 0), be_contract = (\<lambda>_ _ _. Inr 5), be_ata = (\<lambda>k _. k),
     be_token_account = (\<lambda>_. Inr ''5''), be_parse_u256 = (\<lambda>_. Inr 5) \<rparr>"

definition demo_bridging_query :: "unit bridging_query" where
  "demo_bridging_query = \<lparr> bq_value = 5, bq_accounts = [(None, Eip155_address address_zero)], bq_exclude_chain_id = ''eip155:10'',
     bq_exclude_contract_address = Eip155_address (address_lit ''0b2c639c533813f4aa9d7837caf62653d097ff85''),
     bq_token_symbol_priority = ''USDC'', bq_amount_token_decimals = 6, bq_only_token_symbol = None,
     bq_exclude_token_symbol = Some ''ETH'' \<rparr>"

lemma bridging_asset_choice_witness:
  "\<exists>a. check_bridging_for_erc20_transfer () rev demo_balances demo_bridging_query = Inr (Some a) \<and> ba_token_symbol a = ''USDC''
    \<and> ba_chain_id a \<noteq> ''eip155:10''"
proof -
  let ?r = "check_bridging_for_erc20_transfer () rev demo_balances demo_bridging_query"
  have "bq_amount_token_decimals demo_bridging_query \<le> 77" by (simp add: demo_bridging_query_def)
  note choice = bridging_asset_choice [where order = rev and q = demo_bridging_query and usdc = "()" and B = demo_balances, OF set_rev this]
  let ?usdc = "\<lparr> ba_chain_id = ''eip155:8453'', ba_account = Eip155_address address_zero, ba_token_symbol = ''USDC'',
      ba_contract_address = Eip155_address (address_lit ''833589fCD6eDb6E08f4c7C32D4f71b54bdA02913''), ba_decimals = 6,
      ba_current_balance = 5 \<rparr> :: unit bridging_asset"
  have balance: "\<exists>b. source_balance demo_balances chain a c = Inr b" for chain a c
    by (cases a; cases c) (auto simp: source_balance_def demo_balances_def get_erc20_balance_def)
  have usdc: "candidate () demo_balances demo_bridging_query ?usdc" "enough demo_bridging_query ?usdc"
    by (auto simp: candidate_def enough_def asset_table_defs literal_addresses is_excluded_def demo_bridging_query_def
        accounts_on_def List.map_filter_def source_balance_def demo_balances_def get_erc20_balance_def numeral_eq_Suc)
  then have symbol: "ba_token_symbol ?usdc = bq_token_symbol_priority demo_bridging_query" by (simp add: demo_bridging_query_def)
  show ?thesis
  proof (cases ?r)
    case (Inl e)
    then obtain f chain a c where "source_balance demo_balances chain a c = Inl f" using choice by auto
    then show ?thesis using balance [of chain a c] by simp
  next
    case (Inr r)
    show ?thesis
    proof (cases r)
      case None
      then show ?thesis using choice Inr usdc by auto
    next
      case (Some a)
      then have a: "candidate () demo_balances demo_bridging_query a" "ba_token_symbol a = bq_token_symbol_priority demo_bridging_query"
        using choice Inr usdc symbol by auto
      have "ba_chain_id a \<noteq> ''eip155:10''"
        using a by (auto simp: candidate_def demo_bridging_query_def asset_table_defs is_excluded_def)
      then show ?thesis using a Inr Some by (simp add: demo_bridging_query_def)
    qed
  qed
qed

section \<open>Properties of the quoted routes\<close>

lemma required_topup_exact:
  assumes "fee \<le> topup" "unat topup * 250 < 2 ^ 256"
  shows "unat (required_topup topup fee) = unat topup + unat fee + unat fee * 250 div 100"
proof -
  have le: "unat fee \<le> unat topup" using assms(1) by (simp add: word_le_nat_alt)
  have "unat (fee * 250) = unat fee * 250"
    using unat_mult_exact [of fee 250] assms(2) le by simp
  then have div: "unat (fee * 250 div 100) = unat fee * 250 div 100" by (simp add: unat_div)
  have sum: "unat (topup + fee) = unat topup + unat fee"
    using le assms(2) by (intro unat_add_exact) simp
  have "unat (fee * 250 div 100 + (topup + fee)) = unat fee * 250 div 100 + (unat topup + unat fee)"
    using le assms(2) by (subst unat_add_exact) (simp_all add: div sum)
  then show ?thesis by (simp add: required_topup_def BRIDGING_FEE_SLIPPAGE_def)
qed

lemma quoted_route_ok:
  assumes "quoted_route E req plan contract m = Inr ((txs, bridged, fee), m')"
  shows "\<exists>first first_fee final routes tx n.
    best_quote E 0 '' for an initial amount '' req plan contract (bp_topup plan) = Inr first
    \<and> (\<exists>amount. quoted_amount E plan first = Inr amount
        \<and> unat first_fee = unat (bp_topup plan) - unat amount)
    \<and> required_topup (bp_topup plan) first_fee \<le> ba_current_balance (bp_asset plan)
    \<and> (unat (bp_topup plan) * 250 < 2 ^ 256 \<longrightarrow> unat (required_topup (bp_topup plan) first_fee)
        = unat (bp_topup plan) + unat first_fee + unat first_fee * 250 div 100)
    \<and> best_quote E 1 '' for updated (fee included) amount: '' req plan contract (required_topup (bp_topup plan) first_fee)
        = Inr final
    \<and> quoted_amount E plan final = Inr bridged \<and> unat bridged = unat (bp_topup plan) + unat fee
    \<and> build_bridging_tx (re_bungee E 1) final = Inr tx
    \<and> txs = [Eip155_transactions routes] \<and> length routes \<in> {1, 2}
    \<and> nonce_of (m (ba_chain_id (bp_asset plan), pr_from req)) = Some n
    \<and> map tx_nonce routes = map (\<lambda>i. n + word_of_nat i) [0..<length routes]
    \<and> tx_from (last routes) = pr_from req \<and> tx_value (last routes) = bt_value tx
    \<and> m' = m((ba_chain_id (bp_asset plan), pr_from req) \<mapsto> Ready_nonce (n + word_of_nat (length routes)))"
proof -
  obtain first amount where first: "best_quote E 0 '' for an initial amount '' req plan contract (bp_topup plan) = Inr first"
      "quoted_amount E plan first = Inr amount"
    using assms unfolding quoted_route_def Let_def bind_res_Inr_iff by blast
  define first_fee where "first_fee = (if bp_topup plan < amount then 0 else bp_topup plan - amount)"
  have rest: "\<not> ba_current_balance (bp_asset plan) < required_topup (bp_topup plan) first_fee \<and>
     (\<exists>final tx routes. best_quote E 1 '' for updated (fee included) amount: '' req plan contract
          (required_topup (bp_topup plan) first_fee) = Inr final
      \<and> quoted_amount E plan final = Inr bridged \<and> \<not> bridged < bp_topup plan
      \<and> build_bridging_tx (re_bungee E 1) final = Inr tx
      \<and> route_transactions E req (ba_chain_id (bp_asset plan)) tx (required_topup (bp_topup plan) first_fee) m
          = Inr (routes, m')
      \<and> txs = [Eip155_transactions routes] \<and> fee = bridged - bp_topup plan)"
    using assms unfolding quoted_route_def Let_def first bind_res.simps first_fee_def [symmetric]
    by (auto simp: res_simps split: if_splits)
  then obtain final tx routes where final:
      "best_quote E 1 '' for updated (fee included) amount: '' req plan contract (required_topup (bp_topup plan) first_fee)
        = Inr final"
      "quoted_amount E plan final = Inr bridged" "\<not> bridged < bp_topup plan"
      "build_bridging_tx (re_bungee E 1) final = Inr tx"
      "txs = [Eip155_transactions routes]" "fee = bridged - bp_topup plan"
    and routes: "route_transactions E req (ba_chain_id (bp_asset plan)) tx (required_topup (bp_topup plan) first_fee) m
        = Inr (routes, m')"
    by blast
  have fees: "unat first_fee = unat (bp_topup plan) - unat amount" "first_fee \<le> bp_topup plan"
    by (auto simp: first_fee_def unat_sub word_le_nat_alt word_less_nat_alt)
  have "unat bridged = unat (bp_topup plan) + unat fee"
    using final(3) by (simp add: final(6) unat_sub word_le_nat_alt word_less_nat_alt)
  then show ?thesis
    using first final fees rest route_transactions_ok [OF routes] required_topup_exact [OF fees(2)]
    by (intro exI [of _ first] exI [of _ first_fee] exI [of _ final] exI [of _ routes] exI [of _ tx]) auto
qed

text \<open>C34: a route from quotes.  If it is made, then the amount it bridges, in the decimals of the bridging token, is the
  second quote's, it is at least the top-up, and the reported fee is what it exceeds the top-up by; the second
  quote is for the top-up, the fee of the first quote and two and a half times that fee, exactly unless the top-up
  is beyond 1/250 of the range, and the chosen asset has that much; and the one or two transactions take the next
  consecutive nonces of the sender on the bridging chain, the last one being the bridging transaction.\<close>

theorem quoted_route_amounts:
  assumes "quoted_route E req plan contract m = Inr ((txs, bridged, fee), m')"
  shows "\<exists>first first_fee final routes tx n.
    best_quote E 0 '' for an initial amount '' req plan contract (bp_topup plan) = Inr first
    \<and> (\<exists>amount. quoted_amount E plan first = Inr amount
        \<and> unat first_fee = unat (bp_topup plan) - unat amount)
    \<and> required_topup (bp_topup plan) first_fee \<le> ba_current_balance (bp_asset plan)
    \<and> (unat (bp_topup plan) * 250 < 2 ^ 256 \<longrightarrow> unat (required_topup (bp_topup plan) first_fee)
        = unat (bp_topup plan) + unat first_fee + unat first_fee * 250 div 100)
    \<and> best_quote E 1 '' for updated (fee included) amount: '' req plan contract (required_topup (bp_topup plan) first_fee)
        = Inr final
    \<and> quoted_amount E plan final = Inr bridged \<and> unat bridged = unat (bp_topup plan) + unat fee
    \<and> build_bridging_tx (re_bungee E 1) final = Inr tx
    \<and> txs = [Eip155_transactions routes] \<and> length routes \<in> {1, 2}
    \<and> nonce_of (m (ba_chain_id (bp_asset plan), pr_from req)) = Some n
    \<and> map tx_nonce routes = map (\<lambda>i. n + word_of_nat i) [0..<length routes]
    \<and> tx_from (last routes) = pr_from req \<and> tx_value (last routes) = bt_value tx"
  using quoted_route_ok [OF assms] by blast

text \<open>An environment in which every service answers.\<close>

definition demo_bungee :: "(unit, unit) bungee" where
  "demo_bungee = \<lparr> bg_show_address = (\<lambda>_. []), bg_get = (\<lambda>_ _. Answered 200 ()), bg_build = (\<lambda>_. Answered 200 ()),
     bg_quotes_json = (\<lambda>_. Inr [()]), bg_build_json = (\<lambda>_. Inr \<lparr> bt_chain_id = 8453, bt_tx_data = [], bt_tx_target = [],
       bt_value = 1, bt_approval_data = None \<rparr>), bg_allowance_json = (\<lambda>_. Inr 0), bg_approval_json = (\<lambda>_. Inl []) \<rparr>"

definition demo_lifi_quote :: lifi_eip155_quote where
  "demo_lifi_quote = \<lparr> lq_from_amount = 4, lq_from_token = [1], lq_approval_address = [2], lq_chain_id = 8453, lq_data = [],
     lq_from = address_zero, lq_to = [], lq_value = 0, lq_gas_limit = 9 \<rparr>"

definition demo_route ::
  "(unit, unit, unit, unit, unit, (nat \<times> string \<Rightarrow> storage_bridging_item option)
      \<times> (nat \<times> string \<times> string \<Rightarrow> storage_bridging_item option), nat, storage_bridging_item, unit) route_env" where
  "demo_route = \<lparr> re_usdc = (), re_solana_mainnet = ''solana'', re_order = rev, re_assets = rev, re_keccak = id,
     re_selectors = \<lparr> sel_balance_of = [], sel_transfer = [], sel_approve = [], sel_transfer_from = [], sel_allowance = [] \<rparr>,
     re_abi_transfer = (\<lambda>_. Inl []),
     re_tenderly = \<lparr> td_base_api_url = [], td_url_ok = (\<lambda>_. True), td_post = (\<lambda>_. Answered 200 ()),
       td_post_bundle = (\<lambda>_. Answered 200 ()), td_json = (\<lambda>_. Inl []), td_json_bundle = (\<lambda>_. Inl []) \<rparr>,
     re_gas_pool = None, re_show_error = (\<lambda>_. []), re_show_address = (\<lambda>_. []), re_show_key = (\<lambda>_. []),
     re_balances = demo_balances, re_bungee = (\<lambda>_. demo_bungee), re_to_amount = (\<lambda>_. Inr ''5''),
     re_fetch_nonce = (\<lambda>_ _. Inr (Inr 7)), re_gas_estimate = (\<lambda>_ _ _ _ _. Inr 100), re_address = (\<lambda>_. None),
     re_pubkey = (\<lambda>_. None), re_lifi = (\<lambda>_. Inr ()), re_lifi_solana = (\<lambda>_. Inl []),
     re_lifi_eip155 = (\<lambda>_. Inr demo_lifi_quote), re_b64 = (\<lambda>_. Inl []), re_bincode = (\<lambda>_. Inl []),
     re_allowance = (\<lambda>_ _ _ _. Inr 3), re_approve_calldata = (\<lambda>_ _. []), re_uuid = ''id'', re_now = 1000,
     re_irn = Some (map_irn 0), re_item_json = Inr \<rparr>"

definition demo_prepare :: prepare_request where
  "demo_prepare = \<lparr> pr_chain_id = ''eip155:10'', pr_from = address_zero, pr_calls = [], pr_accounts = [],
     pr_use_lifi = False \<rparr>"

definition demo_plan :: "unit bridging_plan" where
  "demo_plan = \<lparr> bp_asset = \<lparr> ba_chain_id = ''eip155:8453'', ba_account = Eip155_address address_zero,
       ba_token_symbol = ''USDC'', ba_contract_address = Eip155_address [1], ba_decimals = 6, ba_current_balance = 5 \<rparr>,
     bp_contract = [3], bp_symbol = ''USDC'', bp_decimals = 6, bp_topup = 5 \<rparr>"

lemmas demo_defs = demo_balances_def demo_bungee_def demo_route_def demo_prepare_def demo_plan_def

lemma demo_caip2:
  "disassemble_caip2 ''eip155:10'' = Inr (Eip155, ''10'')" "disassemble_caip2 ''eip155:8453'' = Inr (Eip155, ''8453'')"
  by code_simp+

lemma demo_quote: "best_quote demo_route n kind demo_prepare demo_plan c amount = Inr ()"
  by (simp add: best_quote_def get_bridging_quotes_def read_answer_def http_success_def demo_defs demo_caip2)

lemma demo_quoted_amount: "quoted_amount demo_route demo_plan r = Inr 5"
  by (simp add: quoted_amount_def convert_amount_def cmp_ord_def demo_defs)

lemma demo_transactions:
  "\<exists>tx. build_bridging_tx demo_bungee () = Inr tx \<and> (\<exists>txs m'. route_transactions demo_route demo_prepare ''eip155:8453'' tx 5
     [(''eip155:8453'', address_zero) \<mapsto> Ready_nonce 7] = Inr (txs, m'))"
  by (simp add: build_bridging_tx_def read_answer_def http_success_def route_transactions_def approval_transactions_def
      next_nonce_def get_nonce_def estimate_native_def simulate_routes_def with_gas_slippage_def ESTIMATED_GAS_SLIPPAGE_def demo_defs)

lemma demo_quoted_route:
  "\<exists>txs m'. quoted_route demo_route demo_prepare demo_plan [1] [(''eip155:8453'', address_zero) \<mapsto> Ready_nonce 7]
     = Inr ((txs, 5, 0), m')"
proof -
  have plan: "bp_topup demo_plan = 5" "ba_current_balance (bp_asset demo_plan) = 5"
    "ba_chain_id (bp_asset demo_plan) = ''eip155:8453''" by (simp_all add: demo_plan_def)
  have required: "required_topup 5 0 = 5" by (simp add: required_topup_def BRIDGING_FEE_SLIPPAGE_def)
  obtain tx txs m' where "build_bridging_tx demo_bungee () = Inr tx"
    "route_transactions demo_route demo_prepare ''eip155:8453'' tx 5
      [(''eip155:8453'', address_zero) \<mapsto> Ready_nonce 7] = Inr (txs, m')"
    using demo_transactions by blast
  moreover have "re_bungee demo_route n = demo_bungee" for n by (simp add: demo_route_def)
  ultimately show ?thesis
    by (simp add: quoted_route_def demo_quote demo_quoted_amount plan required)
qed

lemma quoted_route_amounts_witness:
  "\<exists>routes m'. quoted_route demo_route demo_prepare demo_plan [1] [(''eip155:8453'', address_zero) \<mapsto> Ready_nonce 7]
      = Inr (([Eip155_transactions routes], 5, 0), m') \<and> tx_nonce (hd routes) = 7"
proof -
  obtain txs m' where route: "quoted_route demo_route demo_prepare demo_plan [1]
      [(''eip155:8453'', address_zero) \<mapsto> Ready_nonce 7] = Inr ((txs, 5, 0), m')"
    using demo_quoted_route by blast
  from quoted_route_amounts [OF route] obtain routes n where
    "txs = [Eip155_transactions routes]" "length routes \<in> {1, 2}"
    "nonce_of ([(''eip155:8453'', address_zero) \<mapsto> Ready_nonce 7] (ba_chain_id (bp_asset demo_plan), pr_from demo_prepare))
      = Some n" "map tx_nonce routes = map (\<lambda>i. n + word_of_nat i) [0..<length routes]"
    by blast
  then show ?thesis using route by (cases routes) (auto simp: demo_plan_def demo_prepare_def upt_conv_Cons)
qed

section \<open>Plans\<close>

definition asked_query ::
  "prepare_request \<Rightarrow> transfer \<Rightarrow> u256 \<Rightarrow> string \<Rightarrow> u8 \<Rightarrow> (string option \<times> 'k chain_address) list \<Rightarrow> 'k bridging_query" where
  "asked_query req t topup symbol decimals accounts = \<lparr> bq_value = topup, bq_accounts = accounts,
     bq_exclude_chain_id = pr_chain_id req, bq_exclude_contract_address = Eip155_address (tf_contract t),
     bq_token_symbol_priority = symbol, bq_amount_token_decimals = decimals,
     bq_only_token_symbol = (if tf_native t then Some ''ETH'' else None),
     bq_exclude_token_symbol = (if \<not> tf_native t then Some ''ETH'' else None) \<rparr>"

lemma plan_bridging_steps:
  assumes plan: "plan_bridging E req first_call t m = Inr (plan, balance)"
  obtains accounts where
    "get_erc20_balance (re_balances E) (pr_chain_id req) (tf_contract t) (pr_from req) = Inr balance"
    "balance < tf_value t"
    "find_supported_bridging_asset (re_usdc E) (pr_chain_id req) (Eip155_address (tf_contract t))
      = Some (bp_symbol plan, bp_decimals plan)"
    "request_accounts E req = Inr accounts"
    "check_bridging_for_erc20_transfer (re_usdc E) (re_order E) (re_balances E)
      (asked_query req t (tf_value t - balance) (bp_symbol plan) (bp_decimals plan) accounts) = Inr (Some (bp_asset plan))"
    "bp_contract plan = tf_contract t"
    "bp_topup plan = convert_amount (tf_value t - balance) (bp_decimals plan) (ba_decimals (bp_asset plan))"
proof -
  note p = plan [unfolded plan_bridging_def Let_def asked_query_def [symmetric]]
  obtain b where b: "get_erc20_balance (re_balances E) (pr_chain_id req) (tf_contract t) (pr_from req) = Inr b"
    using p by (auto simp only: bind_res_Inr_iff map_err_Inr_iff)
  then have n: "\<not> tf_value t \<le> b" using p by (auto simp: res_simps)
  obtain symbol decimals where f: "find_supported_bridging_asset (re_usdc E) (pr_chain_id req)
      (Eip155_address (tf_contract t)) = Some (symbol, decimals)"
    using p b n by (cases "find_supported_bridging_asset (re_usdc E) (pr_chain_id req) (Eip155_address (tf_contract t))") auto
  obtain accounts where a: "request_accounts E req = Inr accounts"
    using p b n f by (cases "request_accounts E req") auto
  obtain asset where c: "check_bridging_for_erc20_transfer (re_usdc E) (re_order E) (re_balances E)
      (asked_query req t (tf_value t - b) symbol decimals accounts) = Inr (Some asset)"
    using p b n f a by (cases "check_bridging_for_erc20_transfer (re_usdc E) (re_order E) (re_balances E)
      (asked_query req t (tf_value t - b) symbol decimals accounts)") (auto simp: res_simps)
  have "plan = \<lparr> bp_asset = asset, bp_contract = tf_contract t, bp_symbol = symbol, bp_decimals = decimals,
      bp_topup = convert_amount (tf_value t - b) decimals (ba_decimals asset) \<rparr>" "balance = b"
    using p b n f a c by (auto simp: res_simps)
  then show ?thesis using b n f a c by (intro that) auto
qed

lemma plan_bridging_ok:
  assumes plan: "plan_bridging E req first_call t m = Inr (plan, balance)" and order: "\<And>xs. set (re_order E xs) = set xs"
  shows "unat (bp_decimals plan) \<in> {6, 18} \<and> unat (ba_decimals (bp_asset plan)) \<in> {6, 18}
    \<and> (\<exists>accounts q. request_accounts E req = Inr accounts
      \<and> q = asked_query req t (tf_value t - balance) (bp_symbol plan) (bp_decimals plan) accounts
      \<and> candidate (re_usdc E) (re_balances E) q (bp_asset plan) \<and> enough q (bp_asset plan))"
proof -
  obtain accounts where s: "find_supported_bridging_asset (re_usdc E) (pr_chain_id req) (Eip155_address (tf_contract t))
      = Some (bp_symbol plan, bp_decimals plan)" "request_accounts E req = Inr accounts"
    and c: "check_bridging_for_erc20_transfer (re_usdc E) (re_order E) (re_balances E)
      (asked_query req t (tf_value t - balance) (bp_symbol plan) (bp_decimals plan) accounts) = Inr (Some (bp_asset plan))"
    using plan_bridging_steps [OF plan] by metis
  let ?q = "asked_query req t (tf_value t - balance) (bp_symbol plan) (bp_decimals plan) accounts"
  have d: "unat (bp_decimals plan) \<in> {6, 18}" using s(1) unfolding find_supported_iff by (auto dest: bridging_decimals_values)
  then have "bq_amount_token_decimals ?q \<le> 77" by (auto simp: word_le_nat_alt asked_query_def)
  then have asset: "candidate (re_usdc E) (re_balances E) ?q (bp_asset plan)" "enough ?q (bp_asset plan)"
    using check_bridging_result [where order = "re_order E" and q = ?q and usdc = "re_usdc E" and B = "re_balances E"] order c by auto
  then have "unat (ba_decimals (bp_asset plan)) \<in> {6, 18}" unfolding candidate_def by (auto dest: bridging_decimals_values)
  with d s asset show ?thesis by blast
qed

lemma unat_convert_up_le:
  assumes "from_d \<le> to" "unat to - unat from_d \<le> 77"
  shows "unat (convert_amount a from_d to) \<le> unat a * 10 ^ (unat to - unat from_d)"
proof (cases "unat a * 10 ^ (unat to - unat from_d) < 2 ^ 256")
  case True
  then show ?thesis using unat_convert_up [OF assms(1) True assms(2)] by simp
next
  case False
  have "unat (convert_amount a from_d to) < 2 ^ LENGTH(256)" by (rule unsigned_less)
  then show ?thesis using False by simp
qed

text \<open>The product with the power of ten wraps around: so many units of a token with 6 decimals are none of one with 18.\<close>

lemma convert_amount_wraps: "convert_amount (2 ^ 244) 6 18 = 0"
  by (simp add: convert_amount_def cmp_ord_def)

text \<open>C14: what a bridging by quotes delivers.  When a plan is made and its route found (the order in which hash maps are
  walked is a permutation), the top-up is what the sender misses, converted to the decimals of the bridged token:
  divided by the power of ten, or multiplied by it modulo 2 to the 256.  If that product does not wrap, the amount
  \<open>raw\<close> that the bridge promises, in units of the transferred token, and the balance of the sender reach the value of the
  transfer up to the truncation between the decimals: they may miss it by less than ten to the difference of the
  decimals, and miss nothing when the bridged token has at least as many decimals.\<close>

theorem quoted_route_delivers:
  assumes order: "\<And>xs. set (re_order E xs) = set xs"
    and plan: "plan_bridging E req first_call t m = Inr (plan, balance)"
    and route: "quoted_route E req plan contract m1 = Inr ((txs, bridged, fee), m')"
  shows "let d = unat (bp_decimals plan); s = unat (ba_decimals (bp_asset plan));
      missing = unat (tf_value t) - unat balance in
    balance < tf_value t
    \<and> unat (bp_topup plan) = (if s \<le> d then missing div 10 ^ (d - s) else missing * 10 ^ (s - d) mod 2 ^ 256)
    \<and> (missing * 10 ^ (s - d) < 2 ^ 256 \<longrightarrow> (\<exists>amount final raw.
        best_quote E 1 '' for updated (fee included) amount: '' req plan contract amount = Inr final \<and> quoted E final raw
        \<and> unat (tf_value t) < unat balance + unat raw + 10 ^ (d - s)))"
proof -
  let ?d = "bp_decimals plan" and ?s = "ba_decimals (bp_asset plan)"
  obtain accounts where less: "balance < tf_value t"
    and topup: "bp_topup plan = convert_amount (tf_value t - balance) ?d ?s"
    using plan_bridging_steps [OF plan] by metis
  have dec: "unat ?d \<in> {6, 18}" "unat ?s \<in> {6, 18}" using plan_bridging_ok [OF plan order] by auto
  obtain amount final where final: "best_quote E 1 '' for updated (fee included) amount: '' req plan contract amount = Inr final"
      "quoted_amount E plan final = Inr bridged" and enough: "unat bridged = unat (bp_topup plan) + unat fee"
    using quoted_route_ok [OF route] by blast
  then obtain raw where raw: "quoted E final raw" "bridged = convert_amount raw ?d ?s" unfolding quoted_amount_ok by blast
  have missing: "unat (tf_value t - balance) = unat (tf_value t) - unat balance"
    using less by (simp add: unat_sub word_less_nat_alt word_le_nat_alt)
  have top: "unat (bp_topup plan) = (if unat ?s \<le> unat ?d then unat (tf_value t - balance) div 10 ^ (unat ?d - unat ?s)
      else unat (tf_value t - balance) * 10 ^ (unat ?s - unat ?d) mod 2 ^ 256)"
  proof (cases "?s \<le> ?d")
    case True
    moreover have "unat ?d - unat ?s \<le> 77" using dec by auto
    ultimately show ?thesis using unat_convert_down [OF True] unfolding topup by (simp add: word_le_nat_alt)
  next
    case False
    then have "?d < ?s" by simp
    moreover have "unat ?s - unat ?d \<le> 77" using dec by auto
    ultimately show ?thesis
      unfolding topup unat_convert_wraps [of ?d ?s, OF \<open>?d < ?s\<close> \<open>unat ?s - unat ?d \<le> 77\<close>]
      by (simp add: word_less_nat_alt)
  qed
  have "unat (tf_value t - balance) < unat raw + 10 ^ (unat ?d - unat ?s)"
    if fits: "unat (tf_value t - balance) * 10 ^ (unat ?s - unat ?d) < 2 ^ 256"
  proof (cases "?s \<le> ?d")
    case True
    let ?k = "10 ^ (unat ?d - unat ?s) :: nat"
    have k: "unat ?d - unat ?s \<le> 77" using dec by auto
    have "unat (tf_value t - balance) div ?k \<le> unat raw div ?k"
      using enough unfolding topup raw(2) unat_convert_down [OF True k] by simp
    then have "unat (tf_value t - balance) div ?k * ?k \<le> unat raw"
      by (meson div_times_less_eq_dividend le_trans mult_le_mono1)
    moreover have "unat (tf_value t - balance) mod ?k < ?k" by simp
    ultimately show ?thesis using div_mult_mod_eq [of "unat (tf_value t - balance)" ?k] by linarith
  next
    case False
    then have le: "?d \<le> ?s" and exp: "unat ?s - unat ?d = 12" "unat ?d - unat ?s = 0"
      using dec by (auto simp: word_le_nat_alt)
    have "unat (tf_value t - balance) * 10 ^ 12 \<le> unat bridged"
      using enough unat_convert_up [OF le fits] unfolding topup exp by simp
    also have "unat bridged \<le> unat raw * 10 ^ 12"
      using unat_convert_up_le [OF le, of raw] unfolding raw(2) exp by simp
    finally show ?thesis unfolding exp by simp
  qed
  then have "unat (tf_value t) < unat balance + unat raw + 10 ^ (unat ?d - unat ?s)"
    if "(unat (tf_value t) - unat balance) * 10 ^ (unat ?s - unat ?d) < 2 ^ 256"
    using that unfolding missing by linarith
  then show ?thesis using less top final raw(1) unfolding Let_def missing by blast
qed

text \<open>Just under a millionth of a token with 18 decimals is asked for, and nothing of one with 6 decimals is bridged.\<close>

definition small_env ::
  "(unit, unit, unit, unit, unit, (nat \<times> string \<Rightarrow> storage_bridging_item option)
      \<times> (nat \<times> string \<times> string \<Rightarrow> storage_bridging_item option), nat, storage_bridging_item, unit) route_env" where
  "small_env = demo_route \<lparr> re_order := id, re_balances := demo_balances \<lparr> be_contract := (\<lambda>_ c _.
     Inr (if c = address_lit ''820c137fa70c8691f0e44dc420a5e53c168921dc'' then 0 else 5)), be_parse_u256 := (\<lambda>_. Inr 0) \<rparr> \<rparr>"

definition small_transfer :: transfer where
  "small_transfer = \<lparr> tf_native = False, tf_value = 999999999999,
     tf_contract = address_lit ''820c137fa70c8691f0e44dc420a5e53c168921dc'', tf_receiver = [], tf_gas_used = 100 \<rparr>"

definition small_request :: prepare_request where
  "small_request = demo_prepare \<lparr> pr_chain_id := ''eip155:8453'' \<rparr>"

definition small_asset :: "unit bridging_asset" where
  "small_asset = \<lparr> ba_chain_id = ''eip155:10'', ba_account = Eip155_address address_zero, ba_token_symbol = ''USDC'',
     ba_contract_address = Eip155_address (address_lit ''0b2c639c533813f4aa9d7837caf62653d097ff85''), ba_decimals = 6,
     ba_current_balance = 5 \<rparr>"

definition small_query :: "unit bridging_query" where
  "small_query = asked_query small_request small_transfer 999999999999 ''USDS'' 18 [(None, Eip155_address address_zero)]"

lemma small_groups:
  "contracts_per_chain small_query (BRIDGING_ASSETS ()) [] =
    [((''USDC'', ''eip155:10'', 6), [Eip155_address (address_lit ''0b2c639c533813f4aa9d7837caf62653d097ff85'')]),
     ((''USDC'', ''eip155:8453'', 6), [Eip155_address (address_lit ''833589fCD6eDb6E08f4c7C32D4f71b54bdA02913'')]),
     ((''USDC'', ''eip155:42161'', 6), [Eip155_address (address_lit ''af88d065e77c8cC2239327C5EDb3A432268e5831'')]),
     ((''USDC'', ''solana:5eykt4UsFv8P8NJdTREpY1vzqKqZKvdp'', 6), [Solana_address ()]),
     ((''USDT'', ''eip155:10'', 6), [Eip155_address (address_lit ''94b008aA00579c1307B0EF2c499aD98a8ce58e58'')]),
     ((''USDT'', ''eip155:42161'', 6), [Eip155_address (address_lit ''Fd086bC7CD5C481DCC9C85ebE478A1C0b69FCbb9'')])]"
  by (simp add: asset_table_defs literal_addresses is_excluded_def small_query_def asked_query_def small_request_def
      small_transfer_def demo_prepare_def)

lemma small_balances:
  "get_balances_of_all_source_tokens (re_balances small_env) (accounts_on small_query chain) chain [Solana_address ()] = Inr []"
  "c \<noteq> address_lit ''820c137fa70c8691f0e44dc420a5e53c168921dc'' \<Longrightarrow> c \<noteq> replicate 20 0xee \<Longrightarrow>
    get_balances_of_all_source_tokens (re_balances small_env) (accounts_on small_query chain) chain [Eip155_address c]
      = Inr [(Eip155_address address_zero, Eip155_address c, 5)]"
  by (simp_all add: accounts_on_def small_query_def asked_query_def List.map_filter_def source_balance_def
      get_erc20_balance_def small_env_def demo_defs)

lemma small_compare:
  "token_ge (token_amount_new 5 6) (token_amount_new 999999999999 18) = Some True"
  "token_le (token_amount_new 5 6) (token_amount_new 5 6) = Some True"
  by (simp_all add: token_ge_exact token_le_exact valid_decimals_def token_amount_new_def exact_cmp_le)

lemma small_choice:
  "check_bridging_for_erc20_transfer () id (re_balances small_env) small_query = Inr (Some small_asset)"
proof -
  have q: "bq_value small_query = 999999999999" "bq_amount_token_decimals small_query = 18"
    "bq_token_symbol_priority small_query = ''USDS''" by (simp_all add: small_query_def asked_query_def)
  have c: "list_all (\<lambda>s. address_lit s \<noteq> address_lit ''820c137fa70c8691f0e44dc420a5e53c168921dc''
      \<and> address_lit s \<noteq> replicate 20 0xee) [''0b2c639c533813f4aa9d7837caf62653d097ff85'',
        ''833589fCD6eDb6E08f4c7C32D4f71b54bdA02913'', ''af88d065e77c8cC2239327C5EDb3A432268e5831'',
        ''94b008aA00579c1307B0EF2c499aD98a8ce58e58'', ''Fd086bC7CD5C481DCC9C85ebE478A1C0b69FCbb9'']"
    by code_simp
  show ?thesis
    using c unfolding check_bridging_for_erc20_transfer_def small_groups
    by (simp add: small_balances consider_balance_def q small_compare small_asset_def
        del: get_balances_of_all_source_tokens.simps)
qed

definition small_plan :: "unit bridging_plan" where
  "small_plan = \<lparr> bp_asset = small_asset, bp_contract = address_lit ''820c137fa70c8691f0e44dc420a5e53c168921dc'',
     bp_symbol = ''USDS'', bp_decimals = 18, bp_topup = 0 \<rparr>"

lemma small_plan_made: "plan_bridging small_env small_request first_call small_transfer m = Inr (small_plan, 0)"
proof -
  have usds: "address_lit ''820c137fa70c8691f0e44dc420a5e53c168921dc'' \<noteq> replicate 20 0xee"
    "find_supported_bridging_asset () ''eip155:8453'' (Eip155_address (address_lit ''820c137fa70c8691f0e44dc420a5e53c168921dc''))
      = Some (''USDS'', 18)" by code_simp+
  have balance: "get_erc20_balance (re_balances small_env) (pr_chain_id small_request) (tf_contract small_transfer)
      (pr_from small_request) = Inr 0"
    using usds(1) by (simp add: get_erc20_balance_def small_env_def small_transfer_def)
  have found: "find_supported_bridging_asset () (pr_chain_id small_request)
      (Eip155_address (tf_contract small_transfer)) = Some (''USDS'', 18)"
    using usds(2) by (simp add: small_env_def demo_route_def small_request_def small_transfer_def)
  have accounts: "request_accounts small_env small_request = Inr [(None, Eip155_address address_zero)]"
    by (simp add: request_accounts_def small_request_def demo_prepare_def)
  have choice: "check_bridging_for_erc20_transfer () (re_order small_env) (re_balances small_env)
      (asked_query small_request small_transfer 999999999999 ''USDS'' 18 [(None, Eip155_address address_zero)])
    = Inr (Some small_asset)"
    using small_choice by (simp add: small_query_def small_env_def demo_route_def)
  have amount: "tf_value small_transfer = 999999999999" by (simp add: small_transfer_def)
  show ?thesis
    unfolding plan_bridging_def Let_def asked_query_def [symmetric]
    by (simp add: balance found accounts choice amount) (simp add: small_plan_def small_transfer_def small_asset_def
      convert_amount_def cmp_ord_def)
qed

lemma small_route:
  assumes "nonce_of (m (''eip155:10'', address_zero)) = Some 7"
  shows "\<exists>txs m'. quoted_route small_env small_request small_plan c m = Inr ((txs, 0, 0), m')"
proof -
  have quote: "best_quote small_env n kind small_request small_plan c amount = Inr ()" for n kind amount
    by (simp add: best_quote_def get_bridging_quotes_def read_answer_def http_success_def small_env_def demo_defs demo_caip2
        small_request_def small_plan_def small_asset_def)
  have amount: "quoted_amount small_env small_plan r = Inr 0" for r
    by (simp add: quoted_amount_def small_plan_def small_asset_def convert_amount_def cmp_ord_def small_env_def demo_defs)
  have plan: "bp_topup small_plan = 0" "ba_chain_id (bp_asset small_plan) = ''eip155:10''"
    by (simp_all add: small_plan_def small_asset_def)
  have "re_bungee small_env n = demo_bungee" for n by (simp add: small_env_def demo_route_def)
  moreover have "\<exists>tx. build_bridging_tx demo_bungee () = Inr tx \<and> (\<exists>txs m'. route_transactions small_env small_request
      ''eip155:10'' tx 0 m = Inr (txs, m'))"
    by (simp add: build_bridging_tx_def read_answer_def http_success_def route_transactions_def approval_transactions_def
      next_nonce_def get_nonce_known [where m = m, OF assms] estimate_native_def simulate_routes_def with_gas_slippage_def
      ESTIMATED_GAS_SLIPPAGE_def demo_defs small_env_def small_request_def)
  ultimately show ?thesis by (auto simp: quoted_route_def quote amount required_topup_def plan)
qed

lemma quoted_route_delivers_witness:
  "\<exists>raw txs fee m'. plan_bridging small_env small_request \<lparr> ca_to = [], ca_value = 0, ca_input = [] \<rparr> small_transfer Map.empty = Inr (small_plan, 0)
    \<and> quoted_route small_env small_request small_plan [1] [(''eip155:10'', address_zero) \<mapsto> Ready_nonce 7] = Inr ((txs, 0, fee), m')
    \<and> quoted small_env () raw \<and> 999999999999 < unat raw + 1000000000000"
proof -
  obtain txs m' where route: "quoted_route small_env small_request small_plan [1]
      [(''eip155:10'', address_zero) \<mapsto> Ready_nonce 7] = Inr ((txs, 0, 0), m')"
    using small_route [of "[(''eip155:10'', address_zero) \<mapsto> Ready_nonce 7]" "[1]"] by auto
  have order: "set (re_order small_env xs) = set xs" for xs by (simp add: small_env_def)
  from quoted_route_delivers [OF order small_plan_made route] route small_plan_made show ?thesis
    by (fastforce simp: Let_def small_transfer_def small_plan_def small_asset_def)
qed

section \<open>Prepared routes\<close>

lemma nonce_of_pending: "nonce_of (Some (Pending_nonce x)) = Some n \<longleftrightarrow> x = Inr (Inr n)"
  by (cases x; cases "projr x") auto

lemma nonce_of_initialized:
  "nonce_of (initialize_nonce fetch c a Map.empty (c', a')) = Some n \<longleftrightarrow> (c', a') = (c, a) \<and> fetch c a = Inr (Inr n)"
  by (auto simp: nonce_of_initialize nonce_of_pending)

lemma nonce_of_initialized_twice:
  "nonce_of (initialize_nonce fetch c2 a (initialize_nonce fetch c1 a Map.empty) (c, a)) = Some n \<longleftrightarrow>
    c \<in> {c1, c2} \<and> fetch c a = Inr (Inr n)"
  by (auto simp: nonce_of_initialize nonce_of_pending initialize_nonce_def)

context wcn_laws
begin

lemmas keys_get_put = keys.get_put

end

lemma store_item_stored:
  assumes "store_item E st req t balance = Inr st'" "re_irn E = Some irn" "wcn_laws irn"
  shows "\<exists>json. re_item_json E \<lparr> sb_created_at = re_now E, sb_chain_id = pr_chain_id req,
        sb_wallet = pr_from req, sb_contract = tf_contract t, sb_amount_current = balance,
        sb_amount_expected = tf_value t, sb_status = BS_Pending, sb_error_reason = None \<rparr> = Inr json
      \<and> irn_get irn st' (re_uuid E) = Inr (Some json)"
  using assms(1,2) wcn_laws.keys_get_put [OF assms(3)] by (auto simp: store_item_def res_simps)

lemma prepare_bridging_steps:
  assumes "prepare_bridging E st req first_call t = (Inr a, st')"
  obtains m0 plan balance m1 route m2 nonce m3 where
    "m0 = initialize_nonce (re_fetch_nonce E) (pr_chain_id req) (pr_from req) Map.empty"
    "plan_bridging E req first_call t m0 = Inr (plan, balance)"
    "m1 = (if starts_with ''eip155:'' (ba_chain_id (bp_asset plan))
       then initialize_nonce (re_fetch_nonce E) (ba_chain_id (bp_asset plan)) (pr_from req) m0 else m0)"
    "bridging_route E req plan m1 = Inr (route, m2)" "store_item E st req t balance = Inr st'"
    "get_nonce (pr_chain_id req) (pr_from req) m2 = (Inr nonce, m3)"
    "a = finish_route E req first_call t plan route nonce"
  using assms unfolding prepare_bridging_def Let_def
  by (clarsimp simp: res_simps next_nonce_ok split: sum.splits prod.splits)

text \<open>C15: a prepared bridging by quotes.  Its transactions take the next nonces of the sender on the bridging chain
  as that chain reported them, and the transaction of the user takes the next one on its own chain, the one after
  them if both chains are the same; it is the first call of the request with the estimated gas and its slippage.
  The funding names the bridged amount and the fee, with the amount at least the fee, and a pending item is stored
  under the returned identifier: it expects the value of the transfer, which the balance is below.\<close>

theorem prepared_route_consistent:
  assumes prepared: "prepare_bridging E st req first_call t = (Inr a, st')"
    and quotes: "\<not> pr_use_lifi req" "av_funding_from a = [f]" "fm_token_contract f = Eip155_address c"
    and irn: "re_irn E = Some irn" "wcn_laws irn"
  shows "(\<exists>routes n n0. av_transactions a = [Eip155_transactions routes] \<and> routes \<noteq> []
      \<and> re_fetch_nonce E (fm_chain_id f) (pr_from req) = Inr (Inr n)
      \<and> re_fetch_nonce E (pr_chain_id req) (pr_from req) = Inr (Inr n0)
      \<and> map tx_nonce routes = map (\<lambda>i. n + word_of_nat i) [0..<length routes]
      \<and> av_initial_transaction a = initial_tx req first_call (with_gas_slippage (tf_gas_used t))
          (if fm_chain_id f = pr_chain_id req then n + word_of_nat (length routes) else n0))
    \<and> fm_bridging_fee f \<le> fm_amount f
    \<and> (\<exists>item json. re_item_json E item = Inr json \<and> irn_get irn st' (av_orchestration_id a) = Inr (Some json)
        \<and> sb_status item = BS_Pending \<and> sb_created_at item = re_now E \<and> sb_chain_id item = pr_chain_id req
        \<and> sb_wallet item = pr_from req \<and> sb_contract item = im_token_contract (av_initial_metadata a)
        \<and> sb_amount_expected item = im_amount (av_initial_metadata a)
        \<and> get_erc20_balance (re_balances E) (pr_chain_id req) (sb_contract item) (pr_from req)
            = Inr (sb_amount_current item)
        \<and> sb_amount_current item < sb_amount_expected item)"
proof -
  obtain m0 plan balance m1 route m2 nonce m3 where
    m0: "m0 = initialize_nonce (re_fetch_nonce E) (pr_chain_id req) (pr_from req) Map.empty"
    and plan: "plan_bridging E req first_call t m0 = Inr (plan, balance)"
    and m1: "m1 = (if starts_with ''eip155:'' (ba_chain_id (bp_asset plan))
       then initialize_nonce (re_fetch_nonce E) (ba_chain_id (bp_asset plan)) (pr_from req) m0 else m0)"
    and route: "bridging_route E req plan m1 = Inr (route, m2)" and store: "store_item E st req t balance = Inr st'"
    and nonce: "get_nonce (pr_chain_id req) (pr_from req) m2 = (Inr nonce, m3)"
    and a: "a = finish_route E req first_call t plan route nonce"
    by (rule prepare_bridging_steps [OF prepared])
  obtain txs bridged fee where r: "route = (txs, bridged, fee)" by (cases route)
  have f: "f = \<lparr> fm_chain_id = ba_chain_id (bp_asset plan), fm_token_contract = ba_contract_address (bp_asset plan),
      fm_symbol = ba_token_symbol (bp_asset plan), fm_amount = bridged, fm_bridging_fee = fee,
      fm_decimals = ba_decimals (bp_asset plan) \<rparr>"
    using quotes(2) by (simp add: a r finish_route_def)
  have "quoted_route E req plan c m1 = Inr ((txs, bridged, fee), m2)"
    using route quotes(1,3) by (simp add: bridging_route_def f r)
  then obtain routes n where routes: "txs = [Eip155_transactions routes]" "routes \<noteq> []"
      "nonce_of (m1 (fm_chain_id f, pr_from req)) = Some n"
      "map tx_nonce routes = map (\<lambda>i. n + word_of_nat i) [0..<length routes]"
      "m2 = m1((fm_chain_id f, pr_from req) \<mapsto> Ready_nonce (n + word_of_nat (length routes)))"
    and amount: "unat bridged = unat (bp_topup plan) + unat fee"
    using quoted_route_ok f by fastforce
  have n: "re_fetch_nonce E (fm_chain_id f) (pr_from req) = Inr (Inr n)"
    using routes(3) unfolding m1 m0 by (auto simp: nonce_of_initialized nonce_of_initialized_twice split: if_splits)
  have i: "nonce_of (m2 (pr_chain_id req, pr_from req)) = Some nonce" using get_nonce_ok [OF nonce] by blast
  obtain n0 where n0: "re_fetch_nonce E (pr_chain_id req) (pr_from req) = Inr (Inr n0)"
      "nonce = (if fm_chain_id f = pr_chain_id req then n + word_of_nat (length routes) else n0)"
  proof (cases "fm_chain_id f = pr_chain_id req")
    case True
    then show ?thesis using that [of n] i n unfolding routes(5) by auto
  next
    case False
    then have "nonce_of (m1 (pr_chain_id req, pr_from req)) = Some nonce" using i unfolding routes(5) by auto
    then show ?thesis using False that [of nonce]
      unfolding m1 m0 by (auto simp: nonce_of_initialized nonce_of_initialized_twice split: if_splits)
  qed
  have fields: "av_transactions a = txs" "av_orchestration_id a = re_uuid E"
    "av_initial_transaction a = initial_tx req first_call (with_gas_slippage (tf_gas_used t)) nonce"
    "im_token_contract (av_initial_metadata a) = tf_contract t" "im_amount (av_initial_metadata a) = tf_value t"
    by (simp_all add: a r finish_route_def)
  have first: "\<exists>routes n n0. av_transactions a = [Eip155_transactions routes] \<and> routes \<noteq> []
      \<and> re_fetch_nonce E (fm_chain_id f) (pr_from req) = Inr (Inr n)
      \<and> re_fetch_nonce E (pr_chain_id req) (pr_from req) = Inr (Inr n0)
      \<and> map tx_nonce routes = map (\<lambda>i. n + word_of_nat i) [0..<length routes]
      \<and> av_initial_transaction a = initial_tx req first_call (with_gas_slippage (tf_gas_used t))
          (if fm_chain_id f = pr_chain_id req then n + word_of_nat (length routes) else n0)"
    using routes(1,2,4) n n0(1) unfolding fields n0(2)
    by (intro exI [of _ routes] exI [of _ n] exI [of _ n0]) simp
  have fee: "fm_bridging_fee f \<le> fm_amount f" using amount by (simp add: f word_le_nat_alt)
  obtain json where json: "re_item_json E \<lparr> sb_created_at = re_now E, sb_chain_id = pr_chain_id req,
        sb_wallet = pr_from req, sb_contract = tf_contract t, sb_amount_current = balance,
        sb_amount_expected = tf_value t, sb_status = BS_Pending, sb_error_reason = None \<rparr> = Inr json"
      "irn_get irn st' (re_uuid E) = Inr (Some json)"
    using store_item_stored [OF store irn] by blast
  have "get_erc20_balance (re_balances E) (pr_chain_id req) (tf_contract t) (pr_from req) = Inr balance"
    "balance < tf_value t"
    by (rule plan_bridging_steps [OF plan], assumption)+
  then have "\<exists>item json. re_item_json E item = Inr json \<and> irn_get irn st' (av_orchestration_id a) = Inr (Some json)
        \<and> sb_status item = BS_Pending \<and> sb_created_at item = re_now E \<and> sb_chain_id item = pr_chain_id req
        \<and> sb_wallet item = pr_from req \<and> sb_contract item = im_token_contract (av_initial_metadata a)
        \<and> sb_amount_expected item = im_amount (av_initial_metadata a)
        \<and> get_erc20_balance (re_balances E) (pr_chain_id req) (sb_contract item) (pr_from req)
            = Inr (sb_amount_current item)
        \<and> sb_amount_current item < sb_amount_expected item"
    using json unfolding fields
    by (intro exI [of _ "\<lparr> sb_created_at = re_now E, sb_chain_id = pr_chain_id req,
        sb_wallet = pr_from req, sb_contract = tf_contract t, sb_amount_current = balance,
        sb_amount_expected = tf_value t, sb_status = BS_Pending, sb_error_reason = None \<rparr>"] exI [of _ json]) simp
  then show ?thesis using first fee by blast
qed

lemma small_prepared:
  "\<exists>a f st'. prepare_bridging small_env (Map.empty, Map.empty) small_request \<lparr> ca_to = [], ca_value = 0, ca_input = [] \<rparr>
      small_transfer = (Inr a, st') \<and> av_funding_from a = [f]
    \<and> fm_token_contract f = Eip155_address (address_lit ''0b2c639c533813f4aa9d7837caf62653d097ff85'')
    \<and> fm_chain_id f = ''eip155:10''"
proof -
  let ?c = "address_lit ''0b2c639c533813f4aa9d7837caf62653d097ff85''"
  let ?fetch = "re_fetch_nonce small_env"
  let ?m0 = "initialize_nonce ?fetch (pr_chain_id small_request) (pr_from small_request) (\<lambda>_. None)"
  let ?m1 = "initialize_nonce ?fetch ''eip155:10'' (pr_from small_request) ?m0"
  have asset: "ba_chain_id (bp_asset small_plan) = ''eip155:10''" "ba_contract_address (bp_asset small_plan) = Eip155_address ?c"
    "starts_with ''eip155:'' (''eip155:10'' :: string)"
    by (simp_all add: small_plan_def small_asset_def starts_with_iff)
  have req: "pr_chain_id small_request = ''eip155:8453''" "pr_from small_request = address_zero"
    "\<not> pr_use_lifi small_request" by (simp_all add: small_request_def demo_prepare_def)
  have known: "nonce_of (?m1 (c, address_zero)) = Some 7" if "c \<in> {''eip155:10'', ''eip155:8453''}" for c
    using that by (auto simp: initialize_nonce_def small_env_def demo_route_def req)
  obtain txs m' where route: "quoted_route small_env small_request small_plan ?c ?m1 = Inr ((txs, 0, 0), m')"
    using small_route [where m = ?m1] known by blast
  obtain k where "m' = ?m1((ba_chain_id (bp_asset small_plan), pr_from small_request) \<mapsto> Ready_nonce k)"
    using quoted_route_ok [OF route] by blast
  then have m': "nonce_of (m' (''eip155:8453'', address_zero)) = Some 7"
    using known [of "''eip155:8453''"] by (simp add: asset(1))
  obtain st' where store: "store_item small_env (Map.empty, Map.empty) small_request small_transfer 0 = Inr st'"
    by (simp add: store_item_def small_env_def demo_route_def irn_set_def map_irn_def map_wcn_def)
  have made: "plan_bridging small_env small_request \<lparr> ca_to = [], ca_value = 0, ca_input = [] \<rparr> small_transfer ?m0
      = Inr (small_plan, 0)" by (rule small_plan_made)
  have next_n: "next_nonce ''eip155:8453'' address_zero m' = Inr (7, m'((''eip155:8453'', address_zero) \<mapsto> Ready_nonce 8))"
    by (simp add: next_nonce_def get_nonce_known [where m = m', OF m'])
  have routes: "bridging_route small_env small_request small_plan ?m1 = Inr ((txs, 0, 0), m')"
    using route req(3) by (simp add: bridging_route_def asset)
  have "prepare_bridging small_env (Map.empty, Map.empty) small_request \<lparr> ca_to = [], ca_value = 0, ca_input = [] \<rparr>
      small_transfer = (Inr (finish_route small_env small_request \<lparr> ca_to = [], ca_value = 0, ca_input = [] \<rparr>
        small_transfer small_plan (txs, 0, 0) 7), st')"
    unfolding prepare_bridging_def Let_def made bind_res.simps prod.case asset(1) if_P [OF asset(3)] routes sum.case store
    by (simp add: req next_n)
  then show ?thesis by (simp add: finish_route_def asset)
qed
 
lemma prepared_route_consistent_witness:
  "\<exists>a st' item. prepare_bridging small_env (Map.empty, Map.empty) small_request \<lparr> ca_to = [], ca_value = 0, ca_input = [] \<rparr>
      small_transfer = (Inr a, st') \<and> tx_nonce (av_initial_transaction a) = 7
    \<and> irn_get (map_irn 0) st' ''id'' = Inr (Some item) \<and> sb_status item = BS_Pending"
proof -
  obtain a f st' where p: "prepare_bridging small_env (Map.empty, Map.empty) small_request
      \<lparr> ca_to = [], ca_value = 0, ca_input = [] \<rparr> small_transfer = (Inr a, st')" "av_funding_from a = [f]"
    "fm_token_contract f = Eip155_address (address_lit ''0b2c639c533813f4aa9d7837caf62653d097ff85'')"
    "fm_chain_id f = ''eip155:10''"
    using small_prepared by blast
  have env: "\<not> pr_use_lifi small_request" "re_irn small_env = Some (map_irn 0)"
    by (simp_all add: small_request_def demo_prepare_def small_env_def demo_route_def)
  note c = prepared_route_consistent [OF p(1) env(1) p(2,3) env(2) map_irn.wcn_laws_axioms]
  have "av_orchestration_id a = ''id''"
    by (rule prepare_bridging_steps [OF p(1)]) (simp add: finish_route_def small_env_def demo_route_def split: prod.splits)
  moreover have "fm_chain_id f \<noteq> pr_chain_id small_request"
    using p(4) by (simp add: small_request_def)
  ultimately show ?thesis using c p(1) by (fastforce simp: small_env_def demo_route_def initial_tx_def)
qed

end
