(* ===== verification/BridgingStatus.thy ===== *)
theory BridgingStatus
  imports ChainAbstraction
begin

text \<open>
  Polling the status of a bridging until it settles, the routes of LI.FI, and the first version of the response.
\<close>

section \<open>Polling\<close>

text \<open>A run of status requests, each with the answers of the chains and the time it sees.\<close>

fun poll_status ::
  "('s, 'n, 'i) irn_client \<Rightarrow> ('i \<Rightarrow> (string, storage_bridging_item) result)
    \<Rightarrow> (storage_bridging_item \<Rightarrow> (string, 'i) result) \<Rightarrow> string \<Rightarrow> 's \<Rightarrow> ('k balance_env \<times> u64) list
    \<Rightarrow> (rpc_error, status_response) result list" where
  "poll_status irn of_json to_json k st [] = []"
| "poll_status irn of_json to_json k st ((B, now) # polls) =
    (case status_handler (Inr ()) (Some irn) of_json to_json B st now k of
       (r, st') \<Rightarrow> r # poll_status irn of_json to_json k st' polls)"

text \<open>The specification: a request settles the item if the wallet holds the expected amount, or after the timeout.\<close>

definition funded :: "storage_bridging_item \<Rightarrow> 'k balance_env \<times> u64 \<Rightarrow> bool" where
  "funded item poll = (case get_erc20_balance (fst poll) (sb_chain_id item) (sb_contract item) (sb_wallet item) of
     Inr b \<Rightarrow> sb_amount_expected item \<le> b | Inl _ \<Rightarrow> False)"

definition timed_out :: "storage_bridging_item \<Rightarrow> 'k balance_env \<times> u64 \<Rightarrow> bool" where
  "timed_out item poll = (unat (sb_created_at item) + 1800 < unat (snd poll))"

definition settled_response :: "storage_bridging_item \<Rightarrow> 'k balance_env \<times> u64 \<Rightarrow> status_response" where
  "settled_response item poll = (if funded item poll then Status_completed (sb_created_at item)
     else Status_error (sb_created_at item) ''Bridging timeout'')"

text \<open>What the runs are under: a store that keeps what is written and does not fail, and JSON that is read back.\<close>

definition polls_answered ::
  "('s, 'n, 'i) irn_client \<Rightarrow> ('i \<Rightarrow> (string, storage_bridging_item) result)
    \<Rightarrow> (storage_bridging_item \<Rightarrow> (string, 'i) result) \<Rightarrow> string \<Rightarrow> storage_bridging_item \<Rightarrow> ('k balance_env \<times> u64) list \<Rightarrow> bool" where
  "polls_answered irn of_json to_json k item polls =
    ((\<forall>st v. is_ok (irn_set irn st k v)) \<and> (\<forall>i. \<exists>j. to_json i = Inr j \<and> of_json j = Inr i)
     \<and> (\<forall>(B, now)\<in>set polls. is_ok (get_erc20_balance B (sb_chain_id item) (sb_contract item) (sb_wallet item))))"

lemma timeout_unat:
  "unat created + 1800 < 2 ^ 64 \<Longrightarrow> created + BRIDGING_TIMEOUT < now \<longleftrightarrow> unat created + 1800 < unat (now :: u64)"
  using unat_add_exact [of created 1800] by (simp add: BRIDGING_TIMEOUT_def word_less_nat_alt)

lemma status_terminal:
  assumes "irn_get irn st k = Inr (Some j)" "of_json j = Inr item"
  shows "sb_status item = BS_Completed \<Longrightarrow>
      status_handler (Inr ()) (Some irn) of_json to_json B st now k = (Inr (Status_completed (sb_created_at item)), st)"
    and "sb_status item = BS_Error \<Longrightarrow> sb_error_reason item = Some r \<Longrightarrow>
      status_handler (Inr ()) (Some irn) of_json to_json B st now k = (Inr (Status_error (sb_created_at item) r), st)"
  using assms by (simp_all add: status_handler_def)

lemma poll_terminal:
  fixes polls :: "('k balance_env \<times> u64) list"
  assumes "irn_get irn st k = Inr (Some j)" "of_json j = Inr item"
    and "sb_status item = BS_Completed \<and> r = Status_completed (sb_created_at item)
      \<or> sb_status item = BS_Error \<and> sb_error_reason item = Some e \<and> r = Status_error (sb_created_at item) e"
  shows "poll_status irn of_json to_json k st polls = replicate (length polls) (Inr r)"
proof -
  have "status_handler (Inr ()) (Some irn) of_json to_json B st now k = (Inr r, st)" for B :: "'k balance_env" and now
    using assms(3) status_terminal [where of_json = of_json and j = j and item = item and to_json = to_json and B = B
      and now = now, OF assms(1,2)] by auto
  then show ?thesis by (induction polls) auto
qed

lemma status_pending:
  assumes "irn_get irn st k = Inr (Some j)" "of_json j = Inr item" "sb_status item = BS_Pending"
    and "get_erc20_balance B (sb_chain_id item) (sb_contract item) (sb_wallet item) = Inr b"
  shows "status_handler (Inr ()) (Some irn) of_json to_json B st now k = check_pending irn to_json st now k item b"
  using assms by (simp add: status_handler_def)

text \<open>The item that is written when a request settles it, and the response.\<close>

definition settled_item :: "storage_bridging_item \<Rightarrow> 'k balance_env \<times> u64 \<Rightarrow> storage_bridging_item" where
  "settled_item item poll = (if funded item poll then item \<lparr> sb_status := BS_Completed \<rparr>
     else item \<lparr> sb_status := BS_Error, sb_error_reason := Some ''Bridging timeout'' \<rparr>)"

lemma check_pending_cases:
  assumes "unat (sb_created_at item) + 1800 < 2 ^ 64"
    and "get_erc20_balance B (sb_chain_id item) (sb_contract item) (sb_wallet item) = Inr b"
  shows "check_pending irn to_json st now k item b =
    (if funded item (B, now) \<or> timed_out item (B, now)
     then status_set irn to_json st k (settled_item item (B, now)) (settled_response item (B, now))
     else (Inr (Status_pending (sb_created_at item) 3000), st))"
  using timeout_unat [OF assms(1), of now] assms(2)
  by (simp add: check_pending_def funded_def timed_out_def settled_item_def settled_response_def STATUS_POLLING_INTERVAL_def)

text \<open>C16: polling settles, and only once.  For a pending item, a store that keeps what is written and chains that
  answer, every response is pending until the first request that sees the expected amount in the wallet or comes
  more than 1800 seconds after the creation; that one and all later responses are the same: completed if the
  amount was there, otherwise an error, whatever the chains and the clock say afterwards.\<close>

theorem polling_settles:
  assumes irn: "wcn_laws irn" and answered: "polls_answered irn of_json to_json k item polls"
    and stored: "irn_get irn st k = Inr (Some j)" "of_json j = Inr item" "sb_status item = BS_Pending"
    and time: "unat (sb_created_at item) + 1800 < 2 ^ 64"
  shows "\<exists>waiting settled. polls = waiting @ settled
    \<and> (\<forall>p\<in>set waiting. \<not> funded item p \<and> \<not> timed_out item p)
    \<and> (\<forall>p\<in>set polls. timed_out item p \<longrightarrow> settled \<noteq> [])
    \<and> poll_status irn of_json to_json k st polls =
        map (\<lambda>_. Inr (Status_pending (sb_created_at item) 3000)) waiting
        @ map (\<lambda>_. Inr (settled_response item (hd settled))) settled
    \<and> (settled \<noteq> [] \<longrightarrow> funded item (hd settled) \<or> timed_out item (hd settled))"
  using answered
proof (induction polls)
  case Nil
  show ?case by (intro exI [of _ "[]"]) simp
next
  case (Cons p polls)
  obtain B now where p: "p = (B, now)" by (cases p)
  obtain b where b: "get_erc20_balance B (sb_chain_id item) (sb_contract item) (sb_wallet item) = Inr b"
    using Cons.prems by (auto simp: polls_answered_def p is_ok_iff)
  have ih: "polls_answered irn of_json to_json k item polls" using Cons.prems by (auto simp: polls_answered_def)
  note step = status_pending [where of_json = of_json and j = j and item = item, OF stored b, of to_json now, unfolded check_pending_cases [OF time b]]
  show ?case
  proof (cases "funded item p \<or> timed_out item p")
    case True
    let ?i = "settled_item item p" and ?r = "settled_response item p"
    obtain j' where j': "to_json ?i = Inr j'" "of_json j' = Inr ?i"
      using Cons.prems unfolding polls_answered_def by blast
    obtain st' where st': "irn_set irn st k j' = Inr st'"
      using Cons.prems unfolding polls_answered_def is_ok_iff by blast
    have "irn_get irn st' k = Inr (Some j')" using wcn_laws.keys_get_put [OF irn st'] by simp
    then have "poll_status irn of_json to_json k st' polls = replicate (length polls) (Inr ?r)"
      by (rule poll_terminal [where of_json = of_json and j = j' and item = ?i, OF _ j'(2), where e = "''Bridging timeout''"]) (simp add: settled_item_def settled_response_def)
    moreover have "status_handler (Inr ()) (Some irn) of_json to_json B st now k = (Inr ?r, st')"
      using step True j'(1) st' by (simp add: p status_set_def)
    ultimately have "poll_status irn of_json to_json k st (p # polls) = map (\<lambda>_. Inr ?r) (p # polls)"
      by (simp add: p map_replicate_const)
    then show ?thesis using True by (intro exI [of _ "[]"] exI [of _ "p # polls"]) simp
  next
    case False
    obtain waiting settled where w: "polls = waiting @ settled"
      "\<forall>p\<in>set waiting. \<not> funded item p \<and> \<not> timed_out item p" "\<forall>p\<in>set polls. timed_out item p \<longrightarrow> settled \<noteq> []"
      "poll_status irn of_json to_json k st polls = map (\<lambda>_. Inr (Status_pending (sb_created_at item) 3000)) waiting
        @ map (\<lambda>_. Inr (settled_response item (hd settled))) settled"
      "settled \<noteq> [] \<longrightarrow> funded item (hd settled) \<or> timed_out item (hd settled)"
      using Cons.IH [OF ih] by blast
    have "poll_status irn of_json to_json k st (p # polls)
      = Inr (Status_pending (sb_created_at item) 3000) # poll_status irn of_json to_json k st polls"
      using step False by (simp add: p)
    then show ?thesis using w False by (intro exI [of _ "p # waiting"] exI [of _ settled]) auto
  qed
qed

definition waiting_item :: storage_bridging_item where
  "waiting_item = \<lparr> sb_created_at = 1000, sb_chain_id = [], sb_wallet = [], sb_contract = [], sb_amount_current = 0,
     sb_amount_expected = 9, sb_status = BS_Pending, sb_error_reason = None \<rparr>"

definition late_polls :: "(unit balance_env \<times> u64) list" where
  "late_polls = [(demo_balances, 2800), (demo_balances, 2801), (demo_balances \<lparr> be_contract := (\<lambda>_ _ _. Inr 9) \<rparr>, 2802)]"

text \<open>The amount that arrives after the timeout was seen does not turn the error into a completion.\<close>

lemma polling_settles_witness:
  "poll_status (map_irn (0 :: nat)) Inr Inr ''id'' ([(0, ''id'') \<mapsto> waiting_item], Map.empty) late_polls
    = [Inr (Status_pending 1000 3000), Inr (Status_error 1000 ''Bridging timeout''), Inr (Status_error 1000 ''Bridging timeout'')]"
proof -
  have answered: "polls_answered (map_irn (0 :: nat)) Inr Inr ''id'' waiting_item late_polls"
    by (simp add: polls_answered_def late_polls_def is_ok_iff irn_set_def map_irn_def map_wcn_def get_erc20_balance_def
        demo_balances_def split: prod.splits)
  have item: "irn_get (map_irn (0 :: nat)) ([(0, ''id'') \<mapsto> waiting_item], Map.empty) ''id'' = Inr (Some waiting_item)"
    "sb_status waiting_item = BS_Pending" "unat (sb_created_at waiting_item) + 1800 < 2 ^ 64"
    by (simp_all add: irn_get_def map_irn_def map_wcn_def waiting_item_def)
  from polling_settles [where of_json = Inr and j = waiting_item, OF map_irn.wcn_laws_axioms answered item(1) refl item(2,3)]
  obtain waiting settled where s: "late_polls = waiting @ settled"
    "\<forall>p\<in>set waiting. \<not> funded waiting_item p \<and> \<not> timed_out waiting_item p"
    "\<forall>p\<in>set late_polls. timed_out waiting_item p \<longrightarrow> settled \<noteq> []"
    "settled \<noteq> [] \<longrightarrow> funded waiting_item (hd settled) \<or> timed_out waiting_item (hd settled)"
    "poll_status (map_irn (0 :: nat)) Inr Inr ''id'' ([(0, ''id'') \<mapsto> waiting_item], Map.empty) late_polls =
        map (\<lambda>_. Inr (Status_pending (sb_created_at waiting_item) 3000)) waiting
        @ map (\<lambda>_. Inr (settled_response waiting_item (hd settled))) settled"
    by blast
  have p: "\<not> funded waiting_item (demo_balances, 2800)" "\<not> timed_out waiting_item (demo_balances, 2800)"
    "\<not> funded waiting_item (demo_balances, 2801)" "timed_out waiting_item (demo_balances, 2801)"
    by (simp_all add: funded_def timed_out_def waiting_item_def get_erc20_balance_def demo_balances_def)
  then have "waiting = [(demo_balances, 2800)]"
    using s(1-4) by (cases waiting; cases "tl waiting") (auto simp: late_polls_def)
  moreover have "settled = tl late_polls" using s(1) calculation by (simp add: late_polls_def)
  moreover have "sb_created_at waiting_item = 1000" by (simp add: waiting_item_def)
  ultimately show ?thesis using s(5) p(3) by (simp add: late_polls_def settled_response_def)
qed

section \<open>Routes of LI.FI\<close>

text \<open>Wrapping subtraction, as on 256-bit words.\<close>

lemma unat_sub_wraps: "unat (a - b :: u256) = (if b \<le> a then unat a - unat b else unat a + 2 ^ 256 - unat b)"
  using unat_sub_if' [of a b] by (simp add: word_le_nat_alt)

definition lifi_allowance ::
  "('k, 'q, 'b, 'l, 'v, 's, 'n, 'i, 'c) route_env \<Rightarrow> prepare_request \<Rightarrow> lifi_eip155_quote \<Rightarrow> u256 \<Rightarrow> bool" where
  "lifi_allowance E req quote allowance = (re_allowance E (''eip155:'' @ show_nat (unat (lq_chain_id quote)))
     (lq_from_token quote) (pr_from req) (lq_approval_address quote) = Inr allowance)"

lemma lifi_approval_ok:
  assumes "lifi_approval E req (''eip155:'' @ show_nat (unat (lq_chain_id quote))) quote m = Inr (txs, m')"
  shows "\<exists>allowance. lifi_allowance E req quote allowance
    \<and> (lq_from_amount quote \<le> allowance \<and> txs = [] \<and> m' = m
      \<or> allowance < lq_from_amount quote \<and> (\<exists>t n. txs = [t] \<and> tx_from t = lq_from quote \<and> tx_nonce t = n
          \<and> tx_to t = lq_from_token quote
          \<and> tx_input t = re_approve_calldata E (lq_approval_address quote) (lq_from_amount quote * 4)
          \<and> nonce_of (m (''eip155:'' @ show_nat (unat (lq_chain_id quote)), lq_from quote)) = Some n
          \<and> m' = m((''eip155:'' @ show_nat (unat (lq_chain_id quote)), lq_from quote) \<mapsto> Ready_nonce (n + 1))))"
  using assms unfolding lifi_approval_def lifi_allowance_def
  by (auto simp: res_simps next_nonce_ok APPROVE_MULTIPLIER_def simp del: append.simps split: if_splits dest!: get_nonce_ok)

text \<open>The transactions of a route on an EVM chain, for its quote.\<close>

definition lifi_transactions ::
  "('k, 'q, 'b, 'l, 'v, 's, 'n, 'i, 'c) route_env \<Rightarrow> prepare_request \<Rightarrow> lifi_eip155_quote \<Rightarrow> nonce_manager
    \<Rightarrow> ca_transaction list \<Rightarrow> bool" where
  "lifi_transactions E req quote m txs = (\<exists>allowance n bridge.
     lifi_allowance E req quote allowance
     \<and> nonce_of (m (''eip155:'' @ show_nat (unat (lq_chain_id quote)), pr_from req)) = Some n
     \<and> bridge = \<lparr> tx_from = pr_from req, tx_to = lq_to quote, tx_value = lq_value quote,
         tx_gas_limit = ucast (lq_gas_limit quote), tx_input = lq_data quote, tx_nonce = tx_nonce bridge,
         tx_chain_id = ''eip155:'' @ show_nat (unat (lq_chain_id quote)) \<rparr>
     \<and> (if lq_from_amount quote \<le> allowance then txs = [bridge] \<and> tx_nonce bridge = n
        else \<exists>t. txs = [t, bridge] \<and> tx_from t = pr_from req \<and> tx_nonce t = n \<and> tx_nonce bridge = n + 1
          \<and> tx_to t = lq_from_token quote
          \<and> tx_input t = re_approve_calldata E (lq_approval_address quote) (lq_from_amount quote * 4)))"

lemma lifi_eip155_route_ok:
  assumes "lifi_eip155_route E req plan json m = Inr ((txs, bridged, fee), m')"
  shows "\<exists>quote routes. re_lifi_eip155 E json = Inr quote \<and> txs = [Eip155_transactions routes]
    \<and> lifi_transactions E req quote m routes \<and> lq_from quote = pr_from req
    \<and> ba_chain_id (bp_asset plan) = ''eip155:'' @ show_nat (unat (lq_chain_id quote))
    \<and> ba_contract_address (bp_asset plan) = Eip155_address (lq_from_token quote)
    \<and> lq_from_token quote \<noteq> lq_approval_address quote \<and> unat (lq_gas_limit quote) < 2 ^ 64
    \<and> bridged = lq_from_amount quote \<and> fee = bridged - bp_topup plan"
proof -
  obtain c where c: "ba_contract_address (bp_asset plan) = Eip155_address c"
    using assms by (auto simp: lifi_eip155_route_def split: chain_address.splits)
  obtain quote where q: "re_lifi_eip155 E json = Inr quote"
    using assms by (auto simp: lifi_eip155_route_def c res_simps)
  let ?chain = "''eip155:'' @ show_nat (unat (lq_chain_id quote))"
  note r = assms [unfolded lifi_eip155_route_def c q chain_address.case map_err.simps bind_res.simps Let_def]
  have ok: "\<not> (?chain \<noteq> ba_chain_id (bp_asset plan) \<or> lq_from quote \<noteq> pr_from req
      \<or> c \<noteq> lq_from_token quote \<or> c = lq_approval_address quote)"
    using r by (auto split: if_splits)
  have big: "\<not> 2 ^ 64 \<le> unat (lq_gas_limit quote)"
  proof
    assume "2 ^ 64 \<le> unat (lq_gas_limit quote)"
    then show False using r unfolding if_not_P [OF ok] by (auto simp: bind_res_Inr_iff)
  qed
  obtain approvals m1 nonce where
    a: "lifi_approval E req ?chain quote m = Inr (approvals, m1)"
    and n: "get_nonce ?chain (lq_from quote) m1 = (Inr nonce, m')"
    and t: "txs = [Eip155_transactions (approvals @ [\<lparr> tx_from = lq_from quote, tx_to = lq_to quote,
        tx_value = lq_value quote, tx_gas_limit = ucast (lq_gas_limit quote), tx_input = lq_data quote,
        tx_nonce = nonce, tx_chain_id = ?chain \<rparr>])]"
      "bridged = lq_from_amount quote" "fee = bridged - bp_topup plan"
    using r unfolding if_not_P [OF ok] if_not_P [OF big]
    by (auto simp: bind_res_Inr_iff next_nonce_ok simp del: append.simps)
  have nn: "nonce_of (m1 (?chain, lq_from quote)) = Some nonce" using get_nonce_ok [OF n] by blast
  have "lifi_transactions E req quote m (approvals @ [\<lparr> tx_from = lq_from quote, tx_to = lq_to quote,
        tx_value = lq_value quote, tx_gas_limit = ucast (lq_gas_limit quote), tx_input = lq_data quote,
        tx_nonce = nonce, tx_chain_id = ?chain \<rparr>])"
  proof -
    obtain allowance where l: "lifi_allowance E req quote allowance"
      and cs: "lq_from_amount quote \<le> allowance \<and> approvals = [] \<and> m1 = m
      \<or> allowance < lq_from_amount quote \<and> (\<exists>t n. approvals = [t] \<and> tx_from t = lq_from quote \<and> tx_nonce t = n
          \<and> tx_to t = lq_from_token quote
          \<and> tx_input t = re_approve_calldata E (lq_approval_address quote) (lq_from_amount quote * 4)
          \<and> nonce_of (m (?chain, lq_from quote)) = Some n
          \<and> m1 = m((?chain, lq_from quote) \<mapsto> Ready_nonce (n + 1)))"
      using lifi_approval_ok [OF a] by blast
    from cs show ?thesis
      using l nn ok unfolding lifi_transactions_def
      by (elim disjE conjE exE) (intro exI [of _ allowance], auto simp: not_le [symmetric] simp del: append.simps)
  qed
  then show ?thesis using q ok c t big by (auto simp del: append.simps)
qed

lemma lifi_solana_route_ok:
  "lifi_solana_route E plan json = Inr (txs, bridged, fee) \<Longrightarrow> \<exists>account tx. ba_account (bp_asset plan) = Solana_address account
    \<and> txs = [Solana_transactions [\<lparr> sx_from = account, sx_chain_id = ba_chain_id (bp_asset plan), sx_transaction = tx \<rparr>]]
    \<and> fee = bridged - bp_topup plan"
  by (cases "ba_account (bp_asset plan)") (auto simp: lifi_solana_route_def res_simps split: chain_address.splits)

text \<open>C37: a route of LI.FI.  On Solana its single transaction is for the account that holds the asset.  On an EVM chain
  the quote is for the chain, the token and the sender asked for; an approval of four times the amount comes first
  exactly if the allowance is below the amount, and the transactions take consecutive nonces.  The amount is the
  quote's, and the fee is what it exceeds the top-up by, but a quote below the top-up is not rejected: then the fee
  wraps around to at least two to the 256 less the top-up.\<close>

theorem lifi_route_checked:
  assumes "lifi_route E req plan m = Inr ((txs, bridged, fee), m')"
  shows "((\<exists>account tx. starts_with ''solana:'' (ba_chain_id (bp_asset plan)) \<and> m' = m
        \<and> ba_account (bp_asset plan) = Solana_address account
        \<and> txs = [Solana_transactions [\<lparr> sx_from = account, sx_chain_id = ba_chain_id (bp_asset plan), sx_transaction = tx \<rparr>]])
      \<or> (\<exists>quote routes. txs = [Eip155_transactions routes] \<and> lifi_transactions E req quote m routes
        \<and> lq_from quote = pr_from req \<and> bridged = lq_from_amount quote
        \<and> ba_chain_id (bp_asset plan) = ''eip155:'' @ show_nat (unat (lq_chain_id quote))
        \<and> ba_contract_address (bp_asset plan) = Eip155_address (lq_from_token quote)
        \<and> lq_from_token quote \<noteq> lq_approval_address quote))
    \<and> unat fee = (if bp_topup plan \<le> bridged then unat bridged - unat (bp_topup plan)
        else unat bridged + 2 ^ 256 - unat (bp_topup plan))"
proof -
  obtain json where j: "(starts_with ''solana:'' (ba_chain_id (bp_asset plan)) \<and> m' = m
        \<and> lifi_solana_route E plan json = Inr (txs, bridged, fee))
      \<or> lifi_eip155_route E req plan json m = Inr ((txs, bridged, fee), m')"
    using assms unfolding lifi_route_def by (auto simp: bind_res_Inr_iff map_err_Inr_iff split: if_splits)
  then show ?thesis
  proof
    assume s: "starts_with ''solana:'' (ba_chain_id (bp_asset plan)) \<and> m' = m
        \<and> lifi_solana_route E plan json = Inr (txs, bridged, fee)"
    then show ?thesis using lifi_solana_route_ok [of E plan json txs bridged fee] unat_sub_wraps [of bridged "bp_topup plan"]
      by auto
  next
    assume "lifi_eip155_route E req plan json m = Inr ((txs, bridged, fee), m')"
    from lifi_eip155_route_ok [OF this] show ?thesis using unat_sub_wraps [of bridged "bp_topup plan"] by auto
  qed
qed

text \<open>A quote for 4 units when 5 are missing.\<close>

lemma lifi_route_checked_witness:
  "\<exists>txs fee m'. lifi_route demo_route demo_prepare demo_plan [(''eip155:8453'', address_zero) \<mapsto> Ready_nonce 7]
      = Inr ((txs, 4, fee), m') \<and> unat fee = 2 ^ 256 - 1"
proof -
  have show_chain: "show_nat (unat (lq_chain_id demo_lifi_quote)) = ''8453''"
  proof -
    have "digit_char 8 = CHR ''8''" "digit_char 4 = CHR ''4''" "digit_char 5 = CHR ''5''" "digit_char 3 = CHR ''3''"
      by code_simp+
    then have "show_nat 8453 = ''8453''"
      by (simp add: show_nat.simps [of 8453] show_nat.simps [of 845] show_nat.simps [of 84] show_nat.simps [of 8])
    then show ?thesis by (simp add: demo_lifi_quote_def)
  qed
  have starts: "starts_with ''eip155:'' (''eip155:8453'' :: string)" "\<not> starts_with ''solana:'' (''eip155:8453'' :: string)"
    "starts_with ''eip155:'' (''eip155:10'' :: string)" by (simp_all add: starts_with_iff)
  have lifi: "re_lifi demo_route q = Inr ()" for q by (simp add: demo_route_def)
  have query: "\<exists>query. lifi_query demo_route demo_prepare demo_plan = Inr query"
    by (simp add: lifi_query_def caip2_to_lifi_chain_id_def demo_defs starts)
  have plan: "ba_chain_id (bp_asset demo_plan) = ''eip155:8453''" "bp_topup demo_plan = 5"
    "ba_contract_address (bp_asset demo_plan) = Eip155_address [1]" by (simp_all add: demo_plan_def)
  have "\<exists>txs fee m'. lifi_eip155_route demo_route demo_prepare demo_plan () [(''eip155:8453'', address_zero) \<mapsto> Ready_nonce 7]
      = Inr ((txs, 4, fee), m')"
    using show_chain by (simp add: lifi_eip155_route_def plan Let_def lifi_approval_def next_nonce_def get_nonce_def demo_route_def
      demo_prepare_def demo_lifi_quote_def)
  then obtain txs fee m' where
    "lifi_route demo_route demo_prepare demo_plan [(''eip155:8453'', address_zero) \<mapsto> Ready_nonce 7] = Inr ((txs, 4, fee), m')"
    using query lifi by (auto simp: lifi_route_def plan starts)
  with lifi_route_checked [OF this] show ?thesis by (auto simp: plan)
qed

section \<open>The first version of the response\<close>

lemma collect_opt_None: "collect_opt f xs = None \<longleftrightarrow> (\<exists>x\<in>set xs. f x = None)"
  by (induction xs) (auto split: option.splits)

lemma collect_opt_length: "collect_opt f xs = Some ys \<Longrightarrow> length ys = length xs"
  by (induction xs arbitrary: ys) (auto split: option.splits)

lemma response_v1_None:
  "response_v1 show_lower r = None \<longleftrightarrow>
    (\<exists>a f k. r = Available a \<and> f \<in> set (av_funding_from a) \<and> fm_token_contract f = Solana_address k)"
proof -
  have "funding_v1 show_lower f = None \<longleftrightarrow> (\<exists>k. fm_token_contract f = Solana_address k)" for f :: "'a funding_metadata"
    by (cases "fm_token_contract f") (simp_all add: funding_v1_def)
  then show ?thesis
    by (auto simp: response_v1_def available_v1_def collect_opt_None split: prepare_response.splits)
qed

text \<open>C38: the first version of the endpoint.  It has every effect of the second one.  It panics exactly if that one does
  or if the bridging is funded by a token of Solana, although a bridging item is stored by then; every other
  response is the second one's, the transactions of an available route in one list.\<close>

theorem first_version_panics:
  "snd (route_handler_v1 show_lower access E st req) = snd (route_handler access E st req)
    \<and> (fst (route_handler_v1 show_lower access E st req) = Inl Panicked \<longleftrightarrow>
        fst (route_handler access E st req) = Inl Panicked
        \<or> (\<exists>a f k. fst (route_handler access E st req) = Inr (Available a) \<and> f \<in> set (av_funding_from a)
            \<and> fm_token_contract f = Solana_address k))
    \<and> (\<forall>e. fst (route_handler_v1 show_lower access E st req) = Inl (Failure e)
        \<longleftrightarrow> fst (route_handler access E st req) = Inl (Failure e))
    \<and> (\<forall>a1. fst (route_handler_v1 show_lower access E st req) = Inr (Available_v1 a1) \<longrightarrow>
        (\<exists>a. fst (route_handler access E st req) = Inr (Available a)
          \<and> a1_orchestration_id a1 = av_orchestration_id a \<and> a1_transactions a1 = flat_transactions (av_transactions a)
          \<and> a1_initial_transaction a1 = av_initial_transaction a
          \<and> length (a1_funding_from a1) = length (av_funding_from a)))"
proof -
  obtain r st' where r: "route_handler access E st req = (r, st')" by (cases "route_handler access E st req")
  have v1: "route_handler_v1 show_lower access E st req
      = (bind_res r (\<lambda>response. ok_or Panicked (response_v1 show_lower response)), st')"
    by (simp add: route_handler_v1_def r)
  have av: "response_v1 show_lower x = Some (Available_v1 a1) \<Longrightarrow> \<exists>a. x = Available a
      \<and> a1_orchestration_id a1 = av_orchestration_id a \<and> a1_transactions a1 = flat_transactions (av_transactions a)
          \<and> a1_initial_transaction a1 = av_initial_transaction a
          \<and> length (a1_funding_from a1) = length (av_funding_from a)" for x a1
    by (auto simp: response_v1_def available_v1_def collect_opt_length split: prepare_response.splits)
  show ?thesis unfolding v1 r fst_conv snd_conv
    by (cases r) (auto simp: res_simps response_v1_None dest!: av)
qed

text \<open>A request without calls fails in both versions.\<close>

lemma first_version_panics_witness:
  "fst (route_handler_v1 (\<lambda>_. ''0x'') (Inr ()) demo_route ((Map.empty, Map.empty), ()) demo_prepare)
    = Inl (Failure (RE_InvalidParameter ''The transaction calls are empty''))"
proof -
  have "fst (route_handler (Inr ()) demo_route ((Map.empty, Map.empty), ()) demo_prepare)
    = Inl (Failure (RE_InvalidParameter ''The transaction calls are empty''))"
    by (simp add: route_handler_def demo_prepare_def)
  then show ?thesis
    using first_version_panics [of "\<lambda>_. ''0x''" "Inr ()" demo_route "((Map.empty, Map.empty), ())" demo_prepare] by blast
qed

end
