(* ===== verification/Balances.thy ===== *)
theory Balances
  imports Bridging Storage
begin

text \<open>
  Balances of an address (\<open>handlers/balance.rs\<close>): the requests that are answered with no balances, the cache,
  the fallback between providers, the forced update of single tokens, the tokens of Rootstock and the cache of
  token metadata.  Floating-point numbers are a type with its operations; chains, providers, prices, JSON and
  the parser of addresses are parameters; analytics and metrics are left out.
\<close>

section \<open>Values\<close>

text \<open>The operations of \<open>f64\<close> that the code uses.\<close>

record 'f floats =
  fl_zero :: 'f
  fl_of_u64 :: "u64 \<Rightarrow> 'f"
  fl_of_u128 :: "u128 \<Rightarrow> 'f"
  fl_parse :: "string \<Rightarrow> 'f option"
  fl_add :: "'f \<Rightarrow> 'f \<Rightarrow> 'f"
  fl_mul :: "'f \<Rightarrow> 'f \<Rightarrow> 'f"
  fl_div :: "'f \<Rightarrow> 'f \<Rightarrow> 'f"

text \<open>The scaling factor is a 64-bit power of ten, which wraps around.\<close>

definition convert_token_amount_to_value :: "'f floats \<Rightarrow> u256 \<Rightarrow> 'f \<Rightarrow> u8 \<Rightarrow> 'f" where
  "convert_token_amount_to_value F balance price decimals =
    (let scaling_factor = fl_of_u64 F (10 ^ unat decimals);
         balance_f64 = (if 2 ^ 128 - 1 < unat balance then
             (case fl_parse F (show_nat (unat balance)) of
                Some parsed \<Rightarrow> fl_div F parsed scaling_factor | None \<Rightarrow> fl_zero F)
           else fl_div F (fl_of_u128 F (ucast balance)) scaling_factor)
     in fl_mul F balance_f64 price)"

record balance_quantity =
  qu_decimals :: string
  qu_numeric :: string

record 'f balance_item =
  bi_name :: string
  bi_symbol :: string
  bi_chain_id :: "string option"
  bi_address :: "string option"
  bi_value :: "'f option"
  bi_price :: 'f
  bi_quantity :: balance_quantity
  bi_icon_url :: string

type_synonym 'f balance_response = "'f balance_item list"

record 'u balance_request =
  br_project_id :: string
  br_currency :: 'u
  br_chain_id :: "string option"
  br_force_update :: "string option"
  br_sv :: "string option"

record 'f fungible =
  fu_name :: string
  fu_symbol :: string
  fu_icon_url :: string
  fu_price :: 'f
  fu_decimals :: u8

text \<open>The two headers that are read: \<open>origin\<close> with its text, and \<open>x-sdk-version\<close>, present, with its text.\<close>

record balance_headers =
  bh_origin :: "string option"
  bh_sdk_version :: "string option option"

section \<open>The cache of balances\<close>

definition BALANCE_CACHE_TTL :: nat where "BALANCE_CACHE_TTL = 10"

record ('s, 'f) balance_cache =
  bc_get :: "'s \<Rightarrow> string \<Rightarrow> (storage_error, 'f balance_response option) result"
  bc_set :: "'s \<Rightarrow> string \<Rightarrow> 'f balance_response \<Rightarrow> nat \<Rightarrow> (storage_error, 's) result"

definition address_balance_cache_key :: "string \<Rightarrow> string" where
  "address_balance_cache_key address = ''address_balance/'' @ address"

definition get_cached_balance ::
  "('s, 'f) balance_cache option \<Rightarrow> 's \<Rightarrow> string \<Rightarrow> 'f balance_response option" where
  "get_cached_balance cache st address = (case cache of
      None \<Rightarrow> None
    | Some C \<Rightarrow> (case bc_get C st (address_balance_cache_key address) of Inr found \<Rightarrow> found | Inl _ \<Rightarrow> None))"

definition set_cached_balance ::
  "('s, 'f) balance_cache option \<Rightarrow> 's \<Rightarrow> string \<Rightarrow> 'f balance_response \<Rightarrow> 's" where
  "set_cached_balance cache st address item = (case cache of
      None \<Rightarrow> st
    | Some C \<Rightarrow>
        (case bc_set C st (address_balance_cache_key address) item BALANCE_CACHE_TTL of Inr st' \<Rightarrow> st' | Inl _ \<Rightarrow> st))"

section \<open>The environment\<close>

text \<open>\<open>en_providers\<close> is the choice of at most so many providers of a namespace from the repository.\<close>

record ('p, 'f, 'u, 's) balance_handler =
  en_denylist :: "string list option"
  en_access :: "string \<Rightarrow> (rpc_error, unit) result"
  en_floats :: "'f floats"
  en_cache :: "('s, 'f) balance_cache option"
  en_providers :: "caip_namespace \<Rightarrow> nat \<Rightarrow> (rpc_error, 'p list) result"
  en_get_balance :: "'p \<Rightarrow> string \<Rightarrow> 'u balance_request \<Rightarrow> (rpc_error, 'f balance_response) result"
  en_testing_project_id :: "string option"
  en_parse_address :: "string \<Rightarrow> address option"
  en_b58 :: "string \<Rightarrow> bytes option"
  en_balances :: "unit balance_env"
  en_price :: "caip_namespace \<Rightarrow> (string \<Rightarrow> string \<Rightarrow> 'u \<Rightarrow> (rpc_error, 'f fungible list) result) option"
  en_show_lower :: "address \<Rightarrow> string"

section \<open>Rootstock\<close>

definition ROOTSTOCK_MAINNET_CHAIN_ID :: string where "ROOTSTOCK_MAINNET_CHAIN_ID = ''eip155:30''"

definition ROOTSTOCK_TESTNET_CHAIN_ID :: string where "ROOTSTOCK_TESTNET_CHAIN_ID = ''eip155:31''"

definition ROOTSTOCK_MAINNET_TOKENS :: "string list" where
  "ROOTSTOCK_MAINNET_TOKENS = [''0x2AcC95758f8b5F583470ba265EB685a8F45fC9D5'',
     ''0x5Db91E24BD32059584bbdB831a901F1199f3D459'', ''0x3A15461d8aE0F0Fb5Fa2629e9DA7D66A794a6e37'']"

record rootstock_token_metadata =
  rk_name :: string
  rk_symbol :: string
  rk_decimals :: u8
  rk_icon_url :: string

definition get_rootstock_token_metadata :: "string \<Rightarrow> rootstock_token_metadata" where
  "get_rootstock_token_metadata contract_address =
    (let a = to_lowercase contract_address in
     if a = ''0x2acc95758f8b5f583470ba265eb685a8f45fc9d5'' then
       \<lparr> rk_name = ''Rootstock Infrastructure Framework'', rk_symbol = ''RIF'', rk_decimals = 18, rk_icon_url =
         ''https://coin-images.coingecko.com/coins/images/7460/small/8befc44a46c247e8a3f7fc8abba586b1_%283%29.png'' \<rparr>
     else if a = ''0x5db91e24bd32059584bbdb831a901f1199f3d459'' then
       \<lparr> rk_name = ''Staked RIF'', rk_symbol = ''stRIF'', rk_decimals = 18, rk_icon_url =
         ''https://coin-images.coingecko.com/coins/images/7460/small/8befc44a46c247e8a3f7fc8abba586b1_%283%29.png'' \<rparr>
     else if a = ''0x3a15461d8ae0f0fb5fa2629e9da7d66a794a6e37'' then
       \<lparr> rk_name = ''RIF US Dollar'', rk_symbol = ''USDRIF'', rk_decimals = 18, rk_icon_url =
         ''https://assets.coingecko.com/coins/images/6319/small/usdc.png'' \<rparr>
     else \<lparr> rk_name = ''Unknown Token'', rk_symbol = ''UNKNOWN'', rk_decimals = 18, rk_icon_url = [] \<rparr>)"

definition rpc_project ::  "('p, 'f, 'u, 's) balance_handler \<Rightarrow> (rpc_error, string) result" where
  "rpc_project E = ok_or (RE_InvalidConfiguration
     ''Missing testing project id in the configuration for the balance RPC lookups'') (en_testing_project_id E)"

definition rpc_balance ::
  "('p, 'f, 'u, 's) balance_handler \<Rightarrow> string \<Rightarrow> address \<Rightarrow> address \<Rightarrow> (rpc_error, u256) result" where
  "rpc_balance E chain_id contract wallet =
    map_err RE_CryptoUtilsError (get_erc20_balance (en_balances E) chain_id contract wallet)"

text \<open>A price that cannot be had is zero.\<close>

definition rootstock_price :: "('p, 'f, 'u, 's) balance_handler \<Rightarrow> 'u \<Rightarrow> string \<Rightarrow> 'f" where
  "rootstock_price E currency contract = (case en_price E Rootstock of
      None \<Rightarrow> fl_zero (en_floats E)
    | Some get_price \<Rightarrow>
        (case disassemble_caip2 ROOTSTOCK_MAINNET_CHAIN_ID of
           Inl _ \<Rightarrow> fl_zero (en_floats E)
         | Inr (_, chain_id) \<Rightarrow>
             (case get_price chain_id contract currency of
                Inr (token_info # _) \<Rightarrow> fu_price token_info
              | _ \<Rightarrow> fl_zero (en_floats E))))"

definition rootstock_item ::
  "('p, 'f, 'u, 's) balance_handler \<Rightarrow> address \<Rightarrow> 'u \<Rightarrow> string \<Rightarrow> 'f balance_item option" where
  "rootstock_item E wallet currency contract_str =
    (case bind_res (ok_or RE_InvalidAddress (en_parse_address E contract_str)) (\<lambda>contract.
        rpc_balance E ROOTSTOCK_MAINNET_CHAIN_ID contract wallet) of
       Inl _ \<Rightarrow> None
     | Inr balance \<Rightarrow>
         if balance = 0 then None
         else (let metadata = get_rootstock_token_metadata contract_str; price = rootstock_price E currency contract_str in
           Some \<lparr> bi_name = rk_name metadata, bi_symbol = rk_symbol metadata,
             bi_chain_id = Some ROOTSTOCK_MAINNET_CHAIN_ID,
             bi_address = Some (ROOTSTOCK_MAINNET_CHAIN_ID @ '':'' @ contract_str),
             bi_value = Some (convert_token_amount_to_value (en_floats E) balance price (rk_decimals metadata)),
             bi_price = price,
             bi_quantity = \<lparr> qu_decimals = show_nat (unat (rk_decimals metadata)),
               qu_numeric = format_token_amount balance (rk_decimals metadata) \<rparr>,
             bi_icon_url = rk_icon_url metadata \<rparr>))"

definition fetch_rootstock_mainnet_balances ::
  "('p, 'f, 'u, 's) balance_handler \<Rightarrow> string \<Rightarrow> 'u \<Rightarrow> (rpc_error, 'f balance_response) result" where
  "fetch_rootstock_mainnet_balances E address currency =
    bind_res (rpc_project E) (\<lambda>_.
    bind_res (ok_or RE_InvalidAddress (en_parse_address E address)) (\<lambda>wallet.
      Inr (List.map_filter (rootstock_item E wallet currency) ROOTSTOCK_MAINNET_TOKENS)))"

section \<open>Forced updates\<close>

text \<open>\<open>iter_mut().find(..)\<close>: the first item that satisfies the test is changed.\<close>

fun update_first :: "('a \<Rightarrow> bool) \<Rightarrow> ('a \<Rightarrow> 'a) \<Rightarrow> 'a list \<Rightarrow> 'a list option" where
  "update_first P f [] = None"
| "update_first P f (x # xs) = (if P x then Some (f x # xs) else map_option ((#) x) (update_first P f xs))"

definition item_decimals :: "'f balance_item \<Rightarrow> u8" where
  "item_decimals b = (case parse_uint (2 ^ 8) (qu_decimals (bi_quantity b)) of Some n \<Rightarrow> word_of_nat n | None \<Rightarrow> 0)"

definition with_balance :: "'f floats \<Rightarrow> u256 \<Rightarrow> 'f balance_item \<Rightarrow> 'f balance_item" where
  "with_balance F balance b = b \<lparr>
     bi_quantity := (bi_quantity b) \<lparr> qu_numeric := format_token_amount balance (item_decimals b) \<rparr>,
     bi_value := Some (convert_token_amount_to_value F balance (bi_price b) (item_decimals b)) \<rparr>"

definition H160_EMPTY_ADDRESS :: address where "H160_EMPTY_ADDRESS = replicate 20 0xee"

definition new_item ::
  "('p, 'f, 'u, 's) balance_handler \<Rightarrow> 'u \<Rightarrow> caip_namespace \<Rightarrow> string \<Rightarrow> address \<Rightarrow> string \<Rightarrow> u256
    \<Rightarrow> (rpc_error, 'f balance_item) result" where
  "new_item E currency namespace chain_id contract caip_contract_address balance =
    bind_res (ok_or (RE_UnsupportedNamespace namespace) (en_price E namespace)) (\<lambda>get_price.
    bind_res (get_price chain_id (en_show_lower E contract) currency) (\<lambda>fungibles. case fungibles of
        [] \<Rightarrow> Inl RE_BalanceProviderError
      | token_info # _ \<Rightarrow> Inr \<lparr> bi_name = fu_name token_info, bi_symbol = fu_symbol token_info,
          bi_chain_id = Some (namespace_display namespace @ '':'' @ chain_id),
          bi_address = (if contract = H160_EMPTY_ADDRESS then None else Some caip_contract_address),
          bi_value = Some (convert_token_amount_to_value (en_floats E) balance (fu_price token_info) (fu_decimals token_info)),
          bi_price = fu_price token_info,
          bi_quantity = \<lparr> qu_decimals = show_nat (unat (fu_decimals token_info)),
            qu_numeric = format_token_amount balance (fu_decimals token_info) \<rparr>,
          bi_icon_url = fu_icon_url token_info \<rparr>))"

definition update_item ::
  "('p, 'f, 'u, 's) balance_handler \<Rightarrow> 'u \<Rightarrow> string \<Rightarrow> string \<Rightarrow> 'f balance_response
    \<Rightarrow> (rpc_error, 'f balance_response) result" where
  "update_item E currency address caip_contract_address balances =
    bind_res (map_err (\<lambda>_. RE_InvalidAddress)
      (disassemble_caip10 (en_parse_address E) (en_b58 E) caip_contract_address)) (\<lambda>(namespace, chain_id, contract_str).
    bind_res (ok_or RE_InvalidAddress (en_parse_address E contract_str)) (\<lambda>contract.
    let caip2_chain_id = namespace_display namespace @ '':'' @ chain_id in
    bind_res (ok_or RE_InvalidAddress (en_parse_address E address)) (\<lambda>wallet.
    bind_res (rpc_balance E caip2_chain_id contract wallet) (\<lambda>balance.
    case update_first (\<lambda>b. bi_address b = Some caip_contract_address) (with_balance (en_floats E) balance) balances of
      Some balances' \<Rightarrow> Inr balances'
    | None \<Rightarrow>
        (case (if contract = H160_EMPTY_ADDRESS then
             update_first (\<lambda>b. bi_address b = None \<and> bi_chain_id b = Some caip2_chain_id)
               (with_balance (en_floats E) balance) balances else None) of
           Some balances' \<Rightarrow> Inr balances'
         | None \<Rightarrow> bind_res (new_item E currency namespace chain_id contract caip_contract_address balance)
             (\<lambda>item. Inr (balances @ [item])))))))"

fun update_items ::
  "('p, 'f, 'u, 's) balance_handler \<Rightarrow> 'u \<Rightarrow> string \<Rightarrow> string list \<Rightarrow> 'f balance_response
    \<Rightarrow> (rpc_error, 'f balance_response) result" where
  "update_items E currency address [] balances = Inr balances"
| "update_items E currency address (c # cs) balances =
    bind_res (update_item E currency address c balances) (update_items E currency address cs)"

definition force_update ::
  "('p, 'f, 'u, 's) balance_handler \<Rightarrow> 'u balance_request \<Rightarrow> caip_namespace \<Rightarrow> string \<Rightarrow> 'f balance_response
    \<Rightarrow> (rpc_error, 'f balance_response) result" where
  "force_update E q namespace address balances = (case br_force_update q of
      None \<Rightarrow> Inr balances
    | Some contracts \<Rightarrow>
        if namespace \<noteq> Eip155 then Inl (RE_UnsupportedNamespace namespace)
        else bind_res (rpc_project E) (\<lambda>_.
          update_items E (br_currency q) address (split_on CHR '','' contracts) balances))"

section \<open>The handler\<close>

definition PROVIDER_MAX_CALLS :: nat where "PROVIDER_MAX_CALLS = 2"

definition EMPTY_BALANCE_RESPONSE_SDK_VERSIONS :: "string list" where
  "EMPTY_BALANCE_RESPONSE_SDK_VERSIONS = [''1.6.4'', ''1.6.5'']"

definition ends_with :: "string \<Rightarrow> string \<Rightarrow> bool" where
  "ends_with p s = (length p \<le> length s \<and> drop (length s - length p) s = p)"

definition sdk_version :: "'u balance_request \<Rightarrow> balance_headers \<Rightarrow> string option" where
  "sdk_version q h = (case br_sv q of
      Some v \<Rightarrow> Some v
    | None \<Rightarrow> (case bh_sdk_version h of Some v \<Rightarrow> v | None \<Rightarrow> None))"

text \<open>The first answer of the providers in their order.\<close>

fun first_answer :: "('p \<Rightarrow> ('e, 'r) result) \<Rightarrow> 'p list \<Rightarrow> 'r option" where
  "first_answer call [] = None"
| "first_answer call (p # ps) = (case call p of Inr r \<Rightarrow> Some r | Inl _ \<Rightarrow> first_answer call ps)"

definition request_namespace :: "'u balance_request \<Rightarrow> caip_namespace" where
  "request_namespace q = (case br_chain_id q of
      None \<Rightarrow> Eip155
    | Some chain_id \<Rightarrow> (case disassemble_caip2 chain_id of Inr (namespace, _) \<Rightarrow> namespace | Inl _ \<Rightarrow> Eip155))"

text \<open>The cache is written by a background task; here the write has happened when the handler returns.\<close>

definition fetch_balances ::
  "('p, 'f, 'u, 's) balance_handler \<Rightarrow> 's \<Rightarrow> 'u balance_request \<Rightarrow> string
    \<Rightarrow> (rpc_error, 'f balance_response) result \<times> 's" where
  "fetch_balances E st q address =
    (let namespace = request_namespace q in
     case bind_res (ensure (is_address_valid_impl (en_parse_address E) (en_b58 E) address namespace) RE_InvalidAddress) (\<lambda>_.
        bind_res (en_providers E namespace PROVIDER_MAX_CALLS) (\<lambda>providers.
        bind_res (ok_or (RE_BalanceTemporarilyUnavailable (namespace_display namespace))
          (first_answer (\<lambda>p. en_get_balance E p address q) providers)) (\<lambda>balances.
        force_update E q namespace address balances))) of
       Inl e \<Rightarrow> (Inl e, st)
     | Inr response \<Rightarrow> (Inr response, set_cached_balance (en_cache E) st address response))"

definition no_balances :: "'u balance_request \<Rightarrow> balance_headers \<Rightarrow> bool" where
  "no_balances q h =
    ((bh_sdk_version h = None \<and> br_sv q = None)
     \<or> (case sdk_version q h of
          Some version \<Rightarrow> list_ex (\<lambda>v. version = v \<or> ends_with v version) EMPTY_BALANCE_RESPONSE_SDK_VERSIONS
        | None \<Rightarrow> False)
     \<or> br_chain_id q = Some ROOTSTOCK_TESTNET_CHAIN_ID)"

definition balance_handler_internal ::
  "('p, 'f, 'u, 's) balance_handler \<Rightarrow> 's \<Rightarrow> 'u balance_request \<Rightarrow> balance_headers \<Rightarrow> string
    \<Rightarrow> (rpc_error, 'f balance_response) result \<times> 's" where
  "balance_handler_internal E st q h address =
    (if (case en_denylist E of Some ids \<Rightarrow> br_project_id q \<in> set ids | None \<Rightarrow> False) then (Inr [], st)
     else if bh_origin h = None \<or> bh_origin h = Some [] then (Inr [], st)
     else (case en_access E (br_project_id q) of
        Inl e \<Rightarrow> (Inl e, st)
      | Inr _ \<Rightarrow>
          if no_balances q h then (Inr [], st)
          else if br_chain_id q = Some ROOTSTOCK_MAINNET_CHAIN_ID then
            (fetch_rootstock_mainnet_balances E address (br_currency q), st)
          else (case (if br_force_update q = None then get_cached_balance (en_cache E) st address else None) of
             Some cached \<Rightarrow> (Inr cached, st)
           | None \<Rightarrow> fetch_balances E st q address)))"

section \<open>Token metadata\<close>

definition METADATA_CACHE_TTL :: nat where "METADATA_CACHE_TTL = 60 * 60 * 24"

record token_metadata_cache_item =
  tm_name :: string
  tm_symbol :: string
  tm_icon_url :: string
  tm_decimals :: u8

text \<open>A pool of Redis connections.\<close>

record 's redis_pool =
  rp_connect :: "'s \<Rightarrow> (string, unit) result"
  rp_get :: "'s \<Rightarrow> string \<Rightarrow> (string, string option) result"
  rp_set_ex :: "'s \<Rightarrow> string \<Rightarrow> string \<Rightarrow> nat \<Rightarrow> (string, 's) result"

definition token_metadata_cache_key :: "string \<Rightarrow> string" where
  "token_metadata_cache_key caip10_token_address = ''token_metadata/'' @ caip10_token_address"

definition pool_connection :: "'s redis_pool \<Rightarrow> 's \<Rightarrow> (storage_error, unit) result" where
  "pool_connection R st =
    map_err (\<lambda>e. SE_Connection (''Error when getting the Redis pool instance '' @ e)) (rp_connect R st)"

definition metadata_set_cache ::
  "'s redis_pool option \<Rightarrow> 's \<Rightarrow> string \<Rightarrow> string \<Rightarrow> nat \<Rightarrow> (storage_error, 's) result" where
  "metadata_set_cache pool st key v ttl = (case pool of
      None \<Rightarrow> Inr st
    | Some R \<Rightarrow> bind_res (pool_connection R st)
        (\<lambda>_. map_err (\<lambda>e. SE_Connection (''Error when seting cache: '' @ e)) (rp_set_ex R st key v ttl)))"

definition metadata_get_cache :: "'s redis_pool option \<Rightarrow> 's \<Rightarrow> string \<Rightarrow> (storage_error, string option) result" where
  "metadata_get_cache pool st key = (case pool of
      None \<Rightarrow> Inr None
    | Some R \<Rightarrow> bind_res (pool_connection R st)
        (\<lambda>_. map_err (\<lambda>e. SE_Connection (''Error when getting cache: '' @ e)) (rp_get R st key)))"

definition get_metadata ::
  "(string \<Rightarrow> (string, token_metadata_cache_item) result) \<Rightarrow> 's redis_pool option \<Rightarrow> 's \<Rightarrow> string
    \<Rightarrow> (rpc_error, token_metadata_cache_item option) result" where
  "get_metadata of_json pool st caip10_token_address =
    bind_res (map_err RE_StorageError (metadata_get_cache pool st (token_metadata_cache_key caip10_token_address)))
      (\<lambda>found. case found of
        None \<Rightarrow> Inr None
      | Some text \<Rightarrow> map_err RE_SerdeJson (map_sum id Some (of_json text)))"

definition set_metadata ::
  "(token_metadata_cache_item \<Rightarrow> (string, string) result) \<Rightarrow> 's redis_pool option \<Rightarrow> 's \<Rightarrow> string
    \<Rightarrow> token_metadata_cache_item \<Rightarrow> (rpc_error, 's) result" where
  "set_metadata to_json pool st caip10_token_address item =
    bind_res (map_err RE_SerdeJson (to_json item)) (\<lambda>text.
      map_err RE_StorageError
        (metadata_set_cache pool st (token_metadata_cache_key caip10_token_address) text METADATA_CACHE_TTL))"

section \<open>Forced updates are current\<close>

text \<open>What a contract of a forced update stands for: its namespace, chain and address.\<close>

definition forced_contract ::
  "('p, 'f, 'u, 's) balance_handler \<Rightarrow> string \<Rightarrow> (string \<times> address) option" where
  "forced_contract E c = (case disassemble_caip10 (en_parse_address E) (en_b58 E) c of
     Inl _ \<Rightarrow> None
   | Inr (namespace, chain_id, s) \<Rightarrow>
       map_option (\<lambda>a. (namespace_display namespace @ '':'' @ chain_id, a)) (en_parse_address E s))"

text \<open>An item stands for a contract by its address, or as the native token of the chain; and it shows a balance.\<close>

definition stands_for :: "string \<Rightarrow> string \<Rightarrow> address \<Rightarrow> 'f balance_item \<Rightarrow> bool" where
  "stands_for c chain contract b = (bi_address b = Some c
     \<or> (contract = H160_EMPTY_ADDRESS \<and> bi_address b = None \<and> bi_chain_id b = Some chain))"

definition shows_balance :: "'f floats \<Rightarrow> u256 \<Rightarrow> 'f balance_item \<Rightarrow> bool" where
  "shows_balance F balance b = (qu_numeric (bi_quantity b) = format_token_amount balance (item_decimals b)
     \<and> bi_value b = Some (convert_token_amount_to_value F balance (bi_price b) (item_decimals b)))"

definition current_item ::
  "('p, 'f, 'u, 's) balance_handler \<Rightarrow> address \<Rightarrow> string \<Rightarrow> 'f balance_item \<Rightarrow> bool" where
  "current_item E wallet c b = (\<exists>chain contract balance. forced_contract E c = Some (chain, contract)
     \<and> stands_for c chain contract b \<and> rpc_balance E chain contract wallet = Inr balance
     \<and> shows_balance (en_floats E) balance b)"

text \<open>What stays the same: everything but the amount and the value.\<close>

definition same_token :: "'f balance_item \<Rightarrow> 'f balance_item \<Rightarrow> bool" where
  "same_token a b = (bi_name b = bi_name a \<and> bi_symbol b = bi_symbol a \<and> bi_chain_id b = bi_chain_id a
     \<and> bi_address b = bi_address a \<and> bi_price b = bi_price a \<and> bi_icon_url b = bi_icon_url a
     \<and> qu_decimals (bi_quantity b) = qu_decimals (bi_quantity a))"

lemma same_token_refl [simp]: "same_token b b" by (simp add: same_token_def)

lemma same_token_trans: "same_token a b \<Longrightarrow> same_token b c \<Longrightarrow> same_token a c" by (simp add: same_token_def)

lemma with_balance_same: "same_token b (with_balance F balance b)" by (simp add: same_token_def with_balance_def)

lemma with_balance_shows: "shows_balance F balance (with_balance F balance b)"
  by (simp add: shows_balance_def with_balance_def item_decimals_def)

lemma stands_for_same: "same_token a b \<Longrightarrow> stands_for c chain contract b \<longleftrightarrow> stands_for c chain contract a"
  by (simp add: stands_for_def same_token_def)

lemma update_first_SomeD:
  "update_first P f xs = Some ys \<Longrightarrow> \<exists>pre x post. xs = pre @ x # post \<and> P x \<and> ys = pre @ f x # post"
proof (induction xs arbitrary: ys)
  case (Cons a xs)
  show ?case
  proof (cases "P a")
    case True
    then show ?thesis using Cons.prems by (intro exI [of _ "[]"]) simp
  next
    case False
    then obtain zs where "update_first P f xs = Some zs" "ys = a # zs" using Cons.prems by auto
    with Cons.IH obtain pre x post where "xs = pre @ x # post" "P x" "ys = (a # pre) @ f x # post" by fastforce
    then show ?thesis by (intro exI [of _ "a # pre"]) auto
  qed
qed simp

lemma update_first_None: "update_first P f xs = None \<longleftrightarrow> (\<forall>x\<in>set xs. \<not> P x)"
  by (induction xs) auto

lemma item_decimals_show:
  "qu_decimals (bi_quantity b) = show_nat (unat d) \<Longrightarrow> item_decimals b = d"
  using unsigned_less [of d, where ?'a = nat] parse_uint_show_nat [of "unat d" 256] by (simp add: item_decimals_def)

lemma update_item_ok:
  assumes "update_item E currency address c bs = Inr bs'"
  shows "\<exists>wallet. en_parse_address E address = Some wallet \<and> (\<exists>chain contract balance pre post.
    forced_contract E c = Some (chain, contract) \<and> rpc_balance E chain contract wallet = Inr balance
    \<and> ((\<exists>b. bs = pre @ b # post \<and> stands_for c chain contract b
          \<and> bs' = pre @ with_balance (en_floats E) balance b # post)
       \<or> (\<exists>b. bs' = bs @ [b] \<and> stands_for c chain contract b \<and> shows_balance (en_floats E) balance b)))"
proof -
  obtain namespace chain_id s contract wallet balance where
    c: "disassemble_caip10 (en_parse_address E) (en_b58 E) c = Inr (namespace, chain_id, s)"
      "en_parse_address E s = Some contract" "en_parse_address E address = Some wallet"
    and b: "rpc_balance E (namespace_display namespace @ '':'' @ chain_id) contract wallet = Inr balance"
    and r: "(case update_first (\<lambda>b. bi_address b = Some c) (with_balance (en_floats E) balance) bs of
      Some balances' \<Rightarrow> Inr balances'
    | None \<Rightarrow>
        (case (if contract = H160_EMPTY_ADDRESS then
             update_first (\<lambda>b. bi_address b = None \<and> bi_chain_id b = Some (namespace_display namespace @ '':'' @ chain_id))
               (with_balance (en_floats E) balance) bs else None) of
           Some balances' \<Rightarrow> Inr balances'
         | None \<Rightarrow> bind_res (new_item E currency namespace chain_id contract c balance)
             (\<lambda>item. Inr (bs @ [item])))) = Inr bs'"
    using assms unfolding update_item_def Let_def by (auto simp: res_simps simp del: append.simps)
  let ?chain = "namespace_display namespace @ '':'' @ chain_id"
  have f: "forced_contract E c = Some (?chain, contract)" using c by (simp add: forced_contract_def)
  show ?thesis
  proof (cases "update_first (\<lambda>b. bi_address b = Some c) (with_balance (en_floats E) balance) bs")
    case (Some x)
    from update_first_SomeD [OF this] obtain pre y post where
      "bs = pre @ y # post" "bi_address y = Some c" "x = pre @ with_balance (en_floats E) balance y # post" by blast
    moreover have "bs' = x" using r Some by simp
    ultimately show ?thesis using f b c(3) unfolding stands_for_def by blast
  next
    case None
    show ?thesis
    proof (cases "if contract = H160_EMPTY_ADDRESS then
             update_first (\<lambda>b. bi_address b = None \<and> bi_chain_id b = Some ?chain)
               (with_balance (en_floats E) balance) bs else None")
      case (Some x)
      then have native: "contract = H160_EMPTY_ADDRESS" by (auto split: if_splits)
      from update_first_SomeD [of _ _ bs x] Some native obtain pre y post where
        "bs = pre @ y # post" "bi_address y = None \<and> bi_chain_id y = Some ?chain"
        "x = pre @ with_balance (en_floats E) balance y # post" by fastforce
      moreover have "bs' = x" using r None Some by simp
      ultimately show ?thesis using f b c(3) native unfolding stands_for_def by blast
    next
      case none: None
      then obtain item where item: "new_item E currency namespace chain_id contract c balance = Inr item"
        "bs' = bs @ [item]"
        using r None by (auto simp: bind_res_Inr_iff simp del: append.simps)
      obtain get_price token_info more where "en_price E namespace = Some get_price"
        "get_price chain_id (en_show_lower E contract) currency = Inr (token_info # more)"
        using item(1) unfolding new_item_def by (auto simp: bind_res_Inr_iff ok_or_Inr_iff neq_Nil_conv split: list.splits)
      then have "stands_for c ?chain contract item \<and> shows_balance (en_floats E) balance item"
        using item(1) item_decimals_show [of item "fu_decimals token_info"]
        by (auto simp: new_item_def stands_for_def shows_balance_def split: if_splits)
      then show ?thesis using item(2) f b c(3) by blast
    qed
  qed
qed

lemma shows_balance_same:
  "stands_for c chain contract b \<Longrightarrow> current_item E wallet c' b \<Longrightarrow> forced_contract E c = Some (chain, contract) \<Longrightarrow>
    rpc_balance E chain contract wallet = Inr balance \<Longrightarrow> current_item E wallet c' (with_balance (en_floats E) balance b)"
  unfolding current_item_def stands_for_same [OF with_balance_same, symmetric]
  by (auto simp: stands_for_def with_balance_shows) (auto simp: with_balance_def)

text \<open>One update, from a response to the next.\<close>

definition updates ::
  "('p, 'f, 'u, 's) balance_handler \<Rightarrow> address \<Rightarrow> string set \<Rightarrow> 'f balance_response \<Rightarrow> 'f balance_response \<Rightarrow> bool" where
  "updates E wallet cs bs bs' = ((\<forall>c\<in>cs. \<exists>b\<in>set bs'. current_item E wallet c b)
     \<and> (\<forall>c. (\<exists>b\<in>set bs. current_item E wallet c b) \<longrightarrow> (\<exists>b\<in>set bs'. current_item E wallet c b))
     \<and> length bs \<le> length bs' \<and> (\<forall>i<length bs. same_token (bs ! i) (bs' ! i)
         \<and> (bs' ! i = bs ! i \<or> (\<exists>c\<in>cs. current_item E wallet c (bs' ! i))
             \<and> (\<forall>c. current_item E wallet c (bs ! i) \<longrightarrow> current_item E wallet c (bs' ! i)))))"

lemma update_item_updates:
  assumes "update_item E currency address c bs = Inr bs'" "en_parse_address E address = Some wallet"
  shows "updates E wallet {c} bs bs'"
proof -
  obtain wallet' chain contract balance pre post where
    w: "en_parse_address E address = Some wallet'" and c: "forced_contract E c = Some (chain, contract)"
    and b: "rpc_balance E chain contract wallet' = Inr balance"
    and r: "(\<exists>b. bs = pre @ b # post \<and> stands_for c chain contract b
          \<and> bs' = pre @ with_balance (en_floats E) balance b # post)
       \<or> (\<exists>b. bs' = bs @ [b] \<and> stands_for c chain contract b \<and> shows_balance (en_floats E) balance b)"
    using update_item_ok [OF assms(1)] by blast
  have f: "forced_contract E c = Some (chain, contract)" "rpc_balance E chain contract wallet = Inr balance"
    using w c b assms(2) by simp_all
  from r show ?thesis
  proof
    assume "\<exists>b. bs = pre @ b # post \<and> stands_for c chain contract b
          \<and> bs' = pre @ with_balance (en_floats E) balance b # post"
    then obtain b where b: "bs = pre @ b # post" "stands_for c chain contract b"
      "bs' = pre @ with_balance (en_floats E) balance b # post" by blast
    have "current_item E wallet c (with_balance (en_floats E) balance b)"
      unfolding current_item_def using f b(2) with_balance_shows stands_for_same [OF with_balance_same] by blast
    moreover have "current_item E wallet c' (with_balance (en_floats E) balance b)" if "current_item E wallet c' b" for c'
      using shows_balance_same [OF b(2) that f] .
    ultimately show ?thesis unfolding updates_def b(1,3)
      by (auto simp: nth_append nth_Cons' with_balance_same)
  next
    assume "\<exists>b. bs' = bs @ [b] \<and> stands_for c chain contract b \<and> shows_balance (en_floats E) balance b"
    then show ?thesis using f unfolding updates_def current_item_def by (fastforce simp: nth_append)
  qed
qed

lemma updates_trans:
  assumes "updates E wallet cs bs bs'" "updates E wallet ds bs' bs''"
  shows "updates E wallet (cs \<union> ds) bs bs''"
proof -
  have "same_token (bs ! i) (bs'' ! i) \<and> (bs'' ! i = bs ! i \<or> (\<exists>c\<in>cs \<union> ds. current_item E wallet c (bs'' ! i))
      \<and> (\<forall>c. current_item E wallet c (bs ! i) \<longrightarrow> current_item E wallet c (bs'' ! i)))" if "i < length bs" for i
  proof -
    have i: "i < length bs'" using that assms(1) by (simp add: updates_def)
    note 1 = assms(1) [unfolded updates_def] and 2 = assms(2) [unfolded updates_def]
    have "same_token (bs ! i) (bs'' ! i)" using 1 2 that i same_token_trans by blast
    then show ?thesis using 1 2 that i by (metis UnI1 UnI2)
  qed
  then show ?thesis using assms unfolding updates_def by (meson UnE le_trans)
qed

lemma update_items_updates:
  assumes "en_parse_address E address = Some wallet"
  shows "update_items E currency address cs bs = Inr bs' \<Longrightarrow> updates E wallet (set cs) bs bs'"
proof (induction cs arbitrary: bs)
  case Nil
  then show ?case by (auto simp: updates_def)
next
  case (Cons c cs)
  then obtain bs1 where "update_item E currency address c bs = Inr bs1" "update_items E currency address cs bs1 = Inr bs'"
    by (auto simp: res_simps)
  with update_item_updates [OF this(1) assms] Cons.IH [of bs1] updates_trans [of E wallet "{c}" bs bs1 "set cs" bs']
  show ?case by simp
qed

text \<open>C18: a forced update shows the present balances.  If it succeeds, every contract of the list has an item, under its
  own identifier or as the native token of its chain, whose amount and value are those of the balance the chain
  answers, in the decimals of the item; the items of the provider keep their places, tokens and prices, and
  only items of listed contracts change.\<close>

theorem force_update_current:
  assumes "force_update E q namespace address bs = Inr bs'" "br_force_update q = Some contracts"
  shows "namespace = Eip155 \<and> (\<exists>wallet. en_parse_address E address = Some wallet
    \<and> (\<forall>c\<in>set (split_on CHR '','' contracts). \<exists>b\<in>set bs'. current_item E wallet c b)
    \<and> length bs \<le> length bs'
    \<and> (\<forall>i<length bs. same_token (bs ! i) (bs' ! i)
        \<and> (bs' ! i = bs ! i \<or> (\<exists>c\<in>set (split_on CHR '','' contracts). current_item E wallet c (bs' ! i)))))"
proof -
  have u: "namespace = Eip155" "update_items E (br_currency q) address (split_on CHR '','' contracts) bs = Inr bs'"
    using assms by (auto simp: force_update_def res_simps split: if_splits)
  obtain c cs where "split_on CHR '','' contracts = c # cs" by (meson split_on_not_Nil neq_Nil_conv)
  then obtain bs1 where c: "update_item E (br_currency q) address c bs = Inr bs1" using u(2) by (auto simp: res_simps)
  from update_item_ok [OF c] obtain wallet where w: "en_parse_address E address = Some wallet" by blast
  note up = update_items_updates [OF w u(2), unfolded updates_def]
  have 1: "\<forall>c\<in>set (split_on CHR '','' contracts). \<exists>b\<in>set bs'. current_item E wallet c b" by (rule up [THEN conjunct1])
  have 2: "length bs \<le> length bs'" by (rule up [THEN conjunct2, THEN conjunct2, THEN conjunct1])
  have 3: "\<forall>i<length bs. same_token (bs ! i) (bs' ! i)
        \<and> (bs' ! i = bs ! i \<or> (\<exists>c\<in>set (split_on CHR '','' contracts). current_item E wallet c (bs' ! i)))"
    using up [THEN conjunct2, THEN conjunct2, THEN conjunct2] by blast
  from u(1) w 1 2 3 show ?thesis by (intro conjI exI [of _ wallet])
qed

text \<open>An environment for one native item; values are integers.\<close>

definition int_floats :: "int floats" where
  "int_floats = \<lparr> fl_zero = 0, fl_of_u64 = uint, fl_of_u128 = uint, fl_parse = (\<lambda>_. None), fl_add = (+), fl_mul = (*),
     fl_div = (div) \<rparr>"

definition map_cache_of :: "(string \<Rightarrow> 'f balance_response option, 'f) balance_cache" where
  "map_cache_of = \<lparr> bc_get = (\<lambda>m k. Inr (m k)), bc_set = (\<lambda>m k v _. Inr (m(k \<mapsto> v))) \<rparr>"

definition demo_item :: "int balance_item" where
  "demo_item = \<lparr> bi_name = ''Ether'', bi_symbol = ''ETH'', bi_chain_id = Some ''eip155:1'', bi_address = None, bi_value = None,
     bi_price = 2, bi_quantity = \<lparr> qu_decimals = ''0'', qu_numeric = ''9'' \<rparr>, bi_icon_url = [] \<rparr>"

definition demo_balance_env :: "(unit, int, string, string \<Rightarrow> int balance_response option) balance_handler" where
  "demo_balance_env = \<lparr> en_denylist = None, en_access = (\<lambda>_. Inr ()), en_floats = int_floats, en_cache = Some map_cache_of,
     en_providers = (\<lambda>_ _. Inr [()]), en_get_balance = (\<lambda>_ _ _. Inr [demo_item]), en_testing_project_id = Some ''t'',
     en_parse_address = (\<lambda>_. Some H160_EMPTY_ADDRESS), en_b58 = (\<lambda>_. None),
     en_balances = \<lparr> be_native = (\<lambda>_ _. Inr 5), be_contract = (\<lambda>_ _ _. Inr 0), be_ata = (\<lambda>k _. k),
       be_token_account = (\<lambda>_. Inl []), be_parse_u256 = (\<lambda>_. Inl []) \<rparr>,
     en_price = (\<lambda>_. None), en_show_lower = (\<lambda>_. []) \<rparr>"

definition demo_balance_request :: "string balance_request" where
  "demo_balance_request = \<lparr> br_project_id = ''p'', br_currency = ''usd'', br_chain_id = Some ''eip155:1'',
     br_force_update = Some ''eip155:1:0xEeeeeEeeeEeEeeEeEeEeeEEEeeeeEeeeeeeeEEeE'', br_sv = Some ''1.7'' \<rparr>"

lemma demo_forced:
  "\<exists>bs'. force_update demo_balance_env demo_balance_request Eip155 ''0x'' [demo_item] = Inr bs'"
proof -
  have c: "disassemble_caip10 (en_parse_address demo_balance_env) (en_b58 demo_balance_env)
      ''eip155:1:0xEeeeeEeeeEeEeeEeEeEeeEEEeeeeEeeeeeeeEEeE''
    = Inr (Eip155, ''1'', ''0xEeeeeEeeeEeEeeEeEeEeeEEEeeeeEeeeeeeeEEeE'')" by code_simp
  have s: "split_on CHR '','' ''eip155:1:0xEeeeeEeeeEeEeeEeEeEeeEEEeeeeEeeeeeeeEEeE''
    = [''eip155:1:0xEeeeeEeeeEeEeeEeEeEeeEEEeeeeEeeeeeeeEEeE'']" by code_simp
  show ?thesis
    by (simp add: force_update_def demo_balance_request_def s update_item_def c)
      (simp add: demo_balance_env_def rpc_project_def rpc_balance_def get_erc20_balance_def H160_EMPTY_ADDRESS_def demo_item_def)
qed

lemma force_update_current_witness:
  "\<exists>bs'. force_update demo_balance_env demo_balance_request Eip155 ''0x'' [demo_item] = Inr bs' \<and> bs' \<noteq> []
    \<and> same_token demo_item (hd bs')"
proof -
  obtain bs' where f: "force_update demo_balance_env demo_balance_request Eip155 ''0x'' [demo_item] = Inr bs'"
    using demo_forced by blast
  have q: "br_force_update demo_balance_request = Some ''eip155:1:0xEeeeeEeeeEeEeeEeEeEeeEEEeeeeEeeeeeeeEEeE''"
    by (simp add: demo_balance_request_def)
  from force_update_current [OF f q] f show ?thesis by (cases bs') auto
qed

section \<open>The cache\<close>

text \<open>A request that reaches the cache.\<close>

definition reaches_cache ::
  "('p, 'f, 'u, 's) balance_handler \<Rightarrow> 'u balance_request \<Rightarrow> balance_headers \<Rightarrow> bool" where
  "reaches_cache E q h = ((case en_denylist E of Some ids \<Rightarrow> br_project_id q \<notin> set ids | None \<Rightarrow> True)
     \<and> (\<exists>c cs. bh_origin h = Some (c # cs)) \<and> is_ok (en_access E (br_project_id q)) \<and> \<not> no_balances q h
     \<and> br_chain_id q \<noteq> Some ROOTSTOCK_MAINNET_CHAIN_ID \<and> br_force_update q = None)"

text \<open>C39: the cache of balances does not know what was asked.  If the cache is a key-value store whose writes succeed, then
  once balances were fetched for an address every request for the address that reaches the cache in the state
  after the fetch, so before the entry expires, is answered with them, for whatever chain, namespace and currency it
  asks, and without a provider.\<close>

theorem balance_cache_by_address:
  assumes "key_value_store (bc_get C) (\<lambda>st k v. bc_set C st k v 10) del" "en_cache E = Some C"
    and "\<And>st k v. is_ok (bc_set C st k v 10)"
    and "fetch_balances E st q address = (Inr r, st')" "reaches_cache E q' h"
  shows "balance_handler_internal E st' q' h address = (Inr r, st')"
proof -
  have "st' = set_cached_balance (Some C) st address r"
    using assms(2,4) unfolding fetch_balances_def Let_def by (auto split: sum.splits)
  moreover obtain st2 where set: "bc_set C st (address_balance_cache_key address) r 10 = Inr st2"
    using assms(3) unfolding is_ok_iff by blast
  ultimately have "st' = st2" by (simp add: set_cached_balance_def BALANCE_CACHE_TTL_def)
  then have "bc_get C st' (address_balance_cache_key address) = Inr (Some r)"
    using key_value_store.get_put [OF assms(1) set] by simp
  then have cached: "get_cached_balance (en_cache E) st' address = Some r" by (simp add: get_cached_balance_def assms(2))
  obtain u where "en_access E (br_project_id q') = Inr u" using assms(5) by (auto simp: reaches_cache_def is_ok_iff)
  then show ?thesis
    using assms(5) cached unfolding reaches_cache_def balance_handler_internal_def
    by (auto split: option.splits)
qed

lemma balance_cache_by_address_witness:
  "\<exists>st'. fetch_balances demo_balance_env Map.empty (demo_balance_request \<lparr> br_force_update := None \<rparr>)
      ''0xEeeeeEeeeEeEeeEeEeEeeEEEeeeeEeeeeeeeEEeE'' = (Inr [demo_item], st')
    \<and> balance_handler_internal demo_balance_env st'
       (demo_balance_request \<lparr> br_currency := ''eur'', br_chain_id := Some ''solana:x'', br_force_update := None \<rparr>)
       \<lparr> bh_origin = Some ''o'', bh_sdk_version = None \<rparr> ''0xEeeeeEeeeEeEeeEeEeEeeEEEeeeeEeeeeeeeEEeE'' = (Inr [demo_item], st')"
proof -
  let ?a = "''0xEeeeeEeeeEeEeeEeEeEeeEEEeeeeEeeeeeeeEEeE''"
  let ?q = "demo_balance_request \<lparr> br_force_update := None \<rparr>"
  let ?q' = "demo_balance_request \<lparr> br_currency := ''eur'', br_chain_id := Some ''solana:x'', br_force_update := None \<rparr>"
  have "is_address_valid_impl (en_parse_address demo_balance_env) (en_b58 demo_balance_env) ?a Eip155" by code_simp
  moreover have "request_namespace ?q = Eip155" by code_simp
  ultimately obtain st' where f: "fetch_balances demo_balance_env Map.empty ?q ?a = (Inr [demo_item], st')"
    by (simp add: fetch_balances_def ensure_def force_update_def) (simp add: demo_balance_env_def)
  have store: "key_value_store (bc_get (map_cache_of :: (_, int) balance_cache)) (\<lambda>st k v. bc_set map_cache_of st k v 10)
      (\<lambda>m k. Inr (m(k := None)) :: (storage_error, _) result)"
    by unfold_locales (auto simp: map_cache_of_def)
  have ok: "is_ok (bc_set map_cache_of st k v 10)" for st k and v :: "int balance_response" by (simp add: map_cache_of_def)
  have cache: "en_cache demo_balance_env = Some map_cache_of" by (simp add: demo_balance_env_def)
  have "\<not> no_balances ?q' \<lparr> bh_origin = Some ''o'', bh_sdk_version = None \<rparr>" by code_simp
  then have "reaches_cache demo_balance_env ?q' \<lparr> bh_origin = Some ''o'', bh_sdk_version = None \<rparr>"
    by (simp add: reaches_cache_def demo_balance_env_def demo_balance_request_def ROOTSTOCK_MAINNET_CHAIN_ID_def)
  from balance_cache_by_address [OF store cache ok f this] f show ?thesis by blast
qed

section \<open>Values\<close>

text \<open>The scaling factor is the power of ten up to 19 decimals; it wraps around beyond them, to zero from 64 on.\<close>

lemma scaling_factor:
  "n \<le> 19 \<Longrightarrow> unat ((10 :: u64) ^ n) = 10 ^ n"
  "64 \<le> n \<Longrightarrow> (10 :: u64) ^ n = 0"
proof -
  show "unat ((10 :: u64) ^ n) = 10 ^ n" if "n \<le> 19"
  proof -
    have "(10 :: nat) ^ n \<le> 10 ^ 19" using that by (rule power_increasing) simp
    then have "unat (10 :: u64) ^ n < 2 ^ LENGTH(64)" by simp
    from unat_pow_exact [OF this] show ?thesis by simp
  qed
  show "(10 :: u64) ^ n = 0" if "64 \<le> n"
  proof -
    have "(10 :: u64) ^ n = 10 ^ 64 * 10 ^ (n - 64)" using that power_add [of "10 :: u64" 64 "n - 64"] by (simp only: le_add_diff_inverse)
    also have "(10 :: u64) ^ 64 = 0" by simp
    finally show ?thesis by simp
  qed
qed

end
