(* ===== verification/WalletAssets.thy ===== *)
theory WalletAssets
  imports Balances "HOL-Library.Multiset"
begin

text \<open>
  The wallet method that lists assets (\<open>handlers/json_rpc/wallet/get_assets.rs\<close>): balances of the tokens that exist on
  several chains are completed and aggregated, filtered, sorted by value and listed by chain.  A panic of an
  \<open>unwrap\<close> is \<open>None\<close>.  Floating-point operations, the address type and the order of the hash maps are parameters.
\<close>

section \<open>Types\<close>

datatype address_or_native = Address_variant address | Native_address

datatype asset_type = Erc20_type | Native_type

text \<open>The filters of the request; the filter by assets is a hash map, given in the order in which it is walked.\<close>

record asset_filters =
  af_asset :: "(u64 \<times> address_or_native list) list option"
  af_type :: "asset_type list option"
  af_chain :: "u64 list option"

record 'f asset_metadata =
  md_name :: string
  md_symbol :: string
  md_decimals :: u8
  md_icon_url :: string
  md_price :: 'f
  md_value :: "'f option"

datatype 'f asset = Erc20_asset (asset_address: address) (asset_balance: u256) (asset_metadata: "'f asset_metadata")
  | Native_asset (asset_balance: u256) (asset_metadata: "'f asset_metadata")

text \<open>More operations of \<open>f64\<close>: \<open>max\<close>, printing, \<open>total_cmp\<close> as at most, and the rounded conversion to 64 bits.\<close>

record 'f asset_floats = "'f floats" +
  fl_max :: "'f \<Rightarrow> 'f \<Rightarrow> 'f"
  fl_show :: "'f \<Rightarrow> string"
  fl_le :: "'f \<Rightarrow> 'f \<Rightarrow> bool"
  fl_pow10 :: "'f \<Rightarrow> 'f"
  fl_round_u64 :: "'f \<Rightarrow> u64"

text \<open>\<open>wa_order\<close> is the order in which the map of the grouped balances is walked.\<close>

record 'f assets_env =
  wa_floats :: "'f asset_floats"
  wa_parse_address :: "string \<Rightarrow> address option"
  wa_show_address :: "address \<Rightarrow> string"
  wa_parse_chain :: "string \<Rightarrow> u64 option"
  wa_order :: "(string \<times> 'f balance_item list) list \<Rightarrow> (string \<times> 'f balance_item list) list"

section \<open>Tokens of several chains\<close>

definition CHAIN_ID_OPTIMISM :: string where "CHAIN_ID_OPTIMISM = ''eip155:10''"

definition CHAIN_ID_BASE :: string where "CHAIN_ID_BASE = ''eip155:8453''"

definition CHAIN_ID_ARBITRUM :: string where "CHAIN_ID_ARBITRUM = ''eip155:42161''"

definition SUPPORTED_CHAINS :: "string list" where
  "SUPPORTED_CHAINS = [CHAIN_ID_OPTIMISM, CHAIN_ID_BASE, CHAIN_ID_ARBITRUM]"

definition get_erc20_groups :: "(string \<times> (string \<times> address) list) list" where
  "get_erc20_groups =
    [(''USDC'', [(CHAIN_ID_ARBITRUM, address_lit ''af88d065e77c8cC2239327C5EDb3A432268e5831''),
        (CHAIN_ID_OPTIMISM, address_lit ''0b2C639c533813f4Aa9D7837CAf62653d097Ff85''),
        (CHAIN_ID_BASE, address_lit ''833589fCD6eDb6E08f4c7C32D4f71b54bdA02913'')]),
     (''USDT'', [(CHAIN_ID_ARBITRUM, address_lit ''Fd086bC7CD5C481DCC9C85ebE478A1C0b69FCbb9''),
        (CHAIN_ID_OPTIMISM, address_lit ''94b008aA00579c1307B0EF2c499aD98a8ce58e58'')])]"

definition get_supported_token_and_chain_pair_key :: "string \<Rightarrow> address_or_native \<Rightarrow> string option" where
  "get_supported_token_and_chain_pair_key chain_id address =
    map_option fst (find (\<lambda>(_, chain_pairs). case map_of chain_pairs chain_id of
        Some a \<Rightarrow> address = Address_variant a | None \<Rightarrow> False) get_erc20_groups)"

definition convert_caip10_to_address :: "'f assets_env \<Rightarrow> string \<Rightarrow> address option" where
  "convert_caip10_to_address E caip10 = wa_parse_address E (last (split_on CHR '':'' caip10))"

definition item_address :: "'f assets_env \<Rightarrow> 'f balance_item \<Rightarrow> address_or_native option" where
  "item_address E balance = (case bi_address balance of
      None \<Rightarrow> Some Native_address
    | Some a \<Rightarrow> map_option Address_variant (convert_caip10_to_address E a))"

text \<open>\<open>entry(key).or_insert_with(Vec::new).push(value)\<close>.\<close>

fun push_entry :: "'key \<Rightarrow> 'v \<Rightarrow> ('key \<times> 'v list) list \<Rightarrow> ('key \<times> 'v list) list" where
  "push_entry k v [] = [(k, [v])]"
| "push_entry k v ((k', vs) # rest) = (if k' = k then (k', vs @ [v]) # rest else (k', vs) # push_entry k v rest)"

fun group_balances ::
  "'f assets_env \<Rightarrow> 'f balance_item list \<Rightarrow> (string \<times> 'f balance_item list) list \<times> 'f balance_item list
    \<Rightarrow> ((string \<times> 'f balance_item list) list \<times> 'f balance_item list) option" where
  "group_balances E [] acc = Some acc"
| "group_balances E (balance # rest) (groups, others) =
    (case (item_address E balance, bi_chain_id balance) of
       (Some address, Some chain_id) \<Rightarrow>
         (case get_supported_token_and_chain_pair_key chain_id address of
            Some token_key \<Rightarrow> group_balances E rest (push_entry token_key balance groups, others)
          | None \<Rightarrow> group_balances E rest (groups, others @ [balance]))
     | _ \<Rightarrow> None)"

definition group_contracts :: "string \<Rightarrow> (string \<times> address) list" where
  "group_contracts token_key = (case map_of get_erc20_groups token_key of Some pairs \<Rightarrow> pairs | None \<Rightarrow> [])"

definition missing_chains :: "string \<Rightarrow> 'f balance_item list \<Rightarrow> string list" where
  "missing_chains token_key chain_pairs = filter (\<lambda>chain.
     \<not> list_ex (\<lambda>b. bi_chain_id b = Some chain) chain_pairs
     \<and> map_of (group_contracts token_key) chain \<noteq> None) SUPPORTED_CHAINS"

definition empty_item :: "'f assets_env \<Rightarrow> string \<Rightarrow> 'f balance_item \<Rightarrow> string \<Rightarrow> 'f balance_item" where
  "empty_item E token_key template_balance chain = template_balance \<lparr>
     bi_chain_id := Some chain,
     bi_address := Some (chain @ '':'' @ (case map_of (group_contracts token_key) chain of
       Some a \<Rightarrow> wa_show_address E a | None \<Rightarrow> [])),
     bi_quantity := \<lparr> qu_decimals = qu_decimals (bi_quantity template_balance), qu_numeric = ''0'' \<rparr>,
     bi_value := Some (fl_zero (wa_floats E)) \<rparr>"

definition fill_missing_chains ::
  "'f assets_env \<Rightarrow> (string \<times> 'f balance_item list) list \<Rightarrow> (string \<times> 'f balance_item list) list" where
  "fill_missing_chains E groups = map (\<lambda>(token_key, chain_pairs).
     (token_key, if length chain_pairs \<noteq> length SUPPORTED_CHAINS
        then chain_pairs @ map (empty_item E token_key (hd chain_pairs)) (missing_chains token_key chain_pairs)
        else chain_pairs)) groups"

section \<open>Aggregation\<close>

text \<open>The value at an index and the highest of the others, at least zero.\<close>

definition highest_other_value :: "'f asset_floats \<Rightarrow> 'f list \<Rightarrow> nat \<Rightarrow> 'f" where
  "highest_other_value F vs i =
    foldl (\<lambda>highest j. if j \<noteq> i then fl_max F (vs ! j) highest else highest) (fl_zero F) [0..<length vs]"

definition aggregate_item :: "'f asset_floats \<Rightarrow> 'f list \<Rightarrow> nat \<Rightarrow> 'f balance_item \<Rightarrow> 'f balance_item" where
  "aggregate_item F vs i balance =
    (let aggregated_value = fl_add F (vs ! i) (highest_other_value F vs i) in
     balance \<lparr> bi_quantity := (bi_quantity balance) \<lparr> qu_numeric := fl_show F aggregated_value \<rparr>,
       bi_value := Some (fl_mul F (bi_price balance) aggregated_value) \<rparr>)"

definition aggregate_group :: "'f assets_env \<Rightarrow> 'f balance_item list \<Rightarrow> 'f balance_item list option" where
  "aggregate_group E balances =
    map_option (\<lambda>vs. map (\<lambda>i. aggregate_item (wa_floats E) vs i (balances ! i)) [0..<length balances])
      (those (map (\<lambda>b. fl_parse (wa_floats E) (qu_numeric (bi_quantity b))) balances))"

definition apply_aggregate_balance_value ::
  "'f assets_env \<Rightarrow> (string \<times> 'f balance_item list) list \<Rightarrow> 'f balance_item list option" where
  "apply_aggregate_balance_value E groups =
    map_option concat (those (map (\<lambda>(_, balances). aggregate_group E balances) groups))"

section \<open>Filters\<close>

fun filter_opt :: "('a \<Rightarrow> bool option) \<Rightarrow> 'a list \<Rightarrow> 'a list option" where
  "filter_opt P [] = Some []"
| "filter_opt P (x # xs) = (case P x of None \<Rightarrow> None
    | Some keep \<Rightarrow> map_option (\<lambda>ys. if keep then x # ys else ys) (filter_opt P xs))"

definition on_chain :: "u64 \<Rightarrow> string" where "on_chain chain = ''eip155:'' @ show_nat (unat chain)"

definition matches_asset :: "'f assets_env \<Rightarrow> u64 \<Rightarrow> address_or_native \<Rightarrow> 'f balance_item \<Rightarrow> bool option" where
  "matches_asset E chain address balance =
    (if bi_chain_id balance = Some (on_chain chain) then map_option (\<lambda>a. a = address) (item_address E balance)
     else Some False)"

definition apply_asset_filter ::
  "'f assets_env \<Rightarrow> (u64 \<times> address_or_native list) list \<Rightarrow> 'f balance_item list \<Rightarrow> 'f balance_item list option" where
  "apply_asset_filter E asset_filter balances =
    map_option concat (those (concat (map (\<lambda>(chain, addresses).
      map (\<lambda>address. filter_opt (matches_asset E chain address) balances) addresses) asset_filter)))"

definition apply_chain_filter :: "u64 list \<Rightarrow> 'f balance_item list \<Rightarrow> 'f balance_item list" where
  "apply_chain_filter chain_filter balances =
    filter (\<lambda>b. bi_chain_id b \<in> set (map (\<lambda>chain. Some (on_chain chain)) chain_filter)) balances"

definition item_type :: "'f balance_item \<Rightarrow> asset_type" where
  "item_type b = (case bi_address b of Some _ \<Rightarrow> Erc20_type | None \<Rightarrow> Native_type)"

definition apply_asset_type_filter :: "asset_type list \<Rightarrow> 'f balance_item list \<Rightarrow> 'f balance_item list" where
  "apply_asset_type_filter asset_type_filter balances = filter (\<lambda>b. item_type b \<in> set asset_type_filter) balances"

text \<open>\<open>sort_by\<close> is stable; the highest value comes first, and a missing value counts as zero.\<close>

definition sort_value :: "'f asset_floats \<Rightarrow> 'f balance_item \<Rightarrow> 'f" where
  "sort_value F b = (case bi_value b of Some v \<Rightarrow> v | None \<Rightarrow> fl_zero F)"

fun insert_item :: "'f asset_floats \<Rightarrow> 'f balance_item \<Rightarrow> 'f balance_item list \<Rightarrow> 'f balance_item list" where
  "insert_item F x [] = [x]"
| "insert_item F x (y # ys) = (if fl_le F (sort_value F y) (sort_value F x) then x # y # ys else y # insert_item F x ys)"

definition sort_balances_by_value :: "'f asset_floats \<Rightarrow> 'f balance_item list \<Rightarrow> 'f balance_item list" where
  "sort_balances_by_value F balances = foldr (insert_item F) balances []"

definition filter_balances ::
  "'f assets_env \<Rightarrow> 'f balance_item list \<Rightarrow> asset_filters \<Rightarrow> 'f balance_item list option" where
  "filter_balances E balances filters = (case af_asset filters of
      Some asset_filter \<Rightarrow> map_option (sort_balances_by_value (wa_floats E)) (apply_asset_filter E asset_filter balances)
    | None \<Rightarrow>
        (let by_type = (case af_type filters of Some ts \<Rightarrow> apply_asset_type_filter ts balances | None \<Rightarrow> balances);
             by_chain = (case af_chain filters of Some cs \<Rightarrow> apply_chain_filter cs by_type | None \<Rightarrow> by_type)
         in Some (sort_balances_by_value (wa_floats E) by_chain)))"

section \<open>The response\<close>

definition strip_prefix :: "string \<Rightarrow> string \<Rightarrow> string option" where
  "strip_prefix p s = (if starts_with p s then Some (drop (length p) s) else None)"

definition response_chain :: "'f assets_env \<Rightarrow> 'f balance_item \<Rightarrow> u64 option" where
  "response_chain E balance = (case bi_chain_id balance of
      None \<Rightarrow> None
    | Some chain_id \<Rightarrow> (case strip_prefix ''eip155:'' chain_id of None \<Rightarrow> None | Some n \<Rightarrow> wa_parse_chain E n))"

definition convert_balance_to_hex :: "'f asset_floats \<Rightarrow> balance_quantity \<Rightarrow> u256 option" where
  "convert_balance_to_hex F quantity = (case (fl_parse F (qu_numeric quantity), fl_parse F (qu_decimals quantity)) of
      (Some n, Some d) \<Rightarrow> Some (ucast (fl_round_u64 F (fl_mul F n (fl_pow10 F d))))
    | _ \<Rightarrow> None)"

definition item_metadata :: "'f balance_item \<Rightarrow> 'f asset_metadata option" where
  "item_metadata b = map_option (\<lambda>d. \<lparr> md_name = bi_name b, md_symbol = bi_symbol b, md_decimals = word_of_nat d,
     md_icon_url = bi_icon_url b, md_price = bi_price b, md_value = bi_value b \<rparr>)
     (parse_uint (2 ^ 8) (qu_decimals (bi_quantity b)))"

definition to_asset :: "'f assets_env \<Rightarrow> 'f balance_item \<Rightarrow> 'f asset option" where
  "to_asset E balance = (case (convert_balance_to_hex (wa_floats E) (bi_quantity balance), item_metadata balance) of
      (Some amount, Some metadata) \<Rightarrow>
        (case bi_address balance of
           Some address \<Rightarrow> map_option (\<lambda>a. Erc20_asset a amount metadata) (convert_caip10_to_address E address)
         | None \<Rightarrow> Some (Native_asset amount metadata))
    | _ \<Rightarrow> None)"

fun create_response ::
  "'f assets_env \<Rightarrow> 'f balance_item list \<Rightarrow> (u64 \<times> 'f asset list) list \<Rightarrow> (u64 \<times> 'f asset list) list option" where
  "create_response E [] acc = Some acc"
| "create_response E (b # bs) acc = (case (response_chain E b, to_asset E b) of
      (Some chain, Some asset) \<Rightarrow> create_response E bs (push_entry chain asset acc)
    | _ \<Rightarrow> None)"

definition balances_to_filter :: "'f assets_env \<Rightarrow> 'f balance_item list \<Rightarrow> 'f balance_item list option" where
  "balances_to_filter E balances = (case group_balances E balances ([], []) of
      None \<Rightarrow> None
    | Some (groups, others) \<Rightarrow>
        map_option (\<lambda>aggregated. aggregated @ others)
          (apply_aggregate_balance_value E (wa_order E (fill_missing_chains E groups))))"

definition get_assets ::
  "'f assets_env \<Rightarrow> 'f balance_item list \<Rightarrow> asset_filters \<Rightarrow> (u64 \<times> 'f asset list) list option" where
  "get_assets E balances filters = (case balances_to_filter E balances of
      None \<Rightarrow> None
    | Some all \<Rightarrow> (case filter_balances E all filters of None \<Rightarrow> None | Some kept \<Rightarrow> create_response E kept []))"

datatype get_assets_failure = GA_GetBalance rpc_error | GA_Panicked

text \<open>The handler asks for balances in US dollars; \<open>usd\<close> is that currency.\<close>

definition get_assets_handler ::
  "'f assets_env \<Rightarrow> ('p, 'f, 'u, 's) balance_handler \<Rightarrow> 'u \<Rightarrow> 's \<Rightarrow> string \<Rightarrow> string option \<Rightarrow> balance_headers
    \<Rightarrow> string \<Rightarrow> asset_filters \<Rightarrow> (get_assets_failure, (u64 \<times> 'f asset list) list) result \<times> 's" where
  "get_assets_handler E B usd st project_id sv h account filters =
    (case balance_handler_internal B st \<lparr> br_project_id = project_id, br_currency = usd, br_chain_id = None,
        br_force_update = None, br_sv = sv \<rparr> h account of
       (Inl e, st') \<Rightarrow> (Inl (GA_GetBalance e), st')
     | (Inr balances, st') \<Rightarrow> (ok_or GA_Panicked (get_assets E balances filters), st'))"

section \<open>Entries\<close>

text \<open>The values of a key, and the maps that \<open>entry\<close> builds: distinct keys, no empty entry.\<close>

definition entries :: "('key \<times> 'v list) list \<Rightarrow> 'key \<Rightarrow> 'v list" where
  "entries g k = (case map_of g k of Some vs \<Rightarrow> vs | None \<Rightarrow> [])"

definition grouped :: "('key \<times> 'v list) list \<Rightarrow> bool" where
  "grouped g = (distinct (map fst g) \<and> [] \<notin> snd ` set g)"

lemma entries_Nil [simp]: "entries [] k = []" by (simp add: entries_def)

lemma entries_push [simp]: "entries (push_entry k v g) k' = (if k' = k then entries g k @ [v] else entries g k')"
  by (induction g) (auto simp: entries_def)

lemma keys_push [simp]: "fst ` set (push_entry k v g) = insert k (fst ` set g)"
proof (induction g)
  case (Cons p g)
  show ?case by (cases p) (simp add: Cons.IH insert_commute)
qed simp

lemma grouped_Nil [simp]: "grouped []" by (simp add: grouped_def)

lemma grouped_push: "grouped g \<Longrightarrow> grouped (push_entry k v g)"
proof (induction g)
  case (Cons p g)
  obtain k' vs where p: "p = (k', vs)" by (cases p)
  have d: "k' \<notin> fst ` set g" "grouped g" "vs \<noteq> []" using Cons.prems by (auto simp: grouped_def p)
  have "grouped (push_entry k v g)" by (rule Cons.IH [OF d(2)])
  moreover have "k' \<notin> fst ` set (push_entry k v g)" if "k' \<noteq> k" using d(1) that by (simp only: keys_push) simp
  ultimately show ?case using Cons.prems by (auto simp: grouped_def p)
qed (simp add: grouped_def)

lemma grouped_member:
  assumes "grouped g"
  shows "(k, vs) \<in> set g \<longleftrightarrow> vs = entries g k \<and> vs \<noteq> []"
proof -
  have "(k, vs) \<in> set g \<longleftrightarrow> map_of g k = Some vs" using assms by (simp add: grouped_def map_of_eq_Some_iff)
  moreover have "vs \<noteq> []" if "(k, vs) \<in> set g" using assms that by (force simp: grouped_def)
  ultimately show ?thesis by (auto simp: entries_def split: option.splits)
qed

text \<open>The group of an item.\<close>

definition item_key :: "'f assets_env \<Rightarrow> 'f balance_item \<Rightarrow> string option" where
  "item_key E b = (case (item_address E b, bi_chain_id b) of
      (Some address, Some chain_id) \<Rightarrow> get_supported_token_and_chain_pair_key chain_id address | _ \<Rightarrow> None)"

lemma group_balances_entries:
  "group_balances E bs (g, os) = Some (g', os') \<Longrightarrow> grouped g \<Longrightarrow>
   grouped g' \<and> (\<forall>k. entries g' k = entries g k @ filter (\<lambda>b. item_key E b = Some k) bs)
   \<and> os' = os @ filter (\<lambda>b. item_key E b = None) bs"
proof (induction bs arbitrary: g os)
  case (Cons b bs)
  then obtain a c where ac: "item_address E b = Some a" "bi_chain_id b = Some c" by (auto split: option.splits)
  then have key: "item_key E b = get_supported_token_and_chain_pair_key c a" by (simp add: item_key_def)
  show ?case
  proof (cases "item_key E b")
    case None
    then show ?thesis using Cons.IH [of g "os @ [b]"] Cons.prems ac key by simp
  next
    case (Some k)
    then show ?thesis using Cons.IH [of "push_entry k b g" os] Cons.prems ac key by (simp add: grouped_push)
  qed
qed auto

lemma create_response_entries:
  "create_response E bs acc = Some r \<Longrightarrow> grouped acc \<Longrightarrow>
   grouped r \<and> (\<forall>chain. map Some (entries r chain)
     = map Some (entries acc chain) @ map (to_asset E) (filter (\<lambda>b. response_chain E b = Some chain) bs))"
proof (induction bs arbitrary: acc)
  case (Cons b bs)
  then obtain c a where ca: "response_chain E b = Some c" "to_asset E b = Some a"
    and r: "create_response E bs (push_entry c a acc) = Some r" by (auto split: option.splits)
  show ?case using Cons.IH [OF r grouped_push [OF Cons.prems(2)]] ca by auto
qed auto

section \<open>What is listed\<close>

text \<open>\<open>total_cmp\<close> is a total order of the floating-point numbers.\<close>

definition total_order :: "'f asset_floats \<Rightarrow> bool" where
  "total_order F = ((\<forall>x y. fl_le F x y \<or> fl_le F y x) \<and> (\<forall>x y z. fl_le F x y \<and> fl_le F y z \<longrightarrow> fl_le F x z))"

definition by_value :: "'f asset_floats \<Rightarrow> 'f balance_item list \<Rightarrow> bool" where
  "by_value F = sorted_wrt (\<lambda>a b. fl_le F (sort_value F b) (sort_value F a))"

lemma mset_insert_item [simp]: "mset (insert_item F x xs) = add_mset x (mset xs)"
  by (induction xs) auto

lemma set_insert_item: "set (insert_item F x xs) = insert x (set xs)"
  by (metis mset_insert_item set_mset_add_mset_insert set_mset_mset)

lemma insert_item_sorted:
  assumes "total_order F"
  shows "by_value F xs \<Longrightarrow> by_value F (insert_item F x xs)"
proof (induction xs)
  case (Cons y ys)
  have total: "fl_le F a b \<or> fl_le F b a" and trans: "fl_le F a b \<Longrightarrow> fl_le F b c \<Longrightarrow> fl_le F a c" for a b c
    using assms unfolding total_order_def by blast+
  have tail: "by_value F ys" "\<forall>b\<in>set ys. fl_le F (sort_value F b) (sort_value F y)"
    using Cons.prems by (auto simp: by_value_def)
  show ?case
  proof (cases "fl_le F (sort_value F y) (sort_value F x)")
    case True
    then show ?thesis using tail trans unfolding by_value_def by simp blast
  next
    case False
    with total have "fl_le F (sort_value F x) (sort_value F y)" by blast
    then show ?thesis using False tail Cons.IH by (simp add: by_value_def set_insert_item)
  qed
qed (simp add: by_value_def)

lemma sort_balances_mset: "mset (sort_balances_by_value F xs) = mset xs"
  unfolding sort_balances_by_value_def by (induction xs) simp_all

lemma sort_balances_sorted: "total_order F \<Longrightarrow> by_value F (sort_balances_by_value F xs)"
  unfolding sort_balances_by_value_def by (induction xs) (simp_all add: insert_item_sorted, simp add: by_value_def)

lemmas sort_balances = sort_balances_mset sort_balances_sorted

text \<open>The items that a request without a filter by assets asks for.\<close>

definition asked_for :: "asset_filters \<Rightarrow> 'f balance_item \<Rightarrow> bool" where
  "asked_for filters b = ((case af_type filters of Some ts \<Rightarrow> item_type b \<in> set ts | None \<Rightarrow> True)
     \<and> (case af_chain filters of Some cs \<Rightarrow> \<exists>c\<in>set cs. bi_chain_id b = Some (on_chain c) | None \<Rightarrow> True))"

lemma filter_balances_sorted:
  "total_order (wa_floats E) \<Longrightarrow> filter_balances E bs filters = Some kept \<Longrightarrow> by_value (wa_floats E) kept"
  by (auto simp: filter_balances_def Let_def sort_balances split: option.splits)

lemma filter_balances_asked:
  assumes "filter_balances E bs filters = Some kept" "af_asset filters = None"
  shows "mset kept = mset (filter (asked_for filters) bs)"
proof -
  have chain: "bi_chain_id b \<in> set (map (\<lambda>chain. Some (on_chain chain)) cs) \<longleftrightarrow> (\<exists>c\<in>set cs. bi_chain_id b = Some (on_chain c))"
    for b :: "'a balance_item" and cs by auto
  show ?thesis
    using assms by (cases "af_type filters"; cases "af_chain filters")
      (auto simp: filter_balances_def sort_balances_mset asked_for_def [abs_def] apply_chain_filter_def
        apply_asset_type_filter_def filter_filter chain conj_commute simp del: set_map mset_filter)
qed

text \<open>The amount of an asset went through 64 bits.\<close>

lemma to_asset_bound: "to_asset E b = Some a \<Longrightarrow> unat (asset_balance a) < 2 ^ 64"
proof -
  have "unat (ucast x :: u256) < 2 ^ 64" for x :: u64
  proof -
    have "unat (ucast x :: u256) \<le> unat x" by (simp add: unsigned_ucast_eq)
    then show ?thesis using unsigned_less [of x, where ?'a = nat] by simp
  qed
  then show "to_asset E b = Some a \<Longrightarrow> unat (asset_balance a) < 2 ^ 64"
    by (auto simp: to_asset_def convert_balance_to_hex_def split: option.splits)
qed

text \<open>C40: \<open>get_assets\<close> lists what is asked for, the most valuable first, if the comparison of numbers is a total order.
  Every chain is listed once, with the assets of its items in descending order of their values; the items are those kept
  by the filters, and without a filter by assets they are, with their multiplicity, the items on one of the chains and
  of one of the types asked for.  The amount of every listed asset is below 2 to the 64, whatever the account holds.\<close>

theorem assets_listed:
  assumes "total_order (wa_floats E)" "get_assets E balances filters = Some r"
  shows "\<exists>all kept. balances_to_filter E balances = Some all \<and> filter_balances E all filters = Some kept
    \<and> by_value (wa_floats E) kept
    \<and> (af_asset filters = None \<longrightarrow> mset kept = mset (filter (asked_for filters) all))
    \<and> distinct (map fst r)
    \<and> (\<forall>chain assets. (chain, assets) \<in> set r \<longrightarrow> assets \<noteq> [] \<and> (\<forall>a\<in>set assets. unat (asset_balance a) < 2 ^ 64))
    \<and> (\<forall>chain. map Some (entries r chain) = map (to_asset E) (filter (\<lambda>b. response_chain E b = Some chain) kept))"
proof -
  obtain all kept where k: "balances_to_filter E balances = Some all" "filter_balances E all filters = Some kept"
    "create_response E kept [] = Some r" using assms(2) by (auto simp: get_assets_def split: option.splits)
  note r = create_response_entries [OF k(3) grouped_Nil]
  have d: "distinct (map fst r)" using r by (simp add: grouped_def)
  have e: "map Some (entries r chain) = map (to_asset E) (filter (\<lambda>b. response_chain E b = Some chain) kept)" for chain
    using r by simp
  have "unat (asset_balance a) < 2 ^ 64" if "a \<in> set (entries r chain)" for a chain
  proof -
    have "Some a \<in> set (map Some (entries r chain))" using that by simp
    then obtain b where "to_asset E b = Some a" unfolding e by auto
    then show ?thesis by (rule to_asset_bound)
  qed
  then have a: "\<forall>chain assets. (chain, assets) \<in> set r \<longrightarrow> assets \<noteq> [] \<and> (\<forall>a\<in>set assets. unat (asset_balance a) < 2 ^ 64)"
    using grouped_member [OF conjunct1 [OF r]] by simp
  show ?thesis
  proof (intro exI conjI)
    show "balances_to_filter E balances = Some all" "filter_balances E all filters = Some kept" by (rule k)+
    show "by_value (wa_floats E) kept" by (rule filter_balances_sorted [OF assms(1) k(2)])
    show "af_asset filters = None \<longrightarrow> mset kept = mset (filter (asked_for filters) all)"
      using filter_balances_asked [OF k(2)] by blast
    show "distinct (map fst r)" by (rule d)
    show "\<forall>chain assets. (chain, assets) \<in> set r \<longrightarrow> assets \<noteq> [] \<and> (\<forall>a\<in>set assets. unat (asset_balance a) < 2 ^ 64)"
      by (rule a)
    show "\<forall>chain. map Some (entries r chain) = map (to_asset E) (filter (\<lambda>b. response_chain E b = Some chain) kept)"
      using e by blast
  qed
qed

section \<open>Tokens of several chains are shown on each of them\<close>

text \<open>What is used of the numbers: of the set of the numbers that are not negative, zero is one, sums and maxima stay
  in it, and both are at least their parts.\<close>

definition float_laws :: "'f asset_floats \<Rightarrow> 'f set \<Rightarrow> bool" where
  "float_laws F N = (total_order F \<and> fl_zero F \<in> N \<and> fl_parse F ''0'' = Some (fl_zero F)
     \<and> (\<forall>x\<in>N. \<forall>y\<in>N. fl_max F x y \<in> N \<and> fl_le F x (fl_max F x y) \<and> fl_le F y (fl_max F x y)
         \<and> fl_le F x (fl_add F x y) \<and> fl_le F y (fl_add F x y)))"

lemma float_laws_trans: "float_laws F N \<Longrightarrow> fl_le F x y \<Longrightarrow> fl_le F y z \<Longrightarrow> fl_le F x z"
  unfolding float_laws_def total_order_def by blast

lemma float_laws_refl: "float_laws F N \<Longrightarrow> fl_le F x x"
  unfolding float_laws_def total_order_def by blast

lemma those_Some: "those xs = Some ys \<Longrightarrow> xs = map Some ys"
  by (induction xs arbitrary: ys) (auto split: option.splits)

lemma last_split_on: "c \<notin> set ys \<Longrightarrow> last (split_on c (xs @ c # ys)) = ys"
proof (induction "length xs" arbitrary: xs rule: less_induct)
  case less
  show ?case
  proof (cases "c \<in> set xs")
    case True
    then obtain us vs where xs: "xs = us @ c # vs" "c \<notin> set us" by (meson split_list_first)
    then have "last (split_on c (vs @ c # ys)) = ys" using less by simp
    then show ?thesis using xs by (simp add: split_on_sep split_on_not_Nil)
  next
    case False
    then show ?thesis using less.prems by (simp add: split_on_sep split_on_no_sep)
  qed
qed

text \<open>The highest of the others is at least each of them.\<close>

lemma highest_other_step:
  assumes laws: "float_laws F N"
  shows "set js \<subseteq> {..<length vs} \<Longrightarrow> set vs \<subseteq> N \<Longrightarrow> h \<in> N \<Longrightarrow>
    m = foldl (\<lambda>highest j. if j \<noteq> i then fl_max F (vs ! j) highest else highest) h js \<Longrightarrow>
    m \<in> N \<and> fl_le F h m \<and> (\<forall>j\<in>set js. j \<noteq> i \<longrightarrow> fl_le F (vs ! j) m)"
proof (induction js arbitrary: h)
  case Nil
  then show ?case using float_laws_refl [OF laws] by simp
next
  case (Cons j js)
  let ?h = "if j \<noteq> i then fl_max F (vs ! j) h else h"
  have "vs ! j \<in> N" using Cons.prems by (auto simp: subset_iff)
  then have h: "?h \<in> N" "fl_le F h ?h" "j \<noteq> i \<Longrightarrow> fl_le F (vs ! j) ?h"
    using laws Cons.prems(3) float_laws_refl [OF laws] by (auto simp: float_laws_def)
  have "set js \<subseteq> {..<length vs}" "m = foldl (\<lambda>highest j. if j \<noteq> i then fl_max F (vs ! j) highest else highest) ?h js"
    using Cons.prems(1,4) by simp_all
  from Cons.IH [OF this(1) Cons.prems(2) h(1) this(2)]
  have m: "m \<in> N" "fl_le F ?h m" "\<forall>j\<in>set js. j \<noteq> i \<longrightarrow> fl_le F (vs ! j) m" by blast+
  have "fl_le F h m" by (rule float_laws_trans [OF laws h(2) m(2)])
  moreover have "fl_le F (vs ! j) m" if "j \<noteq> i" by (rule float_laws_trans [OF laws h(3) [OF that] m(2)])
  ultimately show ?case using m(1,3) by simp
qed

lemma highest_other:
  assumes "float_laws F N" "set vs \<subseteq> N"
  shows "highest_other_value F vs i \<in> N"
    and "j < length vs \<Longrightarrow> j \<noteq> i \<Longrightarrow> fl_le F (vs ! j) (highest_other_value F vs i)"
proof -
  have "fl_zero F \<in> N" "set [0..<length vs] \<subseteq> {..<length vs}" using assms(1) by (auto simp: float_laws_def)
  note h = highest_other_step [OF assms(1) this(2) assms(2) this(1) highest_other_value_def [of F vs i]]
  show "highest_other_value F vs i \<in> N" using h by blast
  show "j < length vs \<Longrightarrow> j \<noteq> i \<Longrightarrow> fl_le F (vs ! j) (highest_other_value F vs i)" using h by simp
qed

lemma aggregate_item_same [simp]:
  "item_address E (aggregate_item F vs i b) = item_address E b"
  "bi_chain_id (aggregate_item F vs i b) = bi_chain_id b" "bi_price (aggregate_item F vs i b) = bi_price b"
  by (simp_all add: aggregate_item_def item_address_def Let_def)

text \<open>Aggregation shows at every place of a group at least the quantity held at any place.\<close>

lemma aggregate_group_shows:
  assumes laws: "float_laws (wa_floats E) N" and agg: "aggregate_group E bs = Some ys"
    and nums: "\<And>b v. b \<in> set bs \<Longrightarrow> fl_parse (wa_floats E) (qu_numeric (bi_quantity b)) = Some v \<Longrightarrow> v \<in> N"
    and ij: "b \<in> set bs" "b' \<in> set bs" "fl_parse (wa_floats E) (qu_numeric (bi_quantity b)) = Some v"
  shows "\<exists>y\<in>set ys. bi_chain_id y = bi_chain_id b' \<and> item_address E y = item_address E b' \<and> (\<exists>w. fl_le (wa_floats E) v w
    \<and> qu_numeric (bi_quantity y) = fl_show (wa_floats E) w \<and> bi_value y = Some (fl_mul (wa_floats E) (bi_price y) w))"
proof -
  let ?F = "wa_floats E"
  obtain vs where vs: "map (\<lambda>b. fl_parse ?F (qu_numeric (bi_quantity b))) bs = map Some vs"
    and ys: "ys = map (\<lambda>i. aggregate_item ?F vs i (bs ! i)) [0..<length bs]"
    using agg by (auto simp: aggregate_group_def dest: those_Some)
  have len: "length vs = length bs" using arg_cong [OF vs, of length] by simp
  have at: "fl_parse ?F (qu_numeric (bi_quantity (bs ! k))) = Some (vs ! k)" if "k < length bs" for k
    using arg_cong [OF vs, of "\<lambda>xs. xs ! k"] that len by simp
  have N: "set vs \<subseteq> N" using at nums len by (metis in_set_conv_nth nth_mem subsetI)
  obtain i j where i: "i < length bs" "bs ! i = b'" and j: "j < length bs" "bs ! j = b" using ij by (metis in_set_conv_nth)
  have v: "vs ! j = v" using at [OF j(1)] j(2) ij(3) by simp
  let ?h = "highest_other_value ?F vs i" and ?y = "aggregate_item ?F vs i b'"
  have h: "?h \<in> N" "vs ! i \<in> N" using highest_other(1) [OF laws N] N i(1) len by (auto simp: subset_iff)
  then have up: "fl_le ?F (vs ! i) (fl_add ?F (vs ! i) ?h)" "fl_le ?F ?h (fl_add ?F (vs ! i) ?h)"
    using laws by (auto simp: float_laws_def)
  have "fl_le ?F v (fl_add ?F (vs ! i) ?h)"
  proof (cases "i = j")
    case True
    then show ?thesis using up(1) v by simp
  next
    case False
    then have "fl_le ?F v ?h" using highest_other(2) [OF laws N, of j i] j(1) len v by auto
    then show ?thesis using up(2) float_laws_trans [OF laws] by blast
  qed
  moreover have "?y \<in> set ys" using i by (auto simp: ys)
  moreover have "qu_numeric (bi_quantity ?y) = fl_show ?F (fl_add ?F (vs ! i) ?h)"
    "bi_value ?y = Some (fl_mul ?F (bi_price ?y) (fl_add ?F (vs ! i) ?h))"
    by (simp_all add: aggregate_item_def Let_def)
  ultimately show ?thesis by (intro bexI [of _ ?y] conjI exI) auto
qed

lemma group_keys: "distinct (map fst get_erc20_groups)" "length (group_contracts key) \<le> 3"
  "set (map fst (group_contracts key)) \<subseteq> set SUPPORTED_CHAINS"
  by (auto simp: get_erc20_groups_def group_contracts_def SUPPORTED_CHAINS_def)

lemma contract_chain: "map_of (group_contracts key) chain = Some a \<Longrightarrow> chain \<in> fst ` set (group_contracts key)"
  by (drule map_of_SomeD) force

text \<open>An item of a group has the contract of the group on its chain.\<close>

lemma item_key_contract:
  assumes "item_key E b = Some key"
  shows "\<exists>chain a. bi_chain_id b = Some chain \<and> map_of (group_contracts key) chain = Some a
    \<and> item_address E b = Some (Address_variant a)"
proof -
  obtain address chain where b: "item_address E b = Some address" "bi_chain_id b = Some chain"
    and k: "get_supported_token_and_chain_pair_key chain address = Some key"
    using assms by (auto simp: item_key_def split: option.splits)
  obtain pairs where f: "find (\<lambda>(_, chain_pairs). case map_of chain_pairs chain of
      Some a \<Rightarrow> address = Address_variant a | None \<Rightarrow> False) get_erc20_groups = Some (key, pairs)"
    using k by (auto simp: get_supported_token_and_chain_pair_key_def)
  have mem: "(key, pairs) \<in> set get_erc20_groups"
    and p: "case map_of pairs chain of Some a \<Rightarrow> address = Address_variant a | None \<Rightarrow> False"
    using find_SomeD [OF f] by simp_all
  have "group_contracts key = pairs" using mem group_keys(1) by (simp add: group_contracts_def)
  then show ?thesis using b p by (auto split: option.splits)
qed

lemma empty_item_fields:
  assumes "map_of (group_contracts key) chain = Some a" "wa_parse_address E (wa_show_address E a) = Some a"
    "CHR '':'' \<notin> set (wa_show_address E a)"
  shows "bi_chain_id (empty_item E key t chain) = Some chain" "qu_numeric (bi_quantity (empty_item E key t chain)) = ''0''"
    "item_address E (empty_item E key t chain) = Some (Address_variant a)"
  using assms by (simp_all add: empty_item_def item_address_def convert_caip10_to_address_def last_split_on)

text \<open>With at most one item of each token on a chain, every group is completed to all chains of its token.\<close>

lemma group_on_chain:
  assumes one: "distinct (map (\<lambda>b. (item_address E b, bi_chain_id b)) bs)"
    and vs: "vs = filter (\<lambda>b. item_key E b = Some key) bs"
    and a: "map_of (group_contracts key) chain = Some a" "wa_parse_address E (wa_show_address E a) = Some a"
      "CHR '':'' \<notin> set (wa_show_address E a)"
  shows "\<exists>b'\<in>set (if length vs \<noteq> length SUPPORTED_CHAINS then vs @ map (empty_item E key (hd vs)) (missing_chains key vs) else vs).
    bi_chain_id b' = Some chain \<and> item_address E b' = Some (Address_variant a)"
proof (cases "\<exists>b\<in>set vs. bi_chain_id b = Some chain")
  case True
  then obtain b where b: "b \<in> set vs" "bi_chain_id b = Some chain" by blast
  then have "item_address E b = Some (Address_variant a)" using item_key_contract [of E b key] a(1) vs by auto
  then show ?thesis using b by auto
next
  case False
  have "length vs \<noteq> length SUPPORTED_CHAINS"
  proof -
    have inj: "inj_on bi_chain_id (set vs)"
    proof (rule inj_onI)
      fix b b' assume b: "b \<in> set vs" "b' \<in> set vs" "bi_chain_id b = bi_chain_id b'"
      then have "item_address E b = item_address E b'"
        using item_key_contract [of E b key] item_key_contract [of E b' key] vs by auto
      then show "b = b'" using b vs one by (auto simp: distinct_map inj_on_def)
    qed
    have "distinct vs" using one vs by (auto simp: distinct_map)
    then have "length vs = card (bi_chain_id ` set vs)" using card_image [OF inj] distinct_card by metis
    also have "bi_chain_id ` set vs \<subseteq> Some ` (fst ` set (group_contracts key) - {chain})"
    proof
      fix x assume "x \<in> bi_chain_id ` set vs"
      then obtain b where b: "b \<in> set vs" "x = bi_chain_id b" by blast
      then obtain c where "bi_chain_id b = Some c" "c \<in> fst ` set (group_contracts key)"
        using item_key_contract [of E b key] vs contract_chain by auto
      moreover from this have "c \<noteq> chain" using False b(1) by auto
      ultimately show "x \<in> Some ` (fst ` set (group_contracts key) - {chain})" using b(2) by auto
    qed
    then have "card (bi_chain_id ` set vs) \<le> card (Some ` (fst ` set (group_contracts key) - {chain}))"
      by (intro card_mono) auto
    also have "\<dots> \<le> card (fst ` set (group_contracts key) - {chain})" by (rule card_image_le) simp
    also have "\<dots> < card (fst ` set (group_contracts key))"
      using contract_chain [OF a(1)] by (intro psubset_card_mono) auto
    also have "\<dots> \<le> length (group_contracts key)"
      using card_length [of "map fst (group_contracts key)"] by simp
    finally show ?thesis using group_keys(2) [of key] by (simp add: SUPPORTED_CHAINS_def)
  qed
  moreover have "chain \<in> set (missing_chains key vs)"
    using False a(1) group_keys(3) [of key]
      contract_chain [OF a(1)] by (auto simp: missing_chains_def list_ex_iff)
  ultimately show ?thesis using empty_item_fields [OF a] by auto
qed

lemma aggregated_groups:
  assumes "apply_aggregate_balance_value E groups = Some ys" "(key, vs) \<in> set groups"
  shows "\<exists>zs. aggregate_group E vs = Some zs \<and> set zs \<subseteq> set ys"
proof -
  obtain zss where "map (\<lambda>(_, balances). aggregate_group E balances) groups = map Some zss" "ys = concat zss"
    using assms(1) by (auto simp: apply_aggregate_balance_value_def dest: those_Some)
  moreover have "aggregate_group E vs \<in> set (map (\<lambda>(_, balances). aggregate_group E balances) groups)"
    using assms(2) by (force simp: image_iff)
  ultimately show ?thesis by auto
qed

text \<open>C19: a token that exists on several chains is shown on all of them.  If the account holds a supported token with
  quantity \<open>v\<close> on one chain (with at most one item for a token and a chain, quantities that are not negative and obey
  \<open>float_laws\<close>, a contract address that reads back, and hash maps walked in any order), then for every supported chain on which the token has a contract there is an item of that
  contract on that chain whose quantity is at least \<open>v\<close>, and whose value is the price times that quantity.\<close>

theorem token_on_every_chain:
  assumes all: "balances_to_filter E bs = Some all"
    and laws: "float_laws (wa_floats E) N" and order: "\<And>gs. set (wa_order E gs) = set gs"
    and one: "distinct (map (\<lambda>b. (item_address E b, bi_chain_id b)) bs)"
    and nums: "\<And>b v. b \<in> set bs \<Longrightarrow> fl_parse (wa_floats E) (qu_numeric (bi_quantity b)) = Some v \<Longrightarrow> v \<in> N"
    and b: "b \<in> set bs" "item_key E b = Some key" "fl_parse (wa_floats E) (qu_numeric (bi_quantity b)) = Some v"
    and a: "map_of (group_contracts key) chain = Some a" "wa_parse_address E (wa_show_address E a) = Some a"
      "CHR '':'' \<notin> set (wa_show_address E a)"
  shows "\<exists>y\<in>set all. bi_chain_id y = Some chain \<and> item_address E y = Some (Address_variant a)
    \<and> (\<exists>w. fl_le (wa_floats E) v w \<and> qu_numeric (bi_quantity y) = fl_show (wa_floats E) w
        \<and> bi_value y = Some (fl_mul (wa_floats E) (bi_price y) w))"
proof -
  obtain groups others ys where g: "group_balances E bs ([], []) = Some (groups, others)"
    and ys: "apply_aggregate_balance_value E (wa_order E (fill_missing_chains E groups)) = Some ys" "all = ys @ others"
    using all by (auto simp: balances_to_filter_def split: option.splits)
  define vs where "vs = filter (\<lambda>b. item_key E b = Some key) bs"
  define vs' where "vs' = (if length vs \<noteq> length SUPPORTED_CHAINS
    then vs @ map (empty_item E key (hd vs)) (missing_chains key vs) else vs)"
  have "grouped groups" "entries groups key = vs" using group_balances_entries [OF g] by (simp_all add: vs_def)
  moreover have in_vs: "b \<in> set vs" using b by (simp add: vs_def)
  ultimately have "(key, vs) \<in> set groups" using grouped_member by fastforce
  then have "(key, vs') \<in> set (wa_order E (fill_missing_chains E groups))"
    unfolding order fill_missing_chains_def vs'_def by (force simp: image_iff)
  then obtain zs where zs: "aggregate_group E vs' = Some zs" "set zs \<subseteq> set ys" using aggregated_groups [OF ys(1)] by blast
  obtain b' where b': "b' \<in> set vs'" "bi_chain_id b' = Some chain" "item_address E b' = Some (Address_variant a)"
    using group_on_chain [OF one vs_def a] unfolding vs'_def by blast
  have nums': "u \<in> N" if "c \<in> set vs'" "fl_parse (wa_floats E) (qu_numeric (bi_quantity c)) = Some u" for c u
  proof (cases "c \<in> set bs")
    case False
    then have "qu_numeric (bi_quantity c) = ''0''"
      using that(1) by (auto simp: vs'_def vs_def empty_item_def split: if_splits)
    then show ?thesis using that(2) laws by (simp add: float_laws_def)
  qed (use nums that in blast)
  have "b \<in> set vs'" using in_vs by (simp add: vs'_def)
  have "\<exists>y\<in>set zs. bi_chain_id y = bi_chain_id b' \<and> item_address E y = item_address E b'
    \<and> (\<exists>w. fl_le (wa_floats E) v w \<and> qu_numeric (bi_quantity y) = fl_show (wa_floats E) w
        \<and> bi_value y = Some (fl_mul (wa_floats E) (bi_price y) w))"
    by (rule aggregate_group_shows [OF laws zs(1) _ \<open>b \<in> set vs'\<close> b'(1) b(3)]) (rule nums')
  then show ?thesis using b'(2,3) zs(2) ys(2) by auto
qed

text \<open>Five units of USDC on Optimism show on Base.\<close>

definition wallet_floats :: "int asset_floats" where
  "wallet_floats = \<lparr> fl_zero = 0, fl_of_u64 = uint, fl_of_u128 = uint,
     fl_parse = (\<lambda>s. if s = ''0'' then Some 0 else if s = ''5'' then Some 5 else if s = ''6'' then Some 6 else None),
     fl_add = (+), fl_mul = (*), fl_div = (div), fl_max = max, fl_show = (\<lambda>x. show_nat (nat x)), fl_le = (\<le>),
     fl_pow10 = (\<lambda>x. 10 ^ nat x), fl_round_u64 = word_of_int \<rparr>"

definition wallet_env :: "int assets_env" where
  "wallet_env = \<lparr> wa_floats = wallet_floats, wa_parse_address = (\<lambda>s. Some (address_lit (drop 2 s))),
     wa_show_address = (\<lambda>a. if a = address_lit ''833589fCD6eDb6E08f4c7C32D4f71b54bdA02913''
       then ''0x833589fCD6eDb6E08f4c7C32D4f71b54bdA02913'' else []),
     wa_parse_chain = (\<lambda>s. map_option word_of_nat (parse_uint (2 ^ 64) s)), wa_order = rev \<rparr>"

definition wallet_item :: "int balance_item" where
  "wallet_item = \<lparr> bi_name = ''USDC'', bi_symbol = ''USDC'', bi_chain_id = Some ''eip155:10'',
     bi_address = Some ''eip155:10:0x0b2C639c533813f4Aa9D7837CAf62653d097Ff85'', bi_value = Some 5, bi_price = 1,
     bi_quantity = \<lparr> qu_decimals = ''6'', qu_numeric = ''5'' \<rparr>, bi_icon_url = [] \<rparr>"

lemma wallet_laws: "float_laws wallet_floats {0..}"
  by (auto simp: float_laws_def total_order_def wallet_floats_def)

lemma those_all: "(\<And>x. x \<in> set xs \<Longrightarrow> f x = Some (g x)) \<Longrightarrow> those (map f xs) = Some (map g xs)"
  by (induction xs) auto

lemma wallet_item_key:
  "item_address wallet_env wallet_item = Some (Address_variant (address_lit ''0b2C639c533813f4Aa9D7837CAf62653d097Ff85''))"
  "item_key wallet_env wallet_item = Some ''USDC''"
proof -
  have "last (split_on CHR '':'' ''eip155:10:0x0b2C639c533813f4Aa9D7837CAf62653d097Ff85'')
    = ''0x0b2C639c533813f4Aa9D7837CAf62653d097Ff85''" by code_simp
  then show a: "item_address wallet_env wallet_item
      = Some (Address_variant (address_lit ''0b2C639c533813f4Aa9D7837CAf62653d097Ff85''))"
    by (simp add: item_address_def wallet_item_def wallet_env_def convert_caip10_to_address_def)
  show "item_key wallet_env wallet_item = Some ''USDC''"
    unfolding item_key_def a
    by (simp add: wallet_item_def get_supported_token_and_chain_pair_key_def get_erc20_groups_def
        CHAIN_ID_OPTIMISM_def CHAIN_ID_ARBITRUM_def)
qed

lemma wallet_balances: "balances_to_filter wallet_env [wallet_item] \<noteq> None"
proof -
  have g: "group_balances wallet_env [wallet_item] ([], []) = Some ([(''USDC'', [wallet_item])], [])"
    using wallet_item_key unfolding item_key_def by (simp add: wallet_item_def split: option.splits)
  let ?vs = "wallet_item # map (empty_item wallet_env ''USDC'' wallet_item) (missing_chains ''USDC'' [wallet_item])"
  have f: "wa_order wallet_env (fill_missing_chains wallet_env [(''USDC'', [wallet_item])]) = [(''USDC'', ?vs)]"
    by (simp add: fill_missing_chains_def SUPPORTED_CHAINS_def wallet_env_def)
  have "those (map (\<lambda>b. fl_parse (wa_floats wallet_env) (qu_numeric (bi_quantity b))) ?vs)
      = Some (map (\<lambda>b. if qu_numeric (bi_quantity b) = ''0'' then 0 else 5) ?vs)"
    by (rule those_all) (auto simp: wallet_env_def wallet_floats_def wallet_item_def empty_item_def)
  then have "aggregate_group wallet_env ?vs \<noteq> None" by (simp only: aggregate_group_def option.map_disc_iff) simp
  then show ?thesis
    by (auto simp: balances_to_filter_def g f apply_aggregate_balance_value_def simp del: group_balances.simps)
qed

lemma token_on_every_chain_witness:
  "\<exists>all. balances_to_filter wallet_env [wallet_item] = Some all \<and> (\<exists>y\<in>set all. bi_chain_id y = Some ''eip155:8453''
     \<and> (\<exists>w. 5 \<le> w \<and> bi_value y = Some (bi_price y * w)))"
proof -
  obtain all where all: "balances_to_filter wallet_env [wallet_item] = Some all" using wallet_balances by blast
  have laws: "float_laws (wa_floats wallet_env) {0..}" by (simp add: wallet_env_def wallet_laws)
  have a: "map_of (group_contracts ''USDC'') ''eip155:8453'' = Some (address_lit ''833589fCD6eDb6E08f4c7C32D4f71b54bdA02913'')"
    by (simp add: group_contracts_def get_erc20_groups_def CHAIN_ID_OPTIMISM_def CHAIN_ID_ARBITRUM_def CHAIN_ID_BASE_def)
  have num: "fl_parse (wa_floats wallet_env) (qu_numeric (bi_quantity wallet_item)) = Some 5"
    by (simp add: wallet_env_def wallet_floats_def wallet_item_def)
  have order: "set (wa_order wallet_env gs) = set gs" for gs by (simp add: wallet_env_def)
  have nums: "v \<in> {0..}" if "b \<in> set [wallet_item]" "fl_parse (wa_floats wallet_env) (qu_numeric (bi_quantity b)) = Some v" for b v
    using that num by simp
  let ?a = "address_lit ''833589fCD6eDb6E08f4c7C32D4f71b54bdA02913''"
  have shown: "wa_parse_address wallet_env (wa_show_address wallet_env ?a) = Some ?a"
    "CHR '':'' \<notin> set (wa_show_address wallet_env ?a)" by (simp_all add: wallet_env_def)
  have one: "distinct (map (\<lambda>b. (item_address wallet_env b, bi_chain_id b)) [wallet_item])" by simp
  have "\<exists>y\<in>set all. bi_chain_id y = Some ''eip155:8453'' \<and> item_address wallet_env y = Some (Address_variant ?a)
    \<and> (\<exists>w. fl_le (wa_floats wallet_env) 5 w \<and> qu_numeric (bi_quantity y) = fl_show (wa_floats wallet_env) w
        \<and> bi_value y = Some (fl_mul (wa_floats wallet_env) (bi_price y) w))"
    by (rule token_on_every_chain [OF all laws order one _ _ wallet_item_key(2) num a shown]) (rule nums, simp_all)
  then obtain y w where "y \<in> set all" "bi_chain_id y = Some ''eip155:8453''" "fl_le (wa_floats wallet_env) 5 w"
    "bi_value y = Some (fl_mul (wa_floats wallet_env) (bi_price y) w)" by blast
  then have "\<exists>y\<in>set all. bi_chain_id y = Some ''eip155:8453'' \<and> (\<exists>w. 5 \<le> w \<and> bi_value y = Some (bi_price y * w))"
    by (auto simp: wallet_env_def wallet_floats_def)
  with all show ?thesis by blast
qed

text \<open>An account with Ether on Base asks for the assets of Base.\<close>

definition ether_item :: "int balance_item" where
  "ether_item = wallet_item \<lparr> bi_chain_id := Some ''eip155:8453'', bi_address := None \<rparr>"

lemma assets_listed_witness:
  "\<exists>r. get_assets wallet_env [ether_item] \<lparr> af_asset = None, af_type = None, af_chain = Some [8453] \<rparr> = Some r
    \<and> distinct (map fst r) \<and> entries r 8453 \<noteq> []"
proof -
  let ?f = "\<lparr> af_asset = None, af_type = None, af_chain = Some [8453] \<rparr>"
  have F: "wa_floats wallet_env = wallet_floats" by (simp add: wallet_env_def)
  have "item_address wallet_env ether_item = Some Native_address" by (simp add: ether_item_def item_address_def)
  moreover have "get_supported_token_and_chain_pair_key ''eip155:8453'' Native_address = None"
    by (simp add: get_supported_token_and_chain_pair_key_def find_None_iff split: option.splits)
  ultimately have all: "balances_to_filter wallet_env [ether_item] = Some [ether_item]"
    by (simp add: balances_to_filter_def ether_item_def fill_missing_chains_def apply_aggregate_balance_value_def wallet_env_def)
  have chain: "on_chain 8453 = ''eip155:8453''" by (simp add: on_chain_def show_nat.simps digit_char_def char_of_def bit_0)
  then have kept: "filter_balances wallet_env [ether_item] ?f = Some [ether_item]"
    by (simp add: filter_balances_def apply_chain_filter_def sort_balances_by_value_def ether_item_def)
  have "parse_uint (2 ^ 64) ''8453'' = Some 8453" "strip_prefix ''eip155:'' ''eip155:8453'' = Some ''8453''"
    by (simp_all add: parse_uint_def digit_val_def is_digit_def char_code_def strip_prefix_def starts_with_def)
  then have "response_chain wallet_env ether_item = Some 8453"
    by (simp add: response_chain_def ether_item_def wallet_env_def)
  moreover have "parse_uint (2 ^ 8) ''6'' = Some 6" by (simp add: parse_uint_def digit_val_def is_digit_def char_code_def)
  then have "to_asset wallet_env ether_item \<noteq> None"
    by (simp add: to_asset_def convert_balance_to_hex_def item_metadata_def ether_item_def wallet_item_def F)
      (simp add: wallet_floats_def)
  ultimately have "get_assets wallet_env [ether_item] ?f \<noteq> None" by (auto simp: get_assets_def all kept)
  then obtain r where r: "get_assets wallet_env [ether_item] ?f = Some r" by blast
  have "total_order (wa_floats wallet_env)" using wallet_laws by (simp add: F float_laws_def)
  from assets_listed [OF this r] have "distinct (map fst r)"
    "map Some (entries r 8453) = map (to_asset wallet_env) (filter (\<lambda>b. response_chain wallet_env b = Some 8453) [ether_item])"
    using all kept by auto
  with r \<open>response_chain wallet_env ether_item = Some 8453\<close> show ?thesis by auto
qed

end
