(* ===== verification/Spec2Isabelle.thy ===== *)
theory Spec2Isabelle
  imports TokenAmount Chains Caip HttpErrors ProviderKinds Repository Boot Project CryptoBytes Proxy Exchanges
    ExchangeHandlers Storage Sessions Profile Payments ChainAbstraction BridgingStatus
    Balances WalletAssets
begin

text \<open>
  A verification of the core of the blockchain API service: the Rust sources under \<open>src/src\<close>.

  \<^bold>\<open>The program.\<close>  The service forwards JSON-RPC requests of wallets and applications to upstream providers and
  offers services around them.  Its parts and how they interact:
  \<^item> A request names a project and a chain.  The project is looked up in a registry behind a cache and a circuit
    breaker (\<open>project\<close>), which decides access and quota (\<open>state.rs\<close>).
  \<^item> The proxy (\<open>handlers/proxy.rs\<close>) answers three methods from memory and sends the rest to providers drawn by
    weight from the repository (\<open>providers/mod.rs\<close>), with retries; the tables of \<open>env\<close> fill the repository at
    start-up (\<open>lib.rs\<close>).
  \<^item> Failures are values of one error type (\<open>error.rs\<close>), which fixes the HTTP response.
  \<^item> Exchanges sell crypto to users; their transactions are rows of a ledger in Postgres, written by the handlers
    and by a background reconciler (\<open>handlers/json_rpc/exchanges\<close>, \<open>database\<close>).
  \<^item> Sessions (\<open>handlers/sessions\<close>) are permissions kept in the replicated key-value store IRN (\<open>storage\<close>); the
    co-signer signs user operations that the permissions allow.
  \<^item> Account names (\<open>handlers/profile\<close>, \<open>names\<close>) are rows of two tables, changed by their signed owners.
  \<^item> Point-of-sale payments (\<open>handlers/json_rpc/pos\<close>) are built for EVM, Solana and TRON and checked later.
  \<^item> Chain abstraction (\<open>handlers/chain_agnostic\<close>) tops up a transfer from an asset on another chain: it chooses the asset,
    builds the bridging transactions from a route service, simulates them, and stores an item in the IRN whose status
    is polled until the money arrives or a timeout.
  \<^item> Balances of an address (\<open>handlers/balance.rs\<close>) come from providers behind a cache, with forced updates from the chains;
    the wallet method \<open>get_assets\<close> aggregates them over chains, filters and lists them.
  \<^item> Shared helpers: CAIP identifiers, chains, coin types, byte encodings and token amounts (\<open>utils\<close>).

  \<^bold>\<open>The theories.\<close>  Each theory opens with the source files it models; the definitions keep the names of the code and
  its order, with a prefix where a name occurs twice.
  \<^item> \<open>Prelude\<close>: widths of the machine integers, checked and saturating arithmetic, results as sums with the rules
    \<open>res_simps\<close>, string functions of the standard library with the rules \<open>str_simps\<close>, and the locales
    \<open>keyed_table\<close> and \<open>alias_table\<close> of the constant tables.
  \<^item> \<open>TokenAmount\<close>, \<open>Chains\<close>, \<open>Caip\<close>, \<open>CryptoBytes\<close> (\<open>utils/token_amount.rs\<close>, \<open>utils/crypto.rs\<close>): comparison of amounts on
    256-bit words, equal to the cross-multiplied comparison; chain names and coin types; the parsers and printers of
    CAIP-2, CAIP-10 and CAIP-19, over the interface \<open>namespace_validator\<close>; constant-time comparison, TON addresses,
    packed user operations, decoding of ERC-20 calls.
  \<^item> \<open>HttpErrors\<close> (\<open>error.rs\<close>): the error type and the response of each error.
  \<^item> \<open>ProviderKinds\<close>, \<open>Repository\<close>, \<open>Registration\<close>, \<open>EnvTables\<close>, \<open>Boot\<close> (\<open>providers/mod.rs\<close>, \<open>env\<close>, \<open>lib.rs\<close>): provider
    names, priorities and weights, the repository as a record of maps with its registration invariant (interface
    \<open>provider_pool\<close>, interpreted for HTTP, WebSocket and balance providers), the weighted draw without replacement,
    the tables of chains, and the start-up.
  \<^item> \<open>Project\<close> (\<open>project\<close>, \<open>state.rs\<close>): cache, registry client and circuit breaker as a step on a record; access checks.
  \<^item> \<open>Proxy\<close> (\<open>handlers/proxy.rs\<close>, \<open>utils/json_rpc_cache.rs\<close>): the answers from memory over the interface
    \<open>mem_cache_laws\<close>, one provider call, the retry loop and the whole call.
  \<^item> \<open>Exchanges\<close>, \<open>Ledger\<close>, \<open>ExchangeHandlers\<close> (\<open>handlers/json_rpc/exchanges\<close>, \<open>database/exchange_reconciliation.rs\<close>): the asset
    tables and statuses, the ledger with its statements and the step relation \<open>ledger_step\<close>, the reconciler's ticks,
    and the two handlers that write the ledger.  The interface \<open>row_update\<close> states what an update of a row keeps.
  \<^item> \<open>Storage\<close> (\<open>storage\<close>): configuration and operations of the IRN and Redis clients.  The interfaces \<open>wcn_laws\<close> and
    \<open>redis_laws\<close> compare a store before and right after an operation and give \<open>key_value_store\<close> as sublocales; both are
    interpreted on stores with a clock whose entries expire, \<open>wcn_laws\<close> also on maps.
  \<^item> \<open>Sessions\<close> (\<open>handlers/sessions\<close>, \<open>utils/permissions.rs\<close>, \<open>utils/sessions.rs\<close>): the handlers, the permission checks and
    the co-signer, the relation \<open>session_step\<close>, over the interface \<open>permission_store\<close>.
  \<^item> \<open>NamesDb\<close>, \<open>Profile\<close> (\<open>database/helpers.rs\<close>, \<open>names\<close>, \<open>handlers/profile\<close>): the tables with their constraints, the
    statements, the handlers, and the relation \<open>profile_step\<close> of which the invariant is proved.
  \<^item> \<open>Pos\<close>, \<open>PosChains\<close>, \<open>Payments\<close> (\<open>handlers/json_rpc/pos\<close>): errors, transaction identifiers and intents; the
    transactions, fees and statuses of the three families of chains; what the two handlers guarantee.
  \<^item> \<open>Bridging\<close>, \<open>BridgeProviders\<close>, \<open>Route\<close>, \<open>BridgingFacts\<close>, \<open>ChainAbstraction\<close>, \<open>BridgingStatus\<close>
    (\<open>handlers/chain_agnostic\<close>, \<open>providers/tenderly.rs\<close>, \<open>providers/bungee.rs\<close>): the assets, the choice of the one to
    bridge, nonces and simulation overrides; the two services; the route and status handlers; then the lemmas on the
    table (interface \<open>keyed_table\<close>), the choice, decimals and nonces, what a prepared route guarantees, and the polling of
    its status over the interface \<open>wcn_laws\<close>.
  \<^item> \<open>Balances\<close>, \<open>WalletAssets\<close> (\<open>handlers/balance.rs\<close>, \<open>handlers/json_rpc/wallet/get_assets.rs\<close>): the balance handler with
    its cache and forced updates, and the wallet method over it.  Floating-point numbers are a type with a record
    of its operations; the laws \<open>total_order\<close> and \<open>float_laws\<close> are hypotheses with an instance on integers.

  \<^bold>\<open>How the code is modelled.\<close>  A struct is a record, an enum a datatype, an integer of the code a word of its width, and a
  fallible function returns a sum whose left side is the error.  A panic is a value too (\<open>None\<close>, or \<open>Panicked\<close>).  A map
  of the code is a function to options, or a list of pairs where its order shows; the order in which a hash map is walked
  is a parameter.  State is passed explicitly: a handler takes the state of its store and returns the new one, also
  when it fails after a write.  Arithmetic that a release build lets wrap around wraps around.

  \<^bold>\<open>Parameters.\<close>  What is not code of this repository is an argument of the definitions: HTTP answers of providers,
  chains and exchanges, the clients of the stores and the database server, JSON, base64, hashes and signatures, address
  decoders, the clock, random numbers and identifiers.  Where a property needs a law of such a part, it is a hypothesis
  or an assumption of a locale: a decoder undoes its encoder, a store returns what was written, an order is a
  permutation.  Each such law has an instance on a concrete function in a witness or an interpretation.

  \<^bold>\<open>What the groups of lemmas show.\<close>
  \<^item> Equivalence: the amount comparison, constant-time equality, and the answers from memory.
  \<^item> Round trips: CAIP identifiers, chain names, provider names, execution batches, transaction identifiers.
  \<^item> Invariants over all runs: the ledger, the names, the repository; a revoked session never signs.
  \<^item> Refinement: the reconciler and the status handler refine the answers of the exchanges,
    built payments match their intents and are checked on their chain, nonces refine counters.
  \<^item> Safety and errors: access, circuit breaker, exclusive claims, permissions, broadcasts, panics of the start-up and
    of the first version of an endpoint; forced updates are current, and tokens show on all their chains.
  \<^item> Termination: polling a bridging settles, and stays settled.
  \<^item> Bounds: weights, allowances, amounts and fees, and where a sum wraps around.

  \<^bold>\<open>Bounds.\<close>  Decimals up to 77 fit 256 bits, beyond that the comparison panics.  Priorities are at most 100 and
  updated values at most 10000, so weights stay below 20000.  The repository is filled from 27 configurations with
  fixed tables.  A proxy call tries the provider pinned to its session, if any, and then at most five drawn ones.  A claim takes at most
  200 rows; a row is claimed from an age of 3 hours on, again 5 minutes after its last check and 15 minutes after it was
  locked, and expires after 12 hours.  A timestamp may be 10 seconds off.  A session list holds 255
  items.  Records of the IRN live 30 days.  A TRON fee is computed in 128 bits, an SPL amount in 64 bits.
  Amounts of a bridging wrap around at 256 bits when decimals are raised, which the bound on what it delivers states.  A
  bridging waits 1800 seconds and is polled every 3000 milliseconds.
  No definition needs fuel: recursion is structural or has a measure, and the long-running reconciler is a
  relation of ticks.

  \<^bold>\<open>Not modelled.\<close>  The following parts are left out, for these reasons:
  \<^item> Code that only translates between formats of third-party services: the HTTP clients of most providers
    (\<open>providers/*.rs\<close> other than Tenderly and Bungee), price, history, portfolio, on-ramp and conversion handlers, the bundler.
  \<^item> Observability: \<open>analytics\<close>, \<open>metrics.rs\<close>, \<open>profiler\<close>, logging.
  \<^item> Glue: \<open>main.rs\<close>, the router and the background tasks of \<open>lib.rs\<close>, the WebSocket proxy, CORS, build information.
  \<^item> Floating point: the sampling weights computed from measured latencies in \<open>providers/weights.rs\<close>; the weights of
    the repository change by an arbitrary update instead.
  \<^item> Cryptography: signature schemes and hashes are parameters, and \<open>utils/crypto.rs\<close> is modelled without the functions
    that only call chains or verify signatures.
  \<^item> The wallet methods \<open>prepare_calls\<close>, \<open>send_prepared_calls\<close> and \<open>get_calls_status\<close>, which assemble user operations with
    third-party contract bindings, and the identity handler.
  \<^item> Time between operations: a store changes only by operations of the service, so expiry of entries shows only
    in the laws and their instances; background writes of caches happen at once.
\<close>

end
